(* ===== verification/Prelude.thy ===== *)
theory Prelude
  imports Main "HOL-Library.State_Monad"
begin

text \<open>
  Shared vocabulary of the development: the collections that carry the automation, the
  weakest-precondition calculus for the state monad in which every effectful Go function is
  written, and the generic lemmas on lists and options the components share.

  A Go function that talks to Kubernetes or to the Pangolin server is a value of
  \<open>('w, 'a) state\<close> (theory State\_Monad): it reads and changes an outside world of an
  arbitrary type \<open>'w\<close> and returns its Go results.
\<close>

named_theorems wp_rules \<open>weakest preconditions of the monadic operations\<close>
named_theorems go_str \<open>equations of the Go string functions\<close>

abbreviation ret :: "'a \<Rightarrow> ('w, 'a) state" where
  "ret \<equiv> State_Monad.return"

section \<open>Weakest preconditions\<close>

definition wp :: "('s, 'a) state \<Rightarrow> ('a \<Rightarrow> 's \<Rightarrow> bool) \<Rightarrow> 's \<Rightarrow> bool" where
  "wp m Q s = (case run_state m s of (a, s') \<Rightarrow> Q a s')"

lemma wp_return [wp_rules, simp]: "wp (State_Monad.return a) Q s = Q a s"
  by (simp add: wp_def State_Monad.return_def)

lemma wp_bind [wp_rules, simp]: "wp (m \<bind> f) Q s = wp m (\<lambda>a. wp (f a) Q) s"
  by (simp add: wp_def State_Monad.bind_def split: prod.splits)

lemma wp_State [wp_rules]: "wp (State f) Q s = (case f s of (a, s') \<Rightarrow> Q a s')"
  by (simp add: wp_def)

lemma wp_conseq: "wp m P s \<Longrightarrow> (\<And>a s'. P a s' \<Longrightarrow> Q a s') \<Longrightarrow> wp m Q s"
  by (auto simp: wp_def split: prod.splits)

lemma wp_conj: "wp m P s \<Longrightarrow> wp m Q s \<Longrightarrow> wp m (\<lambda>a s'. P a s' \<and> Q a s') s"
  by (auto simp: wp_def split: prod.splits)

lemma wpD: "wp m Q s \<Longrightarrow> run_state m s = (a, s') \<Longrightarrow> Q a s'"
  by (simp add: wp_def)

lemma wpI: "(\<And>a s'. run_state m s = (a, s') \<Longrightarrow> Q a s') \<Longrightarrow> wp m Q s"
  by (auto simp: wp_def split: prod.splits)

lemma wp_True [simp]: "wp m (\<lambda>_ _. True) s"
  by (simp add: wp_def split: prod.splits)

lemma wp_cases [wp_rules]:
  "wp (if b then m1 else m2) Q s = (if b then wp m1 Q s else wp m2 Q s)"
  "wp (case p of (x, y) \<Rightarrow> fp x y) Q s = (case p of (x, y) \<Rightarrow> wp (fp x y) Q s)"
  "wp (case opt of None \<Rightarrow> mn | Some u \<Rightarrow> fs u) Q s = (case opt of None \<Rightarrow> wp mn Q s | Some u \<Rightarrow> wp (fs u) Q s)"
  "wp (case sm of Inl l \<Rightarrow> fl l | Inr v \<Rightarrow> fr v) Q s = (case sm of Inl l \<Rightarrow> wp (fl l) Q s | Inr v \<Rightarrow> wp (fr v) Q s)"
  "wp (case xs of [] \<Rightarrow> me | z # zs \<Rightarrow> fz z zs) Q s = (case xs of [] \<Rightarrow> wp me Q s | z # zs \<Rightarrow> wp (fz z zs) Q s)"
  "wp (Let t g) Q s = (let u = t in wp (g u) Q s)"
  by (simp_all split: prod.splits option.splits sum.splits list.splits)

lemma run_bind [simp]:
  "run_state (m \<bind> f) s = (case run_state m s of (a, s') \<Rightarrow> run_state (f a) s')"
  by (simp add: State_Monad.bind_def split: prod.splits)

lemma run_return [simp]: "run_state (State_Monad.return a) s = (a, s)"
  by (simp add: State_Monad.return_def)

section \<open>Lists and options\<close>

text \<open>
  A Go slice that may be nil, where the difference to an empty one can be observed (it is
  marshalled as \<open>null\<close>, not as \<open>[]\<close>): \<open>None\<close> is nil.  \<open>len\<close> and \<open>range\<close> treat nil as
  the empty slice.
\<close>

type_synonym 'a slice = "'a list option"

definition elems :: "'a slice \<Rightarrow> 'a list" where
  "elems s = (case s of None \<Rightarrow> [] | Some xs \<Rightarrow> xs)"

lemma elems_simps [simp]: "elems None = []" "elems (Some xs) = xs"
  by (simp_all add: elems_def)

lemma find_Some_first:
  "List.find P xs = Some x \<Longrightarrow> \<exists>us vs. xs = us @ x # vs \<and> P x \<and> (\<forall>u \<in> set us. \<not> P u)"
proof (induction xs)
  case Nil
  then show ?case by simp
next
  case (Cons y ys)
  show ?case
  proof (cases "P y")
    case True
    with Cons.prems have "x = y" by simp
    with True have "y # ys = [] @ x # ys \<and> P x \<and> (\<forall>u \<in> set []. \<not> P u)" by simp
    then show ?thesis by blast
  next
    case False
    with Cons.prems Cons.IH obtain us vs where
      "ys = us @ x # vs" "P x" "\<forall>u \<in> set us. \<not> P u" by auto
    with False have "y # ys = (y # us) @ x # vs \<and> P x \<and> (\<forall>u \<in> set (y # us). \<not> P u)" by simp
    then show ?thesis by blast
  qed
qed

lemma filter_nonzero_upd:
  "i < length xs \<Longrightarrow> set (filter (\<lambda>x. x \<noteq> 0) (xs[i := v])) \<subseteq> insert v (set (filter (\<lambda>x. x \<noteq> 0) xs))"
  using set_update_subset_insert [of xs i v] by auto

end
