(* ===== verification/GoStrings.thy ===== *)
theory GoStrings
  imports Prelude
begin

text \<open>
  The functions of Go's packages strings and strconv that the program uses, on byte strings
  (\<open>string\<close> is a list of bytes, as a Go string is).  \<open>ToLower\<close> and \<open>ToUpper\<close> map the
  ASCII letters and leave every other byte; the program only compares their results with
  ASCII words or applies them to values the CRD schema restricts to ASCII words.
\<close>

section \<open>Prefixes, suffixes, cutting\<close>

definition hasPrefix :: "string \<Rightarrow> string \<Rightarrow> bool" where
  "hasPrefix s p = (length p \<le> length s \<and> take (length p) s = p)"

definition hasSuffix :: "string \<Rightarrow> string \<Rightarrow> bool" where
  "hasSuffix s p = (length p \<le> length s \<and> drop (length s - length p) s = p)"

definition trimPrefix :: "string \<Rightarrow> string \<Rightarrow> string" where
  "trimPrefix s p = (if hasPrefix s p then drop (length p) s else s)"

definition trimSuffix :: "string \<Rightarrow> string \<Rightarrow> string" where
  "trimSuffix s p = (if hasSuffix s p then take (length s - length p) s else s)"

definition trimRightByte :: "char \<Rightarrow> string \<Rightarrow> string" where
  "trimRightByte c s = rev (dropWhile (\<lambda>x. x = c) (rev s))"

definition replaceByte :: "char \<Rightarrow> char \<Rightarrow> string \<Rightarrow> string" where
  "replaceByte a b s = map (\<lambda>x. if x = a then b else x) s"

lemma hasPrefix_iff: "hasPrefix s p \<longleftrightarrow> (\<exists>u. s = p @ u)"
  by (auto simp: hasPrefix_def) (metis append_take_drop_id)

lemma hasSuffix_iff: "hasSuffix s p \<longleftrightarrow> (\<exists>u. s = u @ p)"
  by (auto simp: hasSuffix_def) (metis append_take_drop_id)

lemma hasPrefix_append [simp]: "hasPrefix (p @ u) p"
  by (simp add: hasPrefix_def)

lemma hasSuffix_append [simp]: "hasSuffix (u @ p) p"
  by (simp add: hasSuffix_def)

lemma trimSuffix_append [simp]: "trimSuffix (u @ p) p = u"
  by (simp add: trimSuffix_def)

lemma trimPrefix_append [simp]: "trimPrefix (p @ u) p = u"
  by (simp add: trimPrefix_def)

lemma trimSuffix_other [simp]: "\<not> hasSuffix s p \<Longrightarrow> trimSuffix s p = s"
  by (simp add: trimSuffix_def)

lemma hasSuffix_length: "hasSuffix s p \<Longrightarrow> length p \<le> length s"
  by (simp add: hasSuffix_def)

lemma hasSuffix_comparable:
  assumes "hasSuffix s p" and "hasSuffix s q" and "length p \<le> length q"
  shows "hasSuffix q p"
proof -
  obtain u where u: "s = u @ p" using assms(1) by (auto simp: hasSuffix_iff)
  obtain v where v: "s = v @ q" using assms(2) by (auto simp: hasSuffix_iff)
  from u v have "u @ p = v @ q" by simp
  then obtain w where "w @ p = q \<or> p = w @ q" by (auto simp: append_eq_append_conv2)
  with assms(3) have "w @ p = q \<or> p = q" by auto
  then show ?thesis by (auto simp: hasSuffix_iff)
qed

section \<open>Splitting and trimming\<close>

text \<open>\<open>strings.Split\<close> and \<open>strings.SplitSeq\<close> with a one-byte separator.\<close>

fun splitOn :: "char \<Rightarrow> string \<Rightarrow> string list" where
  "splitOn c [] = [[]]"
| "splitOn c (x # xs) =
     (if x = c then [] # splitOn c xs
      else (case splitOn c xs of [] \<Rightarrow> [[x]] | y # ys \<Rightarrow> (x # y) # ys))"

lemma splitOn_nonempty [simp]: "splitOn c s \<noteq> []"
  by (cases s) (auto split: list.splits)

lemma splitOn_no_sep: "p \<in> set (splitOn c s) \<Longrightarrow> c \<notin> set p"
  by (induction s arbitrary: p) (auto split: if_splits list.splits)

lemma splitOn_notin: "c \<notin> set s \<Longrightarrow> splitOn c s = [s]"
  by (induction s) auto

lemma splitOn_append: "c \<notin> set u \<Longrightarrow> splitOn c (u @ c # s) = u # splitOn c s"
  by (induction u) auto

text \<open>\<open>strings.SplitN\<close> with a one-byte separator and a positive count.\<close>

fun splitOnN :: "nat \<Rightarrow> char \<Rightarrow> string \<Rightarrow> string list" where
  "splitOnN 0 c s = []"
| "splitOnN (Suc 0) c s = [s]"
| "splitOnN (Suc (Suc n)) c s =
     (if c \<in> set s
      then takeWhile (\<lambda>x. x \<noteq> c) s # splitOnN (Suc n) c (tl (dropWhile (\<lambda>x. x \<noteq> c) s))
      else [s])"

text \<open>
  \<open>strings.TrimSpace\<close> cuts the runes \<open>unicode.IsSpace\<close> accepts from both ends: the six
  ASCII ones and, in UTF-8, U+0085, U+00A0, U+1680, U+2000 to U+200A, U+2028, U+2029,
  U+202F, U+205F and U+3000.
\<close>

definition byte :: "nat \<Rightarrow> char" where
  "byte n = char_of n"

definition goSpaces :: "string list" where
  "goSpaces =
     map (\<lambda>n. [byte n]) [9, 10, 11, 12, 13, 32]
     @ map (map byte)
         ([[194, 133], [194, 160], [225, 154, 128]]
          @ map (\<lambda>n. [226, 128, n]) [128, 129, 130, 131, 132, 133, 134, 135, 136, 137, 138, 168, 169, 175]
          @ [[226, 129, 159], [227, 128, 128]])"

function trimRunes :: "string list \<Rightarrow> string \<Rightarrow> string" where
  "trimRunes ps s =
     (case List.find (\<lambda>p. p \<noteq> [] \<and> hasPrefix s p) ps of
        None \<Rightarrow> s
      | Some p \<Rightarrow> trimRunes ps (drop (length p) s))"
  by pat_completeness auto
termination
proof (relation "measure (\<lambda>(ps, s). length s)", simp)
  fix ps :: "string list" and s p
  assume "List.find (\<lambda>p. p \<noteq> [] \<and> hasPrefix s p) ps = Some p"
  then have "p \<noteq> []" "hasPrefix s p" by (auto simp: find_Some_iff)
  then show "((ps, drop (length p) s), (ps, s)) \<in> measure (\<lambda>(ps, s). length s)"
    by (cases p) (auto simp: hasPrefix_def)
qed

declare trimRunes.simps [simp del]

definition trimSpace :: "string \<Rightarrow> string" where
  "trimSpace s = rev (trimRunes (map rev goSpaces) (rev (trimRunes goSpaces s)))"

lemma trimRunes_idle: "(\<And>p. p \<in> set ps \<Longrightarrow> p \<noteq> [] \<Longrightarrow> \<not> hasPrefix s p) \<Longrightarrow> trimRunes ps s = s"
  by (subst trimRunes.simps) (auto split: option.splits simp: find_Some_iff)

lemma trimRunes_done:
  "p \<in> set ps \<Longrightarrow> p \<noteq> [] \<Longrightarrow> \<not> hasPrefix (trimRunes ps s) p"
proof (induction ps s rule: trimRunes.induct)
  case (1 ps s)
  show ?case
  proof (cases "List.find (\<lambda>p. p \<noteq> [] \<and> hasPrefix s p) ps")
    case None
    then have "trimRunes ps s = s" by (subst trimRunes.simps) simp
    with None 1(2,3) show ?thesis by (auto simp: find_None_iff)
  next
    case (Some q)
    then have "trimRunes ps s = trimRunes ps (drop (length q) s)" by (subst trimRunes.simps) simp
    with 1(1) [OF Some 1(2,3)] show ?thesis by simp
  qed
qed

section \<open>Letter case\<close>

definition lowerByte :: "char \<Rightarrow> char" where
  "lowerByte c = (if 65 \<le> (of_char c :: nat) \<and> (of_char c :: nat) \<le> 90
                  then char_of ((of_char c :: nat) + 32) else c)"

definition upperByte :: "char \<Rightarrow> char" where
  "upperByte c = (if 97 \<le> (of_char c :: nat) \<and> (of_char c :: nat) \<le> 122
                  then char_of ((of_char c :: nat) - 32) else c)"

definition toLower :: "string \<Rightarrow> string" where
  "toLower s = map lowerByte s"

definition toUpper :: "string \<Rightarrow> string" where
  "toUpper s = map upperByte s"

section \<open>Decimal numbers\<close>

fun natStr :: "nat \<Rightarrow> string" where
  "natStr n = (if n < 10 then [char_of (48 + n)] else natStr (n div 10) @ [char_of (48 + n mod 10)])"

declare natStr.simps [simp del]

text \<open>\<open>strconv.Itoa\<close>, and \<open>fmt.Sprintf\<close> with the verb d.\<close>

definition itoa :: "int \<Rightarrow> string" where
  "itoa i = (if i < 0 then CHR ''-'' # natStr (nat (- i)) else natStr (nat i))"

definition isDigit :: "char \<Rightarrow> bool" where
  "isDigit c = (48 \<le> (of_char c :: nat) \<and> (of_char c :: nat) \<le> 57)"

definition digitVal :: "char \<Rightarrow> nat" where
  "digitVal c = of_char c - 48"

definition digitsVal :: "string \<Rightarrow> nat" where
  "digitsVal s = foldl (\<lambda>v c. 10 * v + digitVal c) 0 s"

definition parseNat :: "string \<Rightarrow> nat option" where
  "parseNat s = (if s \<noteq> [] \<and> list_all isDigit s then Some (digitsVal s) else None)"

text \<open>
  \<open>strconv.Atoi\<close> on a 64-bit platform: an optional sign, at least one decimal digit, and
  a value that an int64 holds; \<open>None\<close> is the error.
\<close>

definition inInt64 :: "int \<Rightarrow> bool" where
  "inInt64 i = (- (2 ^ 63) \<le> i \<and> i < 2 ^ 63)"

definition atoi :: "string \<Rightarrow> int option" where
  "atoi s =
     (let (neg, ds) = (case s of
           [] \<Rightarrow> (False, [])
         | c # cs \<Rightarrow> if c = CHR ''-'' then (True, cs) else if c = CHR ''+'' then (False, cs) else (False, s))
      in case parseNat ds of
           None \<Rightarrow> None
         | Some n \<Rightarrow> let i = (if neg then - int n else int n) in if inInt64 i then Some i else None)"

lemma of_char_digit: "n < 10 \<Longrightarrow> of_char (char_of (48 + n :: nat) :: char) = (48 + n :: nat)"
  by simp

lemma natStr_digits: "c \<in> set (natStr n) \<Longrightarrow> isDigit c"
proof (induction n rule: natStr.induct)
  case (1 n)
  show ?case
  proof (cases "n < 10")
    case True
    with 1(2) show ?thesis by (subst (asm) natStr.simps) (auto simp: isDigit_def)
  next
    case False
    with 1(2) have "c \<in> set (natStr (n div 10)) \<or> c = char_of (48 + n mod 10)"
      by (subst (asm) natStr.simps) auto
    with 1(1) False show ?thesis by (auto simp: isDigit_def)
  qed
qed

lemma natStr_nonempty [simp]: "natStr n \<noteq> []"
  by (subst natStr.simps) simp

lemma digitsVal_append: "digitsVal (s @ [c]) = 10 * digitsVal s + digitVal c"
  by (simp add: digitsVal_def)

lemma digitsVal_natStr [simp]: "digitsVal (natStr n) = n"
proof (induction n rule: natStr.induct)
  case (1 n)
  show ?case
  proof (cases "n < 10")
    case True
    then show ?thesis by (subst natStr.simps) (simp add: digitsVal_def digitVal_def)
  next
    case False
    with 1 have "digitsVal (natStr n) = 10 * (n div 10) + n mod 10"
      by (subst natStr.simps) (simp add: digitsVal_append digitVal_def)
    then show ?thesis by simp
  qed
qed

lemma parseNat_natStr [simp]: "parseNat (natStr n) = Some n"
  by (auto simp: parseNat_def list_all_iff intro: natStr_digits)

lemma natStr_not_sign: "natStr n = c # cs \<Longrightarrow> c \<noteq> CHR ''-'' \<and> c \<noteq> CHR ''+''"
  using natStr_digits [of c n] by (auto simp: isDigit_def)

text \<open>Printing and reading a number of the machine's range is the identity.\<close>

lemma atoi_itoa: "inInt64 i \<Longrightarrow> atoi (itoa i) = Some i"
proof (cases "i < 0")
  case True
  assume "inInt64 i"
  with True show ?thesis by (simp add: atoi_def itoa_def)
next
  case False
  assume "inInt64 i"
  moreover obtain c cs where "natStr (nat i) = c # cs" by (cases "natStr (nat i)") auto
  ultimately show ?thesis
    using False natStr_not_sign [of "nat i" c cs] parseNat_natStr [of "nat i"]
    by (simp add: atoi_def itoa_def)
qed

lemma natStr_inj: "natStr m = natStr n \<Longrightarrow> m = n"
  by (metis digitsVal_natStr)

lemma itoa_inj: "itoa i = itoa j \<Longrightarrow> i = j"
proof -
  assume eq: "itoa i = itoa j"
  have nosign: "CHR ''-'' # cs \<noteq> natStr n" for cs n
    by (metis natStr_not_sign)
  show "i = j"
  proof (cases "i < 0"; cases "j < 0")
    assume "i < 0" "j < 0"
    with eq show ?thesis by (auto simp: itoa_def dest: natStr_inj)
  next
    assume "i < 0" "\<not> j < 0"
    with eq nosign show ?thesis by (simp add: itoa_def)
  next
    assume "\<not> i < 0" "j < 0"
    with eq nosign show ?thesis by (simp add: itoa_def) metis
  next
    assume "\<not> i < 0" "\<not> j < 0"
    with eq show ?thesis by (auto simp: itoa_def dest: natStr_inj)
  qed
qed

end
