(* ===== verification/GoErrors.thy ===== *)
theory GoErrors
  imports GoStrings
begin

text \<open>
  Go errors as values.  A constructor for each way the program makes one: the three typed
  errors of \<open>internal/pangolin/client.go\<close>, the sentinel \<open>resolve.ErrNotFound\<close>, an error
  of the Kubernetes client (which the program only asks whether it is a not-found error,
  through \<open>client.IgnoreNotFound\<close>), a message of \<open>errors.New\<close> or \<open>fmt.Errorf\<close>, wrapping
  with the verb w, \<open>errors.Join\<close> and \<open>reconcile.TerminalError\<close>.
\<close>

datatype kerr = KNotFound string | KOther string

datatype gerr =
    ErrNotFound string
  | ErrConflict string
  | ErrBadRequest string
  | ErrSiteNotFound
  | ErrKube kerr
  | ErrMsg string
  | Wrap string gerr string
  | Join "gerr list"
  | Terminal gerr

text \<open>\<open>errors.As\<close> and \<open>errors.Is\<close> search an error and everything it wraps, in pre-order.\<close>

fun errTree :: "gerr \<Rightarrow> gerr list" where
  "errTree (Wrap p e q) = Wrap p e q # errTree e"
| "errTree (Join es) = Join es # concat (map errTree es)"
| "errTree (Terminal e) = Terminal e # errTree e"
| "errTree e = [e]"

definition isErrNotFound :: "gerr \<Rightarrow> bool" where
  "isErrNotFound e = (case e of ErrNotFound _ \<Rightarrow> True | _ \<Rightarrow> False)"

definition isErrConflict :: "gerr \<Rightarrow> bool" where
  "isErrConflict e = (case e of ErrConflict _ \<Rightarrow> True | _ \<Rightarrow> False)"

definition isErrBadRequest :: "gerr \<Rightarrow> bool" where
  "isErrBadRequest e = (case e of ErrBadRequest _ \<Rightarrow> True | _ \<Rightarrow> False)"

definition IsNotFound :: "gerr \<Rightarrow> bool" where
  "IsNotFound e = list_ex isErrNotFound (errTree e)"

definition IsConflict :: "gerr \<Rightarrow> bool" where
  "IsConflict e = list_ex isErrConflict (errTree e)"

definition IsBadRequest :: "gerr \<Rightarrow> bool" where
  "IsBadRequest e = list_ex isErrBadRequest (errTree e)"

text \<open>\<open>errors.Is(err, ctrlresolve.ErrNotFound)\<close>.\<close>

definition isSiteNotFound :: "gerr \<Rightarrow> bool" where
  "isSiteNotFound e = list_ex (\<lambda>x. x = ErrSiteNotFound) (errTree e)"

text \<open>\<open>client.IgnoreNotFound(err) == nil\<close> for an error of the Kubernetes client.\<close>

definition kubeNotFound :: "gerr \<Rightarrow> bool" where
  "kubeNotFound e = list_ex (\<lambda>x. case x of ErrKube (KNotFound _) \<Rightarrow> True | _ \<Rightarrow> False) (errTree e)"

definition ignoreNotFound :: "gerr \<Rightarrow> gerr option" where
  "ignoreNotFound e = (if kubeNotFound e then None else Some e)"

text \<open>\<open>errors.Join\<close>: nil when there is nothing to join.\<close>

definition joinErrs :: "gerr list \<Rightarrow> gerr option" where
  "joinErrs es = (if es = [] then None else Some (Join es))"

text \<open>The method \<open>Error()\<close>.\<close>

fun errText :: "gerr \<Rightarrow> string" where
  "errText (ErrNotFound m) = m"
| "errText (ErrConflict m) = m"
| "errText (ErrBadRequest m) = m"
| "errText ErrSiteNotFound = ''NewtSite not found''"
| "errText (ErrKube (KNotFound m)) = m"
| "errText (ErrKube (KOther m)) = m"
| "errText (ErrMsg m) = m"
| "errText (Wrap p e q) = p @ errText e @ q"
| "errText (Join es) = concat (map (\<lambda>(i, t). if i = 0 then t else CHR 10 # t)
     (zip [0..<length es] (map errText es)))"
| "errText (Terminal e) = ''terminal error: '' @ errText e"

lemma errTree_self [simp]: "e \<in> set (errTree e)"
  by (cases e) auto

lemma errKind_simps [simp]:
  "IsNotFound (Wrap p e q) = IsNotFound e" "IsConflict (Wrap p e q) = IsConflict e"
  "IsBadRequest (Wrap p e q) = IsBadRequest e"
  "IsNotFound (Terminal e) = IsNotFound e" "IsConflict (Terminal e) = IsConflict e"
  "IsBadRequest (Terminal e) = IsBadRequest e"
  "IsNotFound (ErrNotFound m)" "\<not> IsNotFound (ErrConflict m)" "\<not> IsNotFound (ErrBadRequest m)"
  "\<not> IsConflict (ErrNotFound m)" "IsConflict (ErrConflict m)" "\<not> IsConflict (ErrBadRequest m)"
  "\<not> IsBadRequest (ErrNotFound m)" "\<not> IsBadRequest (ErrConflict m)" "IsBadRequest (ErrBadRequest m)"
  "\<not> IsNotFound (ErrMsg m)" "\<not> IsConflict (ErrMsg m)" "\<not> IsBadRequest (ErrMsg m)"
  "\<not> IsNotFound (ErrKube k)" "\<not> IsConflict (ErrKube k)" "\<not> IsBadRequest (ErrKube k)"
  "\<not> IsNotFound ErrSiteNotFound" "\<not> IsConflict ErrSiteNotFound" "\<not> IsBadRequest ErrSiteNotFound"
  by (simp_all add: IsNotFound_def IsConflict_def IsBadRequest_def
      isErrNotFound_def isErrConflict_def isErrBadRequest_def)

lemma errKind_Join [simp]:
  "IsNotFound (Join es) = list_ex IsNotFound es"
  "IsConflict (Join es) = list_ex IsConflict es"
  "IsBadRequest (Join es) = list_ex IsBadRequest es"
  by (auto simp: IsNotFound_def IsConflict_def IsBadRequest_def
      isErrNotFound_def isErrConflict_def isErrBadRequest_def list_ex_iff)

lemma siteNotFound_simps [simp]:
  "isSiteNotFound ErrSiteNotFound" "isSiteNotFound (Wrap p e q) = isSiteNotFound e"
  "\<not> isSiteNotFound (ErrKube k)" "\<not> isSiteNotFound (ErrMsg m)"
  by (simp_all add: isSiteNotFound_def)

lemma kubeNotFound_simps [simp]:
  "kubeNotFound (ErrKube (KNotFound m))" "\<not> kubeNotFound (ErrKube (KOther m))"
  "kubeNotFound (Wrap p e q) = kubeNotFound e" "\<not> kubeNotFound (ErrMsg m)"
  by (simp_all add: kubeNotFound_def)

lemma joinErrs_None [simp]: "joinErrs es = None \<longleftrightarrow> es = []"
  by (simp add: joinErrs_def)

lemma joinErrs_Some: "joinErrs es = Some e \<longleftrightarrow> es \<noteq> [] \<and> e = Join es"
  by (auto simp: joinErrs_def)

section \<open>Formatting with the verb q\<close>

definition hexDigit :: "nat \<Rightarrow> char" where
  "hexDigit n = (if n < 10 then char_of (48 + n) else char_of (87 + n))"

text \<open>\<open>strconv.Quote\<close>: the escapes of ASCII; printable text of other scripts passes through.\<close>

definition quoteByte :: "char \<Rightarrow> string" where
  "quoteByte c =
     (let n = of_char c :: nat in
      if c = CHR 34 then [CHR 92, CHR 34]
      else if c = CHR 92 then [CHR 92, CHR 92]
      else if n = 7 then CHR 92 # ''a'' else if n = 8 then CHR 92 # ''b''
      else if n = 12 then CHR 92 # ''f'' else if n = 10 then CHR 92 # ''n''
      else if n = 13 then CHR 92 # ''r'' else if n = 9 then CHR 92 # ''t''
      else if n = 11 then CHR 92 # ''v''
      else if n < 32 \<or> n = 127 then [CHR 92, CHR ''x'', hexDigit (n div 16), hexDigit (n mod 16)]
      else [c])"

definition quote :: "string \<Rightarrow> string" where
  "quote s = [CHR 34] @ concat (map quoteByte s) @ [CHR 34]"

end
