(* ===== verification/GoJson.thy ===== *)
theory GoJson
  imports GoStrings
begin

text \<open>
  The part of Go's encoding/json the program uses: a document tree, \<open>json.Marshal\<close> of a
  tree (HTML-safe escaping, no white space) and \<open>json.Unmarshal\<close> of a text into a tree.
  A number keeps its literal, as the decoder reads integers from the literal.  Strings are
  taken to be valid UTF-8, which the Kubernetes API guarantees for every object.
\<close>

datatype json =
    JNull
  | JBool bool
  | JNum string
  | JStr string
  | JArr "json list"
  | JObj "(string \<times> json) list"

abbreviation JInt :: "int \<Rightarrow> json" where
  "JInt i \<equiv> JNum (itoa i)"

section \<open>Marshal\<close>

definition hexLower :: "nat \<Rightarrow> char" where
  "hexLower n = (if n < 10 then char_of (48 + n) else char_of (87 + n))"

definition escByte :: "char \<Rightarrow> string" where
  "escByte c =
     (let n = of_char c :: nat in
      if n = 34 \<or> n = 92 then [CHR 92, c]
      else if n = 8 then CHR 92 # ''b'' else if n = 12 then CHR 92 # ''f''
      else if n = 10 then CHR 92 # ''n'' else if n = 13 then CHR 92 # ''r''
      else if n = 9 then CHR 92 # ''t''
      else if n < 32 \<or> n = 60 \<or> n = 62 \<or> n = 38
      then CHR 92 # ''u00'' @ [hexLower (n div 16), hexLower (n mod 16)]
      else [c])"

text \<open>The line separators U+2028 and U+2029 are escaped too.\<close>

fun escText :: "string \<Rightarrow> string" where
  "escText (a # b # c # s) =
     (if (of_char a :: nat) = 226 \<and> (of_char b :: nat) = 128
         \<and> ((of_char c :: nat) = 168 \<or> (of_char c :: nat) = 169)
      then CHR 92 # ''u202'' @ [hexLower (of_char c - 160)] @ escText s
      else escByte a @ escText (b # c # s))"
| "escText (a # s) = escByte a @ escText s"
| "escText [] = []"

definition quoteJson :: "string \<Rightarrow> string" where
  "quoteJson s = CHR 34 # escText s @ [CHR 34]"

fun commaSep :: "string list \<Rightarrow> string" where
  "commaSep [] = []"
| "commaSep [s] = s"
| "commaSep (s # t # ss) = s @ CHR '','' # commaSep (t # ss)"

fun jsonText :: "json \<Rightarrow> string" where
  "jsonText JNull = ''null''"
| "jsonText (JBool b) = (if b then ''true'' else ''false'')"
| "jsonText (JNum l) = l"
| "jsonText (JStr s) = quoteJson s"
| "jsonText (JArr js) = CHR ''['' # commaSep (map jsonText js) @ '']''"
| "jsonText (JObj kvs) =
     CHR ''{'' # commaSep (map (\<lambda>(k, t). quoteJson k @ CHR '':'' # t) (map (\<lambda>(k, j). (k, jsonText j)) kvs))
     @ ''}''"

section \<open>Unmarshal\<close>

definition isJsonSpace :: "char \<Rightarrow> bool" where
  "isJsonSpace c = ((of_char c :: nat) \<in> {9, 10, 13, 32})"

definition skipWs :: "string \<Rightarrow> string" where
  "skipWs s = dropWhile isJsonSpace s"

definition hexVal :: "char \<Rightarrow> nat option" where
  "hexVal c =
     (let n = of_char c :: nat in
      if 48 \<le> n \<and> n \<le> 57 then Some (n - 48)
      else if 97 \<le> n \<and> n \<le> 102 then Some (n - 87)
      else if 65 \<le> n \<and> n \<le> 70 then Some (n - 55) else None)"

definition hex4 :: "string \<Rightarrow> nat option" where
  "hex4 s =
     (if length s < 4 then None
      else foldl (\<lambda>acc c. case acc of None \<Rightarrow> None
                   | Some v \<Rightarrow> map_option (\<lambda>d. 16 * v + d) (hexVal c)) (Some 0) (take 4 s))"

definition utf8 :: "nat \<Rightarrow> string" where
  "utf8 n =
     (if n < 128 then [char_of n]
      else if n < 2048 then map char_of [192 + n div 64, 128 + n mod 64]
      else if n < 65536 then map char_of [224 + n div 4096, 128 + n div 64 mod 64, 128 + n mod 64]
      else map char_of [240 + n div 262144, 128 + n div 4096 mod 64, 128 + n div 64 mod 64, 128 + n mod 64])"

text \<open>
  An escape after the backslash: the bytes it stands for and the number of bytes it takes.
  A lone surrogate half becomes U+FFFD.
\<close>

definition unescape :: "string \<Rightarrow> (string \<times> nat) option" where
  "unescape s =
     (case s of [] \<Rightarrow> None
      | e # t \<Rightarrow>
        if e = CHR 34 \<or> e = CHR 92 \<or> e = CHR ''/'' then Some ([e], 1)
        else if e = CHR ''b'' then Some ([byte 8], 1) else if e = CHR ''f'' then Some ([byte 12], 1)
        else if e = CHR ''n'' then Some ([byte 10], 1) else if e = CHR ''r'' then Some ([byte 13], 1)
        else if e = CHR ''t'' then Some ([byte 9], 1)
        else if e = CHR ''u'' then
          (case hex4 t of None \<Rightarrow> None
           | Some n \<Rightarrow>
             if n < 55296 \<or> 57344 \<le> n then Some (utf8 n, 5)
             else (case (if n < 56320 \<and> hasPrefix (drop 4 t) (CHR 92 # ''u'') then hex4 (drop 6 t) else None) of
                     None \<Rightarrow> Some (utf8 65533, 5)
                   | Some m \<Rightarrow> if 56320 \<le> m \<and> m < 57344
                       then Some (utf8 (65536 + (n - 55296) * 1024 + (m - 56320)), 11)
                       else Some (utf8 65533, 5)))
        else None)"

text \<open>The body of a string, up to and without its closing quote.\<close>

function pStr :: "string \<Rightarrow> (string \<times> string) option" where
  "pStr s =
     (case s of [] \<Rightarrow> None
      | c # t \<Rightarrow>
        if c = CHR 34 then Some ([], t)
        else if c = CHR 92 then
          (case unescape t of None \<Rightarrow> None
           | Some (bs, n) \<Rightarrow> map_option (\<lambda>(u, r). (bs @ u, r)) (pStr (drop n t)))
        else if (of_char c :: nat) < 32 then None
        else map_option (\<lambda>(u, r). (c # u, r)) (pStr t))"
  by pat_completeness auto
termination
  by (relation "measure length") auto

declare pStr.simps [simp del]

definition spanDigits :: "string \<Rightarrow> string \<times> string" where
  "spanDigits s = (takeWhile isDigit s, dropWhile isDigit s)"

definition pNum :: "string \<Rightarrow> (string \<times> string) option" where
  "pNum s =
     (let (sign, s1) = (if hasPrefix s ''-'' then (''-'', tl s) else ([], s));
          (ip, s2) = spanDigits s1;
          (ip, s2) = (if hasPrefix ip ''0'' then (''0'', tl ip @ s2) else (ip, s2))
      in if ip = [] then None
         else (let (f1, s3) = (if hasPrefix s2 ''.'' then spanDigits (tl s2) else ([], s2))
               in if hasPrefix s2 ''.'' \<and> f1 = [] then None
                  else (let frac = (if hasPrefix s2 ''.'' then CHR ''.'' # f1 else [])
                        in if hasPrefix s3 ''e'' \<or> hasPrefix s3 ''E'' then
                             (let s4 = tl s3;
                                  (es, s5) = (if hasPrefix s4 ''+'' \<or> hasPrefix s4 ''-'' then ([hd s4], tl s4) else ([], s4));
                                  (ed, s6) = spanDigits s5
                              in if ed = [] then None
                                 else Some (sign @ ip @ frac @ [hd s3] @ es @ ed, s6))
                           else Some (sign @ ip @ frac, s3))))"

text \<open>
  Values, the elements of an array and the members of an object.  The first argument bounds
  the nesting: every call consumes a byte before it recurses, so the length of the text is
  enough.
\<close>

fun pVal :: "nat \<Rightarrow> string \<Rightarrow> (json \<times> string) option"
  and pElems :: "nat \<Rightarrow> string \<Rightarrow> (json list \<times> string) option"
  and pMembers :: "nat \<Rightarrow> string \<Rightarrow> ((string \<times> json) list \<times> string) option"
where
  "pVal 0 s = None"
| "pVal (Suc n) s =
     (let s = skipWs s in
      if hasPrefix s ''null'' then Some (JNull, drop 4 s)
      else if hasPrefix s ''true'' then Some (JBool True, drop 4 s)
      else if hasPrefix s ''false'' then Some (JBool False, drop 5 s)
      else (case s of [] \<Rightarrow> None
            | c # t \<Rightarrow>
              if c = CHR 34 then map_option (\<lambda>(u, r). (JStr u, r)) (pStr t)
              else if c = CHR ''['' then
                (if hasPrefix (skipWs t) '']'' then Some (JArr [], tl (skipWs t))
                 else map_option (\<lambda>(js, r). (JArr js, r)) (pElems n t))
              else if c = CHR ''{'' then
                (if hasPrefix (skipWs t) ''}'' then Some (JObj [], tl (skipWs t))
                 else map_option (\<lambda>(kvs, r). (JObj kvs, r)) (pMembers n t))
              else map_option (\<lambda>(l, r). (JNum l, r)) (pNum s)))"
| "pElems 0 s = None"
| "pElems (Suc n) s =
     (case pVal n s of None \<Rightarrow> None
      | Some (j, r) \<Rightarrow>
        (case skipWs r of [] \<Rightarrow> None
         | c # t \<Rightarrow>
           if c = CHR '']'' then Some ([j], t)
           else if c = CHR '','' then map_option (\<lambda>(js, q). (j # js, q)) (pElems n t)
           else None))"
| "pMembers 0 s = None"
| "pMembers (Suc n) s =
     (case skipWs s of [] \<Rightarrow> None
      | c # t \<Rightarrow>
        if c \<noteq> CHR 34 then None
        else (case pStr t of None \<Rightarrow> None
              | Some (k, r) \<Rightarrow>
                if \<not> hasPrefix (skipWs r) '':'' then None
                else (case pVal n (tl (skipWs r)) of None \<Rightarrow> None
                      | Some (j, r2) \<Rightarrow>
                        (case skipWs r2 of [] \<Rightarrow> None
                         | d # u \<Rightarrow>
                           if d = CHR ''}'' then Some ([(k, j)], u)
                           else if d = CHR '','' then map_option (\<lambda>(kvs, q). ((k, j) # kvs, q)) (pMembers n u)
                           else None))))"

definition parseJson :: "string \<Rightarrow> json option" where
  "parseJson s =
     (case pVal (2 * length s + 1) s of
        Some (j, r) \<Rightarrow> if skipWs r = [] then Some j else None
      | None \<Rightarrow> None)"

section \<open>Decoding into Go values\<close>

text \<open>
  The decoder matches object keys to field names without regard to ASCII case.  A \<open>null\<close>
  leaves a value as it is; a value of the wrong kind is an error.
\<close>

definition keyIs :: "string \<Rightarrow> string \<Rightarrow> bool" where
  "keyIs field key = (toLower field = toLower key)"

definition decStr :: "json \<Rightarrow> string \<Rightarrow> string option" where
  "decStr j old = (case j of JStr s \<Rightarrow> Some s | JNull \<Rightarrow> Some old | _ \<Rightarrow> None)"

definition decInt :: "json \<Rightarrow> int \<Rightarrow> int option" where
  "decInt j old = (case j of JNum l \<Rightarrow> atoi l | JNull \<Rightarrow> Some old | _ \<Rightarrow> None)"

definition decBool :: "json \<Rightarrow> bool \<Rightarrow> bool option" where
  "decBool j old = (case j of JBool b \<Rightarrow> Some b | JNull \<Rightarrow> Some old | _ \<Rightarrow> None)"

text \<open>Decoding an object: each member in turn updates the field its key names.\<close>

definition decObj :: "(string \<Rightarrow> json \<Rightarrow> 'a \<Rightarrow> 'a option) \<Rightarrow> json \<Rightarrow> 'a \<Rightarrow> 'a option" where
  "decObj f j old =
     (case j of
        JObj kvs \<Rightarrow> foldl (\<lambda>acc (k, v). case acc of None \<Rightarrow> None | Some x \<Rightarrow> f k v x) (Some old) kvs
      | JNull \<Rightarrow> Some old
      | _ \<Rightarrow> None)"

fun allSome :: "'a option list \<Rightarrow> 'a list option" where
  "allSome [] = Some []"
| "allSome (None # xs) = None"
| "allSome (Some x # xs) = map_option ((#) x) (allSome xs)"

text \<open>Decoding into a slice that is nil before: \<open>null\<close> leaves it nil.\<close>

definition decSlice :: "(json \<Rightarrow> 'a option) \<Rightarrow> json \<Rightarrow> 'a slice option" where
  "decSlice f j =
     (case j of
        JArr js \<Rightarrow> map_option Some (allSome (map f js))
      | JNull \<Rightarrow> Some None
      | _ \<Rightarrow> None)"

lemma allSome_length: "allSome xs = Some ys \<Longrightarrow> length ys = length xs"
  by (induction xs arbitrary: ys rule: allSome.induct) auto

end
