(* ===== verification/ApiTypes.thy ===== *)
theory ApiTypes
  imports GoErrors GoJson
begin

text \<open>
  The custom resources of \<open>api/v1alpha1\<close>.  A Go struct is a record whose fields carry the
  struct's initials and the Go field name; a pointer and a slice whose nil can be observed
  are options.  Kubernetes objects the program only passes through (a toleration, a volume,
  an affinity, ...) are carried as documents of type \<open>json\<close>.
\<close>

section \<open>Object metadata and conditions\<close>

text \<open>
  The part of \<open>metav1.ObjectMeta\<close> the program reads or writes.  \<open>m_Deleting\<close> says that the
  deletion timestamp is set; nil label and annotation maps are told apart from empty ones by
  the labels only, the single place where the code tests for nil.
\<close>

record ownerRef =
  or_APIVersion :: string
  or_Kind :: string
  or_Name :: string
  or_UID :: string
  or_Controller :: "bool option"
  or_BlockOwnerDeletion :: "bool option"

record objectMeta =
  m_Name :: string
  m_Namespace :: string
  m_UID :: string
  m_Generation :: int
  m_Deleting :: bool
  m_Finalizers :: "string list"
  m_Annotations :: "(string \<times> string) list"
  m_Labels :: "(string \<times> string) list option"
  m_OwnerReferences :: "ownerRef list"

text \<open>\<open>metav1.Condition\<close>; the transition time is set by the library and never read.\<close>

datatype condStatus = ConditionTrue | ConditionFalse | ConditionUnknown

record condition =
  c_Type :: string
  c_Status :: condStatus
  c_ObservedGeneration :: int
  c_LastTransitionTime :: string
  c_Reason :: string
  c_Message :: string

text \<open>
  The lifecycle phase: the constants of the three phase types, which agree, and the empty
  string of an object whose status was never written.
\<close>

datatype phase = PhaseUnset | PhasePending | PhaseCreating | PhaseReady | PhaseDeleting | PhaseError

fun phaseString :: "phase \<Rightarrow> string" where
  "phaseString PhaseUnset = []"
| "phaseString PhasePending = ''Pending''"
| "phaseString PhaseCreating = ''Creating''"
| "phaseString PhaseReady = ''Ready''"
| "phaseString PhaseDeleting = ''Deleting''"
| "phaseString PhaseError = ''Error''"

lemma phaseString_inj [simp]: "phaseString p = phaseString q \<longleftrightarrow> p = q"
  by (cases p; cases q) simp_all

section \<open>PublicResource\<close>

record PublicHeaderSpec =
  hd_Name :: string
  hd_Value :: string

record PublicRuleSpec =
  pr_Action :: string
  pr_Match :: string
  pr_Value :: string
  pr_Priority :: int

record PublicAuthSpec =
  pa_SsoEnabled :: bool
  pa_SsoRoles :: "string list"
  pa_SsoUsers :: "string list"
  pa_WhitelistUsers :: "string list"
  pa_AutoLoginIdp :: int
  pa_AuthSecretRef :: string

record PublicMaintenanceSpec =
  pm_Enabled :: bool
  pm_Type :: string
  pm_Title :: string
  pm_Message :: string
  pm_EstimatedTime :: string

record PublicHealthCheckSpec =
  ph_Hostname :: string
  ph_Port :: int
  ph_Enabled :: "bool option"
  ph_Path :: string
  ph_Scheme :: string
  ph_Mode :: string
  ph_Interval :: int
  ph_UnhealthyInterval :: int
  ph_Timeout :: int
  ph_Headers :: "PublicHeaderSpec list"
  ph_FollowRedirects :: "bool option"
  ph_Method :: string
  ph_Status :: int

record PublicTargetSpec =
  pt_Hostname :: string
  pt_Port :: int
  pt_Method :: string
  pt_Enabled :: "bool option"
  pt_Path :: string
  pt_PathMatchType :: string
  pt_RewritePath :: string
  pt_RewritePathType :: string
  pt_Priority :: int
  pt_Healthcheck :: "PublicHealthCheckSpec option"

record PublicResourceSpec =
  ps_SiteRef :: string
  ps_Name :: string
  ps_Protocol :: string
  ps_FullDomain :: string
  ps_ProxyPort :: int
  ps_Enabled :: bool
  ps_Ssl :: bool
  ps_HostHeader :: string
  ps_TlsServerName :: string
  ps_Headers :: "PublicHeaderSpec list"
  ps_Auth :: "PublicAuthSpec option"
  ps_Maintenance :: "PublicMaintenanceSpec option"
  ps_Rules :: "PublicRuleSpec slice"
  ps_Targets :: "PublicTargetSpec slice"

record PublicResourceStatus =
  pst_Phase :: phase
  pst_ResourceID :: int
  pst_NiceID :: string
  pst_FullDomain :: string
  pst_TargetIDs :: "int list"
  pst_TargetsHash :: string
  pst_RuleIDs :: "int list"
  pst_RulesHash :: string
  pst_ObservedGeneration :: int
  pst_Conditions :: "condition list"

record PublicResource =
  pub_Meta :: objectMeta
  pub_Spec :: PublicResourceSpec
  pub_Status :: PublicResourceStatus

section \<open>PrivateResource\<close>

record PrivateResourceSpec =
  vs_SiteRef :: string
  vs_Name :: string
  vs_Mode :: string
  vs_Destination :: string
  vs_TcpPorts :: string
  vs_UdpPorts :: string
  vs_FullDomain :: string
  vs_DestinationPort :: int
  vs_Scheme :: string
  vs_Ssl :: "bool option"
  vs_DisableIcmp :: bool
  vs_Alias :: string
  vs_RoleIds :: "int slice"
  vs_UserIds :: "string slice"
  vs_ClientIds :: "int slice"

record PrivateResourceStatus =
  vst_Phase :: phase
  vst_SiteResourceID :: int
  vst_NiceID :: string
  vst_FullDomain :: string
  vst_ObservedGeneration :: int
  vst_Conditions :: "condition list"

record PrivateResource =
  priv_Meta :: objectMeta
  priv_Spec :: PrivateResourceSpec
  priv_Status :: PrivateResourceStatus

section \<open>NewtSite\<close>

text \<open>
  A container environment variable: a literal, a key of a Secret, or another source.  A
  container is what \<open>buildDeployment\<close> fills in, or one the user supplies as a document.
\<close>

datatype envSource = EnvValue string | EnvSecretKey string string | EnvOther json

record envVar =
  ev_Name :: string
  ev_Source :: envSource

record NewtMetricsSpec =
  nm_Port :: int
  nm_AdminAddr :: string

record securityContext =
  sc_RunAsUser :: "int option"
  sc_RunAsNonRoot :: "bool option"
  sc_ReadOnlyRootFilesystem :: "bool option"
  sc_Privileged :: "bool option"
  sc_AllowPrivilegeEscalation :: "bool option"
  sc_CapAdd :: "string list"
  sc_CapDrop :: "string list"
  sc_Other :: "json option"

record podSecurityContext =
  psc_RunAsNonRoot :: "bool option"
  psc_SeccompType :: "string option"
  psc_Other :: "json option"

record NewtSpec =
  nw_Image :: string
  nw_Tag :: string
  nw_Replicas :: "int option"
  nw_LogLevel :: string
  nw_Mtu :: int
  nw_PingInterval :: string
  nw_PingTimeout :: string
  nw_Interface :: string
  nw_DNS :: string
  nw_AcceptClients :: bool
  nw_Resources :: "json option"
  nw_UseNativeInterface :: bool
  nw_HostNetwork :: bool
  nw_HostPID :: bool
  nw_PodAnnotations :: "(string \<times> string) list"
  nw_NodeSelector :: "(string \<times> string) list"
  nw_Tolerations :: "json list"
  nw_Affinity :: "json option"
  nw_TopologySpreadConstraints :: "json list"
  nw_PodSecurityContext :: "podSecurityContext option"
  nw_SecurityContext :: "securityContext option"
  nw_ExtraEnv :: "envVar list"
  nw_ExtraVolumes :: "json list"
  nw_ExtraVolumeMounts :: "json list"
  nw_InitContainers :: "json list"
  nw_ExtraContainers :: "json list"
  nw_Metrics :: "NewtMetricsSpec option"

record AutoDiscoverSpec =
  ad_AnnotationPrefix :: string
  ad_GatewayName :: string
  ad_GatewayNamespace :: string
  ad_GatewayTargetHostname :: string
  ad_GatewayTargetPort :: int
  ad_GatewayTargetMethod :: string
  ad_EnableRouteDiscovery :: bool
  ad_EnableServiceDiscovery :: bool
  ad_EnableTCPRouteDiscovery :: bool
  ad_AllPorts :: bool
  ad_SSL :: bool
  ad_DenyCountries :: string
  ad_AuthSSORoles :: string
  ad_AuthSSOUsers :: string
  ad_AuthSSOIDP :: int
  ad_AuthWhitelistUsers :: string

record NewtSiteSpec =
  ns_Name :: string
  ns_Type :: string
  ns_Newt :: NewtSpec
  ns_ManagedDeployment :: "bool option"
  ns_AutoDiscover :: "AutoDiscoverSpec option"

record NewtSiteStatus =
  nst_Phase :: phase
  nst_SiteID :: int
  nst_NiceID :: string
  nst_NewtSecretName :: string
  nst_Online :: bool
  nst_ObservedGeneration :: int
  nst_Conditions :: "condition list"

record NewtSite =
  site_Meta :: objectMeta
  site_Spec :: NewtSiteSpec
  site_Status :: NewtSiteStatus

section \<open>JSON of a PublicResource spec\<close>

text \<open>
  The documents \<open>json.Marshal\<close> produces for the specs the program marshals, field by field
  in declaration order, with \<open>omitempty\<close> as the struct tags have it.
\<close>

definition omitStr :: "string \<Rightarrow> string \<Rightarrow> (string \<times> json) list" where
  "omitStr k s = (if s = [] then [] else [(k, JStr s)])"

definition omitInt :: "string \<Rightarrow> int \<Rightarrow> (string \<times> json) list" where
  "omitInt k i = (if i = 0 then [] else [(k, JInt i)])"

definition omitBool :: "string \<Rightarrow> bool \<Rightarrow> (string \<times> json) list" where
  "omitBool k b = (if b then [(k, JBool True)] else [])"

definition omitPtr :: "string \<Rightarrow> ('a \<Rightarrow> json) \<Rightarrow> 'a option \<Rightarrow> (string \<times> json) list" where
  "omitPtr k f p = (case p of None \<Rightarrow> [] | Some x \<Rightarrow> [(k, f x)])"

definition omitList :: "string \<Rightarrow> ('a \<Rightarrow> json) \<Rightarrow> 'a list \<Rightarrow> (string \<times> json) list" where
  "omitList k f xs = (if xs = [] then [] else [(k, JArr (map f xs))])"

definition jsonSlice :: "('a \<Rightarrow> json) \<Rightarrow> 'a slice \<Rightarrow> json" where
  "jsonSlice f s = (case s of None \<Rightarrow> JNull | Some xs \<Rightarrow> JArr (map f xs))"

definition jsonHeader :: "PublicHeaderSpec \<Rightarrow> json" where
  "jsonHeader h = JObj [(''name'', JStr (hd_Name h)), (''value'', JStr (hd_Value h))]"

definition jsonRule :: "PublicRuleSpec \<Rightarrow> json" where
  "jsonRule r = JObj ([(''action'', JStr (pr_Action r)), (''match'', JStr (pr_Match r)),
     (''value'', JStr (pr_Value r))] @ omitInt ''priority'' (pr_Priority r))"

definition jsonAuth :: "PublicAuthSpec \<Rightarrow> json" where
  "jsonAuth a = JObj (omitBool ''ssoEnabled'' (pa_SsoEnabled a) @ omitList ''ssoRoles'' JStr (pa_SsoRoles a)
     @ omitList ''ssoUsers'' JStr (pa_SsoUsers a) @ omitList ''whitelistUsers'' JStr (pa_WhitelistUsers a)
     @ omitInt ''autoLoginIdp'' (pa_AutoLoginIdp a) @ omitStr ''authSecretRef'' (pa_AuthSecretRef a))"

definition jsonMaintenance :: "PublicMaintenanceSpec \<Rightarrow> json" where
  "jsonMaintenance m = JObj ([(''enabled'', JBool (pm_Enabled m))] @ omitStr ''type'' (pm_Type m)
     @ omitStr ''title'' (pm_Title m) @ omitStr ''message'' (pm_Message m)
     @ omitStr ''estimatedTime'' (pm_EstimatedTime m))"

definition jsonHealthCheck :: "PublicHealthCheckSpec \<Rightarrow> json" where
  "jsonHealthCheck h = JObj ([(''hostname'', JStr (ph_Hostname h)), (''port'', JInt (ph_Port h))]
     @ omitPtr ''enabled'' JBool (ph_Enabled h) @ omitStr ''path'' (ph_Path h)
     @ omitStr ''scheme'' (ph_Scheme h) @ omitStr ''mode'' (ph_Mode h)
     @ omitInt ''interval'' (ph_Interval h) @ omitInt ''unhealthyInterval'' (ph_UnhealthyInterval h)
     @ omitInt ''timeout'' (ph_Timeout h) @ omitList ''headers'' jsonHeader (ph_Headers h)
     @ omitPtr ''followRedirects'' JBool (ph_FollowRedirects h) @ omitStr ''method'' (ph_Method h)
     @ omitInt ''status'' (ph_Status h))"

definition jsonTarget :: "PublicTargetSpec \<Rightarrow> json" where
  "jsonTarget t = JObj ([(''hostname'', JStr (pt_Hostname t)), (''port'', JInt (pt_Port t))]
     @ omitStr ''method'' (pt_Method t) @ omitPtr ''enabled'' JBool (pt_Enabled t)
     @ omitStr ''path'' (pt_Path t) @ omitStr ''pathMatchType'' (pt_PathMatchType t)
     @ omitStr ''rewritePath'' (pt_RewritePath t) @ omitStr ''rewritePathType'' (pt_RewritePathType t)
     @ omitInt ''priority'' (pt_Priority t) @ omitPtr ''healthcheck'' jsonHealthCheck (pt_Healthcheck t))"

definition jsonSpec :: "PublicResourceSpec \<Rightarrow> json" where
  "jsonSpec s = JObj ([(''siteRef'', JStr (ps_SiteRef s)), (''name'', JStr (ps_Name s)),
       (''protocol'', JStr (ps_Protocol s))]
     @ omitStr ''fullDomain'' (ps_FullDomain s) @ omitInt ''proxyPort'' (ps_ProxyPort s)
     @ [(''enabled'', JBool (ps_Enabled s))] @ omitBool ''ssl'' (ps_Ssl s)
     @ omitStr ''hostHeader'' (ps_HostHeader s) @ omitStr ''tlsServerName'' (ps_TlsServerName s)
     @ omitList ''headers'' jsonHeader (ps_Headers s) @ omitPtr ''auth'' jsonAuth (ps_Auth s)
     @ omitPtr ''maintenance'' jsonMaintenance (ps_Maintenance s)
     @ omitList ''rules'' jsonRule (elems (ps_Rules s))
     @ [(''targets'', jsonSlice jsonTarget (ps_Targets s))])"

end
