(* ===== verification/Kube.thy ===== *)
theory Kube
  imports ApiTypes
begin

text \<open>
  The Kubernetes side.  The object types of other projects the program reads or writes
  (routes, services, secrets, deployments), reduced to the fields it touches, and the client
  of controller-runtime with its helper functions as a record of arguments: nothing is
  assumed about them here.
\<close>

section \<open>Objects\<close>

record parentRef =
  pf_Name :: string
  pf_Namespace :: "string option"

record backendRef =
  br_Name :: string
  br_Namespace :: "string option"
  br_Port :: "int option"

text \<open>A rule of a route is the list of its backend references.\<close>

record HTTPRoute =
  hr_Meta :: objectMeta
  hr_ParentRefs :: "parentRef list"
  hr_Hostnames :: "string list"
  hr_Rules :: "backendRef list list"

record TCPRoute =
  tr_Meta :: objectMeta
  tr_ParentRefs :: "parentRef list"
  tr_Rules :: "backendRef list list"

record servicePort =
  sp_Name :: string
  sp_Port :: int
  sp_Protocol :: string

record Service =
  svc_Meta :: objectMeta
  svc_Ports :: "servicePort list"

record Secret =
  sec_Meta :: objectMeta
  sec_StringData :: "(string \<times> string) list"

record ServiceAccount =
  sa_Meta :: objectMeta

record containerPort =
  cp_Name :: string
  cp_ContainerPort :: int
  cp_Protocol :: string

record container =
  ct_Name :: string
  ct_Image :: string
  ct_Env :: "envVar list"
  ct_SecurityContext :: "securityContext option"
  ct_Resources :: json
  ct_VolumeMounts :: "json list"
  ct_Ports :: "containerPort list"

datatype podContainer = NewtContainer container | UserContainer json

record podSpec =
  po_ServiceAccountName :: string
  po_AutomountServiceAccountToken :: bool
  po_TerminationGracePeriodSeconds :: int
  po_SecurityContext :: "podSecurityContext option"
  po_HostNetwork :: bool
  po_HostPID :: bool
  po_InitContainers :: "json list"
  po_Containers :: "podContainer list"
  po_Volumes :: "json list"
  po_NodeSelector :: "(string \<times> string) list"
  po_Tolerations :: "json list"
  po_Affinity :: "json option"
  po_TopologySpreadConstraints :: "json list"

record DeploymentSpec =
  ds_Replicas :: int
  ds_Selector :: "(string \<times> string) list"
  ds_PodLabels :: "(string \<times> string) list"
  ds_PodAnnotations :: "(string \<times> string) list option"
  ds_PodSpec :: podSpec

record Deployment =
  dep_Meta :: objectMeta
  dep_Spec :: "DeploymentSpec option"
  dep_ReadyReplicas :: int

section \<open>The client\<close>

text \<open>
  The operations of \<open>client.Client\<close> on one kind of object.  A key is a namespace and a
  name.  A patch is given by the object before and after the change, as
  \<open>client.MergeFrom\<close> computes it; on success it returns the object as the server has it,
  with which the client overwrites the one in memory, on failure the one in memory stays.
\<close>

type_synonym key = "string \<times> string"

record ('w, 'o) objClient =
  oc_Get :: "key \<Rightarrow> ('w, kerr + 'o) state"
  oc_List :: "('w, kerr + 'o list) state"
  oc_Create :: "'o \<Rightarrow> ('w, kerr option) state"
  oc_Update :: "'o \<Rightarrow> ('w, kerr + 'o) state"
  oc_Patch :: "'o \<Rightarrow> 'o \<Rightarrow> ('w, kerr + 'o) state"
  oc_StatusPatch :: "'o \<Rightarrow> 'o \<Rightarrow> ('w, kerr + 'o) state"
  oc_Delete :: "'o \<Rightarrow> ('w, kerr option) state"
  oc_CreateOrUpdate :: "'o \<Rightarrow> ('o \<Rightarrow> gerr + 'o) \<Rightarrow> ('w, gerr option) state"

text \<open>
  The client, the two indexed or selected lists the program asks for, and the pure helpers
  of \<open>controllerutil\<close> and \<open>apimachinery\<close> on the parts of an object they change.
\<close>

record 'w kube =
  kSites :: "('w, NewtSite) objClient"
  kPubs :: "('w, PublicResource) objClient"
  kPrivs :: "('w, PrivateResource) objClient"
  kRoutes :: "('w, HTTPRoute) objClient"
  kTCPRoutes :: "('w, TCPRoute) objClient"
  kServices :: "('w, Service) objClient"
  kDeployments :: "('w, Deployment) objClient"
  kSecrets :: "('w, Secret) objClient"
  kServiceAccounts :: "('w, ServiceAccount) objClient"
  kListSitesByName :: "string \<Rightarrow> ('w, kerr + NewtSite list) state"
  kListPubsByLabels :: "(string \<times> string) list \<Rightarrow> ('w, kerr + PublicResource list) state"
  kSetStatusCondition :: "condition \<Rightarrow> condition list \<Rightarrow> condition list"
  kContainsFinalizer :: "string \<Rightarrow> string list \<Rightarrow> bool"
  kAddFinalizer :: "string \<Rightarrow> string list \<Rightarrow> string list"
  kRemoveFinalizer :: "string \<Rightarrow> string list \<Rightarrow> string list"
  kSetControllerReference :: "objectMeta \<Rightarrow> objectMeta \<Rightarrow> gerr + objectMeta"

text \<open>\<open>client.ObjectKeyFromObject\<close>.\<close>

definition objectKey :: "objectMeta \<Rightarrow> key" where
  "objectKey m = (m_Namespace m, m_Name m)"

section \<open>Results of a reconciliation\<close>

text \<open>A \<open>time.Duration\<close> counts nanoseconds.\<close>

definition Second :: int where "Second = 1000000000"
definition Minute :: int where "Minute = 60 * Second"

record ctrlResult =
  RequeueAfter :: int

definition noResult :: ctrlResult where
  "noResult = \<lparr>RequeueAfter = 0\<rparr>"

type_synonym reconciled = "ctrlResult \<times> gerr option"

section \<open>Package shared\<close>

definition ResyncInterval :: int where "ResyncInterval = 10 * Minute"
definition RequeueDependencyWait :: int where "RequeueDependencyWait = 10 * Second"
definition RequeuePermanentError :: int where "RequeuePermanentError = 5 * Minute"

definition ReasonReconciled :: string where "ReasonReconciled = ''Reconciled''"
definition ReasonPending :: string where "ReasonPending = ''Pending''"
definition ReasonError :: string where "ReasonError = ''Error''"
definition ReasonPermanentError :: string where "ReasonPermanentError = ''PermanentError''"

definition LabelOwnerKind :: string where
  "LabelOwnerKind = ''pangolin.home-operations.com/owner-kind''"
definition LabelOwnerName :: string where
  "LabelOwnerName = ''pangolin.home-operations.com/owner-name''"
definition LabelSite :: string where
  "LabelSite = ''pangolin.home-operations.com/site''"
definition LabelManagedBy :: string where
  "LabelManagedBy = ''app.kubernetes.io/managed-by''"

definition SiteTypeLocal :: string where "SiteTypeLocal = ''local''"
definition SiteTypeNewt :: string where "SiteTypeNewt = ''newt''"

definition SetCondition ::
  "'w kube \<Rightarrow> condStatus \<Rightarrow> string \<Rightarrow> string \<Rightarrow> int \<Rightarrow> condition list \<Rightarrow> condition list" where
  "SetCondition k status reason message generation conditions =
     kSetStatusCondition k
       \<lparr>c_Type = ''Ready'', c_Status = status, c_ObservedGeneration = generation,
        c_LastTransitionTime = [], c_Reason = reason, c_Message = message\<rparr> conditions"

section \<open>Package resolve\<close>

definition Site :: "'w kube \<Rightarrow> string \<Rightarrow> ('w, gerr + NewtSite) state" where
  "Site k name =
     do {
       r \<leftarrow> kListSitesByName k name;
       State_Monad.return
         (case r of
            Inl e \<Rightarrow> Inl (Wrap (''list NewtSites by name '' @ quote name @ '': '') (ErrKube e) [])
          | Inr items \<Rightarrow>
              (case items of
                 [] \<Rightarrow> Inl (Wrap [] ErrSiteNotFound ('': '' @ quote name))
               | s # _ \<Rightarrow> Inr s))
     }"

end
