(* ===== verification/Pangolin.thy ===== *)
theory Pangolin
  imports ApiTypes
begin

text \<open>
  The Pangolin API of \<open>internal/pangolin/client.go\<close>: its request and response structs, the
  interface \<open>API\<close> as a record of operations over an arbitrary outside world, and the
  resolution of a full domain against the organisation's domains.  The reconcilers take
  the interface as an argument; theory Client provides it over HTTP.
\<close>

section \<open>Requests and responses\<close>

record PickSiteDefaultsResponse =
  psd_NewtID :: string
  psd_NewtSecret :: string
  psd_ClientAddress :: string

record CreateSiteRequest =
  csq_Name :: string
  csq_Address :: string
  csq_Type :: string
  csq_NewtID :: string
  csq_Secret :: string

record CreateSiteResponse =
  csr_SiteID :: int
  csr_NiceID :: string

record GetSiteResponse =
  gsr_SiteID :: int
  gsr_NiceID :: string
  gsr_Name :: string
  gsr_Type :: string
  gsr_Online :: bool
  gsr_Address :: string

record UpdateSiteRequest =
  usq_Name :: string

record SiteItem =
  si_SiteID :: int
  si_NiceID :: string
  si_Name :: string
  si_Type :: string

record Domain =
  dm_DomainID :: string
  dm_BaseDomain :: string

record CreateResourceRequest =
  crq_Name :: string
  crq_Http :: bool
  crq_Protocol :: string
  crq_ProxyPort :: int
  crq_DomainId :: string
  crq_Subdomain :: string

record CreateResourceResponse =
  crr_ResourceID :: int
  crr_NiceID :: string
  crr_FullDomain :: string

record ResourceItem =
  ri_ResourceID :: int
  ri_NiceID :: string
  ri_Name :: string
  ri_FullDomain :: string
  ri_Subdomain :: string
  ri_DomainID :: string
  ri_Enabled :: bool

record UpdateResourceRequest =
  urq_Name :: string
  urq_Subdomain :: string
  urq_Ssl :: "bool option"
  urq_Sso :: "bool option"
  urq_BlockAccess :: "bool option"
  urq_EmailWhitelistEnabled :: "bool option"
  urq_ApplyRules :: "bool option"
  urq_Enabled :: "bool option"
  urq_StickySession :: "bool option"
  urq_TlsServerName :: "string option"
  urq_SetHostHeader :: "string option"
  urq_SkipToIdpId :: "int option"

record CreateRuleRequest =
  cuq_Action :: string
  cuq_Match :: string
  cuq_Value :: string
  cuq_Priority :: int
  cuq_Enabled :: "bool option"

record CreateTargetRequest =
  ctq_SiteID :: int
  ctq_IP :: string
  ctq_Port :: int
  ctq_Method :: string
  ctq_Enabled :: "bool option"
  ctq_Path :: string
  ctq_PathMatchType :: string
  ctq_RewritePath :: string
  ctq_RewritePathType :: string
  ctq_Priority :: int

record CreateSiteResourceRequest =
  cvq_Name :: string
  cvq_SiteID :: int
  cvq_Mode :: string
  cvq_Destination :: string
  cvq_TcpPortRangeString :: string
  cvq_UdpPortRangeString :: string
  cvq_DisableIcmp :: bool
  cvq_Alias :: string
  cvq_RoleIds :: "int slice"
  cvq_UserIds :: "string slice"
  cvq_ClientIds :: "int slice"
  cvq_Ssl :: "bool option"
  cvq_Scheme :: string
  cvq_DomainId :: string
  cvq_Subdomain :: string
  cvq_DestinationPort :: int

record CreateSiteResourceResponse =
  cvr_SiteResourceID :: int
  cvr_NiceID :: string
  cvr_FullDomain :: string

record SiteResourceItem =
  vi_SiteResourceID :: int
  vi_SiteID :: int
  vi_NiceID :: string
  vi_Name :: string
  vi_Mode :: string
  vi_Destination :: string
  vi_Enabled :: bool
  vi_FullDomain :: string
  vi_DomainID :: string
  vi_Subdomain :: string

record UpdateSiteResourceRequest =
  uvq_UserIds :: "string slice"
  uvq_RoleIds :: "int slice"
  uvq_ClientIds :: "int slice"
  uvq_SiteID :: int
  uvq_Name :: string
  uvq_Mode :: string
  uvq_Destination :: string
  uvq_TcpPortRangeString :: string
  uvq_UdpPortRangeString :: string
  uvq_DisableIcmp :: bool
  uvq_Alias :: string
  uvq_Ssl :: "bool option"
  uvq_Scheme :: string
  uvq_DomainId :: string
  uvq_Subdomain :: string
  uvq_DestinationPort :: int

section \<open>The interface API\<close>

text \<open>
  One field per method.  A method with results \<open>(T, error)\<close> returns \<open>gerr + T\<close>; one with
  the single result \<open>error\<close> returns \<open>gerr option\<close>, \<open>None\<close> for nil.  \<open>CreateRule\<close> and
  \<open>CreateTarget\<close> return a struct of one field, which is the identifier.
\<close>

record 'w API =
  PickSiteDefaults :: "('w, gerr + PickSiteDefaultsResponse) state"
  CreateSite :: "CreateSiteRequest \<Rightarrow> ('w, gerr + CreateSiteResponse) state"
  GetSite :: "int \<Rightarrow> ('w, gerr + GetSiteResponse) state"
  ListSites :: "string \<Rightarrow> ('w, gerr + SiteItem list) state"
  UpdateSite :: "int \<Rightarrow> UpdateSiteRequest \<Rightarrow> ('w, gerr option) state"
  DeleteSite :: "int \<Rightarrow> ('w, gerr option) state"
  ListDomains :: "('w, gerr + Domain list) state"
  CreateResource :: "CreateResourceRequest \<Rightarrow> ('w, gerr + CreateResourceResponse) state"
  ListResources :: "string \<Rightarrow> ('w, gerr + ResourceItem list) state"
  UpdateResource :: "int \<Rightarrow> UpdateResourceRequest \<Rightarrow> ('w, gerr option) state"
  DeleteResource :: "int \<Rightarrow> ('w, gerr option) state"
  CreateTarget :: "int \<Rightarrow> CreateTargetRequest \<Rightarrow> ('w, gerr + int) state"
  DeleteTarget :: "int \<Rightarrow> ('w, gerr option) state"
  CreateRule :: "int \<Rightarrow> CreateRuleRequest \<Rightarrow> ('w, gerr + int) state"
  DeleteRule :: "int \<Rightarrow> int \<Rightarrow> ('w, gerr option) state"
  CreateSiteResource :: "CreateSiteResourceRequest \<Rightarrow> ('w, gerr + CreateSiteResourceResponse) state"
  ListSiteResources :: "string \<Rightarrow> ('w, gerr + SiteResourceItem list) state"
  UpdateSiteResource :: "int \<Rightarrow> UpdateSiteResourceRequest \<Rightarrow> ('w, gerr option) state"
  DeleteSiteResource :: "int \<Rightarrow> ('w, gerr option) state"

section \<open>Resolving a domain\<close>

text \<open>The loop of \<open>ResolveDomainID\<close> with its two variables \<open>best\<close> and \<open>bestLen\<close>.\<close>

definition domainMatches :: "string \<Rightarrow> Domain \<Rightarrow> bool" where
  "domainMatches fullDomain d =
     (dm_BaseDomain d = fullDomain \<or> hasSuffix fullDomain (CHR ''.'' # dm_BaseDomain d))"

fun resolveLoop :: "Domain list \<Rightarrow> string \<Rightarrow> string \<Rightarrow> nat \<Rightarrow> string" where
  "resolveLoop [] fullDomain best bestLen = best"
| "resolveLoop (d # ds) fullDomain best bestLen =
     (if domainMatches fullDomain d \<and> length (dm_BaseDomain d) > bestLen
      then resolveLoop ds fullDomain (dm_DomainID d) (length (dm_BaseDomain d))
      else resolveLoop ds fullDomain best bestLen)"

definition ResolveDomainID :: "Domain list \<Rightarrow> string \<Rightarrow> string \<times> bool" where
  "ResolveDomainID domains fullDomain =
     (let best = resolveLoop domains fullDomain [] 0 in (best, best \<noteq> []))"

definition ResolveDomain :: "Domain list \<Rightarrow> string \<Rightarrow> string \<times> string \<times> bool" where
  "ResolveDomain domains fullDomain =
     (let (id, ok) = ResolveDomainID domains fullDomain in
      if \<not> ok then ([], [], False)
      else (case List.find (\<lambda>d. dm_DomainID d = id) domains of
              None \<Rightarrow> (id, [], True)
            | Some d \<Rightarrow>
              (let sub = trimSuffix fullDomain (CHR ''.'' # dm_BaseDomain d);
                   sub = trimSuffix sub (dm_BaseDomain d)
               in (id, if sub \<noteq> fullDomain then sub else [], True))))"

subsection \<open>The most specific domain wins\<close>

text \<open>
  The domains that can win: they match and their base is not empty.  The loop returns the
  identifier of the first of the longest ones, or the value it started with.
\<close>

definition longest :: "Domain list \<Rightarrow> string \<Rightarrow> Domain \<Rightarrow> bool" where
  "longest ds full d =
     (d \<in> set ds \<and> domainMatches full d
      \<and> (\<forall>e \<in> set ds. domainMatches full e \<longrightarrow> length (dm_BaseDomain e) \<le> length (dm_BaseDomain d)))"

lemma resolveLoop_spec:
  "(resolveLoop ds full best n = best
     \<and> (\<forall>e \<in> set ds. domainMatches full e \<longrightarrow> length (dm_BaseDomain e) \<le> n))
   \<or> (\<exists>d \<in> set ds. domainMatches full d \<and> n < length (dm_BaseDomain d)
        \<and> resolveLoop ds full best n = dm_DomainID d
        \<and> (\<forall>e \<in> set ds. domainMatches full e \<longrightarrow> length (dm_BaseDomain e) \<le> length (dm_BaseDomain d)))"
proof (induction ds arbitrary: best n)
  case Nil
  then show ?case by simp
next
  case (Cons a ds)
  show ?case
  proof (cases "domainMatches full a \<and> length (dm_BaseDomain a) > n")
    case True
    with Cons.IH [of "dm_DomainID a" "length (dm_BaseDomain a)"] show ?thesis
      by simp (meson less_imp_le order_less_trans)
  next
    case False
    with Cons.IH [of best n] show ?thesis
      by simp (meson leI le_trans less_imp_le)
  qed
qed

lemma ResolveDomainID_longest:
  assumes "ResolveDomainID ds full = (i, True)"
  obtains d where "longest ds full d" "dm_DomainID d = i" "dm_BaseDomain d \<noteq> []"
  using assms resolveLoop_spec [of ds full "[]" 0]
  by (auto simp: ResolveDomainID_def Let_def longest_def)

lemma domainMatches_split:
  "domainMatches full d \<Longrightarrow> full = dm_BaseDomain d \<or> (\<exists>u. full = u @ CHR ''.'' # dm_BaseDomain d)"
  by (auto simp: domainMatches_def hasSuffix_iff)

text \<open>Two matching bases of the same length are the same string.\<close>

lemma domainMatches_same_length:
  assumes "domainMatches full d" "domainMatches full e"
    and "length (dm_BaseDomain d) = length (dm_BaseDomain e)"
  shows "dm_BaseDomain d = dm_BaseDomain e"
proof -
  from assms(1) have "hasSuffix full (dm_BaseDomain d)"
    by (auto dest!: domainMatches_split simp: hasSuffix_iff)
  moreover from assms(2) have "hasSuffix full (dm_BaseDomain e)"
    by (auto dest!: domainMatches_split simp: hasSuffix_iff)
  ultimately show ?thesis using assms(3) by (auto simp: hasSuffix_def)
qed

text \<open>
  C29.  ResolveDomain splits a domain at the most specific base: the identifier it returns is that
  of the longest base that the full domain equals or ends in after a dot, and the subdomain
  is empty for the base itself, and otherwise what stands before that dot, except that a
  copy of the base at its end is cut off once more.  Identifiers are unique in the list.
\<close>

theorem ResolveDomain_splits:
  assumes ok: "ResolveDomain ds full = (i, sub, True)"
    and ids: "distinct (map dm_DomainID ds)"
  shows "\<exists>d. longest ds full d \<and> dm_DomainID d = i \<and>
    (if full = dm_BaseDomain d then sub = []
     else \<exists>u. full = u @ CHR ''.'' # dm_BaseDomain d \<and> sub = trimSuffix u (dm_BaseDomain d))"
proof -
  from ok have rid: "ResolveDomainID ds full = (i, True)"
    by (auto simp: ResolveDomain_def Let_def split: prod.splits if_splits option.splits)
  then obtain d where d: "longest ds full d" "dm_DomainID d = i" "dm_BaseDomain d \<noteq> []"
    by (rule ResolveDomainID_longest)
  have "List.find (\<lambda>d. dm_DomainID d = i) ds = Some d"
  proof (cases "List.find (\<lambda>d. dm_DomainID d = i) ds")
    case None
    with d show ?thesis by (auto simp: find_None_iff longest_def)
  next
    case (Some e)
    then have "e \<in> set ds" "dm_DomainID e = i" by (auto dest: find_Some_first)
    with d ids show ?thesis using Some by (auto simp: longest_def distinct_map inj_on_def)
  qed
  with ok rid have sub: "sub = (let s = trimSuffix (trimSuffix full (CHR ''.'' # dm_BaseDomain d)) (dm_BaseDomain d)
      in if s \<noteq> full then s else [])"
    by (simp add: ResolveDomain_def Let_def split: if_splits)
  from d have "domainMatches full d" by (simp add: longest_def)
  then consider "full = dm_BaseDomain d" | u where "full = u @ CHR ''.'' # dm_BaseDomain d" "full \<noteq> dm_BaseDomain d"
    using domainMatches_split by blast
  then have "if full = dm_BaseDomain d then sub = []
     else \<exists>u. full = u @ CHR ''.'' # dm_BaseDomain d \<and> sub = trimSuffix u (dm_BaseDomain d)"
  proof cases
    case 1
    have "\<not> hasSuffix full (CHR ''.'' # full)" by (simp add: hasSuffix_def)
    then have "trimSuffix full (CHR ''.'' # full) = full" by (rule trimSuffix_other)
    moreover have "trimSuffix full full = []" using trimSuffix_append [of "[]" full] by simp
    ultimately have "sub = []" using sub 1 by (simp add: Let_def)
    with 1 show ?thesis by simp
  next
    case 2
    have "length (trimSuffix u (dm_BaseDomain d)) \<le> length u" by (simp add: trimSuffix_def)
    then have "trimSuffix u (dm_BaseDomain d) \<noteq> full" using 2 by auto
    with sub 2 have "sub = trimSuffix u (dm_BaseDomain d)" by (simp add: Let_def)
    with 2 show ?thesis by auto
  qed
  with d show ?thesis by blast
qed

theorem ResolveDomain_splits_witness:
  "\<exists>d. longest [\<lparr>dm_DomainID = ''d1'', dm_BaseDomain = ''ex.com''\<rparr>, \<lparr>dm_DomainID = ''d2'', dm_BaseDomain = ''b.ex.com''\<rparr>]
        ''a.b.ex.com'' d \<and> dm_DomainID d = ''d2'' \<and>
    (if ''a.b.ex.com'' = dm_BaseDomain d then ''a'' = []
     else \<exists>u. ''a.b.ex.com'' = u @ CHR ''.'' # dm_BaseDomain d \<and> ''a'' = trimSuffix u (dm_BaseDomain d))"
  by (rule ResolveDomain_splits) code_simp+

text \<open>
  The second cut is one too many: for every base and every prefix that does not itself end
  in the base, two different full domains, the prefix before the dot and the prefix followed
  by the base before the dot, resolve to the same domain and the same subdomain.
\<close>

theorem ResolveDomain_overtrims:
  assumes "i \<noteq> []" "b \<noteq> []" "\<not> hasSuffix v b"
  shows "ResolveDomain [\<lparr>dm_DomainID = i, dm_BaseDomain = b\<rparr>] (v @ CHR ''.'' # b) = (i, v, True)
     \<and> ResolveDomain [\<lparr>dm_DomainID = i, dm_BaseDomain = b\<rparr>] (v @ b @ CHR ''.'' # b) = (i, v, True)"
proof -
  have base: "ResolveDomainID [\<lparr>dm_DomainID = i, dm_BaseDomain = b\<rparr>] (u @ CHR ''.'' # b) = (i, True)" for u
    using assms by (simp add: ResolveDomainID_def domainMatches_def hasSuffix_iff)
  have cut: "trimSuffix (v @ b @ CHR ''.'' # b) (CHR ''.'' # b) = v @ b"
    using trimSuffix_append [of "v @ b" "CHR ''.'' # b"] by simp
  from assms(3) have "trimSuffix v b = v" by (rule trimSuffix_other)
  with base [of v] base [of "v @ b"] cut show ?thesis
    by (simp add: ResolveDomain_def Let_def)
qed

theorem ResolveDomain_overtrims_witness:
  "ResolveDomain [\<lparr>dm_DomainID = ''d1'', dm_BaseDomain = ''ex.com''\<rparr>] ''my.ex.com'' = (''d1'', ''my'', True)
     \<and> ResolveDomain [\<lparr>dm_DomainID = ''d1'', dm_BaseDomain = ''ex.com''\<rparr>] ''myex.com.ex.com'' = (''d1'', ''my'', True)"
  using ResolveDomain_overtrims [of "''d1''" "''ex.com''" "''my''"]
  by (simp add: hasSuffix_def)

end
