(* ===== verification/Observe.thy ===== *)
theory Observe
  imports Kube Pangolin
begin

text \<open>
  Observing a run.  Every operation of the two environments can be recorded: the recording
  environment runs the given one and appends an event with the arguments and the result to a
  log.  Theorems about what the program calls, and in which order, are stated over the
  recording of an arbitrary environment, so they hold of every environment.
\<close>

section \<open>Events\<close>

text \<open>
  The event of \<open>CreateOrUpdate\<close> holds the object passed in and the mutate function: what is written is
  the function's result on the object found in the cluster, or on the one passed in.
\<close>

datatype apiEvent =
    APickSiteDefaults "gerr + PickSiteDefaultsResponse"
  | ACreateSite CreateSiteRequest "gerr + CreateSiteResponse"
  | AGetSite int "gerr + GetSiteResponse"
  | AListSites string "gerr + SiteItem list"
  | AUpdateSite int UpdateSiteRequest "gerr option"
  | ADeleteSite int "gerr option"
  | AListDomains "gerr + Domain list"
  | ACreateResource CreateResourceRequest "gerr + CreateResourceResponse"
  | AListResources string "gerr + ResourceItem list"
  | AUpdateResource int UpdateResourceRequest "gerr option"
  | ADeleteResource int "gerr option"
  | ACreateTarget int CreateTargetRequest "gerr + int"
  | ADeleteTarget int "gerr option"
  | ACreateRule int CreateRuleRequest "gerr + int"
  | ADeleteRule int int "gerr option"
  | ACreateSiteResource CreateSiteResourceRequest "gerr + CreateSiteResourceResponse"
  | AListSiteResources string "gerr + SiteResourceItem list"
  | AUpdateSiteResource int UpdateSiteResourceRequest "gerr option"
  | ADeleteSiteResource int "gerr option"

datatype 'o objEvent =
    OGet key "kerr + 'o"
  | OList "kerr + 'o list"
  | OCreate 'o "kerr option"
  | OUpdate 'o "kerr + 'o"
  | OPatch 'o 'o "kerr + 'o"
  | OStatusPatch 'o 'o "kerr + 'o"
  | ODelete 'o "kerr option"
  | OCreateOrUpdate 'o "'o \<Rightarrow> gerr + 'o" "gerr option"

datatype event =
    EApi apiEvent
  | ESite "NewtSite objEvent"
  | EPub "PublicResource objEvent"
  | EPriv "PrivateResource objEvent"
  | ERoute "HTTPRoute objEvent"
  | ETCPRoute "TCPRoute objEvent"
  | EService "Service objEvent"
  | EDeployment "Deployment objEvent"
  | ESecret "Secret objEvent"
  | EServiceAccount "ServiceAccount objEvent"
  | EListSitesByName string "kerr + NewtSite list"
  | EListPubsByLabels "(string \<times> string) list" "kerr + PublicResource list"

section \<open>Recording\<close>

type_synonym 'w logged = "'w \<times> event list"

definition record_op :: "('r \<Rightarrow> event) \<Rightarrow> ('w, 'r) state \<Rightarrow> ('w logged, 'r) state" where
  "record_op ev m = State (\<lambda>(w, tr). case run_state m w of (r, w') \<Rightarrow> (r, (w', tr @ [ev r])))"

definition record_api :: "'w API \<Rightarrow> 'w logged API" where
  "record_api a =
     \<lparr>PickSiteDefaults = record_op (\<lambda>r. EApi (APickSiteDefaults r)) (PickSiteDefaults a),
      CreateSite = (\<lambda>q. record_op (\<lambda>r. EApi (ACreateSite q r)) (CreateSite a q)),
      GetSite = (\<lambda>i. record_op (\<lambda>r. EApi (AGetSite i r)) (GetSite a i)),
      ListSites = (\<lambda>q. record_op (\<lambda>r. EApi (AListSites q r)) (ListSites a q)),
      UpdateSite = (\<lambda>i q. record_op (\<lambda>r. EApi (AUpdateSite i q r)) (UpdateSite a i q)),
      DeleteSite = (\<lambda>i. record_op (\<lambda>r. EApi (ADeleteSite i r)) (DeleteSite a i)),
      ListDomains = record_op (\<lambda>r. EApi (AListDomains r)) (ListDomains a),
      CreateResource = (\<lambda>q. record_op (\<lambda>r. EApi (ACreateResource q r)) (CreateResource a q)),
      ListResources = (\<lambda>q. record_op (\<lambda>r. EApi (AListResources q r)) (ListResources a q)),
      UpdateResource = (\<lambda>i q. record_op (\<lambda>r. EApi (AUpdateResource i q r)) (UpdateResource a i q)),
      DeleteResource = (\<lambda>i. record_op (\<lambda>r. EApi (ADeleteResource i r)) (DeleteResource a i)),
      CreateTarget = (\<lambda>i q. record_op (\<lambda>r. EApi (ACreateTarget i q r)) (CreateTarget a i q)),
      DeleteTarget = (\<lambda>i. record_op (\<lambda>r. EApi (ADeleteTarget i r)) (DeleteTarget a i)),
      CreateRule = (\<lambda>i q. record_op (\<lambda>r. EApi (ACreateRule i q r)) (CreateRule a i q)),
      DeleteRule = (\<lambda>i j. record_op (\<lambda>r. EApi (ADeleteRule i j r)) (DeleteRule a i j)),
      CreateSiteResource = (\<lambda>q. record_op (\<lambda>r. EApi (ACreateSiteResource q r)) (CreateSiteResource a q)),
      ListSiteResources = (\<lambda>q. record_op (\<lambda>r. EApi (AListSiteResources q r)) (ListSiteResources a q)),
      UpdateSiteResource =
        (\<lambda>i q. record_op (\<lambda>r. EApi (AUpdateSiteResource i q r)) (UpdateSiteResource a i q)),
      DeleteSiteResource = (\<lambda>i. record_op (\<lambda>r. EApi (ADeleteSiteResource i r)) (DeleteSiteResource a i))\<rparr>"

definition record_obj :: "('o objEvent \<Rightarrow> event) \<Rightarrow> ('w, 'o) objClient \<Rightarrow> ('w logged, 'o) objClient" where
  "record_obj ev c =
     \<lparr>oc_Get = (\<lambda>k. record_op (\<lambda>r. ev (OGet k r)) (oc_Get c k)),
      oc_List = record_op (\<lambda>r. ev (OList r)) (oc_List c),
      oc_Create = (\<lambda>x. record_op (\<lambda>r. ev (OCreate x r)) (oc_Create c x)),
      oc_Update = (\<lambda>x. record_op (\<lambda>r. ev (OUpdate x r)) (oc_Update c x)),
      oc_Patch = (\<lambda>x y. record_op (\<lambda>r. ev (OPatch x y r)) (oc_Patch c x y)),
      oc_StatusPatch = (\<lambda>x y. record_op (\<lambda>r. ev (OStatusPatch x y r)) (oc_StatusPatch c x y)),
      oc_Delete = (\<lambda>x. record_op (\<lambda>r. ev (ODelete x r)) (oc_Delete c x)),
      oc_CreateOrUpdate =
        (\<lambda>x f. record_op (\<lambda>r. ev (OCreateOrUpdate x f r)) (oc_CreateOrUpdate c x f))\<rparr>"

definition record_kube :: "'w kube \<Rightarrow> 'w logged kube" where
  "record_kube k =
     \<lparr>kSites = record_obj ESite (kSites k),
      kPubs = record_obj EPub (kPubs k),
      kPrivs = record_obj EPriv (kPrivs k),
      kRoutes = record_obj ERoute (kRoutes k),
      kTCPRoutes = record_obj ETCPRoute (kTCPRoutes k),
      kServices = record_obj EService (kServices k),
      kDeployments = record_obj EDeployment (kDeployments k),
      kSecrets = record_obj ESecret (kSecrets k),
      kServiceAccounts = record_obj EServiceAccount (kServiceAccounts k),
      kListSitesByName = (\<lambda>n. record_op (\<lambda>r. EListSitesByName n r) (kListSitesByName k n)),
      kListPubsByLabels = (\<lambda>l. record_op (\<lambda>r. EListPubsByLabels l r) (kListPubsByLabels k l)),
      kSetStatusCondition = kSetStatusCondition k,
      kContainsFinalizer = kContainsFinalizer k,
      kAddFinalizer = kAddFinalizer k,
      kRemoveFinalizer = kRemoveFinalizer k,
      kSetControllerReference = kSetControllerReference k\<rparr>"

lemma wp_record_op:
  "(\<And>r w'. Q r (w', tr @ [ev r])) \<Longrightarrow> wp (record_op ev m) Q (w, tr)"
  by (simp add: record_op_def wp_def split: prod.splits)

lemma record_op_run:
  "run_state (record_op ev m) s = (r, s') \<Longrightarrow> snd s' = snd s @ [ev r]"
  by (cases s) (auto simp: record_op_def split: prod.splits)

lemmas record_api_simps [simp] = record_api_def [THEN arg_cong [of _ _ PickSiteDefaults], simplified]
  record_api_def [THEN arg_cong [of _ _ CreateSite], simplified]
  record_api_def [THEN arg_cong [of _ _ GetSite], simplified]
  record_api_def [THEN arg_cong [of _ _ ListSites], simplified]
  record_api_def [THEN arg_cong [of _ _ UpdateSite], simplified]
  record_api_def [THEN arg_cong [of _ _ DeleteSite], simplified]
  record_api_def [THEN arg_cong [of _ _ ListDomains], simplified]
  record_api_def [THEN arg_cong [of _ _ CreateResource], simplified]
  record_api_def [THEN arg_cong [of _ _ ListResources], simplified]
  record_api_def [THEN arg_cong [of _ _ UpdateResource], simplified]
  record_api_def [THEN arg_cong [of _ _ DeleteResource], simplified]
  record_api_def [THEN arg_cong [of _ _ CreateTarget], simplified]
  record_api_def [THEN arg_cong [of _ _ DeleteTarget], simplified]
  record_api_def [THEN arg_cong [of _ _ CreateRule], simplified]
  record_api_def [THEN arg_cong [of _ _ DeleteRule], simplified]
  record_api_def [THEN arg_cong [of _ _ CreateSiteResource], simplified]
  record_api_def [THEN arg_cong [of _ _ ListSiteResources], simplified]
  record_api_def [THEN arg_cong [of _ _ UpdateSiteResource], simplified]
  record_api_def [THEN arg_cong [of _ _ DeleteSiteResource], simplified]

lemma record_obj_simps [simp]:
  "oc_Get (record_obj ev c) = (\<lambda>k. record_op (\<lambda>r. ev (OGet k r)) (oc_Get c k))"
  "oc_List (record_obj ev c) = record_op (\<lambda>r. ev (OList r)) (oc_List c)"
  "oc_Create (record_obj ev c) = (\<lambda>x. record_op (\<lambda>r. ev (OCreate x r)) (oc_Create c x))"
  "oc_Update (record_obj ev c) = (\<lambda>x. record_op (\<lambda>r. ev (OUpdate x r)) (oc_Update c x))"
  "oc_Patch (record_obj ev c) = (\<lambda>x y. record_op (\<lambda>r. ev (OPatch x y r)) (oc_Patch c x y))"
  "oc_StatusPatch (record_obj ev c) =
     (\<lambda>x y. record_op (\<lambda>r. ev (OStatusPatch x y r)) (oc_StatusPatch c x y))"
  "oc_Delete (record_obj ev c) = (\<lambda>x. record_op (\<lambda>r. ev (ODelete x r)) (oc_Delete c x))"
  "oc_CreateOrUpdate (record_obj ev c) =
     (\<lambda>x f. record_op (\<lambda>r. ev (OCreateOrUpdate x f r)) (oc_CreateOrUpdate c x f))"
  by (simp_all add: record_obj_def)

lemma record_kube_simps [simp]:
  "kSites (record_kube k) = record_obj ESite (kSites k)"
  "kPubs (record_kube k) = record_obj EPub (kPubs k)"
  "kPrivs (record_kube k) = record_obj EPriv (kPrivs k)"
  "kRoutes (record_kube k) = record_obj ERoute (kRoutes k)"
  "kTCPRoutes (record_kube k) = record_obj ETCPRoute (kTCPRoutes k)"
  "kServices (record_kube k) = record_obj EService (kServices k)"
  "kDeployments (record_kube k) = record_obj EDeployment (kDeployments k)"
  "kSecrets (record_kube k) = record_obj ESecret (kSecrets k)"
  "kServiceAccounts (record_kube k) = record_obj EServiceAccount (kServiceAccounts k)"
  "kListSitesByName (record_kube k) = (\<lambda>n. record_op (\<lambda>r. EListSitesByName n r) (kListSitesByName k n))"
  "kListPubsByLabels (record_kube k) = (\<lambda>l. record_op (\<lambda>r. EListPubsByLabels l r) (kListPubsByLabels k l))"
  "kSetStatusCondition (record_kube k) = kSetStatusCondition k"
  "kContainsFinalizer (record_kube k) = kContainsFinalizer k"
  "kAddFinalizer (record_kube k) = kAddFinalizer k"
  "kRemoveFinalizer (record_kube k) = kRemoveFinalizer k"
  "kSetControllerReference (record_kube k) = kSetControllerReference k"
  by (simp_all add: record_kube_def)

section \<open>A logic of logs\<close>

text \<open>
  \<open>emits m P\<close>: whatever the environment answers, a run of \<open>m\<close> that returns \<open>r\<close> appends to the
  log a list of events \<open>new\<close> with \<open>P r new\<close>.
\<close>

definition emits :: "('w logged, 'a) state \<Rightarrow> ('a \<Rightarrow> event list \<Rightarrow> bool) \<Rightarrow> bool" where
  "emits m P \<longleftrightarrow> (\<forall>w tr. wp m (\<lambda>r s. \<exists>new. snd s = tr @ new \<and> P r new) (w, tr))"

lemma emits_ret [simp]: "emits (ret r) P \<longleftrightarrow> P r []"
  by (simp add: emits_def)

lemma emits_op: "(\<And>r. P r [ev r]) \<Longrightarrow> emits (record_op ev m) P"
  unfolding emits_def by (auto intro!: wp_record_op)

lemma emits_bind:
  fixes m :: "('w logged, 'a) state"
  assumes "emits m P" and "\<And>r new. P r new \<Longrightarrow> emits (f r) (\<lambda>r' new'. Q r' (new @ new'))"
  shows "emits (m \<bind> f) Q"
  unfolding emits_def wp_bind
proof (intro allI)
  fix w :: 'w and tr
  from assms(1) have "wp m (\<lambda>r s. \<exists>new. snd s = tr @ new \<and> P r new) (w, tr)"
    by (simp add: emits_def)
  then show "wp m (\<lambda>r. wp (f r) (\<lambda>r s. \<exists>new. snd s = tr @ new \<and> Q r new)) (w, tr)"
  proof (rule wp_conseq)
    fix r and s :: "'w logged" assume "\<exists>new. snd s = tr @ new \<and> P r new"
    then obtain new w' where new: "s = (w', tr @ new)" "P r new" by (cases s) auto
    from assms(2) [OF new(2)]
    have "wp (f r) (\<lambda>r' s'. \<exists>new'. snd s' = (tr @ new) @ new' \<and> Q r' (new @ new')) (w', tr @ new)"
      unfolding emits_def by blast
    then show "wp (f r) (\<lambda>r s. \<exists>new. snd s = tr @ new \<and> Q r new) s"
      unfolding new(1) by (rule wp_conseq) auto
  qed
qed

lemma emits_bind_op:
  assumes "\<And>r. emits (f r) (\<lambda>r' new. Q r' (ev r # new))"
  shows "emits (record_op ev m \<bind> f) Q"
  by (rule emits_bind [where P = "\<lambda>r new. new = [ev r]"]) (auto intro: emits_op assms)

lemma emits_conseq: "emits m P \<Longrightarrow> (\<And>r new. P r new \<Longrightarrow> Q r new) \<Longrightarrow> emits m Q"
  unfolding emits_def by (blast intro: wp_conseq)

lemma emitsD:
  "emits m P \<Longrightarrow> run_state m (w, tr) = (r, (w', tr')) \<Longrightarrow> \<exists>new. tr' = tr @ new \<and> P r new"
  unfolding emits_def wp_def by (fastforce split: prod.splits)

lemma emits_run: "emits m P \<Longrightarrow> run_state m (w, []) = (r, (w', tr)) \<Longrightarrow> P r tr"
  by (auto dest: emitsD)

lemma bind_ret [simp]: "(ret x \<bind> f) = f x"
  by (simp add: State_Monad.bind_def State_Monad.return_def)

lemma bind_if [simp]:
  "State_Monad.bind (if b then m1 else m2) f = (if b then State_Monad.bind m1 f else State_Monad.bind m2 f)"
  by simp

lemma emits_if [simp]: "emits (if b then m1 else m2) P = (if b then emits m1 P else emits m2 P)"
  by simp

lemma emits_prod [simp]:
  "emits (case p of (x, y) \<Rightarrow> f x y) P = (case p of (x, y) \<Rightarrow> emits (f x y) P)"
  by (simp split: prod.splits)

lemma emits_option [simp]:
  "emits (case z of None \<Rightarrow> m | Some x \<Rightarrow> f x) P = (case z of None \<Rightarrow> emits m P | Some x \<Rightarrow> emits (f x) P)"
  by (simp split: option.splits)

lemma emits_sum [simp]:
  "emits (case z of Inl x \<Rightarrow> f x | Inr y \<Rightarrow> g y) P = (case z of Inl x \<Rightarrow> emits (f x) P | Inr y \<Rightarrow> emits (g y) P)"
  by (simp split: sum.splits)

lemma emits_let [simp]: "emits (Let t g) P = (let u = t in emits (g u) P)"
  by simp

subsection \<open>Events of one kind only\<close>

definition emitsAll :: "(event \<Rightarrow> bool) \<Rightarrow> ('w logged, 'a) state \<Rightarrow> bool" where
  "emitsAll P m \<longleftrightarrow> emits m (\<lambda>_ new. list_all P new)"

lemma emitsAll_ret [simp]: "emitsAll P (ret r)"
  by (simp add: emitsAll_def)

lemma emitsAll_op: "(\<And>r. P (ev r)) \<Longrightarrow> emitsAll P (record_op ev m)"
  by (simp add: emitsAll_def emits_op)

lemma emitsAll_bind: "emitsAll P m \<Longrightarrow> (\<And>r. emitsAll P (f r)) \<Longrightarrow> emitsAll P (m \<bind> f)"
  unfolding emitsAll_def by (erule emits_bind) simp

lemma emitsAll_mono: "emitsAll P m \<Longrightarrow> (\<And>e. P e \<Longrightarrow> Q e) \<Longrightarrow> emitsAll Q m"
  unfolding emitsAll_def by (erule emits_conseq) (auto simp: list_all_iff)

lemma emits_emitsAll: "emits m (\<lambda>_ new. list_all P new) \<Longrightarrow> emitsAll P m"
  by (simp add: emitsAll_def)

lemma emitsAll_grows: "emitsAll P m \<Longrightarrow> emits m (\<lambda>_ _. True)"
  unfolding emitsAll_def by (erule emits_conseq) simp

lemmas emitsAll_intros = emitsAll_op emitsAll_bind

lemma emits_bind_all:
  assumes "emitsAll P m" and "\<And>r. emitsAll P (f r)"
  shows "emits (m \<bind> f) (\<lambda>_ new. list_all P new)"
  using emitsAll_bind [OF assms] by (simp add: emitsAll_def)

lemma emitsAll_cases [simp]:
  "emitsAll P (if b then m1 else m2) = (if b then emitsAll P m1 else emitsAll P m2)"
  "emitsAll P (case p of (x, y) \<Rightarrow> f x y) = (case p of (x, y) \<Rightarrow> emitsAll P (f x y))"
  "emitsAll P (case z of None \<Rightarrow> m | Some u \<Rightarrow> g u) = (case z of None \<Rightarrow> emitsAll P m | Some u \<Rightarrow> emitsAll P (g u))"
  "emitsAll P (case s of Inl l \<Rightarrow> fl l | Inr v \<Rightarrow> fr v) = (case s of Inl l \<Rightarrow> emitsAll P (fl l) | Inr v \<Rightarrow> emitsAll P (fr v))"
  "emitsAll P (Let t h) = (let u = t in emitsAll P (h u))"
  by (simp_all split: prod.splits option.splits sum.splits)

lemma Site_all: "(\<And>n r. P (EListSitesByName n r)) \<Longrightarrow> emitsAll P (Site (record_kube k) name)"
  by (auto simp: Site_def intro!: emitsAll_intros)

section \<open>Kinds of events\<close>

text \<open>Events of the Pangolin API, and those that change something on the server.\<close>

definition isApi :: "event \<Rightarrow> bool" where
  "isApi e = (case e of EApi _ \<Rightarrow> True | _ \<Rightarrow> False)"

fun mutatesServer :: "apiEvent \<Rightarrow> bool" where
  "mutatesServer (APickSiteDefaults _) = False"
| "mutatesServer (AGetSite _ _) = False"
| "mutatesServer (AListSites _ _) = False"
| "mutatesServer (AListDomains _) = False"
| "mutatesServer (AListResources _ _) = False"
| "mutatesServer (AListSiteResources _ _) = False"
| "mutatesServer _ = True"

definition isMutation :: "event \<Rightarrow> bool" where
  "isMutation e = (case e of EApi x \<Rightarrow> mutatesServer x | _ \<Rightarrow> False)"

lemma isApi_simps [simp]:
  "isApi (EApi x)" "\<not> isApi (ESite y1)" "\<not> isApi (EPub y2)" "\<not> isApi (EPriv y3)"
  "\<not> isApi (EListSitesByName n l)"
  by (simp_all add: isApi_def)

lemma isMutation_simps [simp]:
  "isMutation (EApi x) = mutatesServer x" "\<not> isMutation (ESite y1)" "\<not> isMutation (EPub y2)"
  "\<not> isMutation (EPriv y3)" "\<not> isMutation (EListSitesByName n l)"
  by (simp_all add: isMutation_def)

end
