(* ===== verification/Fanout.thy ===== *)
theory Fanout
  imports Observe
begin

text \<open>
  The concurrent part of \<open>createTargets\<close> and \<open>createRules\<close>: one goroutine per element calls
  the API and then, holding a mutex, either stores the new identifier at its own index or
  appends an error; the function waits for all of them.  A schedule says in which order the
  goroutines take their two steps.  Steps a schedule leaves out are taken at the end, in
  index order, as \<open>wg.Wait\<close> returns only after every goroutine; a step that cannot happen
  (a lock before the call, a second call) is skipped.  So every list of steps is a schedule,
  and every interleaving of the goroutines is one.
\<close>

datatype goStep = GoCall nat | GoLock nat

record fan =
  fan_ids :: "int list"
  fan_errs :: "gerr list"
  fan_pend :: "nat \<Rightarrow> (gerr + int) option"
  fan_done :: "nat \<Rightarrow> bool"

definition fanInit :: "nat \<Rightarrow> fan" where
  "fanInit n = \<lparr>fan_ids = replicate n 0, fan_errs = [], fan_pend = (\<lambda>_. None), fan_done = (\<lambda>_. False)\<rparr>"

text \<open>What a goroutine does while it holds the mutex.\<close>

definition fanLock :: "string \<Rightarrow> nat \<Rightarrow> gerr + int \<Rightarrow> fan \<Rightarrow> fan" where
  "fanLock label i r f =
     (case r of
        Inl e \<Rightarrow> f\<lparr>fan_errs := fan_errs f @ [Wrap label e []], fan_done := (fan_done f)(i := True)\<rparr>
      | Inr v \<Rightarrow> f\<lparr>fan_ids := (fan_ids f)[i := v], fan_done := (fan_done f)(i := True)\<rparr>)"

fun fanStep ::
  "string \<Rightarrow> (nat \<Rightarrow> ('w, gerr + int) state) \<Rightarrow> nat \<Rightarrow> goStep \<Rightarrow> fan \<Rightarrow> ('w, fan) state" where
  "fanStep label call n (GoCall i) f =
     (if i < n \<and> fan_pend f i = None
      then do { r \<leftarrow> call i; State_Monad.return (f\<lparr>fan_pend := (fan_pend f)(i \<mapsto> r)\<rparr>) }
      else State_Monad.return f)"
| "fanStep label call n (GoLock i) f =
     State_Monad.return
       (case fan_pend f i of
          None \<Rightarrow> f
        | Some r \<Rightarrow> if fan_done f i then f else fanLock label i r f)"

fun fanRun ::
  "string \<Rightarrow> (nat \<Rightarrow> ('w, gerr + int) state) \<Rightarrow> nat \<Rightarrow> goStep list \<Rightarrow> fan \<Rightarrow> ('w, fan) state" where
  "fanRun label call n [] f = State_Monad.return f"
| "fanRun label call n (st # sts) f = do { f' \<leftarrow> fanStep label call n st f; fanRun label call n sts f' }"

definition waitAll :: "nat \<Rightarrow> goStep list" where
  "waitAll n = concat (map (\<lambda>i. [GoCall i, GoLock i]) [0..<n])"

text \<open>The result: the identifiers, or the ones created and the joined errors.\<close>

definition fanResult :: "fan \<Rightarrow> int list \<times> gerr option" where
  "fanResult f =
     (case joinErrs (fan_errs f) of
        Some e \<Rightarrow> (filter (\<lambda>v. v \<noteq> 0) (fan_ids f), Some e)
      | None \<Rightarrow> (fan_ids f, None))"

definition createAll ::
  "string \<Rightarrow> (nat \<Rightarrow> ('w, gerr + int) state) \<Rightarrow> nat \<Rightarrow> goStep list \<Rightarrow> ('w, int list \<times> gerr option) state" where
  "createAll label call n sched =
     do {
       f \<leftarrow> fanRun label call n (sched @ waitAll n) (fanInit n);
       State_Monad.return (fanResult f)
     }"

section \<open>What every schedule guarantees\<close>

text \<open>
  The invariant of a run.  \<open>ord\<close> lists the goroutines that have called, in the order of
  their calls, and \<open>eord\<close> those that have stored an error, in the order of their locks.
\<close>

definition fanInv ::
  "string \<Rightarrow> nat \<Rightarrow> fan \<Rightarrow> nat list \<Rightarrow> nat list \<Rightarrow> bool" where
  "fanInv label n f ord eord \<longleftrightarrow>
     length (fan_ids f) = n
     \<and> distinct ord \<and> (\<forall>i. i \<in> set ord \<longleftrightarrow> fan_pend f i \<noteq> None) \<and> (\<forall>i \<in> set ord. i < n)
     \<and> (\<forall>i. fan_done f i \<longrightarrow> fan_pend f i \<noteq> None)
     \<and> (\<forall>i < n. fan_ids f ! i =
           (if fan_done f i then (case fan_pend f i of Some (Inr v) \<Rightarrow> v | _ \<Rightarrow> 0) else 0))
     \<and> distinct eord
     \<and> (\<forall>i. i \<in> set eord \<longleftrightarrow> fan_done f i \<and> (\<exists>e. fan_pend f i = Some (Inl e)))
     \<and> fan_errs f = map (\<lambda>i. Wrap label (projl (the (fan_pend f i))) []) eord"

lemma fanInv_init: "fanInv label n (fanInit n) [] []"
  by (simp add: fanInv_def fanInit_def)

lemma fanInv_lock:
  assumes "fanInv label n f ord eord" "fan_pend f i = Some r" "\<not> fan_done f i"
  shows "\<exists>eord'. fanInv label n (fanLock label i r f) ord eord'"
proof (cases r)
  case (Inl e)
  with assms have "fanInv label n (fanLock label i r f) ord (eord @ [i])"
    by (auto simp: fanInv_def fanLock_def)
  then show ?thesis ..
next
  case (Inr v)
  with assms have "fanInv label n (fanLock label i r f) ord eord"
    by (auto simp: fanInv_def fanLock_def nth_list_update)
  then show ?thesis ..
qed

text \<open>
  The contract of \<open>createAll\<close> under every schedule, for a result \<open>res\<close> per element and an
  order \<open>ord\<close> of the calls: each element is called exactly once; on success the
  identifiers come back in element order; on failure the non-zero identifiers that were
  created do, and the joined errors are exactly the failures.
\<close>

definition fanOutcome ::
  "string \<Rightarrow> nat \<Rightarrow> (nat \<Rightarrow> gerr + int) \<Rightarrow> nat list \<Rightarrow> int list \<times> gerr option \<Rightarrow> bool" where
  "fanOutcome label n res ord out \<longleftrightarrow>
     distinct ord \<and> set ord = {..<n}
     \<and> (case snd out of
          None \<Rightarrow> fst out = map (\<lambda>i. projr (res i)) [0..<n] \<and> (\<forall>i < n. \<not> isl (res i))
        | Some e \<Rightarrow>
            fst out = filter (\<lambda>v. v \<noteq> 0) (map (\<lambda>i. case res i of Inl _ \<Rightarrow> 0 | Inr v \<Rightarrow> v) [0..<n])
            \<and> (\<exists>eord. eord \<noteq> [] \<and> distinct eord \<and> set eord = {i. i < n \<and> isl (res i)}
                 \<and> e = Join (map (\<lambda>i. Wrap label (projl (res i)) []) eord)))"

text \<open>
  The contract of one goroutine's call, as the fan-out relies on it: the call observes
  itself, once, with its index and its result.
\<close>

locale fan_out =
  fixes label :: string
    and call :: "nat \<Rightarrow> ('w, gerr + int) state"
    and log :: "'w \<Rightarrow> 'e list"
    and ev :: "nat \<Rightarrow> gerr + int \<Rightarrow> 'e"
  assumes call_logged: "run_state (call i) w = (r, w') \<Longrightarrow> log w' = log w @ [ev i r]"
begin

lemma wp_call: "(\<And>r w'. log w' = log w @ [ev i r] \<Longrightarrow> Q r w') \<Longrightarrow> wp (call i) Q w"
  by (rule wpI) (blast dest: call_logged)

definition ok :: "'e list \<Rightarrow> nat \<Rightarrow> fan \<Rightarrow> 'w \<Rightarrow> bool" where
  "ok l n f w \<longleftrightarrow> (\<exists>ord eord. fanInv label n f ord eord
      \<and> log w = l @ map (\<lambda>i. ev i (the (fan_pend f i))) ord)"

text \<open>How far the goroutines have come: a step never loses a call or a lock.\<close>

definition grows :: "fan \<Rightarrow> fan \<Rightarrow> bool" where
  "grows f g \<longleftrightarrow> (\<forall>i. fan_pend f i \<noteq> None \<longrightarrow> fan_pend g i \<noteq> None)
     \<and> (\<forall>i. fan_done f i \<longrightarrow> fan_done g i)"

lemma ok_call:
  assumes "ok l n f w" "i < n" "fan_pend f i = None" "log w' = log w @ [ev i r]"
  shows "ok l n (f\<lparr>fan_pend := (fan_pend f)(i \<mapsto> r)\<rparr>) w'"
proof -
  from assms(1) obtain ord eord where inv: "fanInv label n f ord eord"
    and lg: "log w = l @ map (\<lambda>i. ev i (the (fan_pend f i))) ord" by (auto simp: ok_def)
  from inv assms(3) have ni: "i \<notin> set ord" "i \<notin> set eord" "\<not> fan_done f i"
    by (auto simp: fanInv_def)
  with inv assms(2,3) have "fanInv label n (f\<lparr>fan_pend := (fan_pend f)(i \<mapsto> r)\<rparr>) (ord @ [i]) eord"
    by (auto simp: fanInv_def)
  moreover have "log w' = l @ map (\<lambda>j. ev j (the (((fan_pend f)(i \<mapsto> r)) j))) (ord @ [i])"
    using lg assms(4) ni(1) by (auto intro: map_cong)
  ultimately show ?thesis unfolding ok_def by (intro exI [of _ "ord @ [i]"] exI [of _ eord]) simp
qed

lemma ok_lock:
  assumes "ok l n f w" "fan_pend f i = Some r" "\<not> fan_done f i"
  shows "ok l n (fanLock label i r f) w"
proof -
  from assms(1) obtain ord eord where inv: "fanInv label n f ord eord"
    and lg: "log w = l @ map (\<lambda>i. ev i (the (fan_pend f i))) ord" by (auto simp: ok_def)
  have "fan_pend (fanLock label i r f) = fan_pend f"
    by (simp add: fanLock_def split: sum.splits)
  with fanInv_lock [OF inv assms(2,3)] lg show ?thesis unfolding ok_def by metis
qed

lemma step_ok:
  assumes "ok l n f w"
  shows "wp (fanStep label call n st f)
    (\<lambda>g w'. ok l n g w' \<and> grows f g
       \<and> (\<forall>i. st = GoCall i \<longrightarrow> i < n \<longrightarrow> fan_pend g i \<noteq> None)
       \<and> (\<forall>i. st = GoLock i \<longrightarrow> fan_pend f i \<noteq> None \<longrightarrow> fan_done g i)) w"
proof (cases st)
  case (GoCall i)
  with assms show ?thesis
    by (auto simp: wp_cases grows_def intro!: wp_call ok_call)
next
  case (GoLock i)
  show ?thesis
  proof (cases "fan_pend f i = None \<or> fan_done f i")
    case True
    with GoLock assms show ?thesis by (auto simp: grows_def split: option.splits)
  next
    case False
    then obtain r where r: "fan_pend f i = Some r" "\<not> fan_done f i" by auto
    with ok_lock [OF assms r] GoLock show ?thesis
      by (auto simp: grows_def fanLock_def split: sum.splits)
  qed
qed

lemma grows_trans: "grows f g \<Longrightarrow> grows g h \<Longrightarrow> grows f h"
  by (auto simp: grows_def)

lemma grows_refl: "grows f f"
  by (simp add: grows_def)

lemma run_ok:
  "ok l n f w \<Longrightarrow> wp (fanRun label call n sts f) (\<lambda>g w'. ok l n g w' \<and> grows f g) w"
proof (induction sts arbitrary: f w)
  case Nil
  then show ?case by (simp add: grows_refl)
next
  case (Cons st sts)
  show ?case
    by simp (rule wp_conseq [OF step_ok [OF Cons.prems]],
      auto intro: wp_conseq [OF Cons.IH] grows_trans)
qed

lemma run_append:
  "wp (fanRun label call n (xs @ ys) f) Q
     = wp (fanRun label call n xs f) (\<lambda>g. wp (fanRun label call n ys g) Q)"
  by (induction xs arbitrary: f) (rule ext, simp)+

lemma run_wait:
  assumes "ok l n f w" "m \<le> n"
  shows "wp (fanRun label call n (waitAll m) f)
    (\<lambda>g w'. ok l n g w' \<and> (\<forall>i < m. fan_done g i)) w"
  using assms(2)
proof (induction m)
  case 0
  with assms show ?case by (simp add: waitAll_def)
next
  case (Suc m)
  have split: "waitAll (Suc m) = waitAll m @ [GoCall m, GoLock m]" by (simp add: waitAll_def)
  have step: "wp (fanRun label call n [GoCall m, GoLock m] g)
      (\<lambda>h w'. ok l n h w' \<and> (\<forall>i < Suc m. fan_done h i)) w'"
    if g: "ok l n g w'" "\<forall>i < m. fan_done g i" for g w'
    using Suc.prems g(2)
    apply (simp only: fanRun.simps wp_bind wp_return)
    apply (rule wp_conseq [OF step_ok [OF g(1)]])
    apply (simp only: fanRun.simps wp_bind wp_return)
    apply (rule wp_conseq [OF step_ok], blast)
    apply (auto simp: grows_def less_Suc_eq)
    done
  from Suc have "wp (fanRun label call n (waitAll m) f)
      (\<lambda>g w'. ok l n g w' \<and> (\<forall>i < m. fan_done g i)) w" by simp
  then show ?case unfolding split run_append by (rule wp_conseq) (blast intro: step)
qed

text \<open>Every schedule meets the contract.\<close>

lemma fanResult_outcome:
  assumes inv: "fanInv label n f ord eord" and all: "\<forall>i < n. fan_done f i"
  shows "fanOutcome label n (\<lambda>i. the (fan_pend f i)) ord (fanResult f)"
proof -
  let ?res = "\<lambda>i. the (fan_pend f i)"
  from inv all have pend: "\<forall>i < n. \<exists>r. fan_pend f i = Some r" by (auto simp: fanInv_def)
  with inv have ord: "distinct ord" "set ord = {..<n}" by (auto simp: fanInv_def)
  have ids: "fan_ids f = map (\<lambda>i. case ?res i of Inl _ \<Rightarrow> 0 | Inr v \<Rightarrow> v) [0..<n]"
  proof (rule nth_equalityI)
    from inv show "length (fan_ids f) = length (map (\<lambda>i. case ?res i of Inl _ \<Rightarrow> 0 | Inr v \<Rightarrow> v) [0..<n])"
      by (simp add: fanInv_def)
    fix i assume "i < length (fan_ids f)"
    with inv have "i < n" by (simp add: fanInv_def)
    with inv all pend show "fan_ids f ! i = map (\<lambda>i. case ?res i of Inl _ \<Rightarrow> 0 | Inr v \<Rightarrow> v) [0..<n] ! i"
      by (auto simp: fanInv_def split: sum.splits)
  qed
  from inv all pend have eord: "distinct eord" "set eord = {i. i < n \<and> isl (?res i)}"
    "fan_errs f = map (\<lambda>i. Wrap label (projl (?res i)) []) eord"
    by (auto simp: fanInv_def isl_def)
  show ?thesis
  proof (cases "eord = []")
    case True
    with eord(2) have ok: "\<forall>i < n. \<not> isl (?res i)" by auto
    then have "fan_ids f = map (\<lambda>i. projr (?res i)) [0..<n]"
      by (subst ids) (auto split: sum.splits)
    with True eord ord ok show ?thesis by (simp add: fanOutcome_def fanResult_def joinErrs_def)
  next
    case False
    with eord ord ids show ?thesis
      by (auto simp: fanOutcome_def fanResult_def joinErrs_def)
  qed
qed

lemma createAll_outcome:
  "wp (createAll label call n sched)
     (\<lambda>out w'. \<exists>res ord. log w' = log w @ map (\<lambda>i. ev i (res i)) ord
        \<and> fanOutcome label n res ord out) w"
proof -
  have "ok (log w) n (fanInit n) w"
    unfolding ok_def using fanInv_init by (intro exI [of _ "[]"]) auto
  then have "wp (fanRun label call n sched (fanInit n)) (\<lambda>f w'. ok (log w) n f w') w"
    by (rule wp_conseq [OF run_ok]) simp
  then have "wp (fanRun label call n (sched @ waitAll n) (fanInit n))
      (\<lambda>f w'. ok (log w) n f w' \<and> (\<forall>i < n. fan_done f i)) w"
    unfolding run_append by (rule wp_conseq) (auto intro: run_wait)
  then show ?thesis unfolding createAll_def wp_bind wp_return
  proof (rule wp_conseq)
    fix f w' assume a: "ok (log w) n f w' \<and> (\<forall>i < n. fan_done f i)"
    then obtain ord eord where "fanInv label n f ord eord"
      "log w' = log w @ map (\<lambda>i. ev i (the (fan_pend f i))) ord" by (auto simp: ok_def)
    with a show "\<exists>res ord. log w' = log w @ map (\<lambda>i. ev i (res i)) ord
        \<and> fanOutcome label n res ord (fanResult f)"
      by (intro exI [of _ "\<lambda>i. the (fan_pend f i)"] exI [of _ ord]) (auto intro: fanResult_outcome)
  qed
qed

end

section \<open>Every schedule is a sequence\<close>

text \<open>The calls one after another, in a given order, each result with its index.\<close>

fun seqCalls :: "(nat \<Rightarrow> ('w, gerr + int) state) \<Rightarrow> nat list \<Rightarrow> ('w, (nat \<times> (gerr + int)) list) state" where
  "seqCalls call [] = ret []"
| "seqCalls call (i # is) = do { r \<leftarrow> call i; rs \<leftarrow> seqCalls call is; ret ((i, r) # rs) }"

lemma seqCalls_append:
  "run_state (seqCalls call (is @ js)) w
     = (case run_state (seqCalls call is) w of (rs, w1) \<Rightarrow>
         (case run_state (seqCalls call js) w1 of (ss, w2) \<Rightarrow> (rs @ ss, w2)))"
  by (induction "is" arbitrary: w) (simp_all split: prod.splits)

text \<open>A call that notes its index and result beside the world.\<close>

definition noting :: "(nat \<Rightarrow> ('w, gerr + int) state) \<Rightarrow> nat \<Rightarrow> ('w \<times> (nat \<times> (gerr + int)) list, gerr + int) state" where
  "noting call i = State (\<lambda>(w, tr). case run_state (call i) w of (r, w') \<Rightarrow> (r, (w', tr @ [(i, r)])))"

interpretation noting: fan_out label "noting call" snd Pair for label call
  by unfold_locales (auto simp: noting_def split: prod.splits)

text \<open>The notes replay: calling their indices in order gives the same results and world.\<close>

definition replays :: "(nat \<Rightarrow> ('w, gerr + int) state) \<Rightarrow> 'w \<Rightarrow> 'w \<times> (nat \<times> (gerr + int)) list \<Rightarrow> bool" where
  "replays call w0 s \<longleftrightarrow> run_state (seqCalls call (map fst (snd s))) w0 = (snd s, fst s)"

lemma noting_replays:
  "replays call w0 s \<Longrightarrow> wp (noting call i) (\<lambda>_. replays call w0) s"
  by (cases s) (auto simp: replays_def noting_def wp_def seqCalls_append split: prod.splits)

lemma fanStep_replays:
  "replays call w0 s \<Longrightarrow> wp (fanStep label (noting call) n st f) (\<lambda>_. replays call w0) s"
  by (cases st) (auto simp: wp_cases split: option.splits intro: wp_conseq [OF noting_replays])

lemma fanRun_replays:
  "replays call w0 s \<Longrightarrow> wp (fanRun label (noting call) n sts f) (\<lambda>_. replays call w0) s"
proof (induction sts arbitrary: f s)
  case (Cons st sts)
  then show ?case
    by simp (rule wp_conseq [OF fanStep_replays], auto)
qed simp

lemma fanStep_noting:
  "run_state (fanStep label (noting call) n st f) (w, tr)
     = (case run_state (fanStep label call n st f) w of (g, w') \<Rightarrow>
         (g, (w', snd (snd (run_state (fanStep label (noting call) n st f) (w, tr))))))"
  by (cases st) (auto simp: noting_def split: prod.splits option.splits)

lemma fanRun_noting:
  "\<exists>tr'. run_state (fanRun label (noting call) n sts f) (w, tr)
     = (case run_state (fanRun label call n sts f) w of (g, w') \<Rightarrow> (g, (w', tr')))"
proof (induction sts arbitrary: f w tr)
  case (Cons st sts)
  obtain g w1 where run: "run_state (fanStep label call n st f) w = (g, w1)" by fastforce
  then obtain tr1 where "run_state (fanStep label (noting call) n st f) (w, tr) = (g, (w1, tr1))"
    using fanStep_noting [of label call n st f w tr] by auto
  with run Cons.IH [of g w1 tr1] show ?case by simp
qed simp

lemma createAll_sequential:
  "case run_state (createAll label call n sched) w of (out, w') \<Rightarrow>
     \<exists>ord res. run_state (seqCalls call ord) w = (map (\<lambda>i. (i, res i)) ord, w')
        \<and> fanOutcome label n res ord out"
proof -
  obtain out w' where run: "run_state (createAll label call n sched) w = (out, w')" by fastforce
  obtain tr where noted: "run_state (createAll label (noting call) n sched) (w, []) = (out, (w', tr))"
    using run fanRun_noting [of label call n "sched @ waitAll n" "fanInit n" w "[]"]
    by (auto simp: createAll_def split: prod.splits)
  from noting.createAll_outcome [of label call n sched "(w, [])"] noted
  obtain res ord where "tr = map (\<lambda>i. (i, res i)) ord" "fanOutcome label n res ord out"
    by (auto simp: wp_def)
  moreover have "replays call w (w', tr)"
  proof -
    have "replays call w (w, [])" by (simp add: replays_def)
    from fanRun_replays [OF this, of label n "sched @ waitAll n" "fanInit n"] noted show ?thesis
      by (auto simp: wp_def createAll_def split: prod.splits)
  qed
  ultimately show ?thesis
    unfolding run by (auto simp: replays_def comp_def)
qed

end
