(* ===== verification/GoCrypto.thy ===== *)
theory GoCrypto
  imports GoJson "HOL-Library.Word"
begin

text \<open>
  \<open>crypto/sha256\<close> and \<open>encoding/hex\<close>, as \<open>hashJSON\<close> uses them: SHA-256 of FIPS 180-4 on
  32-bit words, printed as 64 lower-case hexadecimal digits.
\<close>

unbundle bit_operations_syntax

type_synonym u32 = "32 word"

definition shaK :: "u32 list" where
  "shaK = [
    1116352408, 1899447441, 3049323471, 3921009573, 961987163, 1508970993, 2453635748, 2870763221,
    3624381080, 310598401, 607225278, 1426881987, 1925078388, 2162078206, 2614888103, 3248222580,
    3835390401, 4022224774, 264347078, 604807628, 770255983, 1249150122, 1555081692, 1996064986,
    2554220882, 2821834349, 2952996808, 3210313671, 3336571891, 3584528711, 113926993, 338241895,
    666307205, 773529912, 1294757372, 1396182291, 1695183700, 1986661051, 2177026350, 2456956037,
    2730485921, 2820302411, 3259730800, 3345764771, 3516065817, 3600352804, 4094571909, 275423344,
    430227734, 506948616, 659060556, 883997877, 958139571, 1322822218, 1537002063, 1747873779,
    1955562222, 2024104815, 2227730452, 2361852424, 2428436474, 2756734187, 3204031479, 3329325298]"

definition shaInit :: "u32 list" where
  "shaInit = [1779033703, 3144134277, 1013904242, 2773480762, 1359893119, 2600822924, 528734635, 1541459225]"

definition rotr :: "nat \<Rightarrow> u32 \<Rightarrow> u32" where
  "rotr n x = drop_bit n x OR push_bit (32 - n) x"

definition be32 :: "nat list \<Rightarrow> u32" where
  "be32 bs = foldl (\<lambda>v b. push_bit 8 v + word_of_nat b) 0 bs"

definition wordBytes :: "u32 \<Rightarrow> nat list" where
  "wordBytes w = map (\<lambda>n. unat (drop_bit n w AND 255)) [24, 16, 8, 0]"

text \<open>Padding to a whole number of 64-byte blocks: a one bit, zeros, the length in bits.\<close>

definition shaPad :: "nat list \<Rightarrow> nat list" where
  "shaPad m = m @ [128] @ replicate ((119 - length m mod 64) mod 64) 0 @ wordBytes (word_of_nat (length m) div 536870912)
     @ wordBytes (push_bit 3 (word_of_nat (length m)))"

fun chunks :: "nat \<Rightarrow> nat \<Rightarrow> 'a list \<Rightarrow> 'a list list" where
  "chunks 0 k xs = []"
| "chunks (Suc n) k xs = take k xs # chunks n k (drop k xs)"

text \<open>The message schedule, kept with its newest word first.\<close>

definition shaNext :: "u32 list \<Rightarrow> u32" where
  "shaNext ws =
     (let w15 = ws ! 14; w2 = ws ! 1;
          s0 = rotr 7 w15 XOR rotr 18 w15 XOR drop_bit 3 w15;
          s1 = rotr 17 w2 XOR rotr 19 w2 XOR drop_bit 10 w2
      in ws ! 15 + s0 + ws ! 6 + s1)"

fun shaExtend :: "nat \<Rightarrow> u32 list \<Rightarrow> u32 list" where
  "shaExtend 0 ws = ws"
| "shaExtend (Suc n) ws = shaExtend n (shaNext ws # ws)"

definition shaRound :: "u32 list \<Rightarrow> u32 \<times> u32 \<Rightarrow> u32 list" where
  "shaRound st kw =
     (case st of
        [a, b, c, d, e, f, g, h] \<Rightarrow>
          (let s1 = rotr 6 e XOR rotr 11 e XOR rotr 25 e;
               ch = (e AND f) XOR (NOT e AND g);
               t1 = h + s1 + ch + fst kw + snd kw;
               s0 = rotr 2 a XOR rotr 13 a XOR rotr 22 a;
               mj = (a AND b) XOR (a AND c) XOR (b AND c);
               t2 = s0 + mj
           in [t1 + t2, a, b, c, d + t1, e, f, g])
      | _ \<Rightarrow> st)"

definition shaBlock :: "u32 list \<Rightarrow> nat list \<Rightarrow> u32 list" where
  "shaBlock st block =
     (let ws = rev (shaExtend 48 (rev (map be32 (chunks 16 4 block))))
      in map2 (+) st (foldl shaRound st (zip shaK ws)))"

definition sha256 :: "nat list \<Rightarrow> nat list" where
  "sha256 m =
     (let p = shaPad m
      in concat (map wordBytes (foldl shaBlock shaInit (chunks (length p div 64) 64 p))))"

definition hexString :: "nat list \<Rightarrow> string" where
  "hexString bs = concat (map (\<lambda>b. [hexLower (b div 16), hexLower (b mod 16)]) bs)"

definition sha256Hex :: "string \<Rightarrow> string" where
  "sha256Hex s = hexString (sha256 (map of_char s))"

text \<open>A digest has 32 bytes, so a stored hash is never the empty string.\<close>

lemma shaRound_length: "length (shaRound st kw) = length st"
  by (auto simp: shaRound_def Let_def split: list.splits)

lemma shaRounds_length: "length (foldl shaRound st kws) = length st"
  by (induction kws arbitrary: st) (simp_all add: shaRound_length)

lemma shaBlock_length: "length (shaBlock st block) = length st"
  by (simp add: shaBlock_def Let_def shaRounds_length)

lemma shaBlocks_length: "length (foldl shaBlock st bs) = length st"
  by (induction bs arbitrary: st) (simp_all add: shaBlock_length)

lemma concat_length_const: "\<forall>x \<in> set xs. length (f x) = k \<Longrightarrow> length (concat (map f xs)) = k * length xs"
  by (induction xs) auto

lemma wordBytes_length [simp]: "length (wordBytes w) = 4"
  by (simp add: wordBytes_def)

lemma sha256_length [simp]: "length (sha256 m) = 32"
  by (simp add: sha256_def Let_def concat_length_const [where k = 4] shaBlocks_length shaInit_def)

lemma sha256Hex_length [simp]: "length (sha256Hex s) = 64"
  by (simp add: sha256Hex_def hexString_def concat_length_const [where k = 2])

lemma sha256Hex_nonempty [simp]: "sha256Hex s \<noteq> []"
  using sha256Hex_length [of s] by (metis length_0_conv zero_neq_numeral)

end
