(* ===== verification/PublicResource.thy ===== *)
theory PublicResource
  imports Fanout GoCrypto
begin

text \<open>
  The PublicResource controller, \<open>internal/controller/publicresource/controller.go\<close>.  The
  Kubernetes client \<open>k\<close>, the Pangolin client \<open>a\<close> and the goroutine schedules are arguments.
  The Go code changes the object in memory through a pointer; here each function takes the
  object and returns it changed, with the function's Go results before it.
\<close>

definition PublicResourceFinalizer :: string where
  "PublicResourceFinalizer = ''pangolin.home-operations.com/publicresource-finalizer''"

definition protocolHTTP :: string where "protocolHTTP = ''http''"
definition protocolTCP :: string where "protocolTCP = ''tcp''"

text \<open>The schedules of the two fan-outs of a reconciliation.\<close>

record schedules =
  sch_Targets :: "goStep list"
  sch_Rules :: "goStep list"

section \<open>Status patches\<close>

text \<open>
  The mutation is applied in memory first; when the server refuses the patch the object in
  memory keeps it, otherwise the server's object replaces the one in memory.
\<close>

definition patchStatus ::
  "'w kube \<Rightarrow> PublicResource \<Rightarrow> (PublicResourceStatus \<Rightarrow> PublicResourceStatus)
     \<Rightarrow> ('w, gerr option \<times> PublicResource) state" where
  "patchStatus k res mutate =
     (let res' = res\<lparr>pub_Status := mutate (pub_Status res)\<rparr> in
      do {
        r \<leftarrow> oc_StatusPatch (kPubs k) res res';
        ret (case r of Inl e \<Rightarrow> (Some (ErrKube e), res') | Inr obj \<Rightarrow> (None, obj))
      })"

definition setReady ::
  "'w kube \<Rightarrow> PublicResource \<Rightarrow> condStatus \<Rightarrow> string \<Rightarrow> string \<Rightarrow> PublicResourceStatus \<Rightarrow> PublicResourceStatus" where
  "setReady k res status reason msg s =
     s\<lparr>pst_Conditions := SetCondition k status reason msg (m_Generation (pub_Meta res)) (pst_Conditions s)\<rparr>"

section \<open>Identifiers, requests, hashes\<close>

definition hashJSON :: "json \<Rightarrow> string" where
  "hashJSON v = sha256Hex (jsonText v)"

definition targetsHashOf :: "PublicResourceSpec \<Rightarrow> string" where
  "targetsHashOf spec = hashJSON (jsonSlice jsonTarget (ps_Targets spec))"

definition rulesHashOf :: "PublicResourceSpec \<Rightarrow> string" where
  "rulesHashOf spec = hashJSON (jsonSlice jsonRule (ps_Rules spec))"

fun findResource :: "ResourceItem list \<Rightarrow> PublicResourceSpec \<Rightarrow> ResourceItem option" where
  "findResource [] spec = None"
| "findResource (item # items) spec =
     (if ri_Name item \<noteq> ps_Name spec then findResource items spec
      else if ps_Protocol spec = protocolHTTP \<and> ps_FullDomain spec \<noteq> [] then
        (if ri_FullDomain item = ps_FullDomain spec then Some item else findResource items spec)
      else Some item)"

definition emptyUpdate :: UpdateResourceRequest where
  "emptyUpdate =
     \<lparr>urq_Name = [], urq_Subdomain = [], urq_Ssl = None, urq_Sso = None, urq_BlockAccess = None,
      urq_EmailWhitelistEnabled = None, urq_ApplyRules = None, urq_Enabled = None,
      urq_StickySession = None, urq_TlsServerName = None, urq_SetHostHeader = None,
      urq_SkipToIdpId = None\<rparr>"

definition buildHTTPUpdateRequest :: "PublicResourceSpec \<Rightarrow> UpdateResourceRequest" where
  "buildHTTPUpdateRequest spec =
     (let req = emptyUpdate
            \<lparr>urq_Ssl := Some (ps_Ssl spec), urq_Sso := Some False, urq_BlockAccess := Some False,
             urq_Enabled := Some (ps_Enabled spec), urq_ApplyRules := Some (length (elems (ps_Rules spec)) > 0)\<rparr>;
          req = (if ps_TlsServerName spec \<noteq> [] then req\<lparr>urq_TlsServerName := Some (ps_TlsServerName spec)\<rparr> else req);
          req = (if ps_HostHeader spec \<noteq> [] then req\<lparr>urq_SetHostHeader := Some (ps_HostHeader spec)\<rparr> else req);
          req = (case ps_Auth spec of
                   None \<Rightarrow> req
                 | Some auth \<Rightarrow>
                     if pa_SsoEnabled auth then
                       (let req = req\<lparr>urq_Sso := Some True\<rparr> in
                        if pa_AutoLoginIdp auth > 0
                        then req\<lparr>urq_SkipToIdpId := Some (pa_AutoLoginIdp auth)\<rparr> else req)
                     else req);
          req = (case ps_Auth spec of
                   None \<Rightarrow> req
                 | Some auth \<Rightarrow>
                     if length (pa_WhitelistUsers auth) > 0
                     then req\<lparr>urq_EmailWhitelistEnabled := Some True\<rparr> else req)
      in req)"

section \<open>Targets and rules\<close>

definition targetRequest :: "int \<Rightarrow> PublicTargetSpec \<Rightarrow> CreateTargetRequest" where
  "targetRequest siteID t =
     \<lparr>ctq_SiteID = siteID, ctq_IP = pt_Hostname t, ctq_Port = pt_Port t, ctq_Method = pt_Method t,
      ctq_Enabled = pt_Enabled t, ctq_Path = pt_Path t, ctq_PathMatchType = pt_PathMatchType t,
      ctq_RewritePath = pt_RewritePath t, ctq_RewritePathType = pt_RewritePathType t,
      ctq_Priority = pt_Priority t\<rparr>"

definition createTargets ::
  "'w API \<Rightarrow> goStep list \<Rightarrow> int \<Rightarrow> int \<Rightarrow> PublicTargetSpec list \<Rightarrow> ('w, int list \<times> gerr option) state" where
  "createTargets a sched resourceID siteID targets =
     createAll ''CreateTarget: ''
       (\<lambda>i. CreateTarget a resourceID (targetRequest siteID (targets ! i))) (length targets) sched"

definition rulePriority :: "nat \<Rightarrow> PublicRuleSpec \<Rightarrow> int" where
  "rulePriority i rule = (if pr_Priority rule = 0 then (int i + 1) * 10 else pr_Priority rule)"

definition ruleRequest :: "nat \<Rightarrow> PublicRuleSpec \<Rightarrow> CreateRuleRequest" where
  "ruleRequest i rule =
     \<lparr>cuq_Action = toUpper (pr_Action rule), cuq_Match = toUpper (pr_Match rule),
      cuq_Value = pr_Value rule, cuq_Priority = rulePriority i rule, cuq_Enabled = None\<rparr>"

definition createRules ::
  "'w API \<Rightarrow> goStep list \<Rightarrow> int \<Rightarrow> PublicRuleSpec list \<Rightarrow> ('w, int list \<times> gerr option) state" where
  "createRules a sched resourceID rules =
     createAll ''CreateRule: ''
       (\<lambda>i. CreateRule a resourceID (ruleRequest i (rules ! i))) (length rules) sched"

text \<open>Deleting the old ones: a failure is logged and the loop goes on.\<close>

fun deleteTargets :: "'w API \<Rightarrow> int list \<Rightarrow> ('w, unit) state" where
  "deleteTargets a [] = ret ()"
| "deleteTargets a (i # ids) = do { _ \<leftarrow> DeleteTarget a i; deleteTargets a ids }"

fun deleteRules :: "'w API \<Rightarrow> int \<Rightarrow> int list \<Rightarrow> ('w, unit) state" where
  "deleteRules a resourceID [] = ret ()"
| "deleteRules a resourceID (i # ids) = do { _ \<leftarrow> DeleteRule a resourceID i; deleteRules a resourceID ids }"

section \<open>Creating the resource\<close>

definition createRequestFor :: "'w API \<Rightarrow> PublicResourceSpec \<Rightarrow> ('w, gerr + CreateResourceRequest) state" where
  "createRequestFor a spec =
     (let isHTTP = (ps_Protocol spec = protocolHTTP);
          createReq = \<lparr>crq_Name = ps_Name spec, crq_Http = isHTTP, crq_Protocol = ps_Protocol spec,
             crq_ProxyPort = ps_ProxyPort spec, crq_DomainId = [], crq_Subdomain = []\<rparr>
      in if isHTTP then
           (let createReq = createReq\<lparr>crq_Protocol := protocolTCP\<rparr> in
            if ps_FullDomain spec \<noteq> [] then
              do {
                d \<leftarrow> ListDomains a;
                ret (case d of
                       Inl e \<Rightarrow> Inl (Wrap ''ListDomains: '' e [])
                     | Inr domains \<Rightarrow>
                         (let (domainID, subdomain, ok) = ResolveDomain domains (ps_FullDomain spec) in
                          if \<not> ok then Inl (ErrMsg (''no Pangolin domain matches '' @ quote (ps_FullDomain spec)))
                          else Inr (createReq\<lparr>crq_DomainId := domainID, crq_Subdomain := subdomain\<rparr>)))
              }
            else ret (Inr createReq))
         else ret (Inr createReq))"

text \<open>The settings, targets and rules of a resource just created.\<close>

definition finishCreate ::
  "'w kube \<Rightarrow> 'w API \<Rightarrow> schedules \<Rightarrow> bool \<Rightarrow> PublicResource \<Rightarrow> int \<Rightarrow> int \<Rightarrow> ('w, gerr option \<times> PublicResource) state" where
  "finishCreate k a sch isHTTP res resourceID siteID =
     (let spec = pub_Spec res;
          updateReq = emptyUpdate\<lparr>urq_Name := ps_Name spec, urq_Enabled := Some (ps_Enabled spec)\<rparr>;
          updateReq = (if isHTTP then buildHTTPUpdateRequest spec else updateReq)
      in do {
        u \<leftarrow> UpdateResource a resourceID updateReq;
        case u of
          Some e \<Rightarrow> ret (Some (Wrap ''UpdateResource (post-create settings): '' e []), res)
        | None \<Rightarrow> do {
            (targetIDs, err) \<leftarrow> createTargets a (sch_Targets sch) resourceID siteID (elems (ps_Targets spec));
            case err of
              Some e \<Rightarrow>
                if targetIDs \<noteq> [] then do {
                  (_, res') \<leftarrow> patchStatus k res (\<lambda>s. s\<lparr>pst_TargetIDs := targetIDs\<rparr>);
                  ret (Some e, res')
                } else ret (Some e, res)
            | None \<Rightarrow> do {
                (ruleIDs, err2) \<leftarrow> createRules a (sch_Rules sch) resourceID (elems (ps_Rules spec));
                case err2 of
                  Some e \<Rightarrow> do {
                    (_, res') \<leftarrow> patchStatus k res (\<lambda>s. s\<lparr>pst_TargetIDs := targetIDs, pst_RuleIDs := ruleIDs\<rparr>);
                    ret (Some e, res')
                  }
                | None \<Rightarrow>
                    patchStatus k res (\<lambda>s. s\<lparr>pst_TargetIDs := targetIDs, pst_TargetsHash := targetsHashOf spec,
                      pst_RuleIDs := ruleIDs, pst_RulesHash := rulesHashOf spec\<rparr>)
              }
          }
      })"

definition createResource ::
  "'w kube \<Rightarrow> 'w API \<Rightarrow> schedules \<Rightarrow> PublicResource \<Rightarrow> int \<Rightarrow> ('w, gerr option \<times> PublicResource) state" where
  "createResource k a sch res siteID =
     do {
       (err, res1) \<leftarrow> patchStatus k res (\<lambda>s. s\<lparr>pst_Phase := PhaseCreating\<rparr>);
       case err of
         Some e \<Rightarrow> ret (Some e, res1)
       | None \<Rightarrow> do {
           let isHTTP = (ps_Protocol (pub_Spec res1) = protocolHTTP);
           rq \<leftarrow> createRequestFor a (pub_Spec res1);
           case rq of
             Inl e \<Rightarrow> ret (Some e, res1)
           | Inr createReq \<Rightarrow> do {
               cr \<leftarrow> CreateResource a createReq;
               case cr of
                 Inl e \<Rightarrow> ret (Some (Wrap ''CreateResource: '' e []), res1)
               | Inr created \<Rightarrow> do {
                   (err2, res2) \<leftarrow> patchStatus k res1 (\<lambda>s. s\<lparr>pst_ResourceID := crr_ResourceID created,
                      pst_NiceID := crr_NiceID created, pst_FullDomain := crr_FullDomain created,
                      pst_Phase := PhaseCreating\<rparr>);
                   case err2 of
                     Some e \<Rightarrow> do { _ \<leftarrow> DeleteResource a (crr_ResourceID created); ret (Some e, res2) }
                   | None \<Rightarrow> do {
                       g \<leftarrow> oc_Get (kPubs k) (objectKey (pub_Meta res2));
                       case g of
                         Inl e \<Rightarrow> ret (Some (ErrKube e), res2)
                       | Inr res3 \<Rightarrow> finishCreate k a sch isHTTP res3 (crr_ResourceID created) siteID
                     }
                 }
             }
         }
     }"

section \<open>Adopting or creating\<close>

definition adoptStatus :: "ResourceItem \<Rightarrow> PublicResourceStatus \<Rightarrow> PublicResourceStatus" where
  "adoptStatus m s =
     s\<lparr>pst_ResourceID := ri_ResourceID m, pst_NiceID := ri_NiceID m, pst_FullDomain := ri_FullDomain m,
       pst_Phase := PhaseCreating, pst_TargetsHash := [], pst_RulesHash := [], pst_TargetIDs := [],
       pst_RuleIDs := []\<rparr>"

definition ensureExists ::
  "'w kube \<Rightarrow> 'w API \<Rightarrow> schedules \<Rightarrow> PublicResource \<Rightarrow> int \<Rightarrow> ('w, bool \<times> gerr option \<times> PublicResource) state" where
  "ensureExists k a sch res siteID =
     do {
       l \<leftarrow> ListResources a (ps_Name (pub_Spec res));
       case l of
         Inl e \<Rightarrow> ret (False, Some (Wrap ''ListResources: '' e []), res)
       | Inr items \<Rightarrow>
           (let match = findResource items (pub_Spec res); rid = pst_ResourceID (pub_Status res) in
            if rid \<noteq> 0 \<and> list_ex (\<lambda>item. ri_ResourceID item = rid) items then ret (False, None, res)
            else (case match of
                    Some m \<Rightarrow> do { (err, res') \<leftarrow> patchStatus k res (adoptStatus m); ret (True, err, res') }
                  | None \<Rightarrow> do { (err, res') \<leftarrow> createResource k a sch res siteID; ret (False, err, res') }))
     }"

section \<open>Updating\<close>

definition updateTargets ::
  "'w kube \<Rightarrow> 'w API \<Rightarrow> goStep list \<Rightarrow> PublicResource \<Rightarrow> int \<Rightarrow> ('w, gerr option \<times> PublicResource) state" where
  "updateTargets k a sched res siteID =
     (let targetsHash = targetsHashOf (pub_Spec res) in
      if targetsHash \<noteq> pst_TargetsHash (pub_Status res) then
        (let oldTargetIDs = pst_TargetIDs (pub_Status res) in
         do {
           (targetIDs, err) \<leftarrow> createTargets a sched (pst_ResourceID (pub_Status res)) siteID
              (elems (ps_Targets (pub_Spec res)));
           case err of
             Some e \<Rightarrow>
               if targetIDs \<noteq> [] then do {
                 (_, res') \<leftarrow> patchStatus k res (\<lambda>s. s\<lparr>pst_TargetIDs := pst_TargetIDs s @ targetIDs\<rparr>);
                 ret (Some e, res')
               } else ret (Some e, res)
           | None \<Rightarrow> do {
               (err2, res') \<leftarrow> patchStatus k res (\<lambda>s. s\<lparr>pst_TargetIDs := targetIDs, pst_TargetsHash := targetsHash\<rparr>);
               case err2 of
                 Some e \<Rightarrow> ret (Some e, res')
               | None \<Rightarrow> do { _ \<leftarrow> deleteTargets a oldTargetIDs; ret (None, res') }
             }
         })
      else ret (None, res))"

definition updateRules ::
  "'w kube \<Rightarrow> 'w API \<Rightarrow> goStep list \<Rightarrow> PublicResource \<Rightarrow> ('w, gerr option \<times> PublicResource) state" where
  "updateRules k a sched res =
     (let rulesHash = rulesHashOf (pub_Spec res) in
      if rulesHash \<noteq> pst_RulesHash (pub_Status res) then
        (let oldRuleIDs = pst_RuleIDs (pub_Status res) in
         do {
           (ruleIDs, err) \<leftarrow> createRules a sched (pst_ResourceID (pub_Status res)) (elems (ps_Rules (pub_Spec res)));
           case err of
             Some e \<Rightarrow>
               if ruleIDs \<noteq> [] then do {
                 (_, res') \<leftarrow> patchStatus k res (\<lambda>s. s\<lparr>pst_RuleIDs := pst_RuleIDs s @ ruleIDs\<rparr>);
                 ret (Some e, res')
               } else ret (Some e, res)
           | None \<Rightarrow> do {
               (err2, res') \<leftarrow> patchStatus k res (\<lambda>s. s\<lparr>pst_RuleIDs := ruleIDs, pst_RulesHash := rulesHash\<rparr>);
               case err2 of
                 Some e \<Rightarrow> ret (Some e, res')
               | None \<Rightarrow> do {
                   _ \<leftarrow> deleteRules a (pst_ResourceID (pub_Status res')) oldRuleIDs;
                   ret (None, res')
                 }
             }
         })
      else ret (None, res))"

definition updateRequestFor :: "PublicResourceSpec \<Rightarrow> UpdateResourceRequest" where
  "updateRequestFor spec =
     (if ps_Protocol spec = protocolHTTP
      then (buildHTTPUpdateRequest spec)\<lparr>urq_Name := ps_Name spec\<rparr>
      else emptyUpdate\<lparr>urq_Name := ps_Name spec, urq_Enabled := Some (ps_Enabled spec)\<rparr>)"

definition updateResource ::
  "'w kube \<Rightarrow> 'w API \<Rightarrow> schedules \<Rightarrow> PublicResource \<Rightarrow> int \<Rightarrow> ('w, gerr option \<times> PublicResource) state" where
  "updateResource k a sch res siteID =
     do {
       u \<leftarrow> UpdateResource a (pst_ResourceID (pub_Status res)) (updateRequestFor (pub_Spec res));
       case u of
         Some e \<Rightarrow> ret (Some (Wrap ''UpdateResource: '' e []), res)
       | None \<Rightarrow> do {
           (err, res1) \<leftarrow> updateTargets k a (sch_Targets sch) res siteID;
           case err of
             Some e \<Rightarrow> ret (Some e, res1)
           | None \<Rightarrow> updateRules k a (sch_Rules sch) res1
         }
     }"

section \<open>Reconciling\<close>

definition conflictMessage :: string where
  "conflictMessage = ''a resource with that domain already exists in Pangolin; delete it from Pangolin or change spec.fullDomain to resolve''"

text \<open>What \<open>reconcile\<close> does with an error of \<open>ensureExists\<close>.\<close>

definition ensureFailed :: "'w kube \<Rightarrow> PublicResource \<Rightarrow> gerr \<Rightarrow> ('w, reconciled) state" where
  "ensureFailed k res e =
     (if IsConflict e then do {
        _ \<leftarrow> patchStatus k res (setReady k res ConditionFalse ReasonPending conflictMessage);
        ret (\<lparr>RequeueAfter = RequeuePermanentError\<rparr>, None)
      } else if IsBadRequest e then do {
        _ \<leftarrow> patchStatus k res (\<lambda>s. setReady k res ConditionFalse ReasonPermanentError (errText e)
               (s\<lparr>pst_Phase := PhaseError\<rparr>));
        ret (noResult, Some (Terminal e))
      } else do {
        _ \<leftarrow> patchStatus k res (setReady k res ConditionFalse ReasonError (errText e));
        ret (noResult, Some e)
      })"

text \<open>What it does with an error of \<open>updateResource\<close>.\<close>

definition resetStatus :: "PublicResourceStatus \<Rightarrow> PublicResourceStatus" where
  "resetStatus s =
     s\<lparr>pst_ResourceID := 0, pst_NiceID := [], pst_FullDomain := [], pst_TargetIDs := [], pst_RuleIDs := []\<rparr>"

definition updateFailed :: "'w kube \<Rightarrow> PublicResource \<Rightarrow> gerr \<Rightarrow> ('w, reconciled) state" where
  "updateFailed k res e =
     (if IsNotFound e then do {
        _ \<leftarrow> patchStatus k res resetStatus;
        ret (\<lparr>RequeueAfter = Second\<rparr>, None)
      } else do {
        _ \<leftarrow> patchStatus k res (setReady k res ConditionFalse ReasonError (errText e));
        ret (noResult, Some e)
      })"

definition readyStatus :: "'w kube \<Rightarrow> PublicResource \<Rightarrow> PublicResourceStatus \<Rightarrow> PublicResourceStatus" where
  "readyStatus k res s =
     setReady k res ConditionTrue ReasonReconciled ''resource reconciled successfully''
       (s\<lparr>pst_Phase := PhaseReady, pst_ObservedGeneration := m_Generation (pub_Meta res)\<rparr>)"

definition markReady :: "'w kube \<Rightarrow> PublicResource \<Rightarrow> ('w, reconciled) state" where
  "markReady k res =
     do {
       (err, _) \<leftarrow> patchStatus k res (readyStatus k res);
       ret (case err of Some e \<Rightarrow> (noResult, Some e) | None \<Rightarrow> (\<lparr>RequeueAfter = ResyncInterval\<rparr>, None))
     }"

definition reconcileOnSite ::
  "'w kube \<Rightarrow> 'w API \<Rightarrow> schedules \<Rightarrow> PublicResource \<Rightarrow> int \<Rightarrow> ('w, reconciled) state" where
  "reconcileOnSite k a sch res siteID =
     do {
       let hadID = (pst_ResourceID (pub_Status res) \<noteq> 0);
       (adopted, err, res1) \<leftarrow> ensureExists k a sch res siteID;
       case err of
         Some e \<Rightarrow> ensureFailed k res1 e
       | None \<Rightarrow> do {
           g \<leftarrow> (if hadID \<and> \<not> adopted then oc_Get (kPubs k) (objectKey (pub_Meta res1)) else ret (Inr res1));
           case g of
             Inl e \<Rightarrow> ret (noResult, Some (ErrKube e))
           | Inr res2 \<Rightarrow> do {
               let needsUpdate = (adopted \<or> (hadID \<and> pst_ResourceID (pub_Status res2) \<noteq> 0
                 \<and> m_Generation (pub_Meta res2) \<noteq> pst_ObservedGeneration (pub_Status res2)));
               (err2, res3) \<leftarrow> (if needsUpdate then updateResource k a sch res2 siteID else ret (None, res2));
               case err2 of
                 Some e \<Rightarrow> updateFailed k res3 e
               | None \<Rightarrow> markReady k res3
             }
         }
     }"

definition reconcile :: "'w kube \<Rightarrow> 'w API \<Rightarrow> schedules \<Rightarrow> PublicResource \<Rightarrow> ('w, reconciled) state" where
  "reconcile k a sch res =
     do {
       s \<leftarrow> Site k (ps_SiteRef (pub_Spec res));
       case s of
         Inl e \<Rightarrow> do {
           _ \<leftarrow> patchStatus k res (setReady k res ConditionFalse ReasonPending (errText e));
           ret (if isSiteNotFound e then (\<lparr>RequeueAfter = RequeueDependencyWait\<rparr>, None) else (noResult, Some e))
         }
       | Inr site \<Rightarrow>
           if nst_Phase (site_Status site) \<noteq> PhaseReady \<or> nst_SiteID (site_Status site) = 0 then do {
             _ \<leftarrow> patchStatus k res (setReady k res ConditionFalse ReasonPending ''waiting for NewtSite to become ready'');
             ret (\<lparr>RequeueAfter = RequeueDependencyWait\<rparr>, None)
           } else reconcileOnSite k a sch res (nst_SiteID (site_Status site))
     }"

section \<open>Deleting\<close>

definition withFinalizers :: "(string list \<Rightarrow> string list) \<Rightarrow> PublicResource \<Rightarrow> PublicResource" where
  "withFinalizers f res = res\<lparr>pub_Meta := (pub_Meta res)\<lparr>m_Finalizers := f (m_Finalizers (pub_Meta res))\<rparr>\<rparr>"

definition cleanup :: "'w kube \<Rightarrow> 'w API \<Rightarrow> PublicResource \<Rightarrow> ('w, gerr option) state" where
  "cleanup k a res =
     (let rid = pst_ResourceID (pub_Status res) in
      do {
        d \<leftarrow> (if rid \<noteq> 0 then DeleteResource a rid else ret None);
        case d of
          Some e \<Rightarrow>
            if \<not> IsNotFound e then ret (Some (Wrap (''delete Pangolin resource '' @ itoa rid @ '': '') e []))
            else do {
              u \<leftarrow> oc_Update (kPubs k) (withFinalizers (kRemoveFinalizer k PublicResourceFinalizer) res);
              ret (case u of Inl e \<Rightarrow> Some (Wrap ''remove finalizer: '' (ErrKube e) []) | Inr _ \<Rightarrow> None)
            }
        | None \<Rightarrow> do {
            u \<leftarrow> oc_Update (kPubs k) (withFinalizers (kRemoveFinalizer k PublicResourceFinalizer) res);
            ret (case u of Inl e \<Rightarrow> Some (Wrap ''remove finalizer: '' (ErrKube e) []) | Inr _ \<Rightarrow> None)
          }
      })"

definition Reconcile :: "'w kube \<Rightarrow> 'w API \<Rightarrow> schedules \<Rightarrow> key \<Rightarrow> ('w, reconciled) state" where
  "Reconcile k a sch req =
     do {
       g \<leftarrow> oc_Get (kPubs k) req;
       case g of
         Inl e \<Rightarrow> ret (noResult, ignoreNotFound (ErrKube e))
       | Inr res \<Rightarrow>
           if m_Deleting (pub_Meta res) then do { err \<leftarrow> cleanup k a res; ret (noResult, err) }
           else do {
             u \<leftarrow> (if kContainsFinalizer k PublicResourceFinalizer (m_Finalizers (pub_Meta res)) then ret (Inr res)
                   else oc_Update (kPubs k) (withFinalizers (kAddFinalizer k PublicResourceFinalizer) res));
             case u of
               Inl e \<Rightarrow> ret (noResult, Some (ErrKube e))
             | Inr res' \<Rightarrow> reconcile k a sch res'
           }
     }"

end
