(* ===== verification/Interfaces.thy ===== *)
theory Interfaces
  imports Observe
begin

text \<open>
  The contracts several components share: looking up the first match of a list, the life
  cycle of an object under a finalizer, and the book-keeping of what was created.
\<close>

section \<open>First match\<close>

locale first_match =
  fixes search :: "'a list \<Rightarrow> 'a option"
    and matches :: "'a \<Rightarrow> bool"
  assumes search_Nil: "search [] = None"
    and search_Cons: "search (x # xs) = (if matches x then Some x else search xs)"
begin

lemma search_find: "search xs = List.find matches xs"
  by (induction xs) (simp_all add: search_Nil search_Cons)

lemma search_None: "search xs = None \<longleftrightarrow> (\<forall>x \<in> set xs. \<not> matches x)"
  by (auto simp: search_find find_None_iff)

lemma search_Some:
  "search xs = Some x \<longleftrightarrow> (\<exists>us vs. xs = us @ x # vs \<and> matches x \<and> list_all (\<lambda>u. \<not> matches u) us)"
proof
  assume "search xs = Some x"
  then show "\<exists>us vs. xs = us @ x # vs \<and> matches x \<and> list_all (\<lambda>u. \<not> matches u) us"
    unfolding search_find list_all_iff by (rule find_Some_first)
next
  assume "\<exists>us vs. xs = us @ x # vs \<and> matches x \<and> list_all (\<lambda>u. \<not> matches u) us"
  then obtain us vs where "xs = us @ x # vs" "matches x" "list_all (\<lambda>u. \<not> matches u) us" by blast
  then show "search xs = Some x"
    by (induction us arbitrary: xs) (simp_all add: search_Cons)
qed

end

section \<open>Looking up the site\<close>

lemma emits_Site:
  assumes "\<And>e x. \<not> isSiteNotFound e \<Longrightarrow> Q (Inl e) [EListSitesByName name (Inl x)]"
    and "\<And>e. isSiteNotFound e \<Longrightarrow> Q (Inl e) [EListSitesByName name (Inr [])]"
    and "\<And>s ss. Q (Inr s) [EListSitesByName name (Inr (s # ss))]"
  shows "emits (Site (record_kube k) name) Q"
  unfolding Site_def record_kube_simps
proof (rule emits_bind_op)
  fix r :: "kerr + NewtSite list"
  have e: "\<not> isSiteNotFound (Wrap p (ErrKube x) q)" "isSiteNotFound (Wrap p ErrSiteNotFound q)" for p q x
    by simp_all
  show "emits (ret (case r of Inl x \<Rightarrow> Inl (Wrap (''list NewtSites by name '' @ quote name @ '': '') (ErrKube x) [])
          | Inr items \<Rightarrow> (case items of [] \<Rightarrow> Inl (Wrap [] ErrSiteNotFound ('': '' @ quote name)) | s # _ \<Rightarrow> Inr s)))
      (\<lambda>r' new. Q r' (EListSitesByName name r # new))"
    unfolding emits_ret using assms e by (auto split: sum.split list.split simp del: append.simps)
qed

lemma emits_bind_Site:
  assumes "\<And>e x. \<not> isSiteNotFound e \<Longrightarrow>
      emits (f (Inl e)) (\<lambda>r new. Q r (EListSitesByName name (Inl x) # new))"
    and "\<And>e. isSiteNotFound e \<Longrightarrow> emits (f (Inl e)) (\<lambda>r new. Q r (EListSitesByName name (Inr []) # new))"
    and "\<And>s ss. emits (f (Inr s)) (\<lambda>r new. Q r (EListSitesByName name (Inr (s # ss)) # new))"
  shows "emits (Site (record_kube k) name \<bind> f) Q"
  by (rule emits_bind [OF emits_Site [where Q = "\<lambda>s new.
        (\<exists>e x. s = Inl e \<and> \<not> isSiteNotFound e \<and> new = [EListSitesByName name (Inl x)])
      \<or> (\<exists>e. s = Inl e \<and> isSiteNotFound e \<and> new = [EListSitesByName name (Inr [])])
      \<or> (\<exists>x ss. s = Inr x \<and> new = [EListSitesByName name (Inr (x # ss))])"]])
    (auto simp: assms)

section \<open>How a reconciliation waits and ends\<close>

definition usableSite :: "NewtSite \<Rightarrow> bool" where
  "usableSite s \<longleftrightarrow> nst_Phase (site_Status s) = PhaseReady \<and> nst_SiteID (site_Status s) \<noteq> 0"

text \<open>
  A log in which the API is called only after the site was found and usable; otherwise the
  reconciliation comes back after the wait for a dependency, or with the error of the lookup.
\<close>

definition waitsForSite :: "reconciled \<Rightarrow> event list \<Rightarrow> bool" where
  "waitsForSite out new =
     (case new of
        EListSitesByName _ (Inr (s # _)) # tr \<Rightarrow>
          usableSite s \<or> (list_all (\<lambda>e. \<not> isApi e) tr \<and> out = (\<lparr>RequeueAfter = RequeueDependencyWait\<rparr>, None))
      | EListSitesByName _ (Inr []) # tr \<Rightarrow>
          list_all (\<lambda>e. \<not> isApi e) tr \<and> out = (\<lparr>RequeueAfter = RequeueDependencyWait\<rparr>, None)
      | EListSitesByName _ (Inl _) # tr \<Rightarrow>
          list_all (\<lambda>e. \<not> isApi e) tr \<and> fst out = noResult \<and> snd out \<noteq> None
      | _ \<Rightarrow> False)"

lemmas requeue_defs = ResyncInterval_def Minute_def Second_def RequeueDependencyWait_def
  RequeuePermanentError_def noResult_def

lemma requeues_differ [simp]:
  "ResyncInterval \<noteq> RequeueDependencyWait" "Second \<noteq> RequeueDependencyWait"
  "RequeuePermanentError \<noteq> RequeueDependencyWait" "RequeueAfter noResult \<noteq> RequeueDependencyWait"
  by (simp_all add: requeue_defs)

text \<open>
  The last thing a reconciliation does, by what it returns: the accepted patch that reports
  Ready; the patch that forgets an object gone from the server; the patch that reports a
  conflict; the patch that reports the wait for the site, with no call of the API before it;
  or an error.  The patches are given by predicates of their events.
\<close>

inductive runEnd ::
  "(event \<Rightarrow> bool) \<Rightarrow> (event \<Rightarrow> bool) \<Rightarrow> (event \<Rightarrow> bool) \<Rightarrow> (event \<Rightarrow> bool) \<Rightarrow> reconciled \<Rightarrow> event list \<Rightarrow> bool"
  for ready reset conflict waiting where
  end_ready: "ready e \<Longrightarrow> runEnd ready reset conflict waiting (\<lparr>RequeueAfter = ResyncInterval\<rparr>, None) (pre @ [e])"
| end_reset: "reset e \<Longrightarrow> runEnd ready reset conflict waiting (\<lparr>RequeueAfter = Second\<rparr>, None) (pre @ [e])"
| end_conflict: "conflict e
    \<Longrightarrow> runEnd ready reset conflict waiting (\<lparr>RequeueAfter = RequeuePermanentError\<rparr>, None) (pre @ [e])"
| end_waiting: "waiting e \<Longrightarrow> list_all (\<lambda>e. \<not> isApi e) pre
    \<Longrightarrow> runEnd ready reset conflict waiting (\<lparr>RequeueAfter = RequeueDependencyWait\<rparr>, None) (pre @ [e])"
| end_error: "runEnd ready reset conflict waiting (noResult, Some x) new"

lemmas ends_now = end_ready [where pre = "[]", simplified] end_reset [where pre = "[]", simplified]
  end_conflict [where pre = "[]", simplified]

lemma ends_waiting_now:
  "waiting e \<Longrightarrow> \<not> isApi e0
    \<Longrightarrow> runEnd ready reset conflict waiting (\<lparr>RequeueAfter = RequeueDependencyWait\<rparr>, None) [e0, e]"
  using end_waiting [where pre = "[e0]"] by simp

abbreviation lateEnd where
  "lateEnd ready reset conflict waiting out new \<equiv>
     runEnd ready reset conflict waiting out new \<and> RequeueAfter (fst out) \<noteq> RequeueDependencyWait"

lemma runEnd_late:
  assumes "lateEnd ready reset conflict waiting out new"
  shows "runEnd ready reset conflict waiting out (pre @ new)"
  using assms(1) [THEN conjunct1]
proof cases
  case (end_ready e pre1)
  then show ?thesis using runEnd.end_ready [where ready = ready and pre = "pre @ pre1"] by simp
next
  case (end_reset e pre1)
  then show ?thesis using runEnd.end_reset [where reset = reset and pre = "pre @ pre1"] by simp
next
  case (end_conflict e pre1)
  then show ?thesis using runEnd.end_conflict [where conflict = conflict and pre = "pre @ pre1"] by simp
next
  case end_waiting
  with assms show ?thesis by simp
next
  case end_error
  then show ?thesis by (simp add: runEnd.end_error)
qed

lemma runEnd_late_Cons:
  "lateEnd ready reset conflict waiting out new \<Longrightarrow> runEnd ready reset conflict waiting out (e # new)"
  using runEnd_late [where pre = "[e]"] by simp

lemma emits_late_bind:
  assumes "emits m (\<lambda>_ _. True)" "\<And>r. emits (f r) (lateEnd ready reset conflict waiting)"
  shows "emits (m \<bind> f) (lateEnd ready reset conflict waiting)"
  by (rule emits_bind [OF assms(1)], rule emits_conseq [OF assms(2)]) (auto intro: runEnd_late)

section \<open>Answers and evidence in a log\<close>

definition agrees :: "(event \<Rightarrow> gerr option) \<Rightarrow> (gerr \<Rightarrow> bool) \<Rightarrow> event list \<Rightarrow> bool" where
  "agrees answer P new = list_all (\<lambda>ev. case answer ev of None \<Rightarrow> True | Some e \<Rightarrow> P e) new"

lemma agrees_quiet: "list_all (\<lambda>ev. answer ev = None) new \<Longrightarrow> agrees answer P new"
  by (auto simp: agrees_def list_all_iff)

lemma agrees_simps [simp]:
  "agrees answer P []"
  "agrees answer P (ev # new) \<longleftrightarrow> (case answer ev of None \<Rightarrow> True | Some e \<Rightarrow> P e) \<and> agrees answer P new"
  "agrees answer P (xs @ ys) \<longleftrightarrow> agrees answer P xs \<and> agrees answer P ys"
  by (simp_all add: agrees_def)

lemma emits_agrees_quiet: "emitsAll (\<lambda>ev. answer ev = None) m \<Longrightarrow> emits m (\<lambda>r. agrees answer (P r))"
  unfolding emitsAll_def by (erule emits_conseq) (rule agrees_quiet)

lemma emits_after:
  assumes "emits m (\<lambda>_ _. True)" and "\<And>r new. P r new"
  shows "emits m P"
  by (rule emits_conseq [OF assms(1)]) (rule assms(2))

lemma emits_bind_evidence:
  assumes "emits m (\<lambda>r new. list_ex D new \<or> (list_all C new \<and> R r))"
    and "\<And>r. emits (f r) (\<lambda>_ _. True)"
    and "\<And>r. R r \<Longrightarrow> emits (f r) (\<lambda>_ new. list_all C new \<or> list_ex D new)"
  shows "emits (m \<bind> f) (\<lambda>_ new. list_all C new \<or> list_ex D new)"
  using assms(1)
proof (rule emits_bind)
  fix r new assume "list_ex D new \<or> (list_all C new \<and> R r)"
  then show "emits (f r) (\<lambda>_ new'. list_all C (new @ new') \<or> list_ex D (new @ new'))"
  proof
    assume "list_ex D new"
    then show ?thesis by (auto intro: emits_after [OF assms(2)])
  next
    assume a: "list_all C new \<and> R r"
    then have "emits (f r) (\<lambda>_ new'. list_all C new' \<or> list_ex D new')" by (auto intro: assms(3))
    then show ?thesis by (rule emits_conseq) (use a in auto)
  qed
qed

lemma emitsAll_or: "emitsAll C m \<Longrightarrow> emits m (\<lambda>_ new. list_all C new \<or> list_ex D new)"
  unfolding emitsAll_def by (erule emits_conseq) auto

lemma SetCondition_record [simp]: "SetCondition (record_kube k) = SetCondition k"
  by (intro ext) (simp add: SetCondition_def)

section \<open>A ledger of what was created\<close>

text \<open>
  \<open>accounted created settles tr\<close>: every external object that an event of the log created is
  settled by a later event, which writes its identifier down or deletes it again.
\<close>

fun accounted :: "(event \<Rightarrow> int option) \<Rightarrow> (int \<Rightarrow> event \<Rightarrow> bool) \<Rightarrow> event list \<Rightarrow> bool" where
  "accounted created settles [] = True"
| "accounted created settles (e # tr) =
     ((case created e of None \<Rightarrow> True | Some i \<Rightarrow> list_ex (settles i) tr) \<and> accounted created settles tr)"

lemma accounted_quiet: "list_all (\<lambda>e. created e = None) tr \<Longrightarrow> accounted created settles tr"
  by (induction tr) auto

lemma accounted_append:
  "accounted created settles xs \<Longrightarrow> accounted created settles ys \<Longrightarrow> accounted created settles (xs @ ys)"
  by (induction xs) (auto split: option.splits)

lemma emits_accounted_quiet:
  "emitsAll (\<lambda>e. created e = None) m \<Longrightarrow> emits m (\<lambda>_. accounted created settles)"
  unfolding emitsAll_def by (erule emits_conseq) (rule accounted_quiet)

lemma emits_accounted_bind:
  assumes "emits m (\<lambda>_. accounted created settles)"
    and "\<And>r. emits (f r) (\<lambda>_. accounted created settles)"
  shows "emits (m \<bind> f) (\<lambda>_. accounted created settles)"
  using assms(1) by (rule emits_bind) (rule emits_conseq [OF assms(2)], rule accounted_append)

section \<open>The life cycle of an object under a finalizer\<close>

text \<open>
  The log of a clean-up: the external object is deleted, or was already gone (404), or never
  existed (identifier 0); then, and only then, the Kubernetes object is updated without its
  finalizer.
\<close>

definition released :: "kerr + 'o \<Rightarrow> gerr option \<Rightarrow> bool" where
  "released u out = (case u of Inl _ \<Rightarrow> out \<noteq> None | Inr _ \<Rightarrow> out = None)"

definition gone :: "gerr option \<Rightarrow> bool" where
  "gone d = (case d of None \<Rightarrow> True | Some e \<Rightarrow> IsNotFound e)"

inductive cleanupLog ::
  "int \<Rightarrow> (gerr option \<Rightarrow> event) \<Rightarrow> (kerr + 'o \<Rightarrow> event) \<Rightarrow> gerr option \<Rightarrow> event list \<Rightarrow> bool"
  for i :: int and deleted :: "gerr option \<Rightarrow> event" and updated :: "kerr + 'o \<Rightarrow> event" where
  never_made: "i = 0 \<Longrightarrow> released u out \<Longrightarrow> cleanupLog i deleted updated out [updated u]"
| all_gone: "i \<noteq> 0 \<Longrightarrow> gone d \<Longrightarrow> released u out \<Longrightarrow> cleanupLog i deleted updated out [deleted d, updated u]"
| refused: "i \<noteq> 0 \<Longrightarrow> \<not> gone d \<Longrightarrow> out \<noteq> None \<Longrightarrow> cleanupLog i deleted updated out [deleted d]"

text \<open>
  The log of a reconciliation.  It starts by reading the object.  When the object is neither
  being deleted nor under the finalizer, the next step is the update that adds the
  finalizer, and when the server refuses it nothing else is done: no external object is ever
  made for a Kubernetes object that could disappear without a clean-up.
\<close>

definition finalizerFirst ::
  "(event \<Rightarrow> 'o objEvent option) \<Rightarrow> ('o \<Rightarrow> bool) \<Rightarrow> ('o \<Rightarrow> 'o) \<Rightarrow> event list \<Rightarrow> bool" where
  "finalizerFirst view safe added new =
     (case new of
        [] \<Rightarrow> False
      | g # tr \<Rightarrow>
          (case view g of
             Some (OGet _ (Inr o1)) \<Rightarrow>
               safe o1 \<or>
               (case tr of
                  [] \<Rightarrow> False
                | u # tr' \<Rightarrow>
                    (case view u of
                       Some (OUpdate x (Inr _)) \<Rightarrow> x = added o1
                     | Some (OUpdate x (Inl _)) \<Rightarrow> x = added o1 \<and> tr' = []
                     | _ \<Rightarrow> False))
           | Some (OGet _ (Inl _)) \<Rightarrow> tr = []
           | _ \<Rightarrow> False))"

locale finalized =
  fixes objects :: "('w, 'o) objClient"
    and event_of :: "'o objEvent \<Rightarrow> event"
    and view :: "event \<Rightarrow> 'o objEvent option"
    and meta :: "'o \<Rightarrow> objectMeta"
    and contains :: "string list \<Rightarrow> bool"
    and added :: "'o \<Rightarrow> 'o"
    and removed :: "'o \<Rightarrow> 'o"
    and external :: "'o \<Rightarrow> int"
    and delete :: "int \<Rightarrow> ('w, gerr option) state"
    and deleted :: "int \<Rightarrow> gerr option \<Rightarrow> event"
    and failure :: "int \<Rightarrow> string"
    and cleanup :: "'o \<Rightarrow> ('w logged, gerr option) state"
    and reconcile :: "'o \<Rightarrow> ('w logged, reconciled) state"
    and Reconcile :: "key \<Rightarrow> ('w logged, reconciled) state"
  assumes view_event: "view (event_of x) = Some x"
    and cleanup_shape: "cleanup o1 =
      (if external o1 \<noteq> 0 then record_op (deleted (external o1)) (delete (external o1)) else ret None)
        \<bind> (\<lambda>d. case d of
          Some e \<Rightarrow> if \<not> IsNotFound e then ret (Some (Wrap (failure (external o1)) e []))
            else record_op (\<lambda>r. event_of (OUpdate (removed o1) r)) (oc_Update objects (removed o1))
              \<bind> (\<lambda>u. ret (case u of Inl e \<Rightarrow> Some (Wrap ''remove finalizer: '' (ErrKube e) []) | Inr _ \<Rightarrow> None))
        | None \<Rightarrow> record_op (\<lambda>r. event_of (OUpdate (removed o1) r)) (oc_Update objects (removed o1))
              \<bind> (\<lambda>u. ret (case u of Inl e \<Rightarrow> Some (Wrap ''remove finalizer: '' (ErrKube e) []) | Inr _ \<Rightarrow> None)))"
    and Reconcile_shape: "Reconcile req =
      record_op (\<lambda>r. event_of (OGet req r)) (oc_Get objects req) \<bind> (\<lambda>g. case g of
          Inl e \<Rightarrow> ret (noResult, ignoreNotFound (ErrKube e))
        | Inr o1 \<Rightarrow> if m_Deleting (meta o1) then cleanup o1 \<bind> (\<lambda>err. ret (noResult, err))
            else (if contains (m_Finalizers (meta o1)) then ret (Inr o1)
                  else record_op (\<lambda>r. event_of (OUpdate (added o1) r)) (oc_Update objects (added o1)))
              \<bind> (\<lambda>u. case u of Inl e \<Rightarrow> ret (noResult, Some (ErrKube e)) | Inr o2 \<Rightarrow> reconcile o2))"
begin

lemma cleanup_log:
  "emits (cleanup o1)
     (cleanupLog (external o1) (deleted (external o1)) (\<lambda>u. event_of (OUpdate (removed o1) u)))"
proof -
  note logs = never_made all_gone refused
  note logs_here = logs [where updated = "\<lambda>u. event_of (OUpdate (removed o1) u)" and deleted = "deleted (external o1)"
      and i = "external o1"]
  note logs_0 = never_made [where updated = "\<lambda>u. event_of (OUpdate (removed o1) u)" and deleted = "deleted 0" and i = 0]
  show ?thesis
    unfolding cleanup_shape
    by (cases "external o1 = 0")
      (auto intro!: emits_bind_op logs_here logs_0 split: option.splits sum.splits simp: released_def gone_def)
qed

lemma Reconcile_finalizer_first:
  assumes grows: "\<And>o1. emits (reconcile o1) (\<lambda>_ _. True)"
  shows "emits (Reconcile req)
     (\<lambda>_. finalizerFirst view (\<lambda>o1. m_Deleting (meta o1) \<or> contains (m_Finalizers (meta o1))) added)"
proof -
  have "emits (reconcile o2) (\<lambda>_ new. P new)" if "\<And>new. P new" for o2 P
    by (rule emits_conseq [OF grows]) (simp add: that)
  moreover have "emits (cleanup o1) (\<lambda>_ new. P new)" if "\<And>new. P new" for o1 P
    by (rule emits_conseq [OF cleanup_log]) (simp add: that)
  ultimately show ?thesis
    unfolding Reconcile_shape finalizerFirst_def
    by (auto intro!: emits_bind_op emits_bind [OF cleanup_log] simp: view_event split: sum.splits option.splits)
qed

text \<open>An object being deleted: the reconciliation is its clean-up and nothing else.\<close>

lemma Reconcile_deleting:
  assumes grows: "\<And>o1. emits (reconcile o1) (\<lambda>_ _. True)"
  shows "emits (Reconcile req) (\<lambda>out new. case view (hd new) of
      Some (OGet _ (Inr o1)) \<Rightarrow> if m_Deleting (meta o1) then
          cleanupLog (external o1) (deleted (external o1)) (\<lambda>u. event_of (OUpdate (removed o1) u)) (snd out) (tl new)
        else True
    | _ \<Rightarrow> True)"
proof -
  have "emits (reconcile o2) (\<lambda>_ new. True)" for o2
    by (rule grows)
  then show ?thesis
    unfolding Reconcile_shape 
    by (auto intro!: emits_bind_op emits_bind [OF cleanup_log] simp: view_event split: sum.splits option.splits)
qed

end

end
