(* ===== verification/PublicLaws.thy ===== *)
theory PublicLaws
  imports PublicResource Interfaces
begin

text \<open>
  What the PublicResource controller does in every environment, stated over the log of a
  recorded run: the order of the calls, what is written down before what is deleted, and how
  each error of the server is answered.
\<close>

section \<open>What the controller does, over every environment\<close>

abbreviation patched :: "(PublicResourceStatus \<Rightarrow> PublicResourceStatus) \<Rightarrow> PublicResource \<Rightarrow> PublicResource" where
  "patched f res \<equiv> res\<lparr>pub_Status := f (pub_Status res)\<rparr>"

lemma emits_patch:
  assumes "\<And>x. Q (Some (ErrKube x), patched f res) [EPub (OStatusPatch res (patched f res) (Inl x))]"
    and "\<And>x. Q (None, x) [EPub (OStatusPatch res (patched f res) (Inr x))]"
  shows "emits (patchStatus (record_kube k) res f) Q"
  using assms by (auto simp: patchStatus_def Let_def intro!: emits_bind_op split: sum.splits)

lemma emits_bind_patch:
  assumes "\<And>x. emits (g (Some (ErrKube x), patched f res))
      (\<lambda>r new. Q r (EPub (OStatusPatch res (patched f res) (Inl x)) # new))"
    and "\<And>x. emits (g (None, x)) (\<lambda>r new. Q r (EPub (OStatusPatch res (patched f res) (Inr x)) # new))"
  shows "emits (patchStatus (record_kube k) res f \<bind> g) Q"
  by (rule emits_bind [where P = "\<lambda>(e, obj) new. (\<exists>x. e = Some (ErrKube x) \<and> obj = patched f res
         \<and> new = [EPub (OStatusPatch res (patched f res) (Inl x))])
       \<or> (\<exists>x. e = None \<and> obj = x \<and> new = [EPub (OStatusPatch res (patched f res) (Inr x))])"])
    (auto intro!: emits_patch simp: assms)

lemmas emits_intros = emits_op emits_bind_op emits_patch emits_bind_patch

subsection \<open>The fan-outs\<close>

definition targetEvents ::
  "int \<Rightarrow> int \<Rightarrow> PublicTargetSpec list \<Rightarrow> (nat \<Rightarrow> gerr + int) \<Rightarrow> nat list \<Rightarrow> event list" where
  "targetEvents resourceID siteID targets res ord =
    map (\<lambda>i. EApi (ACreateTarget resourceID (targetRequest siteID (targets ! i)) (res i))) ord"

definition ruleEvents :: "int \<Rightarrow> PublicRuleSpec list \<Rightarrow> (nat \<Rightarrow> gerr + int) \<Rightarrow> nat list \<Rightarrow> event list" where
  "ruleEvents resourceID rules res ord =
    map (\<lambda>i. EApi (ACreateRule resourceID (ruleRequest i (rules ! i)) (res i))) ord"

interpretation target_fan: fan_out "''CreateTarget: ''"
  "\<lambda>i. CreateTarget (record_api a) resourceID (targetRequest siteID (targets ! i))" snd
  "\<lambda>i r. EApi (ACreateTarget resourceID (targetRequest siteID (targets ! i)) r)"
  for a :: "'w API" and resourceID siteID targets
  by unfold_locales (simp add: record_op_run)

interpretation rule_fan: fan_out "''CreateRule: ''"
  "\<lambda>i. CreateRule (record_api a) resourceID (ruleRequest i (rules ! i))" snd
  "\<lambda>i r. EApi (ACreateRule resourceID (ruleRequest i (rules ! i)) r)"
  for a :: "'w API" and resourceID rules
  by unfold_locales (simp add: record_op_run)

lemma createTargets_emits:
  "emits (createTargets (record_api a) sched resourceID siteID targets)
     (\<lambda>out new. \<exists>res ord. new = targetEvents resourceID siteID targets res ord
        \<and> fanOutcome ''CreateTarget: '' (length targets) res ord out)"
  unfolding emits_def createTargets_def
  by (intro allI) (rule wp_conseq [OF target_fan.createAll_outcome], auto simp: targetEvents_def)

lemma createRules_emits:
  "emits (createRules (record_api a) sched resourceID rules)
     (\<lambda>out new. \<exists>res ord. new = ruleEvents resourceID rules res ord
        \<and> fanOutcome ''CreateRule: '' (length rules) res ord out)"
  unfolding emits_def createRules_def
  by (intro allI) (rule wp_conseq [OF rule_fan.createAll_outcome], auto simp: ruleEvents_def)

text \<open>The loops over the old identifiers issue one call for each, in order.\<close>

definition deletedTargets :: "int list \<Rightarrow> gerr option list \<Rightarrow> event list" where
  "deletedTargets ids rs = map (\<lambda>(i, r). EApi (ADeleteTarget i r)) (zip ids rs)"

definition deletedRules :: "int \<Rightarrow> int list \<Rightarrow> gerr option list \<Rightarrow> event list" where
  "deletedRules resourceID ids rs = map (\<lambda>(i, r). EApi (ADeleteRule resourceID i r)) (zip ids rs)"

lemma deleteTargets_emits:
  "emits (deleteTargets (record_api a) ids)
     (\<lambda>_ new. \<exists>rs. length rs = length ids \<and> new = deletedTargets ids rs)"
proof (induction ids)
  case Nil
  then show ?case by (simp add: deletedTargets_def)
next
  case (Cons i ids)
  have "\<exists>qs. length qs = Suc (length ids) \<and> EApi (ADeleteTarget i r) # deletedTargets ids rs = deletedTargets (i # ids) qs"
    if "length rs = length ids" for r rs
    using that by (intro exI [of _ "r # rs"]) (simp add: deletedTargets_def)
  then show ?case by (auto intro!: emits_bind_op emits_conseq [OF Cons.IH])
qed

lemma deleteRules_emits:
  "emits (deleteRules (record_api a) resourceID ids)
     (\<lambda>_ new. \<exists>rs. length rs = length ids \<and> new = deletedRules resourceID ids rs)"
proof (induction ids)
  case Nil
  then show ?case by (simp add: deletedRules_def)
next
  case (Cons i ids)
  have "\<exists>qs. length qs = Suc (length ids)
      \<and> EApi (ADeleteRule resourceID i r) # deletedRules resourceID ids rs = deletedRules resourceID (i # ids) qs"
    if "length rs = length ids" for r rs
    using that by (intro exI [of _ "r # rs"]) (simp add: deletedRules_def)
  then show ?case by (auto intro!: emits_bind_op emits_conseq [OF Cons.IH])
qed

subsection \<open>What each step may do\<close>

lemma patchStatus_all: "(\<And>b n r. P (EPub (OStatusPatch b n r))) \<Longrightarrow> emitsAll P (patchStatus (record_kube k) res f)"
  by (auto simp: patchStatus_def Let_def intro!: emitsAll_intros)

lemma createTargets_all:
  "(\<And>i q r. P (EApi (ACreateTarget i q r))) \<Longrightarrow> emitsAll P (createTargets (record_api a) sched rid sid ts)"
  unfolding emitsAll_def
  by (rule emits_conseq [OF createTargets_emits]) (auto simp: targetEvents_def list_all_iff)

lemma createRules_all:
  "(\<And>i q r. P (EApi (ACreateRule i q r))) \<Longrightarrow> emitsAll P (createRules (record_api a) sched rid rs)"
  unfolding emitsAll_def
  by (rule emits_conseq [OF createRules_emits]) (auto simp: ruleEvents_def list_all_iff)

lemma deleteTargets_all:
  "(\<And>i r. P (EApi (ADeleteTarget i r))) \<Longrightarrow> emitsAll P (deleteTargets (record_api a) ids)"
  by (induction ids) (auto intro!: emitsAll_intros)

lemma deleteRules_all:
  "(\<And>j i r. P (EApi (ADeleteRule j i r))) \<Longrightarrow> emitsAll P (deleteRules (record_api a) rid ids)"
  by (induction ids) (auto intro!: emitsAll_intros)

lemmas pub_all = emitsAll_intros patchStatus_all createTargets_all createRules_all deleteTargets_all deleteRules_all Site_all

lemma finishCreate_all:
  assumes "\<And>i q r. P (EApi (AUpdateResource i q r))" "\<And>i q r. P (EApi (ACreateTarget i q r))"
    "\<And>i q r. P (EApi (ACreateRule i q r))" "\<And>b n r. P (EPub (OStatusPatch b n r))"
  shows "emitsAll P (finishCreate (record_kube k) (record_api a) sch http res rid sid)"
  by (auto simp: finishCreate_def Let_def assms intro!: pub_all split: option.splits)

lemma updateResource_all:
  assumes "\<And>i q r. P (EApi (AUpdateResource i q r))" "\<And>i q r. P (EApi (ACreateTarget i q r))"
    "\<And>i q r. P (EApi (ACreateRule i q r))" "\<And>b n r. P (EPub (OStatusPatch b n r))"
    "\<And>i r. P (EApi (ADeleteTarget i r))" "\<And>i j r. P (EApi (ADeleteRule i j r))"
  shows "emitsAll P (updateResource (record_kube k) (record_api a) sch res sid)"
  by (auto simp: updateResource_def updateTargets_def updateRules_def Let_def assms intro!: pub_all split: option.splits)

lemma ensureFailed_all: "(\<And>b n r. P (EPub (OStatusPatch b n r))) \<Longrightarrow> emitsAll P (ensureFailed (record_kube k) res e)"
  and updateFailed_all: "(\<And>b n r. P (EPub (OStatusPatch b n r))) \<Longrightarrow> emitsAll P (updateFailed (record_kube k) res e)"
  and markReady_all: "(\<And>b n r. P (EPub (OStatusPatch b n r))) \<Longrightarrow> emitsAll P (markReady (record_kube k) res)"
  by (auto simp: ensureFailed_def updateFailed_def markReady_def intro!: pub_all)

lemma createRequestFor_all:
  "(\<And>r. P (EApi (AListDomains r))) \<Longrightarrow> emitsAll P (createRequestFor (record_api a) spec)"
  by (auto simp: createRequestFor_def Let_def intro!: pub_all)

lemma createResource_all:
  assumes "\<And>x. P (EApi x)" "\<And>b n r. P (EPub (OStatusPatch b n r))" "\<And>q r. P (EPub (OGet q r))"
  shows "emitsAll P (createResource (record_kube k) (record_api a) sch res sid)"
  by (auto simp: createResource_def Let_def assms intro!: pub_all finishCreate_all createRequestFor_all
      split: option.splits sum.splits)

lemma reconcileOnSite_all:
  assumes "\<And>x. P (EApi x)" "\<And>b n r. P (EPub (OStatusPatch b n r))" "\<And>q r. P (EPub (OGet q r))"
  shows "emitsAll P (reconcileOnSite (record_kube k) (record_api a) sch res sid)"
  by (auto simp: reconcileOnSite_def ensureExists_def Let_def assms split: option.splits sum.splits
      intro!: pub_all createResource_all updateResource_all ensureFailed_all updateFailed_all markReady_all)

lemma reconcileOnSite_grows: "emits (reconcileOnSite (record_kube k) (record_api a) sch res sid) (\<lambda>_ _. True)"
  by (rule emitsAll_grows [OF reconcileOnSite_all]) simp_all

lemma reconcile_grows: "emits (reconcile (record_kube k) (record_api a) sch res) (\<lambda>_ _. True)"
  by (rule emitsAll_grows [where P = "\<lambda>_. True"])
    (auto simp: reconcile_def intro!: pub_all reconcileOnSite_all split: sum.splits)

subsection \<open>Nothing is lost\<close>

definition createdResource :: "event \<Rightarrow> int option" where
  "createdResource e =
     (case e of EApi (ACreateResource _ (Inr c)) \<Rightarrow> Some (crr_ResourceID c) | _ \<Rightarrow> None)"

definition settlesResource :: "int \<Rightarrow> event \<Rightarrow> bool" where
  "settlesResource i e =
     (case e of
        EPub (OStatusPatch _ n (Inr _)) \<Rightarrow> pst_ResourceID (pub_Status n) = i
      | EApi (ADeleteResource j _) \<Rightarrow> j = i
      | _ \<Rightarrow> False)"

abbreviation noOrphan :: "event list \<Rightarrow> bool" where
  "noOrphan \<equiv> accounted createdResource settlesResource"

lemma createdResource_simps [simp]:
  "createdResource (EApi (ACreateResource q (Inr c))) = Some (crr_ResourceID c)"
  "createdResource (EApi (ACreateResource q (Inl c0))) = None"
  "createdResource (EApi (ACreateTarget i t r1)) = None" "createdResource (EApi (ACreateRule i u r1)) = None"
  "createdResource (EApi (ADeleteTarget i r2)) = None" "createdResource (EApi (ADeleteRule i j r2)) = None"
  "createdResource (EApi (AUpdateResource i v r2)) = None" "createdResource (EApi (ADeleteResource i r2)) = None"
  "createdResource (EApi (AListResources n r3)) = None" "createdResource (EApi (AListDomains r4)) = None"
  "createdResource (EPub x) = None" "createdResource (EListSitesByName n r5) = None"
  by (simp_all add: createdResource_def)

lemmas quietly = emits_accounted_quiet [of createdResource]

lemma cleanup_noOrphan: "emits (cleanup (record_kube k) (record_api a) res) (\<lambda>_. noOrphan)"
  by (rule quietly) (auto simp: cleanup_def Let_def intro!: pub_all split: option.splits)

lemma createResource_noOrphan:
  "emits (createResource (record_kube k) (record_api a) sch res sid) (\<lambda>_. noOrphan)"
  unfolding createResource_def Let_def
  apply (rule emits_bind_patch)
   apply simp_all
  apply (rule emits_accounted_bind)
   apply (rule quietly, rule createRequestFor_all, simp)
  apply (auto split: sum.splits intro!: emits_bind_op emits_bind_patch quietly [OF finishCreate_all]
      simp: settlesResource_def)
  done

lemma ensureExists_noOrphan:
  "emits (ensureExists (record_kube k) (record_api a) sch res sid) (\<lambda>_. noOrphan)"
  unfolding ensureExists_def
  by (auto simp: Let_def split: sum.splits option.splits
      intro!: emits_accounted_bind createResource_noOrphan quietly [OF patchStatus_all] quietly [OF emitsAll_op])

lemma reconcileOnSite_noOrphan:
  "emits (reconcileOnSite (record_kube k) (record_api a) sch res sid) (\<lambda>_. noOrphan)"
  unfolding reconcileOnSite_def Let_def
  by (auto split: sum.splits option.splits
      intro!: emits_accounted_bind ensureExists_noOrphan quietly [OF ensureFailed_all]
        quietly [OF updateFailed_all] quietly [OF markReady_all] quietly [OF updateResource_all] quietly [OF emitsAll_op])

text \<open>
  No resource is lost on the server: in every reconciliation, whatever the Kubernetes
  server and the Pangolin server answer and however the goroutines are scheduled, each
  resource the server created is afterwards either recorded in a status the Kubernetes
  server accepted, or its deletion is requested by the roll-back.
\<close>

theorem Reconcile_no_orphan:
  "emits (Reconcile (record_kube k) (record_api a) sch req)
     (\<lambda>_. accounted createdResource settlesResource)"
  unfolding Reconcile_def reconcile_def
  by (auto split: sum.splits option.splits
      intro!: emits_accounted_bind reconcileOnSite_noOrphan cleanup_noOrphan quietly [OF Site_all]
        quietly [OF patchStatus_all] quietly [OF emitsAll_op])

subsection \<open>The life cycle\<close>

definition viewPub :: "event \<Rightarrow> PublicResource objEvent option" where
  "viewPub e = (case e of EPub x \<Rightarrow> Some x | _ \<Rightarrow> None)"

interpretation pub_finalized: finalized "kPubs k" EPub viewPub pub_Meta
  "kContainsFinalizer k PublicResourceFinalizer"
  "withFinalizers (kAddFinalizer k PublicResourceFinalizer)"
  "withFinalizers (kRemoveFinalizer k PublicResourceFinalizer)"
  "\<lambda>res. pst_ResourceID (pub_Status res)" "DeleteResource a" "\<lambda>i r. EApi (ADeleteResource i r)"
  "\<lambda>i. ''delete Pangolin resource '' @ itoa i @ '': ''"
  "cleanup (record_kube k) (record_api a)" "reconcile (record_kube k) (record_api a) sch"
  "Reconcile (record_kube k) (record_api a) sch"
  for k :: "'w kube" and a :: "'w API" and sch
  by unfold_locales
    (auto simp: viewPub_def cleanup_def Reconcile_def Let_def intro!: arg_cong2 [where f = State_Monad.bind] split: option.splits sum.splits)


text \<open>
  Deleting a PublicResource never strands the resource on the server: the log of a
  clean-up is the request to delete the resource (left out when none was ever made), and the
  update that removes the finalizer follows only when the server has deleted it or answered
  404; the clean-up succeeds exactly when that update does.
\<close>

theorem cleanup_releases_last:
  "emits (cleanup (record_kube k) (record_api a) res)
     (cleanupLog (pst_ResourceID (pub_Status res))
        (\<lambda>d. EApi (ADeleteResource (pst_ResourceID (pub_Status res)) d))
        (\<lambda>u. EPub (OUpdate (withFinalizers (kRemoveFinalizer k PublicResourceFinalizer) res) u)))"
  by (rule pub_finalized.cleanup_log)

text \<open>
  The finalizer comes first: a reconciliation reads the object, and for an object that is
  neither being deleted nor under the finalizer the next thing it does is the update that
  adds the finalizer; when that is refused it does nothing more.
\<close>

theorem Reconcile_adds_finalizer_first:
  "emits (Reconcile (record_kube k) (record_api a) sch req)
     (\<lambda>_. finalizerFirst viewPub
        (\<lambda>res. m_Deleting (pub_Meta res)
           \<or> kContainsFinalizer k PublicResourceFinalizer (m_Finalizers (pub_Meta res)))
        (withFinalizers (kAddFinalizer k PublicResourceFinalizer)))"
  by (rule pub_finalized.Reconcile_finalizer_first) (rule reconcile_grows)

subsection \<open>Which resource is adopted\<close>

definition samePublicResource :: "PublicResourceSpec \<Rightarrow> ResourceItem \<Rightarrow> bool" where
  "samePublicResource spec item \<longleftrightarrow>
     ri_Name item = ps_Name spec
     \<and> (if ps_Protocol spec = protocolHTTP \<and> ps_FullDomain spec \<noteq> []
        then ri_FullDomain item = ps_FullDomain spec else True)"

interpretation resource_search: first_match "\<lambda>items. findResource items spec" "samePublicResource spec"
  for spec
  by unfold_locales (auto simp: samePublicResource_def)

text \<open>
  The resource adopted is the first of the list with the name of the specification and, for
  an http resource that names a domain, that domain.
\<close>

theorem findResource_first:
  "findResource items spec = Some m \<longleftrightarrow>
     (\<exists>us vs. items = us @ m # vs \<and> samePublicResource spec m
        \<and> list_all (\<lambda>u. \<not> samePublicResource spec u) us)"
  by (rule resource_search.search_Some)

subsection \<open>Waiting for the site\<close>

text \<open>
  The API is called only when the site was found and is Ready with an identifier; a missing
  or unready site is waited for, and an error of the lookup is returned.
\<close>

theorem reconcile_waits_for_site:
  "emits (reconcile (record_kube k) (record_api a) sch res) waitsForSite"
proof -
  have tail: "emits (reconcileOnSite (record_kube k) (record_api a) sch res i) (\<lambda>out new. P out new)"
    if "\<And>out new. P out new" for i P
    by (rule emits_conseq [of _ "\<lambda>_ _. True"]) (simp_all add: reconcileOnSite_grows that)
  show ?thesis
    unfolding reconcile_def waitsForSite_def
    by (rule emits_bind_Site) (auto intro!: emits_bind_patch tail simp: usableSite_def)
qed

subsection \<open>Create before delete\<close>

text \<open>The status with the new targets, and with the targets a failed attempt left behind.\<close>

definition swapTargets :: "PublicResource \<Rightarrow> int list \<Rightarrow> PublicResource" where
  "swapTargets res ids =
     patched (\<lambda>s. s\<lparr>pst_TargetIDs := ids, pst_TargetsHash := targetsHashOf (pub_Spec res)\<rparr>) res"

definition keepTargets :: "PublicResource \<Rightarrow> int list \<Rightarrow> PublicResource" where
  "keepTargets res ids = patched (\<lambda>s. s\<lparr>pst_TargetIDs := pst_TargetIDs s @ ids\<rparr>) res"

text \<open>
  Everything an update of the targets can do, as log and result: nothing, when the hash is
  the one recorded; a failed attempt, whose partial result is appended to the identifiers on
  record; new targets the Kubernetes server refused to record; and the swap, in which the
  old targets are deleted, once each and in order, after the new ones are recorded.
\<close>

inductive targetUpdate :: "PublicResource \<Rightarrow> int \<Rightarrow> gerr option \<times> PublicResource \<Rightarrow> event list \<Rightarrow> bool"
  for res :: PublicResource and siteID :: int where
  unchanged: "targetsHashOf (pub_Spec res) = pst_TargetsHash (pub_Status res)
    \<Longrightarrow> targetUpdate res siteID (None, res) []"
| nothing_made: "fanOutcome ''CreateTarget: '' (length (elems (ps_Targets (pub_Spec res)))) r ord ([], Some e)
    \<Longrightarrow> targetUpdate res siteID (Some e, res)
      (targetEvents (pst_ResourceID (pub_Status res)) siteID (elems (ps_Targets (pub_Spec res))) r ord)"
| partly_made: "fanOutcome ''CreateTarget: '' (length (elems (ps_Targets (pub_Spec res)))) r ord (ids, Some e)
    \<Longrightarrow> ids \<noteq> []
    \<Longrightarrow> targetUpdate res siteID (Some e, (case x of Inl _ \<Rightarrow> keepTargets res ids | Inr obj \<Rightarrow> obj))
      (targetEvents (pst_ResourceID (pub_Status res)) siteID (elems (ps_Targets (pub_Spec res))) r ord
        @ [EPub (OStatusPatch res (keepTargets res ids) x)])"
| not_recorded: "fanOutcome ''CreateTarget: '' (length (elems (ps_Targets (pub_Spec res)))) r ord (ids, None)
    \<Longrightarrow> targetUpdate res siteID (Some (ErrKube x), swapTargets res ids)
      (targetEvents (pst_ResourceID (pub_Status res)) siteID (elems (ps_Targets (pub_Spec res))) r ord
        @ [EPub (OStatusPatch res (swapTargets res ids) (Inl x))])"
| swapped: "fanOutcome ''CreateTarget: '' (length (elems (ps_Targets (pub_Spec res)))) r ord (ids, None)
    \<Longrightarrow> length rs = length (pst_TargetIDs (pub_Status res))
    \<Longrightarrow> targetUpdate res siteID (None, obj)
      (targetEvents (pst_ResourceID (pub_Status res)) siteID (elems (ps_Targets (pub_Spec res))) r ord
        @ EPub (OStatusPatch res (swapTargets res ids) (Inr obj))
        # deletedTargets (pst_TargetIDs (pub_Status res)) rs)"

text \<open>
  C2.  Targets are made before they are broken: whatever the servers answer and in whatever order
  the goroutines run, an update of the targets does one of five things, and it deletes an
  old target only after every new one was created and the new identifiers and hash were
  accepted by the Kubernetes server.
\<close>

theorem updateTargets_make_before_break:
  "emits (updateTargets (record_kube k) (record_api a) sched res siteID) (targetUpdate res siteID)"
proof (cases "targetsHashOf (pub_Spec res) = pst_TargetsHash (pub_Status res)")
  case True
  then show ?thesis by (auto simp: updateTargets_def intro: unchanged)
next
  case False
  note logs = nothing_made partly_made [where x = "Inl _", simplified] partly_made [where x = "Inr _", simplified]
     not_recorded swapped
  note folded = logs [unfolded swapTargets_def keepTargets_def]
  show ?thesis
    unfolding updateTargets_def Let_def
    by (auto simp: False split: option.splits
        intro!: emits_bind [OF createTargets_emits] emits_bind_patch
          emits_bind [OF deleteTargets_emits] folded)
qed

text \<open>For the rules the same order, as a scan of the log.\<close>

fun recordedFirst :: "event list \<Rightarrow> bool" where
  "recordedFirst [] = True"
| "recordedFirst (EApi (ADeleteRule _ _ _) # tr) = False"
| "recordedFirst (EPub (OStatusPatch _ _ (Inr _)) # tr) =
     list_all (\<lambda>e. case e of EApi (ADeleteRule _ _ _) \<Rightarrow> True | _ \<Rightarrow> False) tr"
| "recordedFirst (e # tr) = recordedFirst tr"

lemma recordedFirst_rules [simp]:
  "recordedFirst (ruleEvents rid rs r ord @ tr) = recordedFirst tr"
  by (induction ord) (simp_all add: ruleEvents_def)

lemma list_all_deletedRules [simp]:
  "list_all (\<lambda>e. case e of EApi (ADeleteRule _ _ _) \<Rightarrow> True | _ \<Rightarrow> False) (deletedRules rid ids rs)"
  by (auto simp: deletedRules_def list_all_iff)

definition swapRules :: "PublicResource \<Rightarrow> int list \<Rightarrow> PublicResource" where
  "swapRules res ids =
     patched (\<lambda>s. s\<lparr>pst_RuleIDs := ids, pst_RulesHash := rulesHashOf (pub_Spec res)\<rparr>) res"

inductive ruleSwap :: "PublicResource \<Rightarrow> PublicResource \<Rightarrow> event list \<Rightarrow> bool" for res :: PublicResource where
  ruleSwapI: "fanOutcome ''CreateRule: '' (length (elems (ps_Rules (pub_Spec res)))) r ord (ids, None)
    \<Longrightarrow> length rs = length (pst_RuleIDs (pub_Status res))
    \<Longrightarrow> ruleSwap res obj
      (ruleEvents (pst_ResourceID (pub_Status res)) (elems (ps_Rules (pub_Spec res))) r ord
        @ EPub (OStatusPatch res (swapRules res ids) (Inr obj))
        # deletedRules (pst_ResourceID (pub_Status obj)) (pst_RuleIDs (pub_Status res)) rs)"

definition isDeleteRule :: "event \<Rightarrow> bool" where
  "isDeleteRule e = (case e of EApi (ADeleteRule _ _ _) \<Rightarrow> True | _ \<Rightarrow> False)"

lemma no_delete_ruleEvents [simp]: "\<not> list_ex isDeleteRule (ruleEvents rid rs r ord)"
  by (induction ord) (simp_all add: ruleEvents_def isDeleteRule_def)

text \<open>
  C3.  Rules are made before they are broken: no rule is deleted before a status patch was
  accepted, nothing is created after it, a failed update deletes nothing, and a successful
  one is either idle, because the hash is the one recorded, or the full swap.
\<close>

theorem updateRules_make_before_break:
  "emits (updateRules (record_kube k) (record_api a) sched res)
     (\<lambda>out new. recordedFirst new \<and>
        (case fst out of
           Some _ \<Rightarrow> \<not> list_ex isDeleteRule new
         | None \<Rightarrow> (new = [] \<and> rulesHashOf (pub_Spec res) = pst_RulesHash (pub_Status res))
            \<or> ruleSwap res (snd out) new))"
proof (cases "rulesHashOf (pub_Spec res) = pst_RulesHash (pub_Status res)")
  case True
  then show ?thesis by (simp add: updateRules_def)
next
  case False
  show ?thesis
    unfolding updateRules_def Let_def
    by (auto simp: False isDeleteRule_def split: option.splits
        intro!: emits_bind [OF createRules_emits] emits_bind_patch emits_bind [OF deleteRules_emits] ruleSwapI [unfolded swapRules_def])
qed

subsection \<open>No needless work\<close>

text \<open>Evidence in the log that the server and the specification have come apart.\<close>

definition drifted :: "int \<Rightarrow> event \<Rightarrow> bool" where
  "drifted rid e =
     (case e of
        EApi (AListResources _ (Inr items)) \<Rightarrow> rid = 0 \<or> \<not> list_ex (\<lambda>item. ri_ResourceID item = rid) items
      | EPub (OGet _ (Inr x)) \<Rightarrow> m_Generation (pub_Meta x) \<noteq> pst_ObservedGeneration (pub_Status x)
      | _ \<Rightarrow> False)"

lemma markReady_calm: "emitsAll (\<lambda>e. \<not> isMutation e) (markReady (record_kube k) res)"
  and ensureFailed_calm: "emitsAll (\<lambda>e. \<not> isMutation e) (ensureFailed (record_kube k) res e)"
  by (rule markReady_all ensureFailed_all; simp)+

lemma pieces_grow:
  "emits (createResource (record_kube k) (record_api a) sch res sid) (\<lambda>_ _. True)"
  "emits (updateResource (record_kube k) (record_api a) sch res sid) (\<lambda>_ _. True)"
  "emits (markReady (record_kube k) res) (\<lambda>_ _. True)"
  "emits (ensureFailed (record_kube k) res e) (\<lambda>_ _. True)"
  "emits (updateFailed (record_kube k) res e) (\<lambda>_ _. True)"
  "emits (patchStatus (record_kube k) res f) (\<lambda>_ _. True)"
      apply (rule emitsAll_grows [OF createResource_all], simp_all)
      apply (rule emitsAll_grows [OF updateResource_all], simp_all)
      apply (rule emitsAll_grows [OF markReady_all], simp_all)
      apply (rule emitsAll_grows [OF ensureFailed_all], simp_all)
      apply (rule emitsAll_grows [OF updateFailed_all], simp_all)
  apply (rule emitsAll_grows [OF patchStatus_all], simp_all)
  done

lemma ensureExists_steady:
  "emits (ensureExists (record_kube k) (record_api a) sch res siteID)
     (\<lambda>(adopted, err, res') new. list_ex (drifted (pst_ResourceID (pub_Status res))) new
        \<or> (list_all (\<lambda>e. \<not> isMutation e) new
            \<and> (case err of Some _ \<Rightarrow> True | None \<Rightarrow> \<not> adopted \<and> res' = res \<and> pst_ResourceID (pub_Status res) \<noteq> 0)))"
  unfolding ensureExists_def Let_def
  by (auto split: sum.splits option.splits simp: drifted_def
      intro!: emits_bind_op emits_bind [OF pieces_grow(1)] emits_bind [OF pieces_grow(6)])

text \<open>
  A reconciliation of a resource that is listed on the server and whose generation was
  already observed changes nothing there: if it makes a changing call at all, then its log
  shows that the listing lacked the resource or that the generation had moved.
\<close>

theorem reconcileOnSite_steady:
  "emits (reconcileOnSite (record_kube k) (record_api a) sch res siteID)
     (\<lambda>_ new. list_all (\<lambda>e. \<not> isMutation e) new
        \<or> list_ex (drifted (pst_ResourceID (pub_Status res))) new)"
  unfolding reconcileOnSite_def Let_def
  apply (rule emits_bind_evidence [where R = "\<lambda>(adopted, err, res'). (case err of Some _ \<Rightarrow> True | None \<Rightarrow> \<not> adopted \<and> res' = res \<and> pst_ResourceID (pub_Status res) \<noteq> 0)"])
  apply (rule emits_conseq [OF ensureExists_steady])
  apply auto[1]
  apply (auto split: option.splits sum.splits intro!: pieces_grow emits_bind_op emits_bind [OF pieces_grow(2)])[1]
  apply (auto split: option.splits sum.splits simp: drifted_def intro!: emits_bind_op emits_bind [OF pieces_grow(2)] emitsAll_or [OF ensureFailed_calm] emitsAll_or [OF markReady_calm] pieces_grow
      emits_conseq [OF markReady_calm [unfolded emitsAll_def]])[1]
  done

subsection \<open>How a reconciliation ends\<close>

text \<open>The patches with which a reconciliation of a PublicResource ends.\<close>

definition readyPatch :: "'w kube \<Rightarrow> event \<Rightarrow> bool" where
  "readyPatch k e =
     (case e of EPub (OStatusPatch o1 n (Inr _)) \<Rightarrow> n = patched (readyStatus k o1) o1 | _ \<Rightarrow> False)"

definition resetPatch :: "event \<Rightarrow> bool" where
  "resetPatch e = (case e of EPub (OStatusPatch o1 n _) \<Rightarrow> n = patched resetStatus o1 | _ \<Rightarrow> False)"

definition conflictPatch :: "'w kube \<Rightarrow> event \<Rightarrow> bool" where
  "conflictPatch k e =
     (case e of
        EPub (OStatusPatch o1 n _) \<Rightarrow> n = patched (setReady k o1 ConditionFalse ReasonPending conflictMessage) o1
      | _ \<Rightarrow> False)"

definition waitPatch :: "'w kube \<Rightarrow> event \<Rightarrow> bool" where
  "waitPatch k e =
     (case e of
        EPub (OStatusPatch o1 n _) \<Rightarrow> \<exists>m. n = patched (setReady k o1 ConditionFalse ReasonPending m) o1
      | _ \<Rightarrow> False)"

lemma waitPatchI: "waitPatch k (EPub (OStatusPatch o1 (patched (setReady k o1 ConditionFalse ReasonPending m) o1) r))"
  unfolding waitPatch_def event.case objEvent.case by (rule exI) (rule refl)

abbreviation publicEnd :: "'w kube \<Rightarrow> reconciled \<Rightarrow> event list \<Rightarrow> bool" where
  "publicEnd k \<equiv> runEnd (readyPatch k) resetPatch (conflictPatch k) (waitPatch k)"

lemma setReady_record [simp]: "setReady (record_kube k) = setReady k" "readyStatus (record_kube k) = readyStatus k"
  by (intro ext, simp add: setReady_def readyStatus_def)+

lemma ends_late:
  "emits (ensureFailed (record_kube k) res e) (lateEnd (readyPatch k) resetPatch (conflictPatch k) (waitPatch k))"
  "emits (updateFailed (record_kube k) res e) (lateEnd (readyPatch k) resetPatch (conflictPatch k) (waitPatch k))"
  "emits (markReady (record_kube k) res) (lateEnd (readyPatch k) resetPatch (conflictPatch k) (waitPatch k))"
  unfolding ensureFailed_def updateFailed_def markReady_def
  by (auto intro!: emits_bind_patch end_error ends_now
      simp: readyPatch_def resetPatch_def conflictPatch_def)

lemma ensureExists_grows: "emits (ensureExists (record_kube k) (record_api a) sch res sid) (\<lambda>_ _. True)"
  by (rule emits_conseq [OF ensureExists_noOrphan]) simp

lemma reconcileOnSite_late: "emits (reconcileOnSite (record_kube k) (record_api a) sch res sid) (lateEnd (readyPatch k) resetPatch (conflictPatch k) (waitPatch k))"
  unfolding reconcileOnSite_def Let_def
  by (auto split: option.splits sum.splits
      intro!: emits_late_bind [OF ensureExists_grows] emits_late_bind [OF emits_op] emits_late_bind [OF pieces_grow(2)]
        ends_late end_error)

text \<open>
  How every reconciliation ends: it reports Ready, and comes back after the resync interval,
  only when the Kubernetes server accepted, as the very last step, the status that carries
  the Ready phase and the generation of the object; it waits for its site only when it has
  not called the API; otherwise it ends in the reset, in the report of a conflict, or in an
  error.
\<close>

theorem reconcile_ends:
  "emits (reconcile (record_kube k) (record_api a) sch res)
     (runEnd (readyPatch k) resetPatch (conflictPatch k) (waitPatch k))"
proof -
  have site: "emits (reconcileOnSite (record_kube k) (record_api a) sch res i) (\<lambda>out new. publicEnd k out (e # new))"
    for i e
    by (rule emits_conseq [OF reconcileOnSite_late]) (auto intro: runEnd_late_Cons)
  show ?thesis
    unfolding reconcile_def
    by (rule emits_bind_Site)
      (auto intro!: emits_bind_patch ends_waiting_now end_error site waitPatchI)
qed

subsection \<open>What the answers of the server decide\<close>

text \<open>The result of a reconciliation whose creation the server refused with \<open>e\<close>.\<close>

definition refusal :: "gerr \<Rightarrow> reconciled" where
  "refusal e =
     (if IsConflict e then (\<lparr>RequeueAfter = RequeuePermanentError\<rparr>, None)
      else if IsBadRequest e then (noResult, Some (Terminal (Wrap ''CreateResource: '' e [])))
      else (noResult, Some (Wrap ''CreateResource: '' e [])))"

definition createRefused :: "event \<Rightarrow> gerr option" where
  "createRefused ev = (case ev of EApi (ACreateResource _ (Inl e)) \<Rightarrow> Some e | _ \<Rightarrow> None)"

lemma createRefused_simps [simp]:
  "createRefused (EApi (ACreateResource q (Inl e))) = Some e"
  "createRefused (EApi (ACreateResource q (Inr c))) = None"
  "createRefused (EApi (ACreateTarget i t r1)) = None" "createRefused (EApi (ACreateRule i u r1)) = None"
  "createRefused (EApi (ADeleteTarget i r2)) = None" "createRefused (EApi (ADeleteRule i j r2)) = None"
  "createRefused (EApi (AUpdateResource i v r2)) = None" "createRefused (EApi (ADeleteResource i r2)) = None"
  "createRefused (EApi (AListResources n r3)) = None" "createRefused (EApi (AListDomains r4)) = None"
  "createRefused (EPub x) = None" "createRefused (EListSitesByName n r5) = None"
  by (simp_all add: createRefused_def)

lemmas unrefused = emits_agrees_quiet [of createRefused]

lemma emits_bind_unrefused:
  assumes "emitsAll (\<lambda>ev. createRefused ev = None) m"
    and "\<And>r. emits (f r) (\<lambda>r'. agrees createRefused (P r'))"
  shows "emits (m \<bind> f) (\<lambda>r'. agrees createRefused (P r'))"
  using assms(1) unfolding emitsAll_def
  by (rule emits_bind) (auto intro: emits_conseq [OF assms(2)] agrees_quiet)

lemma createResource_refused:
  "emits (createResource (record_kube k) (record_api a) sch res sid)
     (\<lambda>r. agrees createRefused (\<lambda>e. fst r = Some (Wrap ''CreateResource: '' e [])))"
  unfolding createResource_def Let_def
  by (auto split: sum.splits option.splits
      intro!: emits_bind_op emits_bind_patch unrefused [OF finishCreate_all]
        emits_bind_unrefused [OF createRequestFor_all])

lemma ensureExists_refused:
  "emits (ensureExists (record_kube k) (record_api a) sch res sid)
     (\<lambda>r. agrees createRefused (\<lambda>e. fst (snd r) = Some (Wrap ''CreateResource: '' e [])))"
  unfolding ensureExists_def Let_def
  by (auto split: sum.splits option.splits
      intro!: emits_bind_op emits_bind_patch emits_bind [OF createResource_refused])

definition failedWith :: "gerr \<Rightarrow> reconciled" where
  "failedWith e =
     (if IsConflict e then (\<lparr>RequeueAfter = RequeuePermanentError\<rparr>, None)
      else if IsBadRequest e then (noResult, Some (Terminal e)) else (noResult, Some e))"

lemma ensureFailed_returns:
  "emits (ensureFailed (record_kube k) res e)
     (\<lambda>out new. agrees createRefused P new \<and> out = failedWith e)"
  unfolding ensureFailed_def failedWith_def by (auto intro!: emits_bind_patch)

lemma refusal_failedWith: "refusal e = failedWith (Wrap ''CreateResource: '' e [])"
  by (simp add: refusal_def failedWith_def)

text \<open>
  C28.  What a refused creation leads to: whenever the log holds a refused creation of the resource,
  the result is the one its status code calls for, the conflict (409) coming back after five
  minutes without an error, the bad request (400) ending in a terminal error, anything else
  in the error itself, which controller-runtime retries with back-off.
\<close>

theorem reconcileOnSite_create_refused:
  "emits (reconcileOnSite (record_kube k) (record_api a) sch res sid)
     (\<lambda>out. agrees createRefused (\<lambda>e. out = refusal e))"
proof -
  have failed: "emits (ensureFailed (record_kube k) res1 e)
      (\<lambda>out new'. agrees createRefused (\<lambda>e. out = refusal e) new \<and> agrees createRefused (\<lambda>e. out = refusal e) new')"
    if "agrees createRefused (\<lambda>e'. e = Wrap ''CreateResource: '' e' []) new" for res1 e new
    using ensureFailed_returns
    by (rule emits_conseq)
      (use that in \<open>auto simp: agrees_def list_all_iff refusal_failedWith split: option.splits\<close>)
  have silent: "agrees createRefused P new" if "agrees createRefused (\<lambda>e. False) new" for P new
    using that by (auto simp: agrees_def list_all_iff split: option.splits)
  show ?thesis
    unfolding reconcileOnSite_def Let_def
    by (rule emits_bind [OF ensureExists_refused])
      (auto split: option.splits sum.splits simp: silent
        intro!: failed emits_bind_op unrefused emitsAll_bind updateResource_all updateFailed_all markReady_all)
qed

text \<open>
  C11.  Creating targets concurrently is creating them one after another, in some order.  For every
  schedule of the goroutines there is an order of the requests such that sending them in
  sequence answers each the same and leaves the same server; each target is requested once;
  the identifiers are returned in the order of the specification, whatever the schedule, and
  the error joins exactly the failures.
\<close>

theorem createTargets_sequential:
  "case run_state (createTargets a sched resourceID siteID targets) w of (out, w') \<Rightarrow>
     \<exists>ord res. run_state (seqCalls (\<lambda>i. CreateTarget a resourceID (targetRequest siteID (targets ! i))) ord) w
           = (map (\<lambda>i. (i, res i)) ord, w')
       \<and> fanOutcome ''CreateTarget: '' (length targets) res ord out"
  unfolding createTargets_def by (rule createAll_sequential)

end
