(* ===== verification/PrivateResource.thy ===== *)
theory PrivateResource
  imports Kube Pangolin
begin

text \<open>
  The PrivateResource controller, \<open>internal/controller/privateresource/controller.go\<close>.  As in
  theory PublicResource, the clients are arguments and a function that changes the object in
  memory returns it after its Go results.
\<close>

definition PrivateResourceFinalizer :: string where
  "PrivateResourceFinalizer = ''pangolin.home-operations.com/privateresource-finalizer''"

definition modeHTTP :: string where "modeHTTP = ''http''"

section \<open>Status patches\<close>

definition patchStatus ::
  "'w kube \<Rightarrow> PrivateResource \<Rightarrow> (PrivateResourceStatus \<Rightarrow> PrivateResourceStatus)
     \<Rightarrow> ('w, gerr option \<times> PrivateResource) state" where
  "patchStatus k res mutate =
     (let res' = res\<lparr>priv_Status := mutate (priv_Status res)\<rparr> in
      do {
        r \<leftarrow> oc_StatusPatch (kPrivs k) res res';
        ret (case r of Inl e \<Rightarrow> (Some (ErrKube e), res') | Inr obj \<Rightarrow> (None, obj))
      })"

definition setReady ::
  "'w kube \<Rightarrow> PrivateResource \<Rightarrow> condStatus \<Rightarrow> string \<Rightarrow> string \<Rightarrow> PrivateResourceStatus \<Rightarrow> PrivateResourceStatus" where
  "setReady k res status reason msg s =
     s\<lparr>vst_Conditions := SetCondition k status reason msg (m_Generation (priv_Meta res)) (vst_Conditions s)\<rparr>"

section \<open>Finding and describing a site resource\<close>

fun findSiteResource :: "SiteResourceItem list \<Rightarrow> PrivateResourceSpec \<Rightarrow> int \<Rightarrow> SiteResourceItem option" where
  "findSiteResource [] spec siteID = None"
| "findSiteResource (item # items) spec siteID =
     (if vi_Name item \<noteq> vs_Name spec \<or> vi_Mode item \<noteq> vs_Mode spec then findSiteResource items spec siteID
      else if vs_Mode spec = modeHTTP then
        (if vs_FullDomain spec \<noteq> [] \<and> vi_FullDomain item = vs_FullDomain spec then Some item
         else findSiteResource items spec siteID)
      else if vi_Destination item = vs_Destination spec \<and> vi_SiteID item = siteID then Some item
      else findSiteResource items spec siteID)"

definition orEmpty :: "'a slice \<Rightarrow> 'a slice" where
  "orEmpty s = (case s of None \<Rightarrow> Some [] | Some xs \<Rightarrow> Some xs)"

record httpFields =
  hf_DomainID :: string
  hf_Subdomain :: string
  hf_Scheme :: string
  hf_DestinationPort :: int
  hf_Ssl :: "bool option"

definition httpFieldsFor :: "'w API \<Rightarrow> PrivateResourceSpec \<Rightarrow> ('w, gerr + httpFields) state" where
  "httpFieldsFor a spec =
     (if vs_FullDomain spec = [] then ret (Inl (ErrMsg (''fullDomain is required when mode is '' @ quote modeHTTP)))
      else do {
        d \<leftarrow> ListDomains a;
        ret (case d of
               Inl e \<Rightarrow> Inl (Wrap ''ListDomains: '' e [])
             | Inr domains \<Rightarrow>
                 (let (domainID, subdomain, ok) = ResolveDomain domains (vs_FullDomain spec) in
                  if \<not> ok then Inl (ErrMsg (''no Pangolin domain matches '' @ quote (vs_FullDomain spec)))
                  else Inr \<lparr>hf_DomainID = domainID, hf_Subdomain = subdomain, hf_Scheme = vs_Scheme spec,
                    hf_DestinationPort = vs_DestinationPort spec, hf_Ssl = vs_Ssl spec\<rparr>))
      })"

section \<open>Creating\<close>

definition createRequest :: "PrivateResourceSpec \<Rightarrow> int \<Rightarrow> CreateSiteResourceRequest" where
  "createRequest spec siteID =
     \<lparr>cvq_Name = vs_Name spec, cvq_SiteID = siteID, cvq_Mode = vs_Mode spec,
      cvq_Destination = vs_Destination spec, cvq_TcpPortRangeString = [], cvq_UdpPortRangeString = [],
      cvq_DisableIcmp = vs_DisableIcmp spec, cvq_Alias = vs_Alias spec,
      cvq_RoleIds = orEmpty (vs_RoleIds spec), cvq_UserIds = orEmpty (vs_UserIds spec),
      cvq_ClientIds = orEmpty (vs_ClientIds spec), cvq_Ssl = None, cvq_Scheme = [],
      cvq_DomainId = [], cvq_Subdomain = [], cvq_DestinationPort = 0\<rparr>"

text \<open>The request with the fields of its mode.\<close>

definition createRequestFor ::
  "'w API \<Rightarrow> PrivateResourceSpec \<Rightarrow> int \<Rightarrow> ('w, gerr + CreateSiteResourceRequest) state" where
  "createRequestFor a spec siteID =
     (if vs_Mode spec = modeHTTP then do {
        h \<leftarrow> httpFieldsFor a spec;
        ret (case h of
               Inl e \<Rightarrow> Inl e
             | Inr h \<Rightarrow> Inr ((createRequest spec siteID)
                 \<lparr>cvq_DomainId := hf_DomainID h, cvq_Subdomain := hf_Subdomain h, cvq_Scheme := hf_Scheme h,
                  cvq_DestinationPort := hf_DestinationPort h, cvq_Ssl := hf_Ssl h\<rparr>))
      } else ret (Inr ((createRequest spec siteID)
          \<lparr>cvq_TcpPortRangeString := vs_TcpPorts spec, cvq_UdpPortRangeString := vs_UdpPorts spec\<rparr>)))"

definition createSiteResource ::
  "'w kube \<Rightarrow> 'w API \<Rightarrow> PrivateResource \<Rightarrow> int \<Rightarrow> ('w, gerr option \<times> PrivateResource) state" where
  "createSiteResource k a res siteID =
     do {
       (err, res1) \<leftarrow> patchStatus k res (\<lambda>s. s\<lparr>vst_Phase := PhaseCreating\<rparr>);
       case err of
         Some e \<Rightarrow> ret (Some e, res1)
       | None \<Rightarrow> do {
           rq \<leftarrow> createRequestFor a (priv_Spec res1) siteID;
           case rq of
             Inl e \<Rightarrow> ret (Some e, res1)
           | Inr req \<Rightarrow> do {
               cr \<leftarrow> CreateSiteResource a req;
               case cr of
                 Inl e \<Rightarrow> ret (Some (Wrap ''CreateSiteResource: '' e []), res1)
               | Inr created \<Rightarrow> do {
                   (err2, res2) \<leftarrow> patchStatus k res1 (\<lambda>s. s\<lparr>vst_SiteResourceID := cvr_SiteResourceID created,
                      vst_NiceID := cvr_NiceID created, vst_FullDomain := cvr_FullDomain created,
                      vst_Phase := PhaseCreating\<rparr>);
                   case err2 of
                     Some e \<Rightarrow> do { _ \<leftarrow> DeleteSiteResource a (cvr_SiteResourceID created); ret (Some e, res2) }
                   | None \<Rightarrow> ret (None, res2)
                 }
             }
         }
     }"

section \<open>Adopting or creating\<close>

definition adoptStatus :: "SiteResourceItem \<Rightarrow> PrivateResourceStatus \<Rightarrow> PrivateResourceStatus" where
  "adoptStatus m s =
     s\<lparr>vst_SiteResourceID := vi_SiteResourceID m, vst_NiceID := vi_NiceID m,
       vst_FullDomain := vi_FullDomain m, vst_Phase := PhaseCreating\<rparr>"

definition ensureExists ::
  "'w kube \<Rightarrow> 'w API \<Rightarrow> PrivateResource \<Rightarrow> int \<Rightarrow> ('w, bool \<times> gerr option \<times> PrivateResource) state" where
  "ensureExists k a res siteID =
     do {
       l \<leftarrow> ListSiteResources a (vs_Name (priv_Spec res));
       case l of
         Inl e \<Rightarrow> ret (False, Some (Wrap ''ListSiteResources: '' e []), res)
       | Inr items \<Rightarrow>
           (let match = findSiteResource items (priv_Spec res) siteID; rid = vst_SiteResourceID (priv_Status res) in
            if rid \<noteq> 0 \<and> list_ex (\<lambda>item. vi_SiteResourceID item = rid) items then ret (False, None, res)
            else (case match of
                    Some m \<Rightarrow> do { (err, res') \<leftarrow> patchStatus k res (adoptStatus m); ret (True, err, res') }
                  | None \<Rightarrow> do { (err, res') \<leftarrow> createSiteResource k a res siteID; ret (False, err, res') }))
     }"

section \<open>Updating\<close>

definition updateRequest :: "PrivateResourceSpec \<Rightarrow> int \<Rightarrow> UpdateSiteResourceRequest" where
  "updateRequest spec siteID =
     \<lparr>uvq_UserIds = orEmpty (vs_UserIds spec), uvq_RoleIds = orEmpty (vs_RoleIds spec),
      uvq_ClientIds = orEmpty (vs_ClientIds spec), uvq_SiteID = siteID, uvq_Name = vs_Name spec,
      uvq_Mode = vs_Mode spec, uvq_Destination = vs_Destination spec, uvq_TcpPortRangeString = [],
      uvq_UdpPortRangeString = [], uvq_DisableIcmp = vs_DisableIcmp spec, uvq_Alias = vs_Alias spec,
      uvq_Ssl = None, uvq_Scheme = [], uvq_DomainId = [], uvq_Subdomain = [], uvq_DestinationPort = 0\<rparr>"

definition updateRequestFor ::
  "'w API \<Rightarrow> PrivateResourceSpec \<Rightarrow> int \<Rightarrow> ('w, gerr + UpdateSiteResourceRequest) state" where
  "updateRequestFor a spec siteID =
     (if vs_Mode spec = modeHTTP then do {
        h \<leftarrow> httpFieldsFor a spec;
        ret (case h of
               Inl e \<Rightarrow> Inl e
             | Inr h \<Rightarrow> Inr ((updateRequest spec siteID)
                 \<lparr>uvq_DomainId := hf_DomainID h, uvq_Subdomain := hf_Subdomain h, uvq_Scheme := hf_Scheme h,
                  uvq_DestinationPort := hf_DestinationPort h, uvq_Ssl := hf_Ssl h\<rparr>))
      } else ret (Inr ((updateRequest spec siteID)
          \<lparr>uvq_TcpPortRangeString := vs_TcpPorts spec, uvq_UdpPortRangeString := vs_UdpPorts spec\<rparr>)))"

definition updateSiteResource :: "'w API \<Rightarrow> PrivateResource \<Rightarrow> int \<Rightarrow> ('w, gerr option) state" where
  "updateSiteResource a res siteID =
     do {
       rq \<leftarrow> updateRequestFor a (priv_Spec res) siteID;
       case rq of
         Inl e \<Rightarrow> ret (Some e)
       | Inr req \<Rightarrow> do {
           u \<leftarrow> UpdateSiteResource a (vst_SiteResourceID (priv_Status res)) req;
           ret (case u of Some e \<Rightarrow> Some (Wrap ''UpdateSiteResource: '' e []) | None \<Rightarrow> None)
         }
     }"

section \<open>Reconciling\<close>

definition ensureFailed :: "'w kube \<Rightarrow> PrivateResource \<Rightarrow> gerr \<Rightarrow> ('w, reconciled) state" where
  "ensureFailed k res e =
     (if IsBadRequest e then do {
        _ \<leftarrow> patchStatus k res (\<lambda>s. setReady k res ConditionFalse ReasonPermanentError (errText e)
               (s\<lparr>vst_Phase := PhaseError\<rparr>));
        ret (noResult, Some (Terminal e))
      } else do {
        _ \<leftarrow> patchStatus k res (setReady k res ConditionFalse ReasonError (errText e));
        ret (noResult, Some e)
      })"

definition resetStatus :: "PrivateResourceStatus \<Rightarrow> PrivateResourceStatus" where
  "resetStatus s = s\<lparr>vst_SiteResourceID := 0, vst_NiceID := []\<rparr>"

definition updateFailed :: "'w kube \<Rightarrow> PrivateResource \<Rightarrow> gerr \<Rightarrow> ('w, reconciled) state" where
  "updateFailed k res e =
     (if IsNotFound e then do {
        _ \<leftarrow> patchStatus k res resetStatus;
        ret (\<lparr>RequeueAfter = Second\<rparr>, None)
      } else do {
        _ \<leftarrow> patchStatus k res (setReady k res ConditionFalse ReasonError (errText e));
        ret (noResult, Some e)
      })"

definition readyStatus :: "'w kube \<Rightarrow> PrivateResource \<Rightarrow> PrivateResourceStatus \<Rightarrow> PrivateResourceStatus" where
  "readyStatus k res s =
     setReady k res ConditionTrue ReasonReconciled ''resource reconciled successfully''
       (s\<lparr>vst_Phase := PhaseReady, vst_ObservedGeneration := m_Generation (priv_Meta res)\<rparr>)"

definition markReady :: "'w kube \<Rightarrow> PrivateResource \<Rightarrow> ('w, reconciled) state" where
  "markReady k res =
     do {
       (err, _) \<leftarrow> patchStatus k res (readyStatus k res);
       ret (case err of Some e \<Rightarrow> (noResult, Some e) | None \<Rightarrow> (\<lparr>RequeueAfter = ResyncInterval\<rparr>, None))
     }"

definition reconcileOnSite :: "'w kube \<Rightarrow> 'w API \<Rightarrow> PrivateResource \<Rightarrow> int \<Rightarrow> ('w, reconciled) state" where
  "reconcileOnSite k a res siteID =
     do {
       let hadID = (vst_SiteResourceID (priv_Status res) \<noteq> 0);
       (adopted, err, res1) \<leftarrow> ensureExists k a res siteID;
       case err of
         Some e \<Rightarrow> ensureFailed k res1 e
       | None \<Rightarrow> do {
           g \<leftarrow> (if hadID \<and> \<not> adopted then oc_Get (kPrivs k) (objectKey (priv_Meta res1)) else ret (Inr res1));
           case g of
             Inl e \<Rightarrow> ret (noResult, Some (ErrKube e))
           | Inr res2 \<Rightarrow> do {
               let needsUpdate = (adopted \<or> (hadID \<and> vst_SiteResourceID (priv_Status res2) \<noteq> 0
                 \<and> m_Generation (priv_Meta res2) \<noteq> vst_ObservedGeneration (priv_Status res2)));
               err2 \<leftarrow> (if needsUpdate then updateSiteResource a res2 siteID else ret None);
               case err2 of
                 Some e \<Rightarrow> updateFailed k res2 e
               | None \<Rightarrow> markReady k res2
             }
         }
     }"

definition reconcile :: "'w kube \<Rightarrow> 'w API \<Rightarrow> PrivateResource \<Rightarrow> ('w, reconciled) state" where
  "reconcile k a res =
     do {
       s \<leftarrow> Site k (vs_SiteRef (priv_Spec res));
       case s of
         Inl e \<Rightarrow> do {
           _ \<leftarrow> patchStatus k res (setReady k res ConditionFalse ReasonPending (errText e));
           ret (if isSiteNotFound e then (\<lparr>RequeueAfter = RequeueDependencyWait\<rparr>, None) else (noResult, Some e))
         }
       | Inr site \<Rightarrow>
           if nst_Phase (site_Status site) \<noteq> PhaseReady \<or> nst_SiteID (site_Status site) = 0 then do {
             _ \<leftarrow> patchStatus k res (setReady k res ConditionFalse ReasonPending ''waiting for NewtSite to become ready'');
             ret (\<lparr>RequeueAfter = RequeueDependencyWait\<rparr>, None)
           } else reconcileOnSite k a res (nst_SiteID (site_Status site))
     }"

section \<open>Deleting\<close>

definition withFinalizers :: "(string list \<Rightarrow> string list) \<Rightarrow> PrivateResource \<Rightarrow> PrivateResource" where
  "withFinalizers f res = res\<lparr>priv_Meta := (priv_Meta res)\<lparr>m_Finalizers := f (m_Finalizers (priv_Meta res))\<rparr>\<rparr>"

definition removeFinalizer :: "'w kube \<Rightarrow> PrivateResource \<Rightarrow> ('w, gerr option) state" where
  "removeFinalizer k res =
     do {
       u \<leftarrow> oc_Update (kPrivs k) (withFinalizers (kRemoveFinalizer k PrivateResourceFinalizer) res);
       ret (case u of Inl e \<Rightarrow> Some (Wrap ''remove finalizer: '' (ErrKube e) []) | Inr _ \<Rightarrow> None)
     }"

definition cleanup :: "'w kube \<Rightarrow> 'w API \<Rightarrow> PrivateResource \<Rightarrow> ('w, gerr option) state" where
  "cleanup k a res =
     (let rid = vst_SiteResourceID (priv_Status res) in
      do {
        d \<leftarrow> (if rid \<noteq> 0 then DeleteSiteResource a rid else ret None);
        case d of
          Some e \<Rightarrow>
            if \<not> IsNotFound e
            then ret (Some (Wrap (''delete Pangolin site resource '' @ itoa rid @ '': '') e []))
            else removeFinalizer k res
        | None \<Rightarrow> removeFinalizer k res
      })"

definition Reconcile :: "'w kube \<Rightarrow> 'w API \<Rightarrow> key \<Rightarrow> ('w, reconciled) state" where
  "Reconcile k a req =
     do {
       g \<leftarrow> oc_Get (kPrivs k) req;
       case g of
         Inl e \<Rightarrow> ret (noResult, ignoreNotFound (ErrKube e))
       | Inr res \<Rightarrow>
           if m_Deleting (priv_Meta res) then do { err \<leftarrow> cleanup k a res; ret (noResult, err) }
           else do {
             u \<leftarrow> (if kContainsFinalizer k PrivateResourceFinalizer (m_Finalizers (priv_Meta res)) then ret (Inr res)
                   else oc_Update (kPrivs k) (withFinalizers (kAddFinalizer k PrivateResourceFinalizer) res));
             case u of
               Inl e \<Rightarrow> ret (noResult, Some (ErrKube e))
             | Inr res' \<Rightarrow> reconcile k a res'
           }
     }"

end
