(* ===== verification/PrivateLaws.thy ===== *)
theory PrivateLaws
  imports PrivateResource Interfaces
begin

text \<open>
  What the PrivateResource controller does in every environment, over the log of a recorded
  run.  It shares its contracts with the PublicResource controller through theory Interfaces.
\<close>

section \<open>Automation\<close>

abbreviation vpatched :: "(PrivateResourceStatus \<Rightarrow> PrivateResourceStatus) \<Rightarrow> PrivateResource \<Rightarrow> PrivateResource" where
  "vpatched f res \<equiv> res\<lparr>priv_Status := f (priv_Status res)\<rparr>"

lemma emits_vpatch:
  assumes "\<And>x. Q (Some (ErrKube x), vpatched f res) [EPriv (OStatusPatch res (vpatched f res) (Inl x))]"
    and "\<And>x. Q (None, x) [EPriv (OStatusPatch res (vpatched f res) (Inr x))]"
  shows "emits (patchStatus (record_kube k) res f) Q"
  using assms by (auto simp: patchStatus_def Let_def intro!: emits_bind_op split: sum.splits)

lemma emits_bind_vpatch:
  assumes "\<And>x. emits (g (Some (ErrKube x), vpatched f res))
      (\<lambda>r new. Q r (EPriv (OStatusPatch res (vpatched f res) (Inl x)) # new))"
    and "\<And>x. emits (g (None, x)) (\<lambda>r new. Q r (EPriv (OStatusPatch res (vpatched f res) (Inr x)) # new))"
  shows "emits (patchStatus (record_kube k) res f \<bind> g) Q"
  by (rule emits_bind [where P = "\<lambda>(e, obj) new. (\<exists>x. e = Some (ErrKube x) \<and> obj = vpatched f res
         \<and> new = [EPriv (OStatusPatch res (vpatched f res) (Inl x))])
       \<or> (\<exists>x. e = None \<and> obj = x \<and> new = [EPriv (OStatusPatch res (vpatched f res) (Inr x))])"])
    (auto intro!: emits_vpatch simp: assms)

lemma vpatch_all: "(\<And>b n r. P (EPriv (OStatusPatch b n r))) \<Longrightarrow> emitsAll P (patchStatus (record_kube k) res f)"
  by (auto simp: patchStatus_def Let_def intro!: emitsAll_intros)

lemma httpFieldsFor_all: "(\<And>r. P (EApi (AListDomains r))) \<Longrightarrow> emitsAll P (httpFieldsFor (record_api a) spec)"
  by (auto simp: httpFieldsFor_def intro!: emitsAll_intros)

lemma vcreateRequestFor_all:
  "(\<And>r. P (EApi (AListDomains r))) \<Longrightarrow> emitsAll P (createRequestFor (record_api a) spec sid)"
  and vupdateRequestFor_all:
  "(\<And>r. P (EApi (AListDomains r))) \<Longrightarrow> emitsAll P (updateRequestFor (record_api a) spec sid)"
  by (auto simp: createRequestFor_def updateRequestFor_def intro!: emitsAll_intros httpFieldsFor_all)

lemma updateSiteResource_all:
  "(\<And>r. P (EApi (AListDomains r))) \<Longrightarrow> (\<And>i q r. P (EApi (AUpdateSiteResource i q r)))
    \<Longrightarrow> emitsAll P (updateSiteResource (record_api a) res sid)"
  by (auto simp: updateSiteResource_def intro!: emitsAll_intros vupdateRequestFor_all split: sum.splits)

lemma vensureFailed_all: "(\<And>b n r. P (EPriv (OStatusPatch b n r))) \<Longrightarrow> emitsAll P (ensureFailed (record_kube k) res e)"
  and vupdateFailed_all: "(\<And>b n r. P (EPriv (OStatusPatch b n r))) \<Longrightarrow> emitsAll P (updateFailed (record_kube k) res e)"
  and vmarkReady_all: "(\<And>b n r. P (EPriv (OStatusPatch b n r))) \<Longrightarrow> emitsAll P (markReady (record_kube k) res)"
  by (auto simp: ensureFailed_def updateFailed_def markReady_def intro!: emitsAll_intros vpatch_all)

lemma createSiteResource_all:
  assumes "\<And>x. P (EApi x)" "\<And>b n r. P (EPriv (OStatusPatch b n r))"
  shows "emitsAll P (createSiteResource (record_kube k) (record_api a) res sid)"
  by (auto simp: createSiteResource_def assms intro!: emitsAll_intros vpatch_all vcreateRequestFor_all
      split: option.splits sum.splits)

lemma vreconcileOnSite_all:
  assumes "\<And>x. P (EApi x)" "\<And>b n r. P (EPriv (OStatusPatch b n r))" "\<And>q r. P (EPriv (OGet q r))"
  shows "emitsAll P (reconcileOnSite (record_kube k) (record_api a) res sid)"
  by (auto simp: reconcileOnSite_def ensureExists_def Let_def assms split: option.splits sum.splits
      intro!: emitsAll_intros vpatch_all createSiteResource_all updateSiteResource_all vensureFailed_all
        vupdateFailed_all vmarkReady_all)

lemma vreconcileOnSite_grows: "emits (reconcileOnSite (record_kube k) (record_api a) res sid) (\<lambda>_ _. True)"
  by (rule emitsAll_grows [OF vreconcileOnSite_all]) simp_all

lemma vreconcile_grows: "emits (reconcile (record_kube k) (record_api a) res) (\<lambda>_ _. True)"
  by (rule emitsAll_grows [where P = "\<lambda>_. True"])
    (auto simp: reconcile_def intro!: emitsAll_intros vpatch_all vreconcileOnSite_all Site_all split: sum.splits)

lemma vpieces_grow:
  "emits (createSiteResource (record_kube k) (record_api a) res sid) (\<lambda>_ _. True)"
  "emits (updateSiteResource (record_api a) res sid) (\<lambda>_ _. True)"
  "emits (markReady (record_kube k) res) (\<lambda>_ _. True)"
  "emits (ensureFailed (record_kube k) res e) (\<lambda>_ _. True)"
  "emits (updateFailed (record_kube k) res e) (\<lambda>_ _. True)"
  "emits (patchStatus (record_kube k) res f) (\<lambda>_ _. True)"
  by (rule emitsAll_grows [OF createSiteResource_all] emitsAll_grows [OF updateSiteResource_all]
      emitsAll_grows [OF vmarkReady_all] emitsAll_grows [OF vensureFailed_all]
      emitsAll_grows [OF vupdateFailed_all] emitsAll_grows [OF vpatch_all]; simp)+

section \<open>Nothing is lost\<close>

definition createdSiteResource :: "event \<Rightarrow> int option" where
  "createdSiteResource e =
     (case e of EApi (ACreateSiteResource _ (Inr c)) \<Rightarrow> Some (cvr_SiteResourceID c) | _ \<Rightarrow> None)"

definition settlesSiteResource :: "int \<Rightarrow> event \<Rightarrow> bool" where
  "settlesSiteResource i e =
     (case e of
        EPriv (OStatusPatch _ n (Inr _)) \<Rightarrow> vst_SiteResourceID (priv_Status n) = i
      | EApi (ADeleteSiteResource j _) \<Rightarrow> j = i
      | _ \<Rightarrow> False)"

lemma createdSiteResource_simps [simp]:
  "createdSiteResource (EApi (ACreateSiteResource q (Inr c))) = Some (cvr_SiteResourceID c)"
  "createdSiteResource (EApi (ACreateSiteResource q (Inl c0))) = None"
  "createdSiteResource (EApi (AUpdateSiteResource i v r2)) = None"
  "createdSiteResource (EApi (ADeleteSiteResource i r2)) = None"
  "createdSiteResource (EApi (AListSiteResources n r3)) = None" "createdSiteResource (EApi (AListDomains r4)) = None"
  "createdSiteResource (EPriv x) = None" "createdSiteResource (EListSitesByName n r5) = None"
  by (simp_all add: createdSiteResource_def)

lemmas vquietly = emits_accounted_quiet [of createdSiteResource]

lemma createSiteResource_accounted:
  "emits (createSiteResource (record_kube k) (record_api a) res sid)
     (\<lambda>_. accounted createdSiteResource settlesSiteResource)"
  unfolding createSiteResource_def
  apply (rule emits_bind_vpatch)
   apply simp_all
  apply (rule emits_accounted_bind)
   apply (rule vquietly, rule vcreateRequestFor_all, simp)
  apply (auto split: sum.splits intro!: emits_bind_op emits_bind_vpatch simp: settlesSiteResource_def)
  done

lemma vensureExists_accounted:
  "emits (ensureExists (record_kube k) (record_api a) res sid)
     (\<lambda>_. accounted createdSiteResource settlesSiteResource)"
  unfolding ensureExists_def
  by (auto simp: Let_def split: sum.splits option.splits
      intro!: emits_accounted_bind createSiteResource_accounted vquietly [OF vpatch_all] vquietly [OF emitsAll_op])

lemma vreconcileOnSite_accounted:
  "emits (reconcileOnSite (record_kube k) (record_api a) res sid)
     (\<lambda>_. accounted createdSiteResource settlesSiteResource)"
  unfolding reconcileOnSite_def Let_def
  by (auto split: sum.splits option.splits
      intro!: emits_accounted_bind vensureExists_accounted vquietly [OF vensureFailed_all] vquietly [OF vupdateFailed_all]
        vquietly [OF vmarkReady_all] vquietly [OF updateSiteResource_all] vquietly [OF emitsAll_op])

lemma vcleanup_accounted:
  "emits (cleanup (record_kube k) (record_api a) res) (\<lambda>_. accounted createdSiteResource settlesSiteResource)"
  by (rule vquietly) (auto simp: cleanup_def removeFinalizer_def Let_def intro!: emitsAll_intros split: option.splits)

text \<open>
  No site resource is lost on the server: in every reconciliation of a PrivateResource, each
  site resource the server created is afterwards recorded in a status the Kubernetes server
  accepted, or its deletion is requested by the roll-back.
\<close>

theorem Reconcile_private_no_orphan:
  "emits (Reconcile (record_kube k) (record_api a) req)
     (\<lambda>_. accounted createdSiteResource settlesSiteResource)"
  unfolding Reconcile_def reconcile_def
  by (auto split: sum.splits option.splits
      intro!: emits_accounted_bind vreconcileOnSite_accounted vcleanup_accounted vquietly [OF Site_all]
        vquietly [OF vpatch_all] vquietly [OF emitsAll_op])

section \<open>The life cycle\<close>

definition viewPriv :: "event \<Rightarrow> PrivateResource objEvent option" where
  "viewPriv e = (case e of EPriv x \<Rightarrow> Some x | _ \<Rightarrow> None)"

interpretation priv_finalized: finalized "kPrivs k" EPriv viewPriv priv_Meta
  "kContainsFinalizer k PrivateResourceFinalizer"
  "withFinalizers (kAddFinalizer k PrivateResourceFinalizer)"
  "withFinalizers (kRemoveFinalizer k PrivateResourceFinalizer)"
  "\<lambda>res. vst_SiteResourceID (priv_Status res)" "DeleteSiteResource a" "\<lambda>i r. EApi (ADeleteSiteResource i r)"
  "\<lambda>i. ''delete Pangolin site resource '' @ itoa i @ '': ''"
  "cleanup (record_kube k) (record_api a)" "reconcile (record_kube k) (record_api a)"
  "Reconcile (record_kube k) (record_api a)"
  for k :: "'w kube" and a :: "'w API"
  by unfold_locales
    (auto simp: viewPriv_def cleanup_def removeFinalizer_def Reconcile_def Let_def
      intro!: arg_cong2 [where f = State_Monad.bind] split: option.splits sum.splits)

text \<open>
  The finalizer of a PrivateResource is removed only after the server has deleted the site
  resource or answered 404, or when none was ever made.
\<close>

theorem private_cleanup_releases_last:
  "emits (cleanup (record_kube k) (record_api a) res)
     (cleanupLog (vst_SiteResourceID (priv_Status res))
        (\<lambda>d. EApi (ADeleteSiteResource (vst_SiteResourceID (priv_Status res)) d))
        (\<lambda>u. EPriv (OUpdate (withFinalizers (kRemoveFinalizer k PrivateResourceFinalizer) res) u)))"
  by (rule priv_finalized.cleanup_log)

text \<open>
  A PrivateResource that is not being deleted gets its finalizer before anything else is
  done, and nothing is done when that update is refused.
\<close>

theorem private_Reconcile_adds_finalizer_first:
  "emits (Reconcile (record_kube k) (record_api a) req)
     (\<lambda>_. finalizerFirst viewPriv
        (\<lambda>res. m_Deleting (priv_Meta res)
           \<or> kContainsFinalizer k PrivateResourceFinalizer (m_Finalizers (priv_Meta res)))
        (withFinalizers (kAddFinalizer k PrivateResourceFinalizer)))"
  by (rule priv_finalized.Reconcile_finalizer_first) (rule vreconcile_grows)

section \<open>Which site resource is adopted\<close>

definition sameSiteResource :: "PrivateResourceSpec \<Rightarrow> int \<Rightarrow> SiteResourceItem \<Rightarrow> bool" where
  "sameSiteResource spec siteID item \<longleftrightarrow>
     vi_Name item = vs_Name spec \<and> vi_Mode item = vs_Mode spec
     \<and> (if vs_Mode spec = modeHTTP then vs_FullDomain spec \<noteq> [] \<and> vi_FullDomain item = vs_FullDomain spec
        else vi_Destination item = vs_Destination spec \<and> vi_SiteID item = siteID)"

interpretation site_resource_search: first_match
  "\<lambda>items. findSiteResource items spec siteID" "sameSiteResource spec siteID" for spec siteID
  by unfold_locales (auto simp: sameSiteResource_def)

text \<open>
  The site resource adopted is the first with the name and mode of the specification and the
  domain, for mode http, or the destination and site, for the others; an http resource
  without a domain adopts nothing.
\<close>

theorem findSiteResource_first:
  "findSiteResource items spec siteID = Some m \<longleftrightarrow>
     (\<exists>us vs. items = us @ m # vs \<and> sameSiteResource spec siteID m
        \<and> list_all (\<lambda>u. \<not> sameSiteResource spec siteID u) us)"
  by (rule site_resource_search.search_Some)

section \<open>Waiting and ending\<close>

text \<open>
  The API is called for a PrivateResource only when its site was found and is Ready with an
  identifier.
\<close>

theorem private_reconcile_waits_for_site:
  "emits (reconcile (record_kube k) (record_api a) res) waitsForSite"
proof -
  have tail: "emits (reconcileOnSite (record_kube k) (record_api a) res i) (\<lambda>out new. P out new)"
    if "\<And>out new. P out new" for i P
    by (rule emits_conseq [of _ "\<lambda>_ _. True"]) (simp_all add: vreconcileOnSite_grows that)
  show ?thesis
    unfolding reconcile_def waitsForSite_def
    by (rule emits_bind_Site) (auto intro!: emits_bind_vpatch tail simp: usableSite_def)
qed

definition vreadyPatch :: "'w kube \<Rightarrow> event \<Rightarrow> bool" where
  "vreadyPatch k e =
     (case e of EPriv (OStatusPatch o1 n (Inr _)) \<Rightarrow> n = vpatched (readyStatus k o1) o1 | _ \<Rightarrow> False)"

definition vresetPatch :: "event \<Rightarrow> bool" where
  "vresetPatch e = (case e of EPriv (OStatusPatch o1 n _) \<Rightarrow> n = vpatched resetStatus o1 | _ \<Rightarrow> False)"

definition vwaitPatch :: "'w kube \<Rightarrow> event \<Rightarrow> bool" where
  "vwaitPatch k e =
     (case e of
        EPriv (OStatusPatch o1 n _) \<Rightarrow> \<exists>m. n = vpatched (setReady k o1 ConditionFalse ReasonPending m) o1
      | _ \<Rightarrow> False)"

lemma vwaitPatchI: "vwaitPatch k (EPriv (OStatusPatch o1 (vpatched (setReady k o1 ConditionFalse ReasonPending m) o1) r))"
  unfolding vwaitPatch_def event.case objEvent.case by (rule exI) (rule refl)

lemma vsetReady_record [simp]: "setReady (record_kube k) = setReady k" "readyStatus (record_kube k) = readyStatus k"
  by (intro ext, simp add: setReady_def readyStatus_def)+

abbreviation privateLate where
  "privateLate k \<equiv> lateEnd (vreadyPatch k) vresetPatch (\<lambda>_. False) (vwaitPatch k)"

lemma vends_late:
  "emits (ensureFailed (record_kube k) res e) (privateLate k)"
  "emits (updateFailed (record_kube k) res e) (privateLate k)"
  "emits (markReady (record_kube k) res) (privateLate k)"
  unfolding ensureFailed_def updateFailed_def markReady_def
  by (auto intro!: emits_bind_vpatch end_error ends_now simp: vreadyPatch_def vresetPatch_def)

lemma vensureExists_grows: "emits (ensureExists (record_kube k) (record_api a) res sid) (\<lambda>_ _. True)"
  by (rule emits_conseq [OF vensureExists_accounted]) simp

lemma vreconcileOnSite_late: "emits (reconcileOnSite (record_kube k) (record_api a) res sid) (privateLate k)"
  unfolding reconcileOnSite_def Let_def
  by (auto split: option.splits sum.splits
      intro!: emits_late_bind [OF vensureExists_grows] emits_late_bind [OF emits_op] emits_late_bind [OF vpieces_grow(2)]
        vends_late end_error)

text \<open>
  How every reconciliation of a PrivateResource ends: Ready is reported only by the accepted
  patch that carries the generation, as the last step; there is no answer to a conflict, so
  it never comes back after the five minutes of a permanent error.
\<close>

theorem private_reconcile_ends:
  "emits (reconcile (record_kube k) (record_api a) res)
     (runEnd (vreadyPatch k) vresetPatch (\<lambda>_. False) (vwaitPatch k))"
proof -
  have site: "emits (reconcileOnSite (record_kube k) (record_api a) res i)
      (\<lambda>out new. runEnd (vreadyPatch k) vresetPatch (\<lambda>_. False) (vwaitPatch k) out (e # new))" for i e
    by (rule emits_conseq [OF vreconcileOnSite_late]) (auto intro: runEnd_late_Cons)
  show ?thesis
    unfolding reconcile_def
    by (rule emits_bind_Site)
      (auto intro!: emits_bind_vpatch ends_waiting_now end_error site vwaitPatchI)
qed

section \<open>No needless work\<close>

definition vdrifted :: "int \<Rightarrow> event \<Rightarrow> bool" where
  "vdrifted rid e =
     (case e of
        EApi (AListSiteResources _ (Inr items)) \<Rightarrow> rid = 0 \<or> \<not> list_ex (\<lambda>item. vi_SiteResourceID item = rid) items
      | EPriv (OGet _ (Inr x)) \<Rightarrow> m_Generation (priv_Meta x) \<noteq> vst_ObservedGeneration (priv_Status x)
      | _ \<Rightarrow> False)"

lemma vmarkReady_calm: "emitsAll (\<lambda>e. \<not> isMutation e) (markReady (record_kube k) res)"
  and vensureFailed_calm: "emitsAll (\<lambda>e. \<not> isMutation e) (ensureFailed (record_kube k) res e)"
  by (rule vmarkReady_all vensureFailed_all; simp)+

lemma vensureExists_steady:
  "emits (ensureExists (record_kube k) (record_api a) res siteID)
     (\<lambda>(adopted, err, res') new. list_ex (vdrifted (vst_SiteResourceID (priv_Status res))) new
        \<or> (list_all (\<lambda>e. \<not> isMutation e) new
            \<and> (case err of Some _ \<Rightarrow> True | None \<Rightarrow> \<not> adopted \<and> res' = res \<and> vst_SiteResourceID (priv_Status res) \<noteq> 0)))"
  unfolding ensureExists_def Let_def
  by (auto split: sum.splits option.splits simp: vdrifted_def
      intro!: emits_bind_op emits_bind [OF vpieces_grow(1)] emits_bind [OF vpieces_grow(6)])

text \<open>
  A PrivateResource that is listed on the server and whose generation was already observed
  causes no changing call.
\<close>

theorem private_reconcileOnSite_steady:
  "emits (reconcileOnSite (record_kube k) (record_api a) res siteID)
     (\<lambda>_ new. list_all (\<lambda>e. \<not> isMutation e) new
        \<or> list_ex (vdrifted (vst_SiteResourceID (priv_Status res))) new)"
  unfolding reconcileOnSite_def Let_def
  apply (rule emits_bind_evidence [where R = "\<lambda>(adopted, err, res'). (case err of Some _ \<Rightarrow> True
      | None \<Rightarrow> \<not> adopted \<and> res' = res \<and> vst_SiteResourceID (priv_Status res) \<noteq> 0)"])
    apply (rule emits_conseq [OF vensureExists_steady])
    apply auto[1]
   apply (auto split: option.splits sum.splits intro!: vpieces_grow emits_bind_op emits_bind [OF vpieces_grow(2)])[1]
  apply (auto split: option.splits sum.splits simp: vdrifted_def
      intro!: emits_bind_op emits_bind [OF vpieces_grow(2)] emitsAll_or [OF vensureFailed_calm]
        emitsAll_or [OF vmarkReady_calm] vpieces_grow emits_conseq [OF vmarkReady_calm [unfolded emitsAll_def]])[1]
  done

end
