(* ===== verification/Autodiscover.thy ===== *)
theory Autodiscover
  imports Kube "HOL-Library.AList"
begin

text \<open>
  The package \<open>internal/autodiscover\<close>: reading annotations, building the specification of a
  PublicResource from a route or a service, and writing the resource owned by it.  A Go map of
  strings is an association list read with \<open>map_of\<close> and written with \<open>AList.update\<close>.
\<close>

definition DefaultAnnotationPrefix :: string where
  "DefaultAnnotationPrefix = ''pangolin-operator''"

definition methodHTTP :: string where "methodHTTP = ''http''"
definition methodHTTPS :: string where "methodHTTPS = ''https''"
definition methodH2C :: string where "methodH2C = ''h2c''"
definition protocolTCP :: string where "protocolTCP = ''tcp''"
definition protocolUDP :: string where "protocolUDP = ''udp''"
definition boolFalse :: string where "boolFalse = ''false''"
definition boolTrue :: string where "boolTrue = ''true''"
definition actionDROP :: string where "actionDROP = ''DROP''"
definition rewriteStripPrefix :: string where "rewriteStripPrefix = ''stripPrefix''"
definition matchCountry :: string where "matchCountry = ''country''"

lemmas autodiscover_consts = DefaultAnnotationPrefix_def methodHTTP_def methodHTTPS_def methodH2C_def
  protocolTCP_def protocolUDP_def boolFalse_def boolTrue_def actionDROP_def rewriteStripPrefix_def
  matchCountry_def

type_synonym strmap = "(string \<times> string) list"

text \<open>Reading a missing key of a Go map gives the zero value.\<close>

definition mget :: "strmap \<Rightarrow> string \<Rightarrow> string" where
  "mget m k = (case map_of m k of Some v \<Rightarrow> v | None \<Rightarrow> [])"

section \<open>Annotations\<close>

definition annotationPrefix :: "AutoDiscoverSpec \<Rightarrow> string" where
  "annotationPrefix cfg = (if ad_AnnotationPrefix cfg \<noteq> [] then ad_AnnotationPrefix cfg else DefaultAnnotationPrefix)"

definition annotationKey :: "string \<Rightarrow> string \<Rightarrow> string" where
  "annotationKey prefix key = prefix @ ''/'' @ key"

definition IsOptOut :: "strmap \<Rightarrow> string \<Rightarrow> bool" where
  "IsOptOut annotations prefix =
     (case map_of annotations (annotationKey prefix ''enabled'') of
        Some v \<Rightarrow> v = boolFalse \<or> v = ''0'' | None \<Rightarrow> False)"

definition IsOptIn :: "strmap \<Rightarrow> string \<Rightarrow> bool" where
  "IsOptIn annotations prefix =
     (case map_of annotations (annotationKey prefix ''enabled'') of
        Some v \<Rightarrow> v = boolTrue \<or> v = ''1'' | None \<Rightarrow> False)"

definition isTruthy :: "string \<Rightarrow> bool" where
  "isTruthy v = (v = boolTrue \<or> v = ''1'')"

text \<open>The loop over the pieces of a comma-separated list.\<close>

definition splitCSV :: "string \<Rightarrow> string list" where
  "splitCSV s =
     (if s = [] then []
      else foldl (\<lambda>out v. let v = trimSpace v in if v \<noteq> [] then out @ [v] else out) [] (splitOn (CHR '','') s))"

record annotationResolver =
  rv_annotations :: strmap
  rv_prefix :: string
  rv_cfg :: AutoDiscoverSpec

definition newResolver :: "strmap \<Rightarrow> AutoDiscoverSpec \<Rightarrow> annotationResolver" where
  "newResolver annotations cfg =
     \<lparr>rv_annotations = annotations, rv_prefix = annotationPrefix cfg, rv_cfg = cfg\<rparr>"

definition rv_get :: "annotationResolver \<Rightarrow> string \<Rightarrow> string" where
  "rv_get r key = mget (rv_annotations r) (annotationKey (rv_prefix r) key)"

definition rv_lookup :: "annotationResolver \<Rightarrow> string \<Rightarrow> string option" where
  "rv_lookup r key = map_of (rv_annotations r) (annotationKey (rv_prefix r) key)"

definition rv_enabledOr :: "annotationResolver \<Rightarrow> bool \<Rightarrow> bool" where
  "rv_enabledOr r def = (case rv_lookup r ''enabled'' of Some v \<Rightarrow> isTruthy v | None \<Rightarrow> def)"

definition rv_enabled :: "annotationResolver \<Rightarrow> bool" where
  "rv_enabled r = rv_enabledOr r True"

definition rv_name :: "annotationResolver \<Rightarrow> string \<Rightarrow> string" where
  "rv_name r defaultName =
     (case rv_lookup r ''name'' of Some v \<Rightarrow> if v \<noteq> [] then v else defaultName | None \<Rightarrow> defaultName)"

definition rv_siteRef :: "annotationResolver \<Rightarrow> string \<Rightarrow> string option" where
  "rv_siteRef r fallback =
     (case rv_lookup r ''site-ref'' of
        Some v \<Rightarrow> if v \<noteq> [] then Some v else if fallback \<noteq> [] then Some fallback else None
      | None \<Rightarrow> if fallback \<noteq> [] then Some fallback else None)"

definition rv_ssl :: "annotationResolver \<Rightarrow> bool" where
  "rv_ssl r = (case rv_lookup r ''ssl'' of Some v \<Rightarrow> isTruthy v | None \<Rightarrow> ad_SSL (rv_cfg r))"

definition rv_method :: "annotationResolver \<Rightarrow> string \<Rightarrow> string" where
  "rv_method r defaultMethod =
     (case rv_lookup r ''method'' of
        Some v \<Rightarrow>
          (let v = toLower (trimSpace v) in
           if v = methodHTTP \<or> v = methodHTTPS \<or> v = methodH2C then v else defaultMethod)
      | None \<Rightarrow> defaultMethod)"

definition rv_tlsServerName :: "annotationResolver \<Rightarrow> string \<Rightarrow> string" where
  "rv_tlsServerName r defaultName =
     (let v = trimSpace (rv_get r ''tls-server-name'') in if v \<noteq> [] then v else defaultName)"

definition rv_proxyPort :: "annotationResolver \<Rightarrow> int \<Rightarrow> int" where
  "rv_proxyPort r defaultPort =
     (case rv_lookup r ''proxy-port'' of
        Some v \<Rightarrow> (case atoi v of Some p \<Rightarrow> if p \<ge> 1 \<and> p \<le> 65535 then p else defaultPort | None \<Rightarrow> defaultPort)
      | None \<Rightarrow> defaultPort)"

definition rv_protocol :: "annotationResolver \<Rightarrow> string \<Rightarrow> string" where
  "rv_protocol r defaultProto =
     (case rv_lookup r ''protocol'' of
        Some v \<Rightarrow>
          (let v = toLower (trimSpace v) in if v = protocolTCP \<or> v = protocolUDP then v else defaultProto)
      | None \<Rightarrow> defaultProto)"

section \<open>Headers, rules, maintenance, authentication\<close>

definition zeroHeader :: PublicHeaderSpec where
  "zeroHeader = \<lparr>hd_Name = [], hd_Value = []\<rparr>"

definition decHeader :: "json \<Rightarrow> PublicHeaderSpec option" where
  "decHeader j =
     decObj (\<lambda>k v h.
       if keyIs ''name'' k then map_option (\<lambda>s. h\<lparr>hd_Name := s\<rparr>) (decStr v (hd_Name h))
       else if keyIs ''value'' k then map_option (\<lambda>s. h\<lparr>hd_Value := s\<rparr>) (decStr v (hd_Value h))
       else Some h) j zeroHeader"

definition zeroRule :: PublicRuleSpec where
  "zeroRule = \<lparr>pr_Action = [], pr_Match = [], pr_Value = [], pr_Priority = 0\<rparr>"

definition decRule :: "json \<Rightarrow> PublicRuleSpec option" where
  "decRule j =
     decObj (\<lambda>k v r.
       if keyIs ''action'' k then map_option (\<lambda>s. r\<lparr>pr_Action := s\<rparr>) (decStr v (pr_Action r))
       else if keyIs ''match'' k then map_option (\<lambda>s. r\<lparr>pr_Match := s\<rparr>) (decStr v (pr_Match r))
       else if keyIs ''value'' k then map_option (\<lambda>s. r\<lparr>pr_Value := s\<rparr>) (decStr v (pr_Value r))
       else if keyIs ''priority'' k then map_option (\<lambda>i. r\<lparr>pr_Priority := i\<rparr>) (decInt v (pr_Priority r))
       else Some r) j zeroRule"

definition buildHeaders :: "strmap \<Rightarrow> string \<Rightarrow> PublicHeaderSpec list" where
  "buildHeaders annotations prefix =
     (case map_of annotations (annotationKey prefix ''headers'') of
        None \<Rightarrow> []
      | Some raw \<Rightarrow>
          if raw = [] then []
          else (case Option.bind (parseJson raw) (decSlice decHeader) of None \<Rightarrow> [] | Some out \<Rightarrow> elems out))"

definition isValidRule :: "PublicRuleSpec \<Rightarrow> bool" where
  "isValidRule r =
     (if pr_Action r \<notin> {''ACCEPT'', actionDROP, ''PASS''}
         \<or> pr_Match r \<notin> {''cidr'', ''ip'', ''path'', matchCountry} \<or> pr_Value r = [] then False
      else if pr_Priority r \<noteq> 0 \<and> (pr_Priority r < 1 \<or> pr_Priority r > 1000) then False
      else True)"

definition annotatedRules :: "strmap \<Rightarrow> string \<Rightarrow> PublicRuleSpec list" where
  "annotatedRules annotations prefix =
     (case map_of annotations (annotationKey prefix ''rules'') of
        None \<Rightarrow> []
      | Some raw \<Rightarrow>
          if raw = [] then []
          else (case Option.bind (parseJson raw) (decSlice decRule) of
                  None \<Rightarrow> [] | Some parsed \<Rightarrow> filter isValidRule (elems parsed)))"

definition denyRule :: "string \<Rightarrow> PublicRuleSpec" where
  "denyRule country = \<lparr>pr_Action = actionDROP, pr_Match = matchCountry, pr_Value = country, pr_Priority = 0\<rparr>"

definition buildRules :: "strmap \<Rightarrow> string \<Rightarrow> AutoDiscoverSpec \<Rightarrow> PublicRuleSpec slice" where
  "buildRules annotations prefix cfg =
     (let rules = annotatedRules annotations prefix;
          rules = (if ad_DenyCountries cfg \<noteq> []
            then foldl (\<lambda>rules country. let country = trimSpace country in
                   if country \<noteq> [] then rules @ [denyRule country] else rules)
                 rules (splitOn (CHR '','') (ad_DenyCountries cfg))
            else rules)
      in if length rules = 0 then None else Some rules)"

definition buildMaintenance :: "strmap \<Rightarrow> string \<Rightarrow> PublicMaintenanceSpec option" where
  "buildMaintenance annotations prefix =
     (case map_of annotations (annotationKey prefix ''maintenance-enabled'') of
        None \<Rightarrow> None
      | Some v \<Rightarrow>
          if \<not> isTruthy v then None
          else Some \<lparr>pm_Enabled = True,
            pm_Type = mget annotations (annotationKey prefix ''maintenance-type''),
            pm_Title = mget annotations (annotationKey prefix ''maintenance-title''),
            pm_Message = mget annotations (annotationKey prefix ''maintenance-message''),
            pm_EstimatedTime = mget annotations (annotationKey prefix ''maintenance-estimated-time'')\<rparr>)"

text \<open>An annotation overrides the configured value whenever the key is present.\<close>

definition overriding :: "strmap \<Rightarrow> string \<Rightarrow> string \<Rightarrow> string" where
  "overriding annotations key raw = (case map_of annotations key of Some av \<Rightarrow> av | None \<Rightarrow> raw)"

definition authIdp :: "strmap \<Rightarrow> string \<Rightarrow> AutoDiscoverSpec \<Rightarrow> int" where
  "authIdp annotations prefix cfg =
     (case map_of annotations (annotationKey prefix ''auth-sso-idp'') of
        Some av \<Rightarrow> (case atoi av of Some parsed \<Rightarrow> if parsed > 0 then parsed else ad_AuthSSOIDP cfg | None \<Rightarrow> ad_AuthSSOIDP cfg)
      | None \<Rightarrow> ad_AuthSSOIDP cfg)"

definition buildAuth :: "strmap \<Rightarrow> string \<Rightarrow> AutoDiscoverSpec \<Rightarrow> PublicAuthSpec option" where
  "buildAuth annotations prefix cfg =
     (let ssoEnabled = (case map_of annotations (annotationKey prefix ''auth-sso'') of Some v \<Rightarrow> isTruthy v | None \<Rightarrow> False);
          ssoRoles = (if ssoEnabled then splitCSV (overriding annotations (annotationKey prefix ''auth-sso-roles'') (ad_AuthSSORoles cfg)) else []);
          ssoUsers = (if ssoEnabled then splitCSV (overriding annotations (annotationKey prefix ''auth-sso-users'') (ad_AuthSSOUsers cfg)) else []);
          idp = (if ssoEnabled then authIdp annotations prefix cfg else 0);
          whitelistUsers = splitCSV (overriding annotations (annotationKey prefix ''auth-whitelist-users'') (ad_AuthWhitelistUsers cfg));
          authSecretRef = mget annotations (annotationKey prefix ''auth-secret'')
      in if \<not> ssoEnabled \<and> length whitelistUsers = 0 \<and> authSecretRef = [] then None
         else Some \<lparr>pa_SsoEnabled = ssoEnabled, pa_SsoRoles = ssoRoles, pa_SsoUsers = ssoUsers,
           pa_WhitelistUsers = whitelistUsers, pa_AutoLoginIdp = idp, pa_AuthSecretRef = authSecretRef\<rparr>)"

section \<open>Targets\<close>

definition zeroTarget :: PublicTargetSpec where
  "zeroTarget = \<lparr>pt_Hostname = [], pt_Port = 0, pt_Method = [], pt_Enabled = None, pt_Path = [],
     pt_PathMatchType = [], pt_RewritePath = [], pt_RewritePathType = [], pt_Priority = 0,
     pt_Healthcheck = None\<rparr>"

text \<open>The six optional settings, each applied where its annotation is usable.\<close>

definition withPath :: "string \<Rightarrow> PublicTargetSpec \<Rightarrow> PublicTargetSpec" where
  "withPath v t = (if v \<noteq> [] then t\<lparr>pt_Path := v\<rparr> else t)"

definition withPathMatch :: "string \<Rightarrow> PublicTargetSpec \<Rightarrow> PublicTargetSpec" where
  "withPathMatch v t =
     (if v = ''prefix'' \<or> v = ''exact'' \<or> v = ''regex'' then t\<lparr>pt_PathMatchType := v\<rparr> else t)"

definition withRewritePath :: "string \<Rightarrow> PublicTargetSpec \<Rightarrow> PublicTargetSpec" where
  "withRewritePath v t = (if v \<noteq> [] then t\<lparr>pt_RewritePath := v\<rparr> else t)"

definition withRewriteMatch :: "string \<Rightarrow> PublicTargetSpec \<Rightarrow> PublicTargetSpec" where
  "withRewriteMatch v t =
     (if v = ''exact'' \<or> v = ''prefix'' \<or> v = ''regex'' \<or> v = rewriteStripPrefix
      then t\<lparr>pt_RewritePathType := v\<rparr> else t)"

definition withPriority :: "string \<Rightarrow> PublicTargetSpec \<Rightarrow> PublicTargetSpec" where
  "withPriority v t =
     (case atoi v of
        Some parsed \<Rightarrow> if parsed \<ge> 1 \<and> parsed \<le> 1000 then t\<lparr>pt_Priority := parsed\<rparr> else t
      | None \<Rightarrow> t)"

definition withEnabled :: "string \<Rightarrow> PublicTargetSpec \<Rightarrow> PublicTargetSpec" where
  "withEnabled v t = (if v \<noteq> [] then t\<lparr>pt_Enabled := Some (isTruthy v)\<rparr> else t)"

definition buildTargetExtras :: "PublicTargetSpec \<Rightarrow> strmap \<Rightarrow> string \<Rightarrow> PublicTargetSpec" where
  "buildTargetExtras base annotations prefix =
     (let ann = (\<lambda>key. trimSpace (mget annotations (annotationKey prefix key)));
          t = withPath (ann ''target-path'') base;
          t = withPathMatch (ann ''target-path-match'') t;
          t = withRewritePath (ann ''target-rewrite-path'') t;
          t = withRewriteMatch (ann ''target-rewrite-match'') t;
          t = withPriority (ann ''target-priority'') t;
          t = withEnabled (ann ''target-enabled'') t
      in t)"

lemmas targetExtras_defs = withPath_def withPathMatch_def withRewritePath_def withRewriteMatch_def
  withPriority_def withEnabled_def

definition clusterHost :: "string \<Rightarrow> string \<Rightarrow> string" where
  "clusterHost name namespace = name @ ''.'' @ namespace @ ''.svc.cluster.local''"

definition resolveBackendRef :: "backendRef \<Rightarrow> string \<Rightarrow> int \<Rightarrow> string \<times> int" where
  "resolveBackendRef ref routeNamespace defaultPort =
     (let refNamespace = (case br_Namespace ref of Some ns \<Rightarrow> if ns \<noteq> [] then ns else routeNamespace | None \<Rightarrow> routeNamespace)
      in (clusterHost (br_Name ref) refNamespace, case br_Port ref of Some p \<Rightarrow> p | None \<Rightarrow> defaultPort))"

fun parentRefsMatch :: "parentRef list \<Rightarrow> string \<Rightarrow> string \<Rightarrow> bool" where
  "parentRefsMatch [] gatewayName gatewayNamespace = False"
| "parentRefsMatch (parent # refs) gatewayName gatewayNamespace =
     (if pf_Name parent \<noteq> gatewayName then parentRefsMatch refs gatewayName gatewayNamespace
      else if gatewayNamespace \<noteq> [] \<and> (case pf_Namespace parent of Some ns \<Rightarrow> ns \<noteq> gatewayNamespace | None \<Rightarrow> False)
      then parentRefsMatch refs gatewayName gatewayNamespace
      else True)"

definition RouteReferencesGateway :: "HTTPRoute \<Rightarrow> string \<Rightarrow> string \<Rightarrow> bool" where
  "RouteReferencesGateway route gatewayName gatewayNamespace =
     parentRefsMatch (hr_ParentRefs route) gatewayName gatewayNamespace"

definition TCPRouteReferencesGateway :: "TCPRoute \<Rightarrow> string \<Rightarrow> string \<Rightarrow> bool" where
  "TCPRouteReferencesGateway route gatewayName gatewayNamespace =
     parentRefsMatch (tr_ParentRefs route) gatewayName gatewayNamespace"

definition HostnameToResourceName :: "string \<Rightarrow> string \<Rightarrow> string" where
  "HostnameToResourceName sourceName hostname =
     (let slug = replaceByte (CHR ''.'') (CHR ''-'') hostname;
          name = sourceName @ ''-'' @ slug
      in if length name > 253 then take 253 name else name)"

definition ServiceResourceName :: "string \<Rightarrow> string \<Rightarrow> string \<Rightarrow> string \<Rightarrow> string" where
  "ServiceResourceName namespace name port proto = namespace @ ''-'' @ name @ ''-'' @ port @ ''-'' @ proto"

section \<open>Specifications\<close>

text \<open>The annotations read with the prefix and the defaults of the resolver.\<close>

definition rv_headers :: "annotationResolver \<Rightarrow> PublicHeaderSpec list" where
  [simp]: "rv_headers r = buildHeaders (rv_annotations r) (rv_prefix r)"

definition rv_auth :: "annotationResolver \<Rightarrow> PublicAuthSpec option" where
  [simp]: "rv_auth r = buildAuth (rv_annotations r) (rv_prefix r) (rv_cfg r)"

definition rv_maintenance :: "annotationResolver \<Rightarrow> PublicMaintenanceSpec option" where
  [simp]: "rv_maintenance r = buildMaintenance (rv_annotations r) (rv_prefix r)"

definition rv_rules :: "annotationResolver \<Rightarrow> PublicRuleSpec list option" where
  [simp]: "rv_rules r = buildRules (rv_annotations r) (rv_prefix r) (rv_cfg r)"

definition rv_targetExtras :: "annotationResolver \<Rightarrow> PublicTargetSpec \<Rightarrow> PublicTargetSpec" where
  [simp]: "rv_targetExtras r base = buildTargetExtras base (rv_annotations r) (rv_prefix r)"

definition buildHTTPSpec :: "annotationResolver \<Rightarrow> string \<Rightarrow> string \<Rightarrow> string \<Rightarrow> PublicTargetSpec \<Rightarrow> PublicResourceSpec" where
  "buildHTTPSpec r siteRef name hostname target =
     \<lparr>ps_SiteRef = siteRef, ps_Name = name, ps_Protocol = methodHTTP, ps_FullDomain = hostname,
      ps_ProxyPort = 0, ps_Enabled = rv_enabled r, ps_Ssl = rv_ssl r, ps_HostHeader = rv_get r ''host-header'',
      ps_TlsServerName = rv_tlsServerName r hostname, ps_Headers = rv_headers r, ps_Auth = rv_auth r,
      ps_Maintenance = rv_maintenance r, ps_Rules = rv_rules r, ps_Targets = Some [target]\<rparr>"

definition buildTCPSpec :: "annotationResolver \<Rightarrow> string \<Rightarrow> string \<Rightarrow> string \<Rightarrow> int \<Rightarrow> PublicTargetSpec \<Rightarrow> PublicResourceSpec" where
  "buildTCPSpec r siteRef name protocol proxyPort target =
     \<lparr>ps_SiteRef = siteRef, ps_Name = name, ps_Protocol = protocol, ps_FullDomain = [],
      ps_ProxyPort = proxyPort, ps_Enabled = rv_enabled r, ps_Ssl = False, ps_HostHeader = [],
      ps_TlsServerName = [], ps_Headers = [], ps_Auth = None, ps_Maintenance = None,
      ps_Rules = None, ps_Targets = Some [target]\<rparr>"

text \<open>The target of an HTTPRoute: the gateway's service, or the first backend of the first rule.\<close>

definition routeTarget :: "HTTPRoute \<Rightarrow> AutoDiscoverSpec \<Rightarrow> gerr + (string \<times> int \<times> string)" where
  "routeTarget route cfg =
     (let at = m_Namespace (hr_Meta route) @ ''/'' @ m_Name (hr_Meta route) in
      if ad_GatewayName cfg \<noteq> [] then
        (let targetPort = (if ad_GatewayTargetPort cfg = 0 then 443 else ad_GatewayTargetPort cfg);
             targetMethod = (if ad_GatewayTargetMethod cfg = [] then methodHTTPS else ad_GatewayTargetMethod cfg)
         in if ad_GatewayTargetHostname cfg = [] then
              (if ad_GatewayNamespace cfg = []
               then Inl (ErrMsg (''autoDiscover.gatewayNamespace is required to derive gateway target hostname (HTTPRoute '' @ at @ '')''))
               else Inr (clusterHost (ad_GatewayName cfg) (ad_GatewayNamespace cfg), targetPort, targetMethod))
            else Inr (ad_GatewayTargetHostname cfg, targetPort, targetMethod))
      else
        (case hr_Rules route of
           (ref # _) # _ \<Rightarrow>
             (let (host, port) = resolveBackendRef ref (m_Namespace (hr_Meta route)) 80 in Inr (host, port, methodHTTP))
         | _ \<Rightarrow> Inl (ErrMsg (''HTTPRoute '' @ at @ '' has no backendRefs''))))"

definition BuildHTTPRouteSpec ::
  "HTTPRoute \<Rightarrow> string \<Rightarrow> strmap \<Rightarrow> AutoDiscoverSpec \<Rightarrow> string \<Rightarrow> gerr + PublicResourceSpec" where
  "BuildHTTPRouteSpec route hostname annotations cfg siteRefFallback =
     (let r = newResolver annotations cfg in
      case rv_siteRef r siteRefFallback of
        None \<Rightarrow> Inl (ErrMsg (''annotation '' @ rv_prefix r @ ''/site-ref is required on HTTPRoute ''
                  @ m_Namespace (hr_Meta route) @ ''/'' @ m_Name (hr_Meta route)))
      | Some siteRef \<Rightarrow>
          (case routeTarget route cfg of
             Inl e \<Rightarrow> Inl e
           | Inr (targetHostname, targetPort, targetMethod) \<Rightarrow>
               (let target = rv_targetExtras r (zeroTarget\<lparr>pt_Hostname := targetHostname, pt_Port := targetPort,
                      pt_Method := rv_method r targetMethod\<rparr>)
                in Inr (buildHTTPSpec r siteRef (rv_name r (m_Name (hr_Meta route))) hostname target))))"

definition ResolveAllPorts :: "strmap \<Rightarrow> string \<Rightarrow> AutoDiscoverSpec \<Rightarrow> bool" where
  "ResolveAllPorts annotations prefix cfg =
     (case map_of annotations (annotationKey prefix ''all-ports'') of Some v \<Rightarrow> isTruthy v | None \<Rightarrow> ad_AllPorts cfg)"

definition serviceProtocol :: "string \<Rightarrow> string" where
  "serviceProtocol p = (if p = ''UDP'' then protocolUDP else protocolTCP)"

definition portNameOf :: "servicePort \<Rightarrow> string" where
  "portNameOf p = (if sp_Name p = [] then itoa (sp_Port p) else sp_Name p)"

text \<open>The map of all ports: one entry for each name, the last port winning.\<close>

definition BuildAllPortSpecs ::
  "Service \<Rightarrow> strmap \<Rightarrow> AutoDiscoverSpec \<Rightarrow> string \<Rightarrow> string \<Rightarrow> (string \<times> PublicResourceSpec) list" where
  "BuildAllPortSpecs svc annotations cfg siteRef clusterHostname =
     (let r = newResolver annotations cfg in
      foldl (\<lambda>out p.
        let proto = serviceProtocol (sp_Protocol p);
            target = zeroTarget\<lparr>pt_Hostname := clusterHostname, pt_Port := sp_Port p\<rparr>;
            key = ServiceResourceName (m_Namespace (svc_Meta svc)) (m_Name (svc_Meta svc)) (itoa (sp_Port p)) proto
        in AList.update key
             (buildTCPSpec r siteRef (m_Name (svc_Meta svc) @ ''-'' @ portNameOf p) proto (sp_Port p) target) out)
      [] (svc_Ports svc))"

definition selectPort :: "Service \<Rightarrow> strmap \<Rightarrow> string \<Rightarrow> servicePort option" where
  "selectPort svc annotations prefix =
     (case map_of annotations (annotationKey prefix ''port'') of
        Some v \<Rightarrow> (let v = trimSpace v in List.find (\<lambda>p. itoa (sp_Port p) = v \<or> sp_Name p = v) (svc_Ports svc))
      | None \<Rightarrow>
          (case svc_Ports svc of
             [p] \<Rightarrow> Some p
           | ps \<Rightarrow> List.find (\<lambda>p. sp_Name p = methodHTTP) ps))"

definition BuildSinglePortSpec ::
  "Service \<Rightarrow> strmap \<Rightarrow> AutoDiscoverSpec \<Rightarrow> string \<Rightarrow> string \<Rightarrow> (string \<times> PublicResourceSpec) option" where
  "BuildSinglePortSpec svc annotations cfg siteRef clusterHostname =
     (let r = newResolver annotations cfg;
          fullDomain = trimSpace (rv_get r ''full-domain'')
      in case selectPort svc annotations (rv_prefix r) of
           None \<Rightarrow> None
         | Some selected \<Rightarrow>
             (let displayName = rv_name r (m_Name (svc_Meta svc) @ ''-'' @ portNameOf selected) in
              if fullDomain \<noteq> [] then
                (let target = rv_targetExtras r (zeroTarget\<lparr>pt_Hostname := clusterHostname,
                       pt_Port := sp_Port selected, pt_Method := rv_method r methodHTTP\<rparr>)
                 in Some (HostnameToResourceName (m_Name (svc_Meta svc)) fullDomain,
                      buildHTTPSpec r siteRef displayName fullDomain target))
              else
                (let proto = rv_protocol r (serviceProtocol (sp_Protocol selected));
                     target = zeroTarget\<lparr>pt_Hostname := clusterHostname, pt_Port := sp_Port selected\<rparr>
                 in Some (ServiceResourceName (m_Namespace (svc_Meta svc)) (m_Name (svc_Meta svc))
                        (itoa (sp_Port selected)) proto,
                      buildTCPSpec r siteRef displayName proto (sp_Port selected) target))))"

definition BuildTCPRouteSpec ::
  "TCPRoute \<Rightarrow> strmap \<Rightarrow> AutoDiscoverSpec \<Rightarrow> string \<Rightarrow> gerr + PublicResourceSpec" where
  "BuildTCPRouteSpec route annotations cfg siteRefFallback =
     (let r = newResolver annotations cfg;
          at = m_Namespace (tr_Meta route) @ ''/'' @ m_Name (tr_Meta route)
      in case rv_siteRef r siteRefFallback of
           None \<Rightarrow> Inl (ErrMsg (''annotation '' @ rv_prefix r @ ''/site-ref is required on TCPRoute '' @ at))
         | Some siteRef \<Rightarrow>
             (case tr_Rules route of
                (ref # _) # _ \<Rightarrow>
                  (let (targetHostname, targetPort) = resolveBackendRef ref (m_Namespace (tr_Meta route)) 0;
                       target = zeroTarget\<lparr>pt_Hostname := targetHostname, pt_Port := targetPort\<rparr>
                   in Inr (buildTCPSpec r siteRef (rv_name r (m_Name (tr_Meta route))) protocolTCP
                        (rv_proxyPort r targetPort) target))
              | _ \<Rightarrow> Inl (ErrMsg (''TCPRoute '' @ at @ '' has no backendRefs''))))"

section \<open>Writing the owned resource\<close>

definition emptyStatus :: PublicResourceStatus where
  "emptyStatus = \<lparr>pst_Phase = PhaseUnset, pst_ResourceID = 0, pst_NiceID = [], pst_FullDomain = [],
     pst_TargetIDs = [], pst_TargetsHash = [], pst_RuleIDs = [], pst_RulesHash = [],
     pst_ObservedGeneration = 0, pst_Conditions = []\<rparr>"

definition ownerLabels :: "string \<Rightarrow> string \<Rightarrow> string \<Rightarrow> strmap" where
  "ownerLabels ownerKind ownerName site =
     [(LabelOwnerKind, ownerKind), (LabelOwnerName, ownerName), (LabelSite, site)]"

definition newOwned :: "objectMeta \<Rightarrow> string \<Rightarrow> string \<Rightarrow> string \<Rightarrow> string \<Rightarrow> PublicResourceSpec \<Rightarrow> PublicResource" where
  "newOwned owner ownerKind ownerName namespace resName spec =
     \<lparr>pub_Meta = \<lparr>m_Name = resName, m_Namespace = namespace, m_UID = [], m_Generation = 0, m_Deleting = False,
        m_Finalizers = [], m_Annotations = [], m_Labels = Some (ownerLabels ownerKind ownerName (m_Name owner)),
        m_OwnerReferences = [\<lparr>or_APIVersion = ''pangolin.home-operations.com/v1alpha1'', or_Kind = ''NewtSite'',
          or_Name = m_Name owner, or_UID = m_UID owner, or_Controller = Some True, or_BlockOwnerDeletion = Some True\<rparr>]\<rparr>,
      pub_Spec = spec, pub_Status = emptyStatus\<rparr>"

definition labelsOf :: "PublicResource \<Rightarrow> strmap" where
  "labelsOf res = (case m_Labels (pub_Meta res) of None \<Rightarrow> [] | Some ls \<Rightarrow> ls)"

definition withLabels :: "strmap \<Rightarrow> PublicResource \<Rightarrow> PublicResource" where
  "withLabels ls res = res\<lparr>pub_Meta := (pub_Meta res)\<lparr>m_Labels := Some ls\<rparr>\<rparr>"

definition needsPatch :: "PublicResource \<Rightarrow> string \<Rightarrow> string \<Rightarrow> string \<Rightarrow> PublicResourceSpec \<Rightarrow> bool" where
  "needsPatch existing ownerKind ownerName site spec =
     (m_Labels (pub_Meta existing) = None
      \<or> mget (labelsOf existing) LabelOwnerKind \<noteq> ownerKind
      \<or> mget (labelsOf existing) LabelOwnerName \<noteq> ownerName
      \<or> mget (labelsOf existing) LabelSite \<noteq> site
      \<or> jsonText (jsonSpec spec) \<noteq> jsonText (jsonSpec (pub_Spec existing)))"

definition ensureOwnedPublicResource ::
  "'w kube \<Rightarrow> objectMeta \<Rightarrow> string \<Rightarrow> string \<Rightarrow> string \<Rightarrow> string \<Rightarrow> PublicResourceSpec \<Rightarrow> ('w, gerr option) state" where
  "ensureOwnedPublicResource k owner ownerKind ownerName namespace resName spec =
     do {
       g \<leftarrow> oc_Get (kPubs k) (namespace, resName);
       case g of
         Inl e \<Rightarrow>
           (case ignoreNotFound (ErrKube e) of
              Some err \<Rightarrow> ret (Some err)
            | None \<Rightarrow> do {
                r \<leftarrow> oc_Create (kPubs k) (newOwned owner ownerKind ownerName namespace resName spec);
                ret (map_option ErrKube r)
              })
       | Inr existing \<Rightarrow>
           if \<not> needsPatch existing ownerKind ownerName (m_Name owner) spec then ret None
           else
             (let base = withLabels (labelsOf existing) existing;
                  labels = AList.update LabelSite (m_Name owner)
                    (AList.update LabelOwnerName ownerName (AList.update LabelOwnerKind ownerKind (labelsOf existing)))
              in do {
                r \<leftarrow> oc_Patch (kPubs k) base (withLabels labels (base\<lparr>pub_Spec := spec\<rparr>));
                ret (case r of Inl e \<Rightarrow> Some (ErrKube e) | Inr _ \<Rightarrow> None)
              })
     }"

definition EnsureTCPRouteResource where
  "EnsureTCPRouteResource k owner routeName namespace resName spec =
     ensureOwnedPublicResource k owner ''tcproute'' routeName namespace resName spec"

definition EnsureHTTPRouteResource where
  "EnsureHTTPRouteResource k owner routeName namespace resName spec =
     ensureOwnedPublicResource k owner ''httproute'' routeName namespace resName spec"

definition EnsureServiceResource where
  "EnsureServiceResource k owner svcName namespace resName spec =
     ensureOwnedPublicResource k owner ''service'' svcName namespace resName spec"

end
