(* ===== verification/Deployment.thy ===== *)
theory Deployment
  imports Kube "HOL-Library.Word"
begin

text \<open>
  The Deployment of a site's tunnel, \<open>internal/controller/newtsite/deployment.go\<close>: the
  container, its environment and its security contexts, from the specification of the site.
\<close>

definition defaultMTU :: int where "defaultMTU = 1280"
definition envPangolinEndpoint :: string where "envPangolinEndpoint = ''PANGOLIN_ENDPOINT''"
definition envNewtID :: string where "envNewtID = ''NEWT_ID''"
definition envNewtSecret :: string where "envNewtSecret = ''NEWT_SECRET''"
definition envLogLevel :: string where "envLogLevel = ''LOG_LEVEL''"
definition envDNS :: string where "envDNS = ''DNS''"
definition newtContainerName :: string where "newtContainerName = ''newt''"
definition partOfPangolinOp :: string where "partOfPangolinOp = ''pangolin-operator''"

text \<open>A Go string with a default.\<close>

definition strOr :: "string \<Rightarrow> string \<Rightarrow> string" where
  "strOr s d = (if s = [] then d else s)"

definition newtImage :: "NewtSpec \<Rightarrow> string" where
  "newtImage spec = strOr (nw_Image spec) ''ghcr.io/fosrl/newt'' @ '':'' @ strOr (nw_Tag spec) ''latest''"

definition deploymentLabels :: "NewtSite \<Rightarrow> (string \<times> string) list" where
  "deploymentLabels site =
     [(''app.kubernetes.io/name'', ''newtsite''), (''app.kubernetes.io/instance'', m_Name (site_Meta site)),
      (''app.kubernetes.io/component'', newtContainerName), (''app.kubernetes.io/part-of'', partOfPangolinOp)]"

section \<open>Environment\<close>

definition envLit :: "string \<Rightarrow> string \<Rightarrow> envVar" where
  "envLit n v = \<lparr>ev_Name = n, ev_Source = EnvValue v\<rparr>"

definition envSecret :: "string \<Rightarrow> string \<Rightarrow> envVar" where
  "envSecret secretName key = \<lparr>ev_Name = key, ev_Source = EnvSecretKey secretName key\<rparr>"

definition metricsPort :: "NewtMetricsSpec \<Rightarrow> int" where
  "metricsPort m = (if nm_Port m = 0 then 9090 else nm_Port m)"

definition adminAddr :: "NewtMetricsSpec \<Rightarrow> string" where
  "adminAddr m = (if nm_AdminAddr m = [] then ''0.0.0.0:'' @ itoa (metricsPort m) else nm_AdminAddr m)"

text \<open>The environment is built by appending; the user's variables come last.\<close>

definition buildEnv :: "NewtSpec \<Rightarrow> string \<Rightarrow> envVar list" where
  "buildEnv spec secretName =
     (let env = [envSecret secretName envPangolinEndpoint, envSecret secretName envNewtID,
                 envSecret secretName envNewtSecret, envLit envLogLevel (strOr (nw_LogLevel spec) ''INFO'')];
          env = (if nw_Mtu spec \<noteq> defaultMTU then env @ [envLit ''MTU'' (itoa (nw_Mtu spec))] else env);
          env = (if nw_PingInterval spec \<noteq> [] then env @ [envLit ''PING_INTERVAL'' (nw_PingInterval spec)] else env);
          env = (if nw_PingTimeout spec \<noteq> [] then env @ [envLit ''PING_TIMEOUT'' (nw_PingTimeout spec)] else env);
          env = (if nw_DNS spec \<noteq> [] then env @ [envLit envDNS (nw_DNS spec)] else env);
          env = (if nw_AcceptClients spec then env @ [envLit ''ACCEPT_CLIENTS'' ''true''] else env);
          env = (if nw_Interface spec \<noteq> [] \<and> nw_Interface spec \<noteq> newtContainerName
                 then env @ [envLit ''INTERFACE'' (nw_Interface spec)] else env);
          env = (case nw_Metrics spec of Some m \<Rightarrow> env @ [envLit ''NEWT_ADMIN_ADDR'' (adminAddr m)] | None \<Rightarrow> env)
      in env @ nw_ExtraEnv spec)"

section \<open>Security contexts\<close>

definition emptySecurityContext :: securityContext where
  "emptySecurityContext = \<lparr>sc_RunAsUser = None, sc_RunAsNonRoot = None, sc_ReadOnlyRootFilesystem = None,
     sc_Privileged = None, sc_AllowPrivilegeEscalation = None, sc_CapAdd = [], sc_CapDrop = [], sc_Other = None\<rparr>"

definition nativeSecurityContext :: securityContext where
  "nativeSecurityContext = emptySecurityContext\<lparr>sc_RunAsUser := Some 0, sc_Privileged := Some True,
     sc_AllowPrivilegeEscalation := Some True, sc_CapAdd := [''NET_ADMIN'', ''SYS_MODULE'']\<rparr>"

definition hardenedSecurityContext :: securityContext where
  "hardenedSecurityContext = emptySecurityContext\<lparr>sc_RunAsUser := Some 65534, sc_RunAsNonRoot := Some True,
     sc_ReadOnlyRootFilesystem := Some True, sc_AllowPrivilegeEscalation := Some False, sc_CapDrop := [''ALL'']\<rparr>"

definition hardenedPodSecurityContext :: podSecurityContext where
  "hardenedPodSecurityContext =
     \<lparr>psc_RunAsNonRoot = Some True, psc_SeccompType = Some ''RuntimeDefault'', psc_Other = None\<rparr>"

definition buildSecurityContexts :: "NewtSpec \<Rightarrow> securityContext option \<times> podSecurityContext option" where
  "buildSecurityContexts spec =
     (if nw_SecurityContext spec \<noteq> None \<or> nw_PodSecurityContext spec \<noteq> None
      then (nw_SecurityContext spec, nw_PodSecurityContext spec)
      else if nw_UseNativeInterface spec then (Some nativeSecurityContext, None)
      else (Some hardenedSecurityContext, Some hardenedPodSecurityContext))"

section \<open>The Deployment\<close>

definition defaultResources :: json where
  "defaultResources = JObj [(''requests'', JObj [(''cpu'', JStr ''10m''), (''memory'', JStr ''32Mi'')])]"

text \<open>The conversion \<open>int32(port)\<close> of a Go int.\<close>

definition toInt32 :: "int \<Rightarrow> int" where
  "toInt32 i = sint (word_of_int i :: 32 word)"

definition newtContainer :: "NewtSpec \<Rightarrow> string \<Rightarrow> container" where
  "newtContainer spec secretName =
     \<lparr>ct_Name = newtContainerName, ct_Image = newtImage spec, ct_Env = buildEnv spec secretName,
      ct_SecurityContext = fst (buildSecurityContexts spec),
      ct_Resources = (case nw_Resources spec of Some r \<Rightarrow> r | None \<Rightarrow> defaultResources),
      ct_VolumeMounts = nw_ExtraVolumeMounts spec,
      ct_Ports = (case nw_Metrics spec of
          Some m \<Rightarrow> [\<lparr>cp_Name = ''metrics'', cp_ContainerPort = toInt32 (metricsPort m), cp_Protocol = ''TCP''\<rparr>]
        | None \<Rightarrow> [])\<rparr>"

definition buildPodSpec :: "NewtSite \<Rightarrow> string \<Rightarrow> podSpec" where
  "buildPodSpec site secretName =
     (let spec = ns_Newt (site_Spec site) in
      \<lparr>po_ServiceAccountName = m_Name (site_Meta site) @ ''-newtsite'', po_AutomountServiceAccountToken = False,
       po_TerminationGracePeriodSeconds = 30, po_SecurityContext = snd (buildSecurityContexts spec),
       po_HostNetwork = (nw_UseNativeInterface spec \<and> nw_HostNetwork spec),
       po_HostPID = (nw_UseNativeInterface spec \<and> nw_HostPID spec),
       po_InitContainers = nw_InitContainers spec,
       po_Containers = NewtContainer (newtContainer spec secretName) # map UserContainer (nw_ExtraContainers spec),
       po_Volumes = nw_ExtraVolumes spec, po_NodeSelector = nw_NodeSelector spec,
       po_Tolerations = nw_Tolerations spec, po_Affinity = nw_Affinity spec,
       po_TopologySpreadConstraints = nw_TopologySpreadConstraints spec\<rparr>)"

definition deploymentObject ::
  "NewtSite \<Rightarrow> string \<Rightarrow> (string \<times> string) list \<Rightarrow> int \<Rightarrow> (string \<times> string) list option \<Rightarrow> podSpec \<Rightarrow> Deployment" where
  "deploymentObject site namespace labels replicas podAnnotations podSpec =
     \<lparr>dep_Meta = \<lparr>m_Name = m_Name (site_Meta site), m_Namespace = namespace, m_UID = [], m_Generation = 0,
        m_Deleting = False, m_Finalizers = [], m_Annotations = [], m_Labels = Some labels, m_OwnerReferences = []\<rparr>,
      dep_Spec = Some \<lparr>ds_Replicas = replicas, ds_Selector = labels, ds_PodLabels = labels,
        ds_PodAnnotations = podAnnotations, ds_PodSpec = podSpec\<rparr>,
      dep_ReadyReplicas = 0\<rparr>"

definition buildDeployment :: "NewtSite \<Rightarrow> string \<Rightarrow> string \<Rightarrow> Deployment" where
  "buildDeployment site secretName namespace =
     (let spec = ns_Newt (site_Spec site) in
      deploymentObject site namespace (deploymentLabels site)
        (case nw_Replicas spec of Some n \<Rightarrow> n | None \<Rightarrow> 1)
        (if nw_PodAnnotations spec = [] then None else Some (nw_PodAnnotations spec))
        (buildPodSpec site secretName))"

section \<open>Properties\<close>

text \<open>What the kubelet gives a container: the last entry of a name wins.\<close>

definition envLookup :: "envVar list \<Rightarrow> string \<Rightarrow> envSource option" where
  "envLookup env n = map_option ev_Source (List.find (\<lambda>e. ev_Name e = n) (rev env))"

lemma find_append: "List.find P (xs @ ys) = (case List.find P xs of Some x \<Rightarrow> Some x | None \<Rightarrow> List.find P ys)"
  by (induction xs) auto

lemma envLookup_append:
  "envLookup (xs @ ys) n = (case envLookup ys n of Some v \<Rightarrow> Some v | None \<Rightarrow> envLookup xs n)"
  by (auto simp: envLookup_def find_append split: option.splits)

lemma envLookup_simps [simp]:
  "envLookup [] n = None"
  "envLookup [envLit m v] n = (if m = n then Some (EnvValue v) else None)"
  "envLookup [envSecret s m] n = (if m = n then Some (EnvSecretKey s m) else None)"
  by (simp_all add: envLookup_def envLit_def envSecret_def)

lemma envLookup_Cons:
  "envLookup (e # es) n = (case envLookup es n of Some v \<Rightarrow> Some v | None \<Rightarrow> envLookup [e] n)"
  using envLookup_append [of "[e]" es n] by simp

lemmas env_names = envPangolinEndpoint_def envNewtID_def envNewtSecret_def envLogLevel_def envDNS_def

text \<open>
  The tunnel's environment, as the container sees it: the user's extra variables override
  everything; otherwise the three credentials come from the Secret under their own names and
  the log level is the configured one or INFO.
\<close>

theorem buildEnv_lookup:
  "envLookup (buildEnv spec s) n =
     (case envLookup (nw_ExtraEnv spec) n of
        Some v \<Rightarrow> Some v
      | None \<Rightarrow>
          if n = envPangolinEndpoint \<or> n = envNewtID \<or> n = envNewtSecret then Some (EnvSecretKey s n)
          else if n = envLogLevel then Some (EnvValue (strOr (nw_LogLevel spec) ''INFO''))
          else if n = ''MTU'' \<and> nw_Mtu spec \<noteq> defaultMTU then Some (EnvValue (itoa (nw_Mtu spec)))
          else if n = ''PING_INTERVAL'' \<and> nw_PingInterval spec \<noteq> [] then Some (EnvValue (nw_PingInterval spec))
          else if n = ''PING_TIMEOUT'' \<and> nw_PingTimeout spec \<noteq> [] then Some (EnvValue (nw_PingTimeout spec))
          else if n = envDNS \<and> nw_DNS spec \<noteq> [] then Some (EnvValue (nw_DNS spec))
          else if n = ''ACCEPT_CLIENTS'' \<and> nw_AcceptClients spec then Some (EnvValue ''true'')
          else if n = ''INTERFACE'' \<and> nw_Interface spec \<noteq> [] \<and> nw_Interface spec \<noteq> newtContainerName
            then Some (EnvValue (nw_Interface spec))
          else if n = ''NEWT_ADMIN_ADDR'' then map_option (\<lambda>m. EnvValue (adminAddr m)) (nw_Metrics spec)
          else None)"
proof -
  let ?opt = "\<lambda>c e. if c then [e] else []"
  have parts: "buildEnv spec s =
      [envSecret s envPangolinEndpoint, envSecret s envNewtID, envSecret s envNewtSecret]
      @ [envLit envLogLevel (strOr (nw_LogLevel spec) ''INFO'')]
      @ ?opt (nw_Mtu spec \<noteq> defaultMTU) (envLit ''MTU'' (itoa (nw_Mtu spec)))
      @ ?opt (nw_PingInterval spec \<noteq> []) (envLit ''PING_INTERVAL'' (nw_PingInterval spec))
      @ ?opt (nw_PingTimeout spec \<noteq> []) (envLit ''PING_TIMEOUT'' (nw_PingTimeout spec))
      @ ?opt (nw_DNS spec \<noteq> []) (envLit envDNS (nw_DNS spec))
      @ ?opt (nw_AcceptClients spec) (envLit ''ACCEPT_CLIENTS'' ''true'')
      @ ?opt (nw_Interface spec \<noteq> [] \<and> nw_Interface spec \<noteq> newtContainerName) (envLit ''INTERFACE'' (nw_Interface spec))
      @ (case nw_Metrics spec of Some m \<Rightarrow> [envLit ''NEWT_ADMIN_ADDR'' (adminAddr m)] | None \<Rightarrow> [])
      @ nw_ExtraEnv spec"
    by (simp add: buildEnv_def Let_def split: option.split)
  have optional: "envLookup (?opt c (envLit m v)) n = (if n = m \<and> c then Some (EnvValue v) else None)" for c m v
    by simp
  have metrics: "envLookup (case nw_Metrics spec of Some m \<Rightarrow> [envLit ''NEWT_ADMIN_ADDR'' (adminAddr m)] | None \<Rightarrow> []) n =
      (if n = ''NEWT_ADMIN_ADDR'' then map_option (\<lambda>m. EnvValue (adminAddr m)) (nw_Metrics spec) else None)"
    by (simp split: option.split)
  have secrets: "envLookup [envSecret s envPangolinEndpoint, envSecret s envNewtID, envSecret s envNewtSecret] n =
      (if n = envPangolinEndpoint \<or> n = envNewtID \<or> n = envNewtSecret then Some (EnvSecretKey s n) else None)"
    by (simp add: envLookup_Cons [of _ "_ # _"])
  show ?thesis
    unfolding parts envLookup_append optional metrics secrets
    by (cases "envLookup (nw_ExtraEnv spec) n"; cases "nw_Metrics spec")
      (auto simp: env_names)
qed

text \<open>A label selector selects the pods that carry all its labels.\<close>

definition selects :: "(string \<times> string) list \<Rightarrow> (string \<times> string) list \<Rightarrow> bool" where
  "selects sel labels = list_all (\<lambda>(k, v). map_of labels k = Some v) sel"

text \<open>
  The Deployments of two sites never fight over pods: the selector of one site's Deployment
  selects the pods of another site's exactly when the two sites have the same name, so in
  particular each Deployment selects its own pods.
\<close>

theorem buildDeployment_selects_own:
  "selects (ds_Selector (the (dep_Spec (buildDeployment site s ns))))
       (ds_PodLabels (the (dep_Spec (buildDeployment site' s' ns'))))
     = (m_Name (site_Meta site) = m_Name (site_Meta site'))"
  by (auto simp: buildDeployment_def deploymentObject_def Let_def selects_def deploymentLabels_def)

text \<open>
  A container that may gain privileges: one without a security context, or whose context
  does not forbid escalation.
\<close>

definition mayEscalate :: "container \<Rightarrow> bool" where
  "mayEscalate c =
     (case ct_SecurityContext c of None \<Rightarrow> True
      | Some sc \<Rightarrow> sc_AllowPrivilegeEscalation sc \<noteq> Some False \<or> sc_Privileged sc = Some True \<or> sc_CapDrop sc \<noteq> [''ALL''])"

text \<open>
  The default is hardened, but the hardening of the container is lost as soon as only the
  context of the pod is given: without overrides and without the native interface the
  container cannot gain privileges and both contexts are the hardened ones; a specification
  that differs in nothing but a pod-level security context, however strict, leaves the
  container with no security context at all.
\<close>

theorem pod_override_drops_hardening:
  "\<not> mayEscalate (newtContainer
        (spec\<lparr>nw_UseNativeInterface := False, nw_SecurityContext := None, nw_PodSecurityContext := None\<rparr>) s)
   \<and> buildSecurityContexts
        (spec\<lparr>nw_UseNativeInterface := False, nw_SecurityContext := None, nw_PodSecurityContext := None\<rparr>)
       = (Some hardenedSecurityContext, Some hardenedPodSecurityContext)
   \<and> mayEscalate (newtContainer
        (spec\<lparr>nw_UseNativeInterface := False, nw_SecurityContext := None, nw_PodSecurityContext := Some p\<rparr>) s)
   \<and> ct_SecurityContext (newtContainer
        (spec\<lparr>nw_UseNativeInterface := False, nw_SecurityContext := None, nw_PodSecurityContext := Some p\<rparr>) s) = None"
  by (simp add: mayEscalate_def newtContainer_def buildSecurityContexts_def
      hardenedSecurityContext_def emptySecurityContext_def)

end
