(* ===== verification/NewtSiteController.thy ===== *)
theory NewtSiteController
  imports Pangolin Autodiscover Deployment
begin

text \<open>
  The NewtSite controller, \<open>internal/controller/newtsite/controller.go\<close>: the life of a site on
  the server, its Secret, ServiceAccount and Deployment, and the discovery of routes and
  services, both in the scan of a site's reconciliation and in the reconcilers of the route
  and service watches.  Iterating over a Go map takes an arbitrary order, given here by the
  argument \<open>mapOrder\<close>.
\<close>

definition NewtSiteFinalizer :: string where
  "NewtSiteFinalizer = ''pangolin.home-operations.com/newtsite-finalizer''"

record siteReconciler =
  rc_NewtEndpoint :: string
  rc_OperatorNamespace :: string

type_synonym specOrder = "(string \<times> PublicResourceSpec) list \<Rightarrow> (string \<times> PublicResourceSpec) list"

section \<open>Status patches\<close>

definition patchStatus ::
  "'w kube \<Rightarrow> NewtSite \<Rightarrow> (NewtSiteStatus \<Rightarrow> NewtSiteStatus) \<Rightarrow> ('w, gerr option \<times> NewtSite) state" where
  "patchStatus k site mutate =
     (let site' = site\<lparr>site_Status := mutate (site_Status site)\<rparr> in
      do {
        r \<leftarrow> oc_StatusPatch (kSites k) site site';
        ret (case r of Inl e \<Rightarrow> (Some (ErrKube e), site') | Inr obj \<Rightarrow> (None, obj))
      })"

definition setReady ::
  "'w kube \<Rightarrow> NewtSite \<Rightarrow> condStatus \<Rightarrow> string \<Rightarrow> string \<Rightarrow> NewtSiteStatus \<Rightarrow> NewtSiteStatus" where
  "setReady k site status reason msg s =
     s\<lparr>nst_Conditions := SetCondition k status reason msg (m_Generation (site_Meta site)) (nst_Conditions s)\<rparr>"

section \<open>Finding or creating the site\<close>

fun findSite :: "SiteItem list \<Rightarrow> string \<Rightarrow> SiteItem option" where
  "findSite [] name = None"
| "findSite (item # items) name = (if si_Name item = name then Some item else findSite items name)"

definition credentialsName :: "NewtSite \<Rightarrow> string" where
  "credentialsName site = m_Name (site_Meta site) @ ''-newt-credentials''"

definition plainMeta :: "string \<Rightarrow> string \<Rightarrow> (string \<times> string) list option \<Rightarrow> objectMeta" where
  "plainMeta name namespace labels =
     \<lparr>m_Name = name, m_Namespace = namespace, m_UID = [], m_Generation = 0, m_Deleting = False,
      m_Finalizers = [], m_Annotations = [], m_Labels = labels, m_OwnerReferences = []\<rparr>"

definition credentialsData :: "siteReconciler \<Rightarrow> PickSiteDefaultsResponse \<Rightarrow> (string \<times> string) list" where
  "credentialsData rc defaults =
     [(envPangolinEndpoint, rc_NewtEndpoint rc), (envNewtID, psd_NewtID defaults), (envNewtSecret, psd_NewtSecret defaults)]"

definition newSecret :: "siteReconciler \<Rightarrow> NewtSite \<Rightarrow> PickSiteDefaultsResponse \<Rightarrow> Secret" where
  "newSecret rc site defaults =
     \<lparr>sec_Meta = plainMeta (credentialsName site) (rc_OperatorNamespace rc) (Some [(LabelManagedBy, partOfPangolinOp)]),
      sec_StringData = credentialsData rc defaults\<rparr>"

text \<open>The mutate function of \<open>CreateOrUpdate\<close>, on the Secret as it is in the cluster.\<close>

definition mutateSecret :: "siteReconciler \<Rightarrow> PickSiteDefaultsResponse \<Rightarrow> Secret \<Rightarrow> gerr + Secret" where
  "mutateSecret rc defaults secret =
     (let labels = (case m_Labels (sec_Meta secret) of None \<Rightarrow> [] | Some ls \<Rightarrow> ls) in
      Inr (secret\<lparr>sec_Meta := (sec_Meta secret)\<lparr>m_Labels := Some (AList.update LabelManagedBy partOfPangolinOp labels)\<rparr>,
        sec_StringData := credentialsData rc defaults\<rparr>))"

text \<open>The status patch after a creation, with the roll-back when it is refused.\<close>

definition persistSite ::
  "'w kube \<Rightarrow> 'w API \<Rightarrow> NewtSite \<Rightarrow> int \<Rightarrow> (NewtSiteStatus \<Rightarrow> NewtSiteStatus) \<Rightarrow> ('w, gerr option \<times> NewtSite) state" where
  "persistSite k a site siteID mutate =
     do {
       (err, site') \<leftarrow> patchStatus k site mutate;
       case err of
         Some e \<Rightarrow> do { _ \<leftarrow> DeleteSite a siteID; ret (Some e, site') }
       | None \<Rightarrow> ret (None, site')
     }"

definition createLocalSite :: "'w kube \<Rightarrow> 'w API \<Rightarrow> NewtSite \<Rightarrow> ('w, gerr option \<times> NewtSite) state" where
  "createLocalSite k a site =
     do {
       cr \<leftarrow> CreateSite a \<lparr>csq_Name = ns_Name (site_Spec site), csq_Address = [], csq_Type = SiteTypeLocal,
               csq_NewtID = [], csq_Secret = []\<rparr>;
       case cr of
         Inl e \<Rightarrow> ret (Some (Wrap ''CreateSite: '' e []), site)
       | Inr created \<Rightarrow>
           persistSite k a site (csr_SiteID created)
             (\<lambda>s. s\<lparr>nst_SiteID := csr_SiteID created, nst_NiceID := csr_NiceID created\<rparr>)
     }"

text \<open>The credentials Secret of a site just created.\<close>

definition writeSecret ::
  "'w kube \<Rightarrow> siteReconciler \<Rightarrow> NewtSite \<Rightarrow> PickSiteDefaultsResponse \<Rightarrow> ('w, gerr option) state" where
  "writeSecret k rc site defaults =
     (let secret = newSecret rc site defaults in
      case kSetControllerReference k (site_Meta site) (sec_Meta secret) of
        Inl e \<Rightarrow> ret (Some (Wrap ''set controller reference on secret: '' e []))
      | Inr meta \<Rightarrow> do {
          r \<leftarrow> oc_CreateOrUpdate (kSecrets k) (secret\<lparr>sec_Meta := meta\<rparr>) (mutateSecret rc defaults);
          ret (case r of Some e \<Rightarrow> Some (Wrap ''create/update newt credentials secret: '' e []) | None \<Rightarrow> None)
        })"

definition createNewtSite ::
  "'w kube \<Rightarrow> 'w API \<Rightarrow> siteReconciler \<Rightarrow> NewtSite \<Rightarrow> ('w, gerr option \<times> NewtSite) state" where
  "createNewtSite k a rc site =
     do {
       d \<leftarrow> PickSiteDefaults a;
       case d of
         Inl e \<Rightarrow> ret (Some (Wrap ''PickSiteDefaults: '' e []), site)
       | Inr defaults \<Rightarrow> do {
           cr \<leftarrow> CreateSite a \<lparr>csq_Name = ns_Name (site_Spec site), csq_Address = psd_ClientAddress defaults,
                   csq_Type = SiteTypeNewt, csq_NewtID = psd_NewtID defaults, csq_Secret = psd_NewtSecret defaults\<rparr>;
           case cr of
             Inl e \<Rightarrow> ret (Some (Wrap ''CreateSite: '' e []), site)
           | Inr created \<Rightarrow> do {
               w \<leftarrow> writeSecret k rc site defaults;
               case w of
                 Some e \<Rightarrow> ret (Some e, site)
               | None \<Rightarrow>
                   persistSite k a site (csr_SiteID created)
                     (\<lambda>s. s\<lparr>nst_SiteID := csr_SiteID created, nst_NiceID := csr_NiceID created,
                        nst_NewtSecretName := credentialsName site\<rparr>)
             }
         }
     }"

definition createSite ::
  "'w kube \<Rightarrow> 'w API \<Rightarrow> siteReconciler \<Rightarrow> NewtSite \<Rightarrow> ('w, gerr option \<times> NewtSite) state" where
  "createSite k a rc site =
     do {
       (err, site1) \<leftarrow> patchStatus k site (\<lambda>s. s\<lparr>nst_Phase := PhaseCreating\<rparr>);
       case err of
         Some e \<Rightarrow> ret (Some e, site1)
       | None \<Rightarrow>
           if ns_Type (site_Spec site1) = SiteTypeLocal then createLocalSite k a site1
           else createNewtSite k a rc site1
     }"

definition adoptStatus :: "SiteItem \<Rightarrow> NewtSiteStatus \<Rightarrow> NewtSiteStatus" where
  "adoptStatus m s = s\<lparr>nst_SiteID := si_SiteID m, nst_NiceID := si_NiceID m, nst_Phase := PhaseCreating\<rparr>"

definition findOrCreate ::
  "'w kube \<Rightarrow> 'w API \<Rightarrow> siteReconciler \<Rightarrow> NewtSite \<Rightarrow> ('w, gerr option \<times> NewtSite) state" where
  "findOrCreate k a rc site =
     do {
       l \<leftarrow> ListSites a (ns_Name (site_Spec site));
       case l of
         Inl e \<Rightarrow> ret (Some (Wrap ''ListSites: '' e []), site)
       | Inr items \<Rightarrow>
           (case findSite items (ns_Name (site_Spec site)) of
              Some m \<Rightarrow> patchStatus k site (adoptStatus m)
            | None \<Rightarrow> createSite k a rc site)
     }"

definition updateSite :: "'w API \<Rightarrow> NewtSite \<Rightarrow> ('w, gerr option) state" where
  "updateSite a site =
     do {
       g \<leftarrow> GetSite a (nst_SiteID (site_Status site));
       case g of
         Inl e \<Rightarrow> ret (Some (Wrap ''GetSite: '' e []))
       | Inr live \<Rightarrow>
           if gsr_Name live \<noteq> ns_Name (site_Spec site) then do {
             u \<leftarrow> UpdateSite a (nst_SiteID (site_Status site)) \<lparr>usq_Name = ns_Name (site_Spec site)\<rparr>;
             ret (case u of Some e \<Rightarrow> Some (Wrap ''UpdateSite: '' e []) | None \<Rightarrow> None)
           } else ret None
     }"

section \<open>The tunnel\<close>

definition isManagedDeployment :: "NewtSite \<Rightarrow> bool" where
  "isManagedDeployment site = (case ns_ManagedDeployment (site_Spec site) of None \<Rightarrow> True | Some b \<Rightarrow> b)"

definition ensureServiceAccount :: "'w kube \<Rightarrow> siteReconciler \<Rightarrow> NewtSite \<Rightarrow> ('w, gerr option) state" where
  "ensureServiceAccount k rc site =
     (let sa = \<lparr>sa_Meta = plainMeta (m_Name (site_Meta site) @ ''-newtsite'') (rc_OperatorNamespace rc) None\<rparr> in
      case kSetControllerReference k (site_Meta site) (sa_Meta sa) of
        Inl e \<Rightarrow> ret (Some (Wrap ''set controller reference on serviceaccount: '' e []))
      | Inr meta \<Rightarrow> oc_CreateOrUpdate (kServiceAccounts k) (sa\<lparr>sa_Meta := meta\<rparr>) Inr)"

definition mutateDeployment :: "'w kube \<Rightarrow> NewtSite \<Rightarrow> Deployment \<Rightarrow> Deployment \<Rightarrow> gerr + Deployment" where
  "mutateDeployment k site desired existing =
     (let meta = (dep_Meta existing)\<lparr>m_Labels := m_Labels (dep_Meta desired)\<rparr> in
      case kSetControllerReference k (site_Meta site) meta of
        Inl e \<Rightarrow> Inl e
      | Inr meta' \<Rightarrow> Inr (existing\<lparr>dep_Meta := meta', dep_Spec := dep_Spec desired\<rparr>))"

definition ensureDeployment :: "'w kube \<Rightarrow> siteReconciler \<Rightarrow> NewtSite \<Rightarrow> ('w, gerr option) state" where
  "ensureDeployment k rc site =
     (let secretName = (if nst_NewtSecretName (site_Status site) = [] then credentialsName site
                        else nst_NewtSecretName (site_Status site));
          desired = buildDeployment site secretName (rc_OperatorNamespace rc)
      in case kSetControllerReference k (site_Meta site) (dep_Meta desired) of
           Inl e \<Rightarrow> ret (Some (Wrap ''set controller reference on deployment: '' e []))
         | Inr meta \<Rightarrow>
             oc_CreateOrUpdate (kDeployments k)
               \<lparr>dep_Meta = plainMeta (m_Name (dep_Meta desired)) (m_Namespace (dep_Meta desired)) None,
                dep_Spec = None, dep_ReadyReplicas = 0\<rparr>
               (mutateDeployment k site (desired\<lparr>dep_Meta := meta\<rparr>)))"

section \<open>Discovery\<close>

text \<open>A loop over items that collects the errors of its body and goes on.\<close>

fun collectErrs :: "('a \<Rightarrow> ('w, gerr option) state) \<Rightarrow> 'a list \<Rightarrow> ('w, gerr list) state" where
  "collectErrs f [] = ret []"
| "collectErrs f (x # xs) =
     do {
       r \<leftarrow> f x;
       es \<leftarrow> collectErrs f xs;
       ret (case r of None \<Rightarrow> es | Some e \<Rightarrow> e # es)
     }"

definition ensureHostname :: "'w kube \<Rightarrow> NewtSite \<Rightarrow> AutoDiscoverSpec \<Rightarrow> HTTPRoute \<Rightarrow> string \<Rightarrow> ('w, gerr option) state" where
  "ensureHostname k site cfg route host =
     (case BuildHTTPRouteSpec route host (m_Annotations (hr_Meta route)) cfg (m_Name (site_Meta site)) of
        Inl _ \<Rightarrow> ret None
      | Inr spec \<Rightarrow> do {
          r \<leftarrow> EnsureHTTPRouteResource k (site_Meta site) (m_Name (hr_Meta route)) (m_Namespace (hr_Meta route))
                 (HostnameToResourceName (m_Name (hr_Meta route)) host) spec;
          ret (map_option (\<lambda>e. Wrap (''ensure PublicResource for HTTPRoute hostname '' @ host @ '': '') e []) r)
        })"

definition processHTTPRoute :: "'w kube \<Rightarrow> NewtSite \<Rightarrow> AutoDiscoverSpec \<Rightarrow> HTTPRoute \<Rightarrow> ('w, gerr option) state" where
  "processHTTPRoute k site cfg route =
     do {
       errs \<leftarrow> collectErrs (ensureHostname k site cfg route) (hr_Hostnames route);
       ret (joinErrs errs)
     }"

definition processTCPRoute :: "'w kube \<Rightarrow> NewtSite \<Rightarrow> AutoDiscoverSpec \<Rightarrow> TCPRoute \<Rightarrow> ('w, gerr option) state" where
  "processTCPRoute k site cfg route =
     (case BuildTCPRouteSpec route (m_Annotations (tr_Meta route)) cfg (m_Name (site_Meta site)) of
        Inl _ \<Rightarrow> ret None
      | Inr spec \<Rightarrow> do {
          r \<leftarrow> EnsureTCPRouteResource k (site_Meta site) (m_Name (tr_Meta route)) (m_Namespace (tr_Meta route))
                 (m_Name (tr_Meta route)) spec;
          ret (map_option (\<lambda>e. Wrap (''ensure PublicResource for TCPRoute '' @ m_Name (tr_Meta route) @ '': '') e []) r)
        })"

definition ensurePort ::
  "'w kube \<Rightarrow> NewtSite \<Rightarrow> Service \<Rightarrow> string \<Rightarrow> string \<times> PublicResourceSpec \<Rightarrow> ('w, gerr option) state" where
  "ensurePort k site svc what rs =
     do {
       r \<leftarrow> EnsureServiceResource k (site_Meta site) (m_Name (svc_Meta svc)) (m_Namespace (svc_Meta svc)) (fst rs) (snd rs);
       ret (map_option (\<lambda>e. Wrap (what @ fst rs @ '': '') e []) r)
     }"

definition processService ::
  "'w kube \<Rightarrow> specOrder \<Rightarrow> NewtSite \<Rightarrow> AutoDiscoverSpec \<Rightarrow> string \<Rightarrow> Service \<Rightarrow> ('w, gerr option) state" where
  "processService k mapOrder site cfg prefix svc =
     (let annotations = m_Annotations (svc_Meta svc) in
      if \<not> ad_EnableServiceDiscovery cfg then ret None
      else if mget annotations (annotationKey prefix ''site-ref'') = [] then ret None
      else
        (let siteRef = mget annotations (annotationKey prefix ''site-ref'');
             clusterHostname = clusterHost (m_Name (svc_Meta svc)) (m_Namespace (svc_Meta svc));
             hasFullDomain = (length (mget annotations (annotationKey prefix ''full-domain'')) > 0)
         in if \<not> hasFullDomain \<and> ResolveAllPorts annotations prefix cfg then do {
              errs \<leftarrow> collectErrs (ensurePort k site svc ''ensure PublicResource for Service port '')
                        (mapOrder (BuildAllPortSpecs svc annotations cfg siteRef clusterHostname));
              ret (joinErrs errs)
            } else
              (case BuildSinglePortSpec svc annotations cfg siteRef clusterHostname of
                 None \<Rightarrow> ret None
               | Some rs \<Rightarrow> do {
                   r \<leftarrow> ensurePort k site svc ''ensure PublicResource for Service '' rs;
                   ret (case r of None \<Rightarrow> joinErrs [] | Some e \<Rightarrow> joinErrs [e])
                 })))"

text \<open>Does a site take a route: by the annotation that names it, or through its gateway.\<close>

definition claims :: "NewtSite \<Rightarrow> AutoDiscoverSpec \<Rightarrow> string \<Rightarrow> strmap \<Rightarrow> bool \<Rightarrow> bool" where
  "claims site cfg p annotations viaGateway =
     (mget annotations (annotationKey p ''site-ref'') = m_Name (site_Meta site)
      \<or> (ad_GatewayName cfg \<noteq> [] \<and> viaGateway))"

definition scanHTTPRoutes :: "'w kube \<Rightarrow> NewtSite \<Rightarrow> AutoDiscoverSpec \<Rightarrow> string \<Rightarrow> ('w, gerr option) state" where
  "scanHTTPRoutes k site cfg p =
     do {
       l \<leftarrow> oc_List (kRoutes k);
       case l of
         Inl e \<Rightarrow> ret (Some (Wrap ''list HTTPRoutes: '' (ErrKube e) []))
       | Inr routes \<Rightarrow> do {
           errs \<leftarrow> collectErrs (\<lambda>route.
             let annotations = m_Annotations (hr_Meta route) in
             if IsOptOut annotations p then ret None
             else if claims site cfg p annotations (RouteReferencesGateway route (ad_GatewayName cfg) (ad_GatewayNamespace cfg))
             then processHTTPRoute k site cfg route else ret None) routes;
           ret (joinErrs errs)
         }
     }"

definition scanTCPRoutes :: "'w kube \<Rightarrow> NewtSite \<Rightarrow> AutoDiscoverSpec \<Rightarrow> string \<Rightarrow> ('w, gerr option) state" where
  "scanTCPRoutes k site cfg p =
     do {
       l \<leftarrow> oc_List (kTCPRoutes k);
       case l of
         Inl e \<Rightarrow> ret (Some (Wrap ''list TCPRoutes: '' (ErrKube e) []))
       | Inr routes \<Rightarrow> do {
           errs \<leftarrow> collectErrs (\<lambda>route.
             let annotations = m_Annotations (tr_Meta route) in
             if IsOptOut annotations p then ret None
             else if claims site cfg p annotations (TCPRouteReferencesGateway route (ad_GatewayName cfg) (ad_GatewayNamespace cfg))
             then processTCPRoute k site cfg route else ret None) routes;
           ret (joinErrs errs)
         }
     }"

definition scanServices ::
  "'w kube \<Rightarrow> specOrder \<Rightarrow> NewtSite \<Rightarrow> AutoDiscoverSpec \<Rightarrow> string \<Rightarrow> ('w, gerr option) state" where
  "scanServices k mapOrder site cfg p =
     do {
       l \<leftarrow> oc_List (kServices k);
       case l of
         Inl e \<Rightarrow> ret (Some (Wrap ''list Services: '' (ErrKube e) []))
       | Inr svcs \<Rightarrow> do {
           errs \<leftarrow> collectErrs (\<lambda>svc.
             let annotations = m_Annotations (svc_Meta svc) in
             if IsOptOut annotations p then ret None
             else if map_of annotations (annotationKey p ''site-ref'') \<noteq> Some (m_Name (site_Meta site)) then ret None
             else processService k mapOrder site cfg p svc) svcs;
           ret (joinErrs errs)
         }
     }"

definition reconcileAutodiscover :: "'w kube \<Rightarrow> specOrder \<Rightarrow> NewtSite \<Rightarrow> ('w, gerr option) state" where
  "reconcileAutodiscover k mapOrder site =
     (case ns_AutoDiscover (site_Spec site) of
        None \<Rightarrow> ret None
      | Some cfg \<Rightarrow>
          (let p = (if ad_AnnotationPrefix cfg = [] then DefaultAnnotationPrefix else ad_AnnotationPrefix cfg) in
           do {
             e1 \<leftarrow> (if ad_EnableRouteDiscovery cfg then scanHTTPRoutes k site cfg p else ret None);
             case e1 of
               Some e \<Rightarrow> ret (Some e)
             | None \<Rightarrow> do {
                 e2 \<leftarrow> (if ad_EnableTCPRouteDiscovery cfg then scanTCPRoutes k site cfg p else ret None);
                 case e2 of
                   Some e \<Rightarrow> ret (Some e)
                 | None \<Rightarrow> (if ad_EnableServiceDiscovery cfg then scanServices k mapOrder site cfg p else ret None)
               }
           }))"

section \<open>Reconciling a site\<close>

definition resetStatus :: "NewtSiteStatus \<Rightarrow> NewtSiteStatus" where
  "resetStatus s = s\<lparr>nst_SiteID := 0, nst_NiceID := [], nst_NewtSecretName := []\<rparr>"

text \<open>Forgetting a site that is gone from the server.\<close>

definition forgetSite :: "'w kube \<Rightarrow> NewtSite \<Rightarrow> ('w, reconciled) state" where
  "forgetSite k site =
     do {
       (err, _) \<leftarrow> patchStatus k site resetStatus;
       ret (case err of Some e \<Rightarrow> (noResult, Some e) | None \<Rightarrow> (\<lparr>RequeueAfter = Second\<rparr>, None))
     }"

text \<open>Reporting an error in the condition and returning it.\<close>

definition reportError :: "'w kube \<Rightarrow> NewtSite \<Rightarrow> gerr \<Rightarrow> ('w, reconciled) state" where
  "reportError k site e =
     do {
       _ \<leftarrow> patchStatus k site (setReady k site ConditionFalse ReasonError (errText e));
       ret (noResult, Some e)
     }"

definition createFailed :: "'w kube \<Rightarrow> NewtSite \<Rightarrow> gerr \<Rightarrow> ('w, reconciled) state" where
  "createFailed k site e =
     (if IsBadRequest e then do {
        _ \<leftarrow> patchStatus k site (\<lambda>s. setReady k site ConditionFalse ReasonPermanentError (errText e)
               (s\<lparr>nst_Phase := PhaseError\<rparr>));
        ret (noResult, Some (Terminal e))
      } else reportError k site e)"

text \<open>The first part: the site exists on the server under the identifier in the status, or the result is decided.\<close>

definition ensureSite ::
  "'w kube \<Rightarrow> 'w API \<Rightarrow> siteReconciler \<Rightarrow> NewtSite \<Rightarrow> ('w, reconciled + NewtSite) state" where
  "ensureSite k a rc site =
     (let siteID = nst_SiteID (site_Status site) in
      if siteID = 0 then do {
        (err, site1) \<leftarrow> findOrCreate k a rc site;
        case err of
          Some e \<Rightarrow> do { r \<leftarrow> createFailed k site1 e; ret (Inl r) }
        | None \<Rightarrow> do {
            g \<leftarrow> oc_Get (kSites k) (objectKey (site_Meta site1));
            ret (case g of Inl e \<Rightarrow> Inl (noResult, Some (ErrKube e)) | Inr site2 \<Rightarrow> Inr site2)
          }
      } else if m_Generation (site_Meta site) \<noteq> nst_ObservedGeneration (site_Status site) then do {
        u \<leftarrow> updateSite a site;
        case u of
          Some e \<Rightarrow> do { r \<leftarrow> (if IsNotFound e then forgetSite k site else reportError k site e); ret (Inl r) }
        | None \<Rightarrow> ret (Inr site)
      } else do {
        g \<leftarrow> GetSite a siteID;
        case g of
          Inl e \<Rightarrow>
            if IsNotFound e then do { r \<leftarrow> forgetSite k site; ret (Inl r) }
            else ret (Inl (noResult, Some (Wrap ''drift check GetSite: '' e [])))
        | Inr _ \<Rightarrow> ret (Inr site)
      })"

text \<open>The second part: the tunnel's objects, and whether a pod is ready.\<close>

definition ensureTunnel :: "'w kube \<Rightarrow> siteReconciler \<Rightarrow> NewtSite \<Rightarrow> ('w, reconciled + bool) state" where
  "ensureTunnel k rc site =
     (if ns_Type (site_Spec site) \<noteq> SiteTypeLocal \<and> isManagedDeployment site then do {
        e1 \<leftarrow> ensureServiceAccount k rc site;
        case e1 of
          Some e \<Rightarrow> do { r \<leftarrow> reportError k site e; ret (Inl r) }
        | None \<Rightarrow> do {
            e2 \<leftarrow> ensureDeployment k rc site;
            case e2 of
              Some e \<Rightarrow> do { r \<leftarrow> reportError k site e; ret (Inl r) }
            | None \<Rightarrow> do {
                g \<leftarrow> oc_Get (kDeployments k) (rc_OperatorNamespace rc, m_Name (site_Meta site));
                ret (Inr (case g of Inl _ \<Rightarrow> False | Inr dep \<Rightarrow> dep_ReadyReplicas dep > 0))
              }
          }
      } else ret (Inr False))"

definition readyStatus :: "'w kube \<Rightarrow> NewtSite \<Rightarrow> bool \<Rightarrow> NewtSiteStatus \<Rightarrow> NewtSiteStatus" where
  "readyStatus k site online s =
     setReady k site ConditionTrue ReasonReconciled ''site reconciled successfully''
       (s\<lparr>nst_Phase := PhaseReady, nst_ObservedGeneration := m_Generation (site_Meta site), nst_Online := online\<rparr>)"

definition finishSite :: "'w kube \<Rightarrow> specOrder \<Rightarrow> NewtSite \<Rightarrow> bool \<Rightarrow> ('w, reconciled) state" where
  "finishSite k mapOrder site online =
     do {
       (err, site1) \<leftarrow> patchStatus k site (readyStatus k site online);
       case err of
         Some e \<Rightarrow> ret (noResult, Some e)
       | None \<Rightarrow> do {
           d \<leftarrow> reconcileAutodiscover k mapOrder site1;
           ret (case d of
                  Some e \<Rightarrow> (noResult, Some e)
                | None \<Rightarrow> (\<lparr>RequeueAfter = (if ns_AutoDiscover (site_Spec site1) \<noteq> None then 5 * Minute else ResyncInterval)\<rparr>, None))
         }
     }"

definition reconcile ::
  "'w kube \<Rightarrow> 'w API \<Rightarrow> siteReconciler \<Rightarrow> specOrder \<Rightarrow> NewtSite \<Rightarrow> ('w, reconciled) state" where
  "reconcile k a rc mapOrder site =
     do {
       s \<leftarrow> ensureSite k a rc site;
       case s of
         Inl r \<Rightarrow> ret r
       | Inr site1 \<Rightarrow> do {
           t \<leftarrow> ensureTunnel k rc site1;
           case t of
             Inl r \<Rightarrow> ret r
           | Inr online \<Rightarrow> finishSite k mapOrder site1 online
         }
     }"

section \<open>Deleting a site\<close>

definition withFinalizers :: "(string list \<Rightarrow> string list) \<Rightarrow> NewtSite \<Rightarrow> NewtSite" where
  "withFinalizers f site = site\<lparr>site_Meta := (site_Meta site)\<lparr>m_Finalizers := f (m_Finalizers (site_Meta site))\<rparr>\<rparr>"

definition removeFinalizer :: "'w kube \<Rightarrow> NewtSite \<Rightarrow> ('w, gerr option) state" where
  "removeFinalizer k site =
     do {
       u \<leftarrow> oc_Update (kSites k) (withFinalizers (kRemoveFinalizer k NewtSiteFinalizer) site);
       ret (case u of Inl e \<Rightarrow> Some (Wrap ''remove finalizer: '' (ErrKube e) []) | Inr _ \<Rightarrow> None)
     }"

definition cleanup :: "'w kube \<Rightarrow> 'w API \<Rightarrow> NewtSite \<Rightarrow> ('w, gerr option) state" where
  "cleanup k a site =
     (let siteID = nst_SiteID (site_Status site) in
      do {
        d \<leftarrow> (if siteID \<noteq> 0 then DeleteSite a siteID else ret None);
        case d of
          Some e \<Rightarrow>
            if \<not> IsNotFound e
            then ret (Some (Wrap (''delete Pangolin site '' @ itoa siteID @ '': '') e []))
            else removeFinalizer k site
        | None \<Rightarrow> removeFinalizer k site
      })"

definition Reconcile ::
  "'w kube \<Rightarrow> 'w API \<Rightarrow> siteReconciler \<Rightarrow> specOrder \<Rightarrow> key \<Rightarrow> ('w, reconciled) state" where
  "Reconcile k a rc mapOrder req =
     do {
       g \<leftarrow> oc_Get (kSites k) req;
       case g of
         Inl e \<Rightarrow> ret (noResult, ignoreNotFound (ErrKube e))
       | Inr site \<Rightarrow>
           if m_Deleting (site_Meta site) then do { err \<leftarrow> cleanup k a site; ret (noResult, err) }
           else do {
             u \<leftarrow> (if kContainsFinalizer k NewtSiteFinalizer (m_Finalizers (site_Meta site)) then ret (Inr site)
                   else oc_Update (kSites k) (withFinalizers (kAddFinalizer k NewtSiteFinalizer) site));
             case u of
               Inl e \<Rightarrow> ret (noResult, Some (ErrKube e))
             | Inr site' \<Rightarrow> reconcile k a rc mapOrder site'
           }
     }"

section \<open>The route and service watches\<close>

fun firstSite ::
  "(AutoDiscoverSpec \<Rightarrow> bool) \<Rightarrow> (AutoDiscoverSpec \<Rightarrow> bool) \<Rightarrow> strmap \<Rightarrow> NewtSite list
     \<Rightarrow> (NewtSite \<times> AutoDiscoverSpec \<times> string) option" where
  "firstSite enabled gatewayMatch annotations [] = None"
| "firstSite enabled gatewayMatch annotations (site # sites) =
     (case ns_AutoDiscover (site_Spec site) of
        None \<Rightarrow> firstSite enabled gatewayMatch annotations sites
      | Some cfg \<Rightarrow>
          if \<not> enabled cfg then firstSite enabled gatewayMatch annotations sites
          else
            (let p = (if ad_AnnotationPrefix cfg = [] then DefaultAnnotationPrefix else ad_AnnotationPrefix cfg) in
             if mget annotations (annotationKey p ''site-ref'') = m_Name (site_Meta site) then Some (site, cfg, p)
             else if gatewayMatch cfg then Some (site, cfg, p)
             else firstSite enabled gatewayMatch annotations sites))"

definition resolveSite ::
  "'w kube \<Rightarrow> strmap \<Rightarrow> (AutoDiscoverSpec \<Rightarrow> bool) \<Rightarrow> (AutoDiscoverSpec \<Rightarrow> bool)
     \<Rightarrow> ('w, gerr + (NewtSite \<times> AutoDiscoverSpec \<times> string) option) state" where
  "resolveSite k annotations enabled gatewayMatch =
     do {
       l \<leftarrow> oc_List (kSites k);
       ret (case l of Inl e \<Rightarrow> Inl (ErrKube e) | Inr sites \<Rightarrow> Inr (firstSite enabled gatewayMatch annotations sites))
     }"

definition resolveSiteForHTTPRoute where
  "resolveSiteForHTTPRoute k annotations route =
     resolveSite k annotations ad_EnableRouteDiscovery
       (\<lambda>cfg. ad_GatewayName cfg \<noteq> [] \<and> RouteReferencesGateway route (ad_GatewayName cfg) (ad_GatewayNamespace cfg))"

definition resolveSiteForTCPRoute where
  "resolveSiteForTCPRoute k annotations route =
     resolveSite k annotations ad_EnableTCPRouteDiscovery
       (\<lambda>cfg. ad_GatewayName cfg \<noteq> [] \<and> TCPRouteReferencesGateway route (ad_GatewayName cfg) (ad_GatewayNamespace cfg))"

definition resolveSiteForService where
  "resolveSiteForService k annotations = resolveSite k annotations ad_EnableServiceDiscovery (\<lambda>_. False)"

text \<open>Deleting the listed resources, stopping at the first error that is not a 404.\<close>

fun deleteEach :: "'w kube \<Rightarrow> PublicResource list \<Rightarrow> ('w, reconciled) state" where
  "deleteEach k [] = ret (noResult, None)"
| "deleteEach k (res # rest) =
     do {
       d \<leftarrow> oc_Delete (kPubs k) res;
       case (case d of None \<Rightarrow> None | Some e \<Rightarrow> ignoreNotFound (ErrKube e)) of
         Some e \<Rightarrow> ret (noResult, Some e)
       | None \<Rightarrow> deleteEach k rest
     }"

definition deleteOwnedResources :: "'w kube \<Rightarrow> string \<Rightarrow> string \<Rightarrow> ('w, reconciled) state" where
  "deleteOwnedResources k ownerKind ownerName =
     do {
       l \<leftarrow> kListPubsByLabels k [(LabelOwnerKind, ownerKind), (LabelOwnerName, ownerName)];
       case l of Inl e \<Rightarrow> ret (noResult, Some (ErrKube e)) | Inr items \<Rightarrow> deleteEach k items
     }"

definition ReconcileHTTPRoute :: "'w kube \<Rightarrow> key \<Rightarrow> ('w, reconciled) state" where
  "ReconcileHTTPRoute k req =
     do {
       g \<leftarrow> oc_Get (kRoutes k) req;
       case g of
         Inl e \<Rightarrow>
           if ignoreNotFound (ErrKube e) = None then deleteOwnedResources k ''httproute'' (snd req)
           else ret (noResult, Some (ErrKube e))
       | Inr route \<Rightarrow> do {
           s \<leftarrow> resolveSiteForHTTPRoute k (m_Annotations (hr_Meta route)) route;
           case s of
             Inl e \<Rightarrow> ret (noResult, Some e)
           | Inr None \<Rightarrow> ret (noResult, None)
           | Inr (Some (site, cfg, prefix)) \<Rightarrow>
               if IsOptOut (m_Annotations (hr_Meta route)) prefix
               then deleteOwnedResources k ''httproute'' (m_Name (hr_Meta route))
               else do { err \<leftarrow> processHTTPRoute k site cfg route; ret (noResult, err) }
         }
     }"

definition ReconcileTCPRoute :: "'w kube \<Rightarrow> key \<Rightarrow> ('w, reconciled) state" where
  "ReconcileTCPRoute k req =
     do {
       g \<leftarrow> oc_Get (kTCPRoutes k) req;
       case g of
         Inl e \<Rightarrow>
           if ignoreNotFound (ErrKube e) = None then deleteOwnedResources k ''tcproute'' (snd req)
           else ret (noResult, Some (ErrKube e))
       | Inr route \<Rightarrow> do {
           s \<leftarrow> resolveSiteForTCPRoute k (m_Annotations (tr_Meta route)) route;
           case s of
             Inl e \<Rightarrow> ret (noResult, Some e)
           | Inr None \<Rightarrow> ret (noResult, None)
           | Inr (Some (site, cfg, prefix)) \<Rightarrow>
               if IsOptOut (m_Annotations (tr_Meta route)) prefix
               then deleteOwnedResources k ''tcproute'' (m_Name (tr_Meta route))
               else do { err \<leftarrow> processTCPRoute k site cfg route; ret (noResult, err) }
         }
     }"

definition ReconcileService :: "'w kube \<Rightarrow> specOrder \<Rightarrow> key \<Rightarrow> ('w, reconciled) state" where
  "ReconcileService k mapOrder req =
     do {
       g \<leftarrow> oc_Get (kServices k) req;
       case g of
         Inl e \<Rightarrow>
           if ignoreNotFound (ErrKube e) = None then deleteOwnedResources k ''service'' (snd req)
           else ret (noResult, Some (ErrKube e))
       | Inr svc \<Rightarrow> do {
           s \<leftarrow> resolveSiteForService k (m_Annotations (svc_Meta svc));
           case s of
             Inl e \<Rightarrow> ret (noResult, Some e)
           | Inr None \<Rightarrow> ret (noResult, None)
           | Inr (Some (site, cfg, prefix)) \<Rightarrow>
               if IsOptOut (m_Annotations (svc_Meta svc)) prefix
               then deleteOwnedResources k ''service'' (m_Name (svc_Meta svc))
               else do { err \<leftarrow> processService k mapOrder site cfg prefix svc; ret (noResult, err) }
         }
     }"

section \<open>Event filters\<close>

definition hasSiteRefAnnotation :: "Service \<Rightarrow> bool" where
  "hasSiteRefAnnotation svc = list_ex (\<lambda>(k, _). hasSuffix k ''/site-ref'') (m_Annotations (svc_Meta svc))"

definition hasParentRef :: "HTTPRoute \<Rightarrow> bool" where
  "hasParentRef route = (length (hr_ParentRefs route) > 0)"

definition hasTCPRouteParentRef :: "TCPRoute \<Rightarrow> bool" where
  "hasTCPRouteParentRef route = (length (tr_ParentRefs route) > 0)"

datatype 'o watchEvent = CreateEvent 'o | UpdateEvent 'o 'o | DeleteEvent 'o | GenericEvent 'o

fun passes :: "('o \<Rightarrow> bool) \<Rightarrow> 'o watchEvent \<Rightarrow> bool" where
  "passes has (CreateEvent x) = has x"
| "passes has (UpdateEvent old new) = (has new \<or> has old)"
| "passes has (DeleteEvent x) = has x"
| "passes has (GenericEvent x) = has x"

end
