(* ===== verification/SiteLaws.thy ===== *)
theory SiteLaws
  imports NewtSiteController Interfaces
begin

text \<open>
  What the NewtSite controller does in every environment: over the log of a recorded run, and
  over the answers of the servers it finds there.
\<close>

section \<open>Automation\<close>

abbreviation spatched :: "(NewtSiteStatus \<Rightarrow> NewtSiteStatus) \<Rightarrow> NewtSite \<Rightarrow> NewtSite" where
  "spatched f site \<equiv> site\<lparr>site_Status := f (site_Status site)\<rparr>"

lemma emits_spatch:
  assumes "\<And>x. Q (Some (ErrKube x), spatched f site) [ESite (OStatusPatch site (spatched f site) (Inl x))]"
    and "\<And>x. Q (None, x) [ESite (OStatusPatch site (spatched f site) (Inr x))]"
  shows "emits (patchStatus (record_kube k) site f) Q"
  using assms by (auto simp: patchStatus_def Let_def intro!: emits_bind_op split: sum.splits)

lemma emits_bind_spatch:
  assumes "\<And>x. emits (g (Some (ErrKube x), spatched f site))
      (\<lambda>r new. Q r (ESite (OStatusPatch site (spatched f site) (Inl x)) # new))"
    and "\<And>x. emits (g (None, x)) (\<lambda>r new. Q r (ESite (OStatusPatch site (spatched f site) (Inr x)) # new))"
  shows "emits (patchStatus (record_kube k) site f \<bind> g) Q"
  by (rule emits_bind [where P = "\<lambda>(e, obj) new. (\<exists>x. e = Some (ErrKube x) \<and> obj = spatched f site
         \<and> new = [ESite (OStatusPatch site (spatched f site) (Inl x))])
       \<or> (\<exists>x. e = None \<and> obj = x \<and> new = [ESite (OStatusPatch site (spatched f site) (Inr x))])"])
    (auto intro!: emits_spatch simp: assms)

lemma spatch_all: "(\<And>b n r. P (ESite (OStatusPatch b n r))) \<Longrightarrow> emitsAll P (patchStatus (record_kube k) site f)"
  by (auto simp: patchStatus_def Let_def intro!: emitsAll_intros)

lemma ensureOwned_all:
  assumes "\<And>q r. P (EPub (OGet q r))" "\<And>x r. P (EPub (OCreate x r))" "\<And>x y r. P (EPub (OPatch x y r))"
  shows "emitsAll P (ensureOwnedPublicResource (record_kube k) owner kind name ns rn spec)"
  by (auto simp: ensureOwnedPublicResource_def Let_def assms intro!: emitsAll_intros split: sum.splits option.splits)

lemma collectErrs_all: "(\<And>x. emitsAll P (f x)) \<Longrightarrow> emitsAll P (collectErrs f xs)"
  by (induction xs) (auto intro!: emitsAll_bind)

lemma processHTTPRoute_all:
  assumes "\<And>q r. P (EPub (OGet q r))" "\<And>x r. P (EPub (OCreate x r))" "\<And>x y r. P (EPub (OPatch x y r))"
  shows "emitsAll P (processHTTPRoute (record_kube k) site cfg route)"
  by (auto simp: processHTTPRoute_def ensureHostname_def EnsureHTTPRouteResource_def assms
      intro!: emitsAll_bind collectErrs_all ensureOwned_all split: sum.splits)

lemma processTCPRoute_all:
  assumes "\<And>q r. P (EPub (OGet q r))" "\<And>x r. P (EPub (OCreate x r))" "\<And>x y r. P (EPub (OPatch x y r))"
  shows "emitsAll P (processTCPRoute (record_kube k) site cfg route)"
  by (auto simp: processTCPRoute_def EnsureTCPRouteResource_def assms
      intro!: emitsAll_bind ensureOwned_all split: sum.splits)

lemma processService_all:
  assumes "\<And>q r. P (EPub (OGet q r))" "\<And>x r. P (EPub (OCreate x r))" "\<And>x y r. P (EPub (OPatch x y r))"
  shows "emitsAll P (processService (record_kube k) mo site cfg p svc)"
  by (auto simp: processService_def ensurePort_def EnsureServiceResource_def Let_def assms
      intro!: emitsAll_bind collectErrs_all ensureOwned_all split: sum.splits option.splits)

lemma reconcileAutodiscover_all:
  assumes "\<And>q r. P (EPub (OGet q r))" "\<And>x r. P (EPub (OCreate x r))" "\<And>x y r. P (EPub (OPatch x y r))"
    and "\<And>r. P (ERoute (OList r))" "\<And>r. P (ETCPRoute (OList r))" "\<And>r. P (EService (OList r))"
  shows "emitsAll P (reconcileAutodiscover (record_kube k) mo site)"
  by (auto simp: reconcileAutodiscover_def scanHTTPRoutes_def scanTCPRoutes_def scanServices_def Let_def assms
      intro!: emitsAll_intros collectErrs_all processHTTPRoute_all processTCPRoute_all processService_all
      split: sum.splits option.splits)

lemma forgetSite_all: "(\<And>b n r. P (ESite (OStatusPatch b n r))) \<Longrightarrow> emitsAll P (forgetSite (record_kube k) site)"
  and reportError_all: "(\<And>b n r. P (ESite (OStatusPatch b n r))) \<Longrightarrow> emitsAll P (reportError (record_kube k) site e)"
  and createFailed_all: "(\<And>b n r. P (ESite (OStatusPatch b n r))) \<Longrightarrow> emitsAll P (createFailed (record_kube k) site e)"
  by (auto simp: forgetSite_def reportError_def createFailed_def intro!: emitsAll_bind spatch_all)

lemma ensureTunnel_all:
  assumes "\<And>b n r. P (ESite (OStatusPatch b n r))" "\<And>x f r. P (EServiceAccount (OCreateOrUpdate x f r))"
    "\<And>x f r. P (EDeployment (OCreateOrUpdate x f r))" "\<And>q r. P (EDeployment (OGet q r))"
  shows "emitsAll P (ensureTunnel (record_kube k) rc site)"
  by (auto simp: ensureTunnel_def ensureServiceAccount_def ensureDeployment_def Let_def assms
      intro!: emitsAll_intros reportError_all split: sum.splits option.splits)

lemma finishSite_all:
  assumes "\<And>b n r. P (ESite (OStatusPatch b n r))"
    "\<And>q r. P (EPub (OGet q r))" "\<And>x r. P (EPub (OCreate x r))" "\<And>x y r. P (EPub (OPatch x y r))"
    "\<And>r. P (ERoute (OList r))" "\<And>r. P (ETCPRoute (OList r))" "\<And>r. P (EService (OList r))"
  shows "emitsAll P (finishSite (record_kube k) mo site online)"
  by (auto simp: finishSite_def assms intro!: emitsAll_bind spatch_all reconcileAutodiscover_all split: option.splits)

lemma updateSite_all:
  "(\<And>i r. P (EApi (AGetSite i r))) \<Longrightarrow> (\<And>i q r. P (EApi (AUpdateSite i q r))) \<Longrightarrow> emitsAll P (updateSite (record_api a) site)"
  by (auto simp: updateSite_def intro!: emitsAll_intros split: sum.splits)

lemma findOrCreate_all:
  assumes "\<And>x. P (EApi x)" "\<And>b n r. P (ESite (OStatusPatch b n r))" "\<And>x f r. P (ESecret (OCreateOrUpdate x f r))"
  shows "emitsAll P (findOrCreate (record_kube k) (record_api a) rc site)"
  by (auto simp: findOrCreate_def createSite_def createLocalSite_def createNewtSite_def persistSite_def writeSecret_def
      Let_def assms intro!: emitsAll_intros spatch_all split: sum.splits option.splits)

lemma ensureSite_all:
  assumes "\<And>x. P (EApi x)" "\<And>b n r. P (ESite (OStatusPatch b n r))" "\<And>x f r. P (ESecret (OCreateOrUpdate x f r))"
    "\<And>q r. P (ESite (OGet q r))"
  shows "emitsAll P (ensureSite (record_kube k) (record_api a) rc site)"
  by (auto simp: ensureSite_def Let_def assms split: sum.splits option.splits
      intro!: emitsAll_intros findOrCreate_all updateSite_all forgetSite_all reportError_all createFailed_all)

lemma sreconcile_grows: "emits (reconcile (record_kube k) (record_api a) rc mo site) (\<lambda>_ _. True)"
  by (rule emitsAll_grows [where P = "\<lambda>_. True"])
    (auto simp: reconcile_def intro!: emitsAll_bind ensureSite_all ensureTunnel_all finishSite_all split: sum.splits)

section \<open>The life cycle\<close>

definition viewSite :: "event \<Rightarrow> NewtSite objEvent option" where
  "viewSite e = (case e of ESite x \<Rightarrow> Some x | _ \<Rightarrow> None)"

interpretation site_finalized: finalized "kSites k" ESite viewSite site_Meta
  "kContainsFinalizer k NewtSiteFinalizer"
  "withFinalizers (kAddFinalizer k NewtSiteFinalizer)"
  "withFinalizers (kRemoveFinalizer k NewtSiteFinalizer)"
  "\<lambda>site. nst_SiteID (site_Status site)" "DeleteSite a" "\<lambda>i r. EApi (ADeleteSite i r)"
  "\<lambda>i. ''delete Pangolin site '' @ itoa i @ '': ''"
  "cleanup (record_kube k) (record_api a)" "reconcile (record_kube k) (record_api a) rc mo"
  "Reconcile (record_kube k) (record_api a) rc mo"
  for k :: "'w kube" and a :: "'w API" and rc mo
  by unfold_locales
    (auto simp: viewSite_def cleanup_def removeFinalizer_def Reconcile_def Let_def
      intro!: arg_cong2 [where f = State_Monad.bind] split: option.splits sum.splits)

text \<open>
  The finalizer of a NewtSite is removed only after the server has deleted the site or
  answered 404, or when none was ever made.
\<close>

theorem site_cleanup_releases_last:
  "emits (cleanup (record_kube k) (record_api a) site)
     (cleanupLog (nst_SiteID (site_Status site))
        (\<lambda>d. EApi (ADeleteSite (nst_SiteID (site_Status site)) d))
        (\<lambda>u. ESite (OUpdate (withFinalizers (kRemoveFinalizer k NewtSiteFinalizer) site) u)))"
  by (rule site_finalized.cleanup_log)

text \<open>
  A NewtSite gets its finalizer before anything is made on the server.
\<close>

theorem site_Reconcile_adds_finalizer_first:
  "emits (Reconcile (record_kube k) (record_api a) rc mo req)
     (\<lambda>_. finalizerFirst viewSite
        (\<lambda>site. m_Deleting (site_Meta site)
           \<or> kContainsFinalizer k NewtSiteFinalizer (m_Finalizers (site_Meta site)))
        (withFinalizers (kAddFinalizer k NewtSiteFinalizer)))"
  by (rule site_finalized.Reconcile_finalizer_first) (rule sreconcile_grows)

interpretation site_search: first_match "\<lambda>items. findSite items name" "\<lambda>item. si_Name item = name" for name
  by unfold_locales simp_all

text \<open>
  The site adopted is the first of the list with the name of the specification.
\<close>

theorem findSite_first:
  "findSite items name = Some m \<longleftrightarrow>
     (\<exists>us vs. items = us @ m # vs \<and> si_Name m = name \<and> list_all (\<lambda>u. si_Name u \<noteq> name) us)"
  by (rule site_search.search_Some)

lemma createSite_grows: "emits (createSite (record_kube k) (record_api a) rc site) (\<lambda>_ _. True)"
  unfolding createSite_def createLocalSite_def createNewtSite_def persistSite_def writeSecret_def Let_def
  by (auto split: sum.splits option.splits intro!: emits_bind_spatch emits_bind_op)

section \<open>Is a created site lost?\<close>

definition createdSite :: "event \<Rightarrow> int option" where
  "createdSite e = (case e of EApi (ACreateSite _ (Inr c)) \<Rightarrow> Some (csr_SiteID c) | _ \<Rightarrow> None)"

definition settlesSite :: "int \<Rightarrow> event \<Rightarrow> bool" where
  "settlesSite i e =
     (case e of
        ESite (OStatusPatch _ n (Inr _)) \<Rightarrow> nst_SiteID (site_Status n) = i
      | EApi (ADeleteSite j _) \<Rightarrow> j = i
      | _ \<Rightarrow> False)"

lemma createdSite_simps [simp]:
  "createdSite (EApi (ACreateSite q (Inr c))) = Some (csr_SiteID c)"
  "createdSite (EApi (ACreateSite q (Inl c0))) = None"
  "createdSite (EApi (APickSiteDefaults d)) = None"
  "createdSite (EApi (ADeleteSite i r2)) = None" "createdSite (EApi (AListSites n r3)) = None"
  "createdSite (ESite x) = None" "createdSite (ESecret y) = None"
  by (simp_all add: createdSite_def)

text \<open>
  The credentials of a site are refused: the patch before the creation was accepted and left a
  site that is not local, the server gave its defaults and created the site, and then either
  the new Secret cannot be given its owner, or creating or updating it fails; this is the
  whole run.
\<close>

fun credentialsRefused :: "'w kube \<Rightarrow> siteReconciler \<Rightarrow> event list \<Rightarrow> bool" where
  "credentialsRefused k rc
     (ESite (OStatusPatch _ _ (Inr site)) # EApi (APickSiteDefaults (Inr d)) # EApi (ACreateSite _ (Inr _)) # rest) =
     (ns_Type (site_Spec site) \<noteq> SiteTypeLocal
      \<and> (case kSetControllerReference k (site_Meta site) (sec_Meta (newSecret rc site d)) of
           Inl _ \<Rightarrow> rest = []
         | Inr _ \<Rightarrow> (case rest of [ESecret (OCreateOrUpdate _ _ (Some _))] \<Rightarrow> True | _ \<Rightarrow> False)))"
| "credentialsRefused k rc _ = False"

text \<open>
  C7.  A created site is lost on one path, and only there: when the credentials Secret of a site
  that is not local is refused, or cannot be given its owner, the site just created is neither
  recorded in a status nor deleted again; in every other run, and in every run for a local
  site, a created site is settled by an accepted status or by the request to delete it.
\<close>

theorem createSite_loses_site:
  "emits (createSite (record_kube k) (record_api a) rc site)
     (\<lambda>out new. credentialsRefused k rc new = (\<not> accounted createdSite settlesSite new))"
  unfolding createSite_def createLocalSite_def createNewtSite_def persistSite_def writeSecret_def Let_def
  by (auto split: sum.splits option.splits intro!: emits_bind_spatch emits_bind_op
      simp: settlesSite_def)

section \<open>Credentials\<close>

text \<open>
  A Secret that a tunnel can log in with: it holds the endpoint of the operator, and the
  identifier and secret with which the server created a site in that run.
\<close>

definition registered :: "siteReconciler \<Rightarrow> event list \<Rightarrow> Secret \<Rightarrow> bool" where
  "registered rc before s \<longleftrightarrow>
     map_of (sec_StringData s) envPangolinEndpoint = Some (rc_NewtEndpoint rc)
     \<and> list_ex (\<lambda>e. case e of
          EApi (ACreateSite q (Inr _)) \<Rightarrow>
            map_of (sec_StringData s) envNewtID = Some (csq_NewtID q)
            \<and> map_of (sec_StringData s) envNewtSecret = Some (csq_Secret q)
        | _ \<Rightarrow> False) before"

text \<open>
  Whatever Secret is there already, and when there is none, what is written for it is
  registered by an event before the write, and is the Secret found but for the label and the data.
\<close>

definition writesRegistered :: "siteReconciler \<Rightarrow> event list \<Rightarrow> event \<Rightarrow> bool" where
  "writesRegistered rc before e =
     (case e of
        ESecret (OCreateOrUpdate s f _) \<Rightarrow>
          (\<forall>found. case f found of
             Inl _ \<Rightarrow> False
           | Inr s' \<Rightarrow> registered rc before s'
               \<and> (sec_Meta s')\<lparr>m_Labels := m_Labels (sec_Meta found)\<rparr> = sec_Meta found)
          \<and> registered rc before s
      | _ \<Rightarrow> True)"

fun credentialsAgree :: "siteReconciler \<Rightarrow> event list \<Rightarrow> event list \<Rightarrow> bool" where
  "credentialsAgree rc before [] = True"
| "credentialsAgree rc before (e # new) = (writesRegistered rc before e \<and> credentialsAgree rc (before @ [e]) new)"

lemma credentialsData_lookup:
  "map_of (credentialsData rc d) envPangolinEndpoint = Some (rc_NewtEndpoint rc)"
  "map_of (credentialsData rc d) envNewtID = Some (psd_NewtID d)"
  "map_of (credentialsData rc d) envNewtSecret = Some (psd_NewtSecret d)"
  by (simp_all add: credentialsData_def env_names)

text \<open>
  A Secret was written for a site that is not local: under the name of the site's credentials, in
  the namespace of the operator, with the site as its owner.
\<close>

definition ownedAs :: "'w kube \<Rightarrow> objectMeta \<Rightarrow> string \<Rightarrow> string \<Rightarrow> objectMeta \<Rightarrow> bool" where
  "ownedAs k owner name ns r \<longleftrightarrow>
     (\<exists>m. m_Name m = name \<and> m_Namespace m = ns \<and> kSetControllerReference k owner m = Inr r)"

lemma ownedAsI:
  "kSetControllerReference k (site_Meta site) (plainMeta (credentialsName site) ns ls) = Inr r
     \<Longrightarrow> ownedAs k (site_Meta site) (m_Name (site_Meta site) @ ''-newt-credentials'') ns r"
  unfolding ownedAs_def by (rule exI, rule conjI [rotated], rule conjI [rotated], assumption)
    (simp_all add: plainMeta_def credentialsName_def)

fun credentialsWritten :: "'w kube \<Rightarrow> siteReconciler \<Rightarrow> event list \<Rightarrow> bool" where
  "credentialsWritten k rc (ESite (OStatusPatch _ _ (Inr site)) # new) =
     (ns_Type (site_Spec site) = SiteTypeLocal
      \<or> list_ex (\<lambda>e. case e of
           ESecret (OCreateOrUpdate s _ None) \<Rightarrow>
             ownedAs k (site_Meta site) (m_Name (site_Meta site) @ ''-newt-credentials'') (rc_OperatorNamespace rc) (sec_Meta s)
         | _ \<Rightarrow> False) new)"
| "credentialsWritten k rc _ = False"

text \<open>
  C30.  A tunnel can log in.  Whenever the controller creates or updates a Secret, then whatever
  Secret is in the cluster already, what is written holds the operator's endpoint and the
  identifier and the secret of a site that the server created before in the same run; the
  Secret found keeps the rest of its metadata, and the one passed in for a new Secret holds
  the same data.  A creation that ends without an error has written such a Secret, unless the
  site is local.
\<close>

theorem createSite_credentials_agree:
  "emits (createSite (record_kube k) (record_api a) rc site)
     (\<lambda>out new. credentialsAgree rc [] new
        \<and> (case fst out of None \<Rightarrow> credentialsWritten k rc new | Some _ \<Rightarrow> True))"
  unfolding createSite_def createLocalSite_def createNewtSite_def persistSite_def writeSecret_def Let_def
  by (auto split: sum.splits option.splits intro!: emits_bind_spatch emits_bind_op
      simp: writesRegistered_def mutateSecret_def Let_def registered_def newSecret_def credentialsData_lookup ownedAsI)

text \<open>
  C34.  Adopting a site writes no credentials: when the server already lists a site of that name,
  the whole of the search is the listing and one status patch, so the Secret that the
  Deployment refers to is never made.
\<close>

theorem findOrCreate_adopts_without_credentials:
  "emits (findOrCreate (record_kube k) (record_api a) rc site)
     (\<lambda>_ new. case new of
        EApi (AListSites _ (Inr items)) # tr \<Rightarrow>
          (case findSite items (ns_Name (site_Spec site)) of
             Some m \<Rightarrow> (\<exists>r. tr = [ESite (OStatusPatch site (spatched (adoptStatus m) site) r)])
           | None \<Rightarrow> True)
      | [EApi (AListSites _ (Inl _))] \<Rightarrow> True
      | _ \<Rightarrow> False)"
proof -
  have "emits (createSite (record_kube k) (record_api a) rc site) (\<lambda>_ new. True)"
    by (rule createSite_grows)
  then show ?thesis
    unfolding findOrCreate_def
    by (auto intro!: emits_bind_op emits_spatch split: sum.splits option.splits)
qed

section \<open>How a reconciliation ends\<close>

definition onlineIn :: "event list \<Rightarrow> bool" where
  "onlineIn new = list_ex (\<lambda>e. case e of EDeployment (OGet _ (Inr d)) \<Rightarrow> dep_ReadyReplicas d > 0 | _ \<Rightarrow> False) new"

definition isDiscovery :: "event \<Rightarrow> bool" where
  "isDiscovery e =
     (case e of
        EPub (OGet _ _) \<Rightarrow> True | EPub (OCreate _ _) \<Rightarrow> True | EPub (OPatch _ _ _) \<Rightarrow> True
      | ERoute (OList _) \<Rightarrow> True | ETCPRoute (OList _) \<Rightarrow> True | EService (OList _) \<Rightarrow> True | _ \<Rightarrow> False)"

text \<open>
  The end of a site's reconciliation: the reset of a site gone from the server; the accepted
  Ready patch, which reports the tunnel online exactly when the Deployment read before it has
  a ready replica, followed by the discovery; or an error.
\<close>

inductive siteEnd :: "'w kube \<Rightarrow> reconciled \<Rightarrow> event list \<Rightarrow> bool" for k :: "'w kube" where
  site_forgotten: "siteEnd k (\<lparr>RequeueAfter = Second\<rparr>, None) (pre @ [ESite (OStatusPatch o1 (spatched resetStatus o1) (Inr x))])"
| site_ready: "list_all isDiscovery post
    \<Longrightarrow> i = (if ns_AutoDiscover (site_Spec x) = None then ResyncInterval else 5 * Minute)
    \<Longrightarrow> siteEnd k (\<lparr>RequeueAfter = i\<rparr>, None)
      (pre @ ESite (OStatusPatch o1 (spatched (readyStatus k o1 (onlineIn pre)) o1) (Inr x)) # post)"
| site_error: "siteEnd k (noResult, Some e) new"

lemma ssetReady_record [simp]: "setReady (record_kube k) = setReady k" "readyStatus (record_kube k) = readyStatus k"
  by (intro ext, simp add: setReady_def readyStatus_def)+

lemma forgetSite_end: "emits (forgetSite (record_kube k) site) (\<lambda>out new. siteEnd k out (pre @ new))"
  unfolding forgetSite_def by (auto intro!: emits_bind_spatch site_forgotten site_error)

lemma reportError_end: "emits (reportError (record_kube k) site e) (\<lambda>out new. siteEnd k out (pre @ new))"
  and createFailed_end: "emits (createFailed (record_kube k) site e) (\<lambda>out new. siteEnd k out (pre @ new))"
  unfolding createFailed_def reportError_def by (auto intro!: emits_bind_spatch site_error)

lemma finishSite_end:
  "emits (finishSite (record_kube k) mo site (onlineIn pre)) (\<lambda>out new. siteEnd k out (pre @ new))"
proof -
  have d: "emits (reconcileAutodiscover (record_kube k) mo s) (\<lambda>_ new. list_all isDiscovery new)" for s
    using reconcileAutodiscover_all [of isDiscovery] by (simp add: emitsAll_def isDiscovery_def)
  show ?thesis
    unfolding finishSite_def
    by (auto intro!: emits_bind_spatch emits_bind [OF d] site_error site_ready split: option.splits
        simp del: append.simps)
qed

definition notDeployment :: "event \<Rightarrow> bool" where
  "notDeployment e = (case e of EDeployment _ \<Rightarrow> False | _ \<Rightarrow> True)"

lemma notDeployment_simps [simp]:
  "notDeployment (EApi x)" "notDeployment (ESite y)" "notDeployment (ESecret z)"
  by (simp_all add: notDeployment_def)

definition siteStage :: "'w kube \<Rightarrow> reconciled + 'a \<Rightarrow> event list \<Rightarrow> bool" where
  "siteStage k out new = (case out of Inl r \<Rightarrow> siteEnd k r new | Inr _ \<Rightarrow> list_all notDeployment new)"

lemma siteStage_simps [simp]:
  "siteStage k (Inl r) new = siteEnd k r new" "siteStage k (Inr x) new = list_all notDeployment new"
  by (simp_all add: siteStage_def)

lemma emits_Inl:
  assumes "\<And>pre. emits m (\<lambda>out new. siteEnd k out (pre @ new))"
  shows "emits (m \<bind> (\<lambda>r. ret (Inl r))) (\<lambda>out new. siteStage k out (pre @ new))"
  by (rule emits_bind [OF assms [of pre]]) simp

lemma emits_Inl_Cons:
  assumes "\<And>pre. emits m (\<lambda>out new. siteEnd k out (pre @ new))"
  shows "emits (m \<bind> (\<lambda>r. ret (Inl r))) (\<lambda>out new. siteStage k out (e # new))"
  using emits_Inl [OF assms, where pre = "[e]"] by simp

lemma ensureSite_end:
  "emits (ensureSite (record_kube k) (record_api a) rc site) (siteStage k)"
proof -
  have f: "emits (findOrCreate (record_kube k) (record_api a) rc site) (\<lambda>_ new. list_all notDeployment new)"
    using findOrCreate_all [of notDeployment] by (simp add: emitsAll_def)
  have u: "emits (updateSite (record_api a) site) (\<lambda>_ new. list_all notDeployment new)"
    using updateSite_all [of notDeployment] by (simp add: emitsAll_def)
  note ends = emits_Inl [OF forgetSite_end] emits_Inl [OF reportError_end] emits_Inl [OF createFailed_end]
    emits_Inl_Cons [OF forgetSite_end]
  show ?thesis
    unfolding ensureSite_def Let_def
    by (auto split: sum.splits option.splits
        intro!: ends emits_bind_op emits_bind [OF f] emits_bind [OF u] site_error)
qed

lemma onlineIn_append: "onlineIn (xs @ ys) = (onlineIn xs \<or> onlineIn ys)"
  by (simp add: onlineIn_def)

lemma onlineIn_simps [simp]:
  "onlineIn [] = False"
  "onlineIn [EDeployment (OGet q (Inr d))] = (dep_ReadyReplicas d > 0)"
  "onlineIn [EDeployment (OGet q (Inl x))] = False"
  "onlineIn [EDeployment (OCreateOrUpdate y f r)] = False"
  "onlineIn [EServiceAccount z] = False"
  by (simp_all add: onlineIn_def)

lemma onlineIn_quiet [simp]: "list_all notDeployment pre \<Longrightarrow> \<not> onlineIn pre"
  by (auto simp: onlineIn_def notDeployment_def list_all_iff list_ex_iff split: event.splits)

lemma ensureServiceAccount_off: "emits (ensureServiceAccount (record_kube k) rc site) (\<lambda>_ new. \<not> onlineIn new)"
  unfolding ensureServiceAccount_def Let_def by (auto intro!: emits_op split: sum.splits)

lemma ensureDeployment_off: "emits (ensureDeployment (record_kube k) rc site) (\<lambda>_ new. \<not> onlineIn new)"
  unfolding ensureDeployment_def Let_def by (auto intro!: emits_op split: sum.splits)

definition tunnelStage :: "'w kube \<Rightarrow> event list \<Rightarrow> reconciled + bool \<Rightarrow> event list \<Rightarrow> bool" where
  "tunnelStage k pre out new =
     (case out of Inl r \<Rightarrow> siteEnd k r (pre @ new) | Inr online \<Rightarrow> online = onlineIn (pre @ new))"

lemma tunnelStage_simps [simp]:
  "tunnelStage k pre (Inl r) new = siteEnd k r (pre @ new)"
  "tunnelStage k pre (Inr online) new = (online = onlineIn (pre @ new))"
  by (simp_all add: tunnelStage_def)

lemma reportError_tunnel:
  "emits (reportError (record_kube k) site e \<bind> (\<lambda>r. ret (Inl r))) (\<lambda>out new. tunnelStage k pre out (xs @ new))"
  by (rule emits_bind [OF reportError_end [of k site e "pre @ xs"]]) simp

lemma ensureTunnel_end:
  assumes "list_all notDeployment pre"
  shows "emits (ensureTunnel (record_kube k) rc site) (tunnelStage k pre)"
proof (cases "ns_Type (site_Spec site) \<noteq> SiteTypeLocal \<and> isManagedDeployment site")
  case False
  with assms show ?thesis by (auto simp: ensureTunnel_def)
next
  case True
  have last: "emits (record_op (\<lambda>r. EDeployment (OGet q r)) m \<bind>
        (\<lambda>g. ret (Inr (case g of Inl x \<Rightarrow> False | Inr dep \<Rightarrow> dep_ReadyReplicas dep > 0))))
      (\<lambda>out new. tunnelStage k pre out (xs @ ys @ new))" if "\<not> onlineIn xs" "\<not> onlineIn ys" for q m xs ys
    using assms that by (auto intro!: emits_bind_op simp: onlineIn_append split: sum.split)
  show ?thesis
    unfolding ensureTunnel_def
    using True
    by (auto intro!: emits_bind [OF ensureServiceAccount_off] emits_bind [OF ensureDeployment_off] last
        reportError_tunnel reportError_tunnel [where xs = "xs @ ys" for xs ys, simplified] split: option.splits)
qed

text \<open>
  C6.  A NewtSite is reported Ready, and online or not, only as things are: every reconciliation
  ends in an error, in the accepted reset of a site that is gone, or in the accepted Ready
  patch with the generation of the object, whose online flag says whether the Deployment
  read in that run had a ready replica, followed by discovery alone; the next run is due in
  five minutes when the site discovers, in ten when it does not.
\<close>

theorem site_reconcile_ends:
  "emits (reconcile (record_kube k) (record_api a) rc mo site) (siteEnd k)"
  unfolding reconcile_def
proof (rule emits_bind [OF ensureSite_end])
  fix out :: "reconciled + NewtSite" and new
  assume st: "siteStage k out new"
  show "emits (case out of Inl r \<Rightarrow> ret r | Inr site1 \<Rightarrow> ensureTunnel (record_kube k) rc site1 \<bind>
      (\<lambda>t. case t of Inl r \<Rightarrow> ret r | Inr online \<Rightarrow> finishSite (record_kube k) mo site1 online))
      (\<lambda>r new'. siteEnd k r (new @ new'))"
  proof (cases out)
    case (Inl r)
    with st show ?thesis by simp
  next
    case (Inr site1)
    with st have "list_all notDeployment new" by simp
    then show ?thesis using Inr
      by (auto intro!: emits_bind [OF ensureTunnel_end] finishSite_end [where pre = "xs @ ys" for xs ys, simplified]
          split: sum.splits)
  qed
qed

section \<open>No needless work\<close>

text \<open>
  C36.  A site that has an identifier and whose generation was observed is only looked at: the
  whole reconciliation makes no changing call of the API.
\<close>

theorem site_reconcile_steady:
  assumes "nst_SiteID (site_Status site) \<noteq> 0"
    and "m_Generation (site_Meta site) = nst_ObservedGeneration (site_Status site)"
  shows "emits (reconcile (record_kube k) (record_api a) rc mo site) (\<lambda>_ new. list_all (\<lambda>e. \<not> isMutation e) new)"
proof -
  have q [simp]: "\<not> isMutation (EDeployment d)" "\<not> isMutation (EServiceAccount s)" "\<not> isMutation (ERoute r)"
    "\<not> isMutation (ETCPRoute t)" "\<not> isMutation (EService v)" for d s r t v
    by (simp_all add: isMutation_def)
  have "emitsAll (\<lambda>e. \<not> isMutation e) (ensureSite (record_kube k) (record_api a) rc site)"
    using assms by (auto simp: ensureSite_def Let_def intro!: emitsAll_intros forgetSite_all split: sum.splits)
  then have "emitsAll (\<lambda>e. \<not> isMutation e) (reconcile (record_kube k) (record_api a) rc mo site)"
    by (auto simp: reconcile_def intro!: emitsAll_bind ensureTunnel_all finishSite_all split: sum.splits)
  then show ?thesis by (simp add: emitsAll_def)
qed

definition sampleNewt :: NewtSpec where
  "sampleNewt = \<lparr>nw_Image = [], nw_Tag = [], nw_Replicas = None, nw_LogLevel = [], nw_Mtu = 1280,
     nw_PingInterval = [], nw_PingTimeout = [], nw_Interface = [], nw_DNS = [], nw_AcceptClients = False,
     nw_Resources = None, nw_UseNativeInterface = False, nw_HostNetwork = False, nw_HostPID = False,
     nw_PodAnnotations = [], nw_NodeSelector = [], nw_Tolerations = [], nw_Affinity = None,
     nw_TopologySpreadConstraints = [], nw_PodSecurityContext = None, nw_SecurityContext = None,
     nw_ExtraEnv = [], nw_ExtraVolumes = [], nw_ExtraVolumeMounts = [], nw_InitContainers = [],
     nw_ExtraContainers = [], nw_Metrics = None\<rparr>"

definition sampleSite :: NewtSite where
  "sampleSite = \<lparr>site_Meta = (plainMeta ''home'' [] None)\<lparr>m_Generation := 3\<rparr>,
     site_Spec = \<lparr>ns_Name = ''home'', ns_Type = ''newt'', ns_Newt = sampleNewt, ns_ManagedDeployment = None,
       ns_AutoDiscover = None\<rparr>,
     site_Status = \<lparr>nst_Phase = PhaseReady, nst_SiteID = 7, nst_NiceID = ''home'', nst_NewtSecretName = [],
       nst_Online = True, nst_ObservedGeneration = 3, nst_Conditions = []\<rparr>\<rparr>"

theorem site_reconcile_steady_witness:
  "\<forall>k a rc mo. emits (reconcile (record_kube (k :: unit kube)) (record_api a) rc mo sampleSite)
     (\<lambda>_ new. list_all (\<lambda>e. \<not> isMutation e) new)"
  by (intro allI site_reconcile_steady) (simp_all add: sampleSite_def plainMeta_def)

section \<open>Owned resources\<close>

text \<open>
  What writing an owned resource can do: fail to read it; create it, when it is missing, with
  the labels and the owner reference of the site; leave it, when labels and specification
  agree; or patch the specification and the labels of whatever has that name.
\<close>

inductive ownedLog ::
  "objectMeta \<Rightarrow> string \<Rightarrow> string \<Rightarrow> string \<Rightarrow> string \<Rightarrow> PublicResourceSpec \<Rightarrow> gerr option \<Rightarrow> event list \<Rightarrow> bool"
  for owner :: objectMeta and kind owner_name ns rn :: string and spec :: PublicResourceSpec where
  unreadable: "ignoreNotFound (ErrKube e) = Some x
    \<Longrightarrow> ownedLog owner kind owner_name ns rn spec (Some x) [EPub (OGet (ns, rn) (Inl e))]"
| made: "ignoreNotFound (ErrKube e) = None
    \<Longrightarrow> ownedLog owner kind owner_name ns rn spec (map_option ErrKube r)
      [EPub (OGet (ns, rn) (Inl e)), EPub (OCreate (newOwned owner kind owner_name ns rn spec) r)]"
| agreed: "\<not> needsPatch x kind owner_name (m_Name owner) spec
    \<Longrightarrow> ownedLog owner kind owner_name ns rn spec None [EPub (OGet (ns, rn) (Inr x))]"
| taken: "needsPatch x kind owner_name (m_Name owner) spec
    \<Longrightarrow> pub_Spec y = spec \<Longrightarrow> pub_Status y = pub_Status x
    \<Longrightarrow> m_OwnerReferences (pub_Meta y) = m_OwnerReferences (pub_Meta x)
    \<Longrightarrow> \<not> needsPatch y kind owner_name (m_Name owner) spec
    \<Longrightarrow> (out = None) = (case r of Inl _ \<Rightarrow> False | Inr _ \<Rightarrow> True)
    \<Longrightarrow> ownedLog owner kind owner_name ns rn spec out
      [EPub (OGet (ns, rn) (Inr x)), EPub (OPatch (withLabels (labelsOf x) x) y r)]"

lemma mget_update [simp]: "mget (AList.update key v m) key' = (if key = key' then v else mget m key')"
  by (simp add: mget_def update_conv')

lemma label_names [simp]:
  "LabelOwnerKind \<noteq> LabelOwnerName" "LabelOwnerKind \<noteq> LabelSite" "LabelOwnerName \<noteq> LabelSite"
  "LabelOwnerName \<noteq> LabelOwnerKind" "LabelSite \<noteq> LabelOwnerKind" "LabelSite \<noteq> LabelOwnerName"
  by (simp_all add: LabelOwnerKind_def LabelOwnerName_def LabelSite_def)

lemma taken_now:
  assumes "needsPatch x kind owner_name (m_Name owner) spec"
    and "(out = None) = (case r of Inl _ \<Rightarrow> False | Inr _ \<Rightarrow> True)"
  shows "ownedLog owner kind owner_name ns rn spec out
      [EPub (OGet (ns, rn) (Inr x)), EPub (OPatch (withLabels (labelsOf x) x)
        (withLabels (AList.update LabelSite (m_Name owner) (AList.update LabelOwnerName owner_name
            (AList.update LabelOwnerKind kind (labelsOf x))))
          (withLabels (labelsOf x) x\<lparr>pub_Spec := spec\<rparr>)) r)]"
  by (rule taken [OF assms(1)]) (auto simp: assms(2) withLabels_def needsPatch_def labelsOf_def)

text \<open>
  C22.  Writing an owned resource does one of four things, and converges: what a patch leaves needs
  no further patch.  It never looks at who owns the resource it finds, so it takes over a
  resource of that name that another site, or a person, has written, and leaves that
  resource without an owner reference to the site.
\<close>

theorem ensureOwned_log:
  "emits (ensureOwnedPublicResource (record_kube k) owner kind owner_name ns rn spec)
     (ownedLog owner kind owner_name ns rn spec)"
  unfolding ensureOwnedPublicResource_def Let_def
  by (auto intro!: emits_bind_op unreadable made agreed taken_now split: sum.splits option.splits)

section \<open>Deleting owned resources\<close>

fun deletions :: "PublicResource list \<Rightarrow> gerr option \<Rightarrow> event list \<Rightarrow> bool" where
  "deletions [] out new = (new = [] \<and> out = None)"
| "deletions (x # xs) out new =
     (case new of
        EPub (ODelete y d) # tr \<Rightarrow> y = x \<and>
          (case d of None \<Rightarrow> deletions xs out tr
           | Some e \<Rightarrow> (case ignoreNotFound (ErrKube e) of None \<Rightarrow> deletions xs out tr | Some x \<Rightarrow> out = Some x \<and> tr = []))
      | _ \<Rightarrow> False)"

lemma deleteEach_log:
  "emits (deleteEach (record_kube k) items) (\<lambda>out new. fst out = noResult \<and> deletions items (snd out) new)"
  by (induction items) (auto intro!: emits_bind_op elim!: emits_conseq split: option.splits)

definition deletesOwned :: "string \<Rightarrow> string \<Rightarrow> gerr option \<Rightarrow> event list \<Rightarrow> bool" where
  "deletesOwned kind name out new =
     (case new of
        EListPubsByLabels q (Inr items) # tr \<Rightarrow>
          q = [(LabelOwnerKind, kind), (LabelOwnerName, name)] \<and> deletions items out tr
      | [EListPubsByLabels q (Inl e)] \<Rightarrow> out = Some (ErrKube e)
      | _ \<Rightarrow> False)"

lemma deleteOwned_log:
  "emits (deleteOwnedResources (record_kube k) kind name) (\<lambda>out. deletesOwned kind name (snd out))"
  unfolding deleteOwnedResources_def
  by (auto intro!: emits_bind_op emits_conseq [OF deleteEach_log] simp: deletesOwned_def split: sum.splits)

lemma processHTTPRoute_grows: "emits (processHTTPRoute (record_kube k) site cfg route) (\<lambda>_ _. True)"
  and processTCPRoute_grows: "emits (processTCPRoute (record_kube k) site cfg troute) (\<lambda>_ _. True)"
  and processService_grows: "emits (processService (record_kube k) mo site cfg p svc) (\<lambda>_ _. True)"
  by (rule emitsAll_grows [OF processHTTPRoute_all] emitsAll_grows [OF processTCPRoute_all]
      emitsAll_grows [OF processService_all]; simp)+

lemma deleteOwned_grows: "emits (deleteOwnedResources (record_kube k) kind name) (\<lambda>_ _. True)"
  by (rule emits_conseq [OF deleteOwned_log]) simp

text \<open>
  C31.  Losing its route deletes a resource: when a route is gone, every resource that carries its
  kind and name as owner labels is deleted, in the order of the listing, up to the first
  error.  The listing is asked for by kind and name alone, so it holds, and this deletes, the
  resources of a route of the same name in any other namespace.
\<close>

theorem ReconcileHTTPRoute_gone:
  "emits (ReconcileHTTPRoute (record_kube k) (ns, name))
     (\<lambda>out new. case new of
        ERoute (OGet _ (Inl (KNotFound _))) # tr \<Rightarrow> deletesOwned ''httproute'' name (snd out) tr
      | ERoute (OGet _ (Inl (KOther m))) # tr \<Rightarrow> tr = [] \<and> snd out = Some (ErrKube (KOther m))
      | _ \<Rightarrow> True)"
proof -
  have gone: "ignoreNotFound (ErrKube x) = None \<longleftrightarrow> (case x of KNotFound _ \<Rightarrow> True | KOther _ \<Rightarrow> False)" for x
    by (auto simp: ignoreNotFound_def split: kerr.splits)
  show ?thesis
    unfolding ReconcileHTTPRoute_def resolveSiteForHTTPRoute_def resolveSite_def
    by (auto simp: gone split: kerr.splits sum.splits option.splits
        intro!: emits_bind_op emits_conseq [OF deleteOwned_log] emits_bind [OF processHTTPRoute_grows] deleteOwned_grows)
qed

end
