(* ===== verification/JsonLaws.thy ===== *)
theory JsonLaws
  imports GoJson
begin

text \<open>
  Reading what was written: \<open>json.Unmarshal\<close> undoes \<open>json.Marshal\<close> on the documents the program
  writes, whose numbers are integers.  So two documents with the same text are the same, and
  comparing texts, or hashes of texts, compares values.
\<close>

section \<open>Strings\<close>

lemma char_cases: "(of_char c :: nat) = n \<Longrightarrow> c = char_of n"
  by (metis char_of_char)

lemma hexVal_hexLower: "k < 16 \<Longrightarrow> hexVal (hexLower k) = Some k"
  by (simp add: hexVal_def hexLower_def Let_def)

lemma hex4_low:
  "n < 256 \<Longrightarrow> hex4 (CHR ''0'' # CHR ''0'' # hexLower (n div 16) # hexLower (n mod 16) # t) = Some n"
proof -
  assume n: "n < 256"
  then have "n div 16 < 16" "n mod 16 < 16" by simp_all
  then have "hexVal (hexLower (n div 16)) = Some (n div 16)" "hexVal (hexLower (n mod 16)) = Some (n mod 16)"
    by (simp_all add: hexVal_hexLower)
  moreover have "hexVal (CHR ''0'') = Some 0" by (simp add: hexVal_def)
  ultimately show ?thesis by (simp add: hex4_def)
qed

lemma pStr_plain:
  "c \<noteq> CHR 34 \<Longrightarrow> c \<noteq> CHR 92 \<Longrightarrow> \<not> (of_char c :: nat) < 32
    \<Longrightarrow> pStr (c # t) = map_option (\<lambda>(u, r). (c # u, r)) (pStr t)"
  by (subst pStr.simps) simp

lemma pStr_escape:
  "unescape t = Some (bs, n) \<Longrightarrow> pStr (CHR 92 # t) = map_option (\<lambda>(u, r). (bs @ u, r)) (pStr (drop n t))"
  by (subst pStr.simps) simp

lemma unescape_u:
  "hex4 t = Some n \<Longrightarrow> n < 55296 \<Longrightarrow> unescape (CHR ''u'' # t) = Some (utf8 n, 5)"
  by (simp add: unescape_def)

lemma char_of_quotes: "char_of (34 :: nat) = CHR 34" "char_of (92 :: nat) = CHR 92"
  by code_simp+

lemma pStr_escByte: "pStr (escByte c @ t) = map_option (\<lambda>(u, r). (c # u, r)) (pStr t)"
proof -
  define n where "n = (of_char c :: nat)"
  have c: "c = char_of n" by (simp add: n_def)
  consider "n = 34" | "n = 92" | "n = 8" | "n = 12" | "n = 10" | "n = 13" | "n = 9"
    | "n < 32 \<or> n = 60 \<or> n = 62 \<or> n = 38" "n \<notin> {34, 92, 8, 12, 10, 13, 9}"
    | "\<not> n < 32" "n \<notin> {60, 62, 38, 34, 92}"
    by blast
  then show ?thesis
  proof cases
    case 8
    then have "n < 256" "n < 128" by auto
    from 8 have e: "escByte c = CHR 92 # ''u00'' @ [hexLower (n div 16), hexLower (n mod 16)]"
      by (auto simp: escByte_def n_def Let_def)
    have utf8: "utf8 n = [c]" using \<open>n < 128\<close> by (simp add: utf8_def c)
    have "unescape (tl (escByte c) @ t) = Some ([c], 5)"
      using unescape_u [OF hex4_low [OF \<open>n < 256\<close>, of t]] \<open>n < 128\<close> utf8 by (simp add: e)
    then show ?thesis by (simp add: e pStr_escape)
  next
    case 9
    then have "escByte c = [c]" by (auto simp: escByte_def n_def Let_def)
    moreover from 9 have "c \<noteq> CHR 34" "c \<noteq> CHR 92" "\<not> (of_char c :: nat) < 32" by (auto simp: n_def)
    ultimately show ?thesis by (simp add: pStr_plain)
  qed (simp_all add: escByte_def c byte_def unescape_def pStr_escape char_of_quotes)
qed

lemma pStr_separator:
  assumes "(of_char a :: nat) = 226" "(of_char b :: nat) = 128" "(of_char c :: nat) = 168 \<or> (of_char c :: nat) = 169"
  shows "pStr (CHR 92 # ''u202'' @ hexLower (of_char c - 160) # t) = map_option (\<lambda>(u, r). (a # b # c # u, r)) (pStr t)"
proof -
  have ab: "a = char_of (226 :: nat)" "b = char_of (128 :: nat)" using assms(1,2) [THEN char_cases] by auto
  have u: "unescape (''u202'' @ hexLower (of_char c - 160) # t) = Some ([a, b, c], 5)"
    using assms(3)
  proof
    assume "(of_char c :: nat) = 168"
    then have "c = char_of (168 :: nat)" by (rule char_cases)
    then show ?thesis
      by (simp add: ab unescape_def hex4_def hexLower_def hexVal_def utf8_def)
  next
    assume "(of_char c :: nat) = 169"
    then have "c = char_of (169 :: nat)" by (rule char_cases)
    then show ?thesis
      by (simp add: ab unescape_def hex4_def hexLower_def hexVal_def utf8_def)
  qed
  from pStr_escape [OF u] show ?thesis by simp
qed

lemma pStr_escText: "pStr (escText s @ CHR 34 # t) = Some (s, t)"
proof (induction s rule: escText.induct)
  case (1 a b c s)
  show ?case
  proof (cases "(of_char a :: nat) = 226 \<and> (of_char b :: nat) = 128 \<and> ((of_char c :: nat) = 168 \<or> (of_char c :: nat) = 169)")
    case True
    with 1 pStr_separator [of a b c "escText s @ CHR 34 # t"] show ?thesis by simp
  next
    case False
    with 1 show ?thesis by (auto simp: pStr_escByte)
  qed
qed (simp_all add: pStr_escByte, subst pStr.simps, simp)

lemma quoteJson_append: "quoteJson s @ t = CHR 34 # escText s @ CHR 34 # t"
  by (simp add: quoteJson_def)

section \<open>Documents\<close>

text \<open>The documents the program writes: numbers are integers.\<close>

fun intJson :: "json \<Rightarrow> bool" where
  "intJson (JNum l) = (\<exists>i. l = itoa i)"
| "intJson (JArr js) = list_all intJson js"
| "intJson (JObj kvs) = list_all intJson (map snd kvs)"
| "intJson _ = True"

lemma commaSep_Cons: "commaSep (s # ss) = s @ (if ss = [] then [] else CHR '','' # commaSep ss)"
  by (cases ss) auto

definition stops :: "string \<Rightarrow> bool" where
  "stops r \<longleftrightarrow> (case r of [] \<Rightarrow> True | c # _ \<Rightarrow> c = CHR '','' \<or> c = CHR '']'' \<or> c = CHR ''}'')"

lemma spanDigits_natStr: "stops r \<Longrightarrow> spanDigits (natStr n @ r) = (natStr n, r)"
proof -
  assume "stops r"
  then have "takeWhile isDigit r = []" "dropWhile isDigit r = r"
    by (auto simp: stops_def isDigit_def split: list.splits)
  moreover have "takeWhile isDigit (natStr n @ r) = natStr n @ takeWhile isDigit r"
    by (rule takeWhile_append2) (rule natStr_digits)
  moreover have "dropWhile isDigit (natStr n @ r) = dropWhile isDigit r"
    by (rule dropWhile_append2) (rule natStr_digits)
  ultimately show ?thesis by (simp add: spanDigits_def)
qed

lemma natStr_leading: "0 < n \<Longrightarrow> hd (natStr n) \<noteq> CHR ''0''"
proof (induction n rule: natStr.induct)
  case (1 n)
  show ?case
  proof (cases "n < 10")
    case True
    then have "(of_char (hd (natStr n)) :: nat) = 48 + n" by (subst natStr.simps) simp
    with 1(2) show ?thesis by auto
  next
    case False
    with 1 have "hd (natStr (n div 10)) \<noteq> CHR ''0''" by simp
    with False show ?thesis by (subst natStr.simps) simp
  qed
qed

lemma natStr_zero: "natStr 0 = ''0''"
  by code_simp

lemma natStr_prefix_zero: "hasPrefix (natStr n) ''0'' \<longleftrightarrow> n = 0"
  using natStr_leading [of n] by (cases "n = 0") (auto simp: hasPrefix_iff natStr_zero)

lemma stops_prefix:
  "stops r \<Longrightarrow> \<not> hasPrefix r ''.''" "stops r \<Longrightarrow> \<not> hasPrefix r ''e''" "stops r \<Longrightarrow> \<not> hasPrefix r ''E''"
  by (auto simp: stops_def hasPrefix_iff)

lemma pNum_digits:
  assumes "stops r"
  shows "pNum (natStr n @ r) = Some (natStr n, r)" and "pNum (CHR ''-'' # natStr n @ r) = Some (CHR ''-'' # natStr n, r)"
proof -
  have "\<not> hasPrefix (natStr n @ r) ''-''"
    using natStr_not_sign [of n] by (cases "natStr n") (auto simp: hasPrefix_iff)
  moreover have "hasPrefix (CHR ''-'' # s) ''-''" for s by (simp add: hasPrefix_def)
  ultimately show "pNum (natStr n @ r) = Some (natStr n, r)"
    and "pNum (CHR ''-'' # natStr n @ r) = Some (CHR ''-'' # natStr n, r)"
    using assms by (simp_all add: pNum_def spanDigits_natStr natStr_prefix_zero natStr_zero stops_prefix Let_def)
qed

lemma pNum_itoa: "stops r \<Longrightarrow> pNum (itoa i @ r) = Some (itoa i, r)"
  by (simp add: itoa_def pNum_digits)

text \<open>The first byte of a number is none of those that begin another value.\<close>

lemma itoa_first: "itoa i = c # cs \<Longrightarrow> c = CHR ''-'' \<or> isDigit c"
  using natStr_digits [of c "nat i"] by (auto simp: itoa_def split: if_splits)

lemma itoa_nonempty: "itoa i \<noteq> []"
  by (simp add: itoa_def)

lemma pVal_number:
  assumes "stops r"
  shows "pVal (Suc n) (itoa i @ r) = Some (JNum (itoa i), r)"
proof -
  obtain c cs where i: "itoa i = c # cs" using itoa_nonempty by (cases "itoa i") auto
  then have "c = CHR ''-'' \<or> isDigit c" by (rule itoa_first)
  then have c: "\<not> isJsonSpace c" "c \<notin> {CHR ''n'', CHR ''t'', CHR ''f'', CHR 34, CHR ''['', CHR ''{''}"
    by (auto simp: isJsonSpace_def isDigit_def)
  moreover have "pNum (c # cs @ r) = Some (c # cs, r)" using pNum_itoa [OF assms, of i] by (simp add: i)
  ultimately show ?thesis by (simp add: i skipWs_def hasPrefix_def Let_def)
qed

lemma pVal_string: "pVal (Suc n) (quoteJson s @ r) = Some (JStr s, r)"
  by (simp add: quoteJson_append skipWs_def isJsonSpace_def hasPrefix_def pStr_escText)

lemma jsonText_first:
  "jsonText j = c # cs \<Longrightarrow> intJson j \<Longrightarrow> \<not> isJsonSpace c \<and> c \<noteq> CHR '']''"
  by (cases j) (auto simp: isJsonSpace_def isDigit_def quoteJson_def split: if_splits dest: itoa_first [OF sym])

lemma jsonText_nonempty: "intJson j \<Longrightarrow> jsonText j \<noteq> []"
  by (cases j) (auto simp: itoa_nonempty quoteJson_def)

lemma skip_stop: "stops r \<Longrightarrow> skipWs r = r"
  by (auto simp: stops_def skipWs_def isJsonSpace_def split: list.splits)

definition reads :: "json \<Rightarrow> bool" where
  "reads j \<longleftrightarrow> (\<forall>n r. length (jsonText j) \<le> n \<longrightarrow> stops r \<longrightarrow> pVal n (jsonText j @ r) = Some (j, r))"

lemma pElems_text:
  assumes "\<And>j. j \<in> set js \<Longrightarrow> reads j \<and> intJson j" and "js \<noteq> []"
    and "length (commaSep (map jsonText js)) < n"
  shows "pElems n (commaSep (map jsonText js) @ CHR '']'' # r) = Some (js, r)"
  using assms
proof (induction js arbitrary: n)
  case (Cons j js)
  from Cons.prems(3) obtain m where n: "n = Suc m" by (cases n) auto
  have j: "reads j" "intJson j" using Cons.prems(1) by auto
  show ?case
  proof (cases "js = []")
    case True
    have "pVal m (jsonText j @ CHR '']'' # r) = Some (j, CHR '']'' # r)"
      using j(1) Cons.prems(3) True by (auto simp: reads_def n stops_def)
    then show ?thesis using True by (simp add: n skip_stop stops_def)
  next
    case False
    let ?rest = "commaSep (map jsonText js)"
    have len: "length (jsonText j) \<le> m" "length ?rest < m"
      using Cons.prems(3) False by (auto simp: n commaSep_Cons)
    have "pVal m (jsonText j @ CHR '','' # ?rest @ CHR '']'' # r) = Some (j, CHR '','' # ?rest @ CHR '']'' # r)"
      using j(1) len by (auto simp: reads_def stops_def)
    moreover have "pElems m (?rest @ CHR '']'' # r) = Some (js, r)"
      using Cons.IH [OF Cons.prems(1) False len(2)] by simp
    ultimately show ?thesis using False by (simp add: n commaSep_Cons skip_stop stops_def)
  qed
qed simp

abbreviation memberText :: "string \<times> json \<Rightarrow> string" where
  "memberText kv \<equiv> quoteJson (fst kv) @ CHR '':'' # jsonText (snd kv)"

lemma jsonText_obj: "jsonText (JObj kvs) = CHR ''{'' # commaSep (map memberText kvs) @ ''}''"
  by (simp add: comp_def case_prod_beta)

lemma skip_quote: "skipWs (CHR 34 # s) = CHR 34 # s"
  by (simp add: skipWs_def isJsonSpace_def)

lemma skip_colon: "skipWs (CHR '':'' # s) = CHR '':'' # s"
  by (simp add: skipWs_def isJsonSpace_def)

lemma skip_open: "skipWs (CHR ''['' # s) = CHR ''['' # s" "skipWs (CHR ''{'' # s) = CHR ''{'' # s"
  by (simp_all add: skipWs_def isJsonSpace_def)

lemma hasPrefix_Cons: "hasPrefix (c # s) (d # p) \<longleftrightarrow> c = d \<and> hasPrefix s p"
  by (auto simp: hasPrefix_def)

lemma pVal_open:
  "\<not> hasPrefix (skipWs t) '']'' \<Longrightarrow> pVal (Suc n) (CHR ''['' # t) = map_option (\<lambda>(js, r). (JArr js, r)) (pElems n t)"
  "\<not> hasPrefix (skipWs t) ''}'' \<Longrightarrow> pVal (Suc n) (CHR ''{'' # t) = map_option (\<lambda>(kvs, r). (JObj kvs, r)) (pMembers n t)"
  by (simp_all add: skip_open hasPrefix_Cons Let_def)

lemma pMembers_text:
  assumes "\<And>kv. kv \<in> set kvs \<Longrightarrow> reads (snd kv)" and "kvs \<noteq> []"
    and "length (commaSep (map memberText kvs)) < n"
  shows "pMembers n (commaSep (map memberText kvs) @ CHR ''}'' # r) = Some (kvs, r)"
  using assms
proof (induction kvs arbitrary: n)
  case (Cons kv kvs)
  obtain k j where kv: "kv = (k, j)" by fastforce
  from Cons.prems(3) obtain m where n: "n = Suc m" by (cases n) auto
  have j: "reads j" using Cons.prems(1) [of kv] by (simp add: kv)
  show ?case
  proof (cases "kvs = []")
    case True
    have "pVal m (jsonText j @ CHR ''}'' # r) = Some (j, CHR ''}'' # r)"
      using j Cons.prems(3) True by (auto simp: reads_def n kv stops_def)
    then show ?thesis
      using True by (simp add: n kv quoteJson_append skip_quote skip_colon pStr_escText hasPrefix_def skip_stop stops_def)
  next
    case False
    let ?rest = "commaSep (map memberText kvs)"
    have len: "length (jsonText j) \<le> m" "length ?rest < m"
      using Cons.prems(3) False by (auto simp: n kv commaSep_Cons)
    have "pVal m (jsonText j @ CHR '','' # ?rest @ CHR ''}'' # r) = Some (j, CHR '','' # ?rest @ CHR ''}'' # r)"
      using j len by (auto simp: reads_def stops_def)
    moreover have "pMembers m (?rest @ CHR ''}'' # r) = Some (kvs, r)"
      using Cons.IH [OF Cons.prems(1) False len(2)] by simp
    ultimately show ?thesis
      using False
      by (simp add: n kv commaSep_Cons quoteJson_append skip_quote skip_colon pStr_escText hasPrefix_def skip_stop stops_def)
  qed
qed simp

lemma text_starts:
  "intJson j \<Longrightarrow> \<not> hasPrefix (skipWs (jsonText j @ r)) '']''"
  using jsonText_nonempty [of j] jsonText_first [of j]
  by (cases "jsonText j") (auto simp: skipWs_def hasPrefix_def)

text \<open>An object is read whatever comes after it.\<close>

lemma pVal_obj:
  assumes all: "\<And>kv. kv \<in> set kvs \<Longrightarrow> reads (snd kv)" and len: "length (jsonText (JObj kvs)) \<le> n"
  shows "pVal n (jsonText (JObj kvs) @ r) = Some (JObj kvs, r)"
proof -
  obtain m where n: "n = Suc m" using len by (cases n) auto
  show ?thesis
  proof (cases kvs)
    case Nil
    then show ?thesis by (simp add: n skipWs_def isJsonSpace_def hasPrefix_def)
  next
    case (Cons kv kvs')
    then have "length (commaSep (map memberText kvs)) < m" using len unfolding jsonText_obj by (simp add: n)
    from pMembers_text [OF all _ this, of r] Cons
    have "pMembers m (commaSep (map memberText kvs) @ CHR ''}'' # r) = Some (kvs, r)" by auto
    moreover have "\<not> hasPrefix (skipWs (commaSep (map memberText kvs) @ CHR ''}'' # r)) ''}''"
      using Cons by (simp add: commaSep_Cons quoteJson_append skip_quote hasPrefix_def)
    ultimately show ?thesis unfolding jsonText_obj by (simp add: n pVal_open del: pVal.simps)
  qed
qed

lemma reads_all: "intJson j \<Longrightarrow> reads j"
proof (induction j)
  case (JNum l)
  then obtain i where i: "l = itoa i" by auto
  show ?case unfolding reads_def
  proof (intro allI impI)
    fix n r assume len: "length (jsonText (JNum l)) \<le> n" and r: "stops r"
    then obtain m where "n = Suc m" using itoa_nonempty [of i] by (cases n) (auto simp: i)
    then show "pVal n (jsonText (JNum l) @ r) = Some (JNum l, r)"
      using pVal_number [OF r, of m i] by (simp add: i del: pVal.simps)
  qed
next
  case (JStr s)
  show ?case unfolding reads_def
  proof (intro allI impI)
    fix n r assume len: "length (jsonText (JStr s)) \<le> n"
    then obtain m where "n = Suc m" by (cases n) (auto simp: quoteJson_def)
    then show "pVal n (jsonText (JStr s) @ r) = Some (JStr s, r)"
      by (simp add: pVal_string del: pVal.simps)
  qed
next
  case (JArr js)
  then have all: "\<And>j. j \<in> set js \<Longrightarrow> reads j \<and> intJson j" by (auto simp: list_all_iff)
  show ?case unfolding reads_def
  proof (intro allI impI)
    fix n r assume len: "length (jsonText (JArr js)) \<le> n" and "stops r"
    then obtain m where n: "n = Suc m" by (cases n) auto
    show "pVal n (jsonText (JArr js) @ r) = Some (JArr js, r)"
    proof (cases js)
      case Nil
      then show ?thesis by (simp add: n skipWs_def isJsonSpace_def hasPrefix_def)
    next
      case (Cons j js')
      then have "length (commaSep (map jsonText js)) < m" using len by (simp add: n)
      from pElems_text [OF all _ this, of r] Cons
      have "pElems m (commaSep (map jsonText js) @ CHR '']'' # r) = Some (js, r)" by auto
      moreover have "\<not> hasPrefix (skipWs (commaSep (map jsonText js) @ CHR '']'' # r)) '']''"
        using all [of j] text_starts [of j] Cons by (simp add: commaSep_Cons)
      ultimately show ?thesis by (simp add: n pVal_open del: pVal.simps)
    qed
  qed
next
  case (JObj kvs)
  then have all: "\<And>kv. kv \<in> set kvs \<Longrightarrow> reads (snd kv)" by (auto simp: list_all_iff)
  show ?case unfolding reads_def
  proof (intro allI impI)
    fix n r assume "length (jsonText (JObj kvs)) \<le> n" and "stops r"
    then show "pVal n (jsonText (JObj kvs) @ r) = Some (JObj kvs, r)" by (intro pVal_obj all)
  qed
qed (auto simp: reads_def skipWs_def isJsonSpace_def hasPrefix_def Let_def numeral_eq_Suc dest!: Suc_le_D)

lemma parseJson_jsonText:
  assumes "intJson j"
  shows "parseJson (jsonText j) = Some j"
proof -
  have "stops []" by (simp add: stops_def)
  with reads_all [OF assms] have "pVal (2 * length (jsonText j) + 1) (jsonText j @ []) = Some (j, [])"
    unfolding reads_def by (metis add_leD1 le_add2 mult_2 trans_le_add1)
  then show ?thesis by (simp add: parseJson_def skipWs_def del: pVal.simps)
qed

lemma jsonText_inj: "intJson j \<Longrightarrow> intJson j' \<Longrightarrow> jsonText j = jsonText j' \<longleftrightarrow> j = j'"
  by (metis parseJson_jsonText option.inject)

end
