(* ===== verification/SpecJson.thy ===== *)
theory SpecJson
  imports ApiTypes JsonLaws
begin

text \<open>
  What the JSON of a specification carries: its text tells two specifications apart exactly
  when they differ.
\<close>

section \<open>Specifications\<close>

definition fieldOf :: "json \<Rightarrow> string \<Rightarrow> json option" where
  "fieldOf j k = (case j of JObj kvs \<Rightarrow> map_of kvs k | _ \<Rightarrow> None)"

text \<open>What a member with \<open>omitempty\<close> is.\<close>

definition optStr :: "string \<Rightarrow> json option" where
  "optStr s = (if s = [] then None else Some (JStr s))"

definition optInt :: "int \<Rightarrow> json option" where
  "optInt i = (if i = 0 then None else Some (JInt i))"

definition optBool :: "bool \<Rightarrow> json option" where
  "optBool b = (if b then Some (JBool True) else None)"

definition optList :: "('a \<Rightarrow> json) \<Rightarrow> 'a list \<Rightarrow> json option" where
  "optList f xs = (if xs = [] then None else Some (JArr (map f xs)))"

lemma map_of_omit:
  "map_of (omitStr k s) k' = (if k = k' then optStr s else None)"
  "map_of (omitInt k i) k' = (if k = k' then optInt i else None)"
  "map_of (omitBool k b) k' = (if k = k' then optBool b else None)"
  "map_of (omitPtr k f p) k' = (if k = k' then map_option f p else None)"
  "map_of (omitList k f xs) k' = (if k = k' then optList f xs else None)"
  by (auto simp: omitStr_def omitInt_def omitBool_def omitPtr_def omitList_def
      optStr_def optInt_def optBool_def optList_def split: option.splits)

lemma itoa_eq: "itoa i = itoa j \<longleftrightarrow> i = j"
  by (auto dest: itoa_inj)

lemma opt_eq:
  "optStr s = optStr t \<longleftrightarrow> s = t" "optInt i = optInt j \<longleftrightarrow> i = j" "optBool b = optBool c \<longleftrightarrow> b = c"
  by (auto simp: optStr_def optInt_def optBool_def itoa_eq)

lemma optList_eq: "inj f \<Longrightarrow> optList f xs = optList f ys \<longleftrightarrow> xs = ys"
  by (auto simp: optList_def inj_map_eq_map)

definition orElse :: "'a option \<Rightarrow> 'a option \<Rightarrow> 'a option" where
  "orElse x y = (case x of None \<Rightarrow> y | Some z \<Rightarrow> Some z)"

lemma orElse_simps: "orElse None y = y" "orElse x None = x" "orElse (Some z) y = Some z"
  by (simp_all add: orElse_def split: option.splits)

lemma map_add_orElse: "(m ++ n) k = orElse (n k) (m k)"
  by (simp add: map_add_def orElse_def)

lemmas field_simps = fieldOf_def map_of_omit map_add_orElse orElse_simps opt_eq itoa_eq

lemma jsonHeader_inj: "inj jsonHeader"
  by (rule injI) (simp add: jsonHeader_def)

lemma jsonRule_inj: "inj jsonRule"
  by (rule injI) (auto simp: jsonRule_def omitInt_def itoa_eq split: if_splits)

lemma jsonSlice_inj: "inj f \<Longrightarrow> jsonSlice f s = jsonSlice f t \<longleftrightarrow> s = t"
  by (auto simp: jsonSlice_def inj_map_eq_map split: option.splits)

lemma inj_JStr: "inj JStr"
  by (simp add: inj_def)

lemma inj_JBool: "inj JBool"
  by (simp add: inj_def)

lemma jsonAuth_inj: "inj jsonAuth"
proof (rule injI)
  fix a b assume eq: "jsonAuth a = jsonAuth b"
  have "fieldOf (jsonAuth a) k = fieldOf (jsonAuth b) k" for k using eq by simp
  from this [of "''ssoEnabled''"] this [of "''ssoRoles''"] this [of "''ssoUsers''"]
    this [of "''whitelistUsers''"] this [of "''autoLoginIdp''"] this [of "''authSecretRef''"]
  show "a = b"
    by (simp add: jsonAuth_def field_simps optList_eq [OF inj_JStr])
qed

lemma map_option_eq: "inj f \<Longrightarrow> map_option f x = map_option f y \<longleftrightarrow> x = y"
  using option.inj_map [of f] by (auto dest: injD)

lemmas list_injs = optList_eq [OF inj_JStr] optList_eq [OF jsonHeader_inj] optList_eq [OF jsonRule_inj]

lemmas ptr_injs = map_option_eq [OF inj_JBool] map_option_eq [OF jsonAuth_inj]

lemma jsonMaintenance_inj: "inj jsonMaintenance"
proof (rule injI)
  fix a b assume eq: "jsonMaintenance a = jsonMaintenance b"
  have "fieldOf (jsonMaintenance a) k = fieldOf (jsonMaintenance b) k" for k using eq by simp
  from this [of "''enabled''"] this [of "''type''"] this [of "''title''"]
    this [of "''message''"] this [of "''estimatedTime''"]
  show "a = b"
    by (simp add: jsonMaintenance_def field_simps list_injs ptr_injs)
qed

lemma jsonHealthCheck_inj: "inj jsonHealthCheck"
proof (rule injI)
  fix a b assume eq: "jsonHealthCheck a = jsonHealthCheck b"
  have "fieldOf (jsonHealthCheck a) k = fieldOf (jsonHealthCheck b) k" for k using eq by simp
  from this [of "''hostname''"] this [of "''port''"] this [of "''enabled''"]
    this [of "''path''"] this [of "''scheme''"] this [of "''mode''"]
    this [of "''interval''"] this [of "''unhealthyInterval''"] this [of "''timeout''"]
    this [of "''headers''"] this [of "''followRedirects''"] this [of "''method''"]
    this [of "''status''"]
  show "a = b"
    by (simp add: jsonHealthCheck_def field_simps list_injs ptr_injs)
qed

lemma map_option_check_eq: "map_option jsonHealthCheck x = map_option jsonHealthCheck x' \<longleftrightarrow> x = x'"
  "map_option jsonMaintenance y = map_option jsonMaintenance y' \<longleftrightarrow> y = y'"
  using jsonHealthCheck_inj jsonMaintenance_inj by (simp_all add: map_option_eq)

lemma jsonTarget_inj: "inj jsonTarget"
proof (rule injI)
  fix a b assume eq: "jsonTarget a = jsonTarget b"
  have "fieldOf (jsonTarget a) k = fieldOf (jsonTarget b) k" for k using eq by simp
  from this [of "''hostname''"] this [of "''port''"] this [of "''method''"]
    this [of "''enabled''"] this [of "''path''"] this [of "''pathMatchType''"]
    this [of "''rewritePath''"] this [of "''rewritePathType''"] this [of "''priority''"]
    this [of "''healthcheck''"]
  show "a = b"
    by (simp add: jsonTarget_def field_simps list_injs ptr_injs map_option_check_eq)
qed

text \<open>The same specification, but for a list of rules that is empty or missing.\<close>

definition sameSpec :: "PublicResourceSpec \<Rightarrow> PublicResourceSpec \<Rightarrow> bool" where
  "sameSpec s s' \<longleftrightarrow> s\<lparr>ps_Rules := None\<rparr> = s'\<lparr>ps_Rules := None\<rparr> \<and> elems (ps_Rules s) = elems (ps_Rules s')"

lemma jsonSpec_eq: "jsonSpec s = jsonSpec s' \<longleftrightarrow> sameSpec s s'"
proof
  assume eq: "jsonSpec s = jsonSpec s'"
  have "fieldOf (jsonSpec s) k = fieldOf (jsonSpec s') k" for k using eq by simp
  from this [of "''siteRef''"] this [of "''name''"] this [of "''protocol''"] this [of "''fullDomain''"]
    this [of "''proxyPort''"] this [of "''enabled''"] this [of "''ssl''"] this [of "''hostHeader''"]
    this [of "''tlsServerName''"] this [of "''headers''"] this [of "''auth''"] this [of "''maintenance''"]
    this [of "''rules''"] this [of "''targets''"]
  show "sameSpec s s'"
    by (simp add: jsonSpec_def sameSpec_def field_simps list_injs ptr_injs map_option_check_eq
        jsonSlice_inj [OF jsonTarget_inj])
next
  assume "sameSpec s s'"
  then have "jsonSpec (s\<lparr>ps_Rules := None\<rparr>) = jsonSpec (s'\<lparr>ps_Rules := None\<rparr>)" "elems (ps_Rules s) = elems (ps_Rules s')"
    by (simp_all add: sameSpec_def)
  then show "jsonSpec s = jsonSpec s'" by (simp add: jsonSpec_def)
qed

section \<open>Texts\<close>

lemma intJson_omit:
  "list_all intJson (map snd (omitStr k s))" "list_all intJson (map snd (omitInt k i))"
  "list_all intJson (map snd (omitBool k b))"
  "list_all intJson (map snd (omitPtr k f p)) \<longleftrightarrow> (case p of None \<Rightarrow> True | Some x \<Rightarrow> intJson (f x))"
  "list_all intJson (map snd (omitList k f xs)) \<longleftrightarrow> list_all (\<lambda>x. intJson (f x)) xs"
  by (auto simp: omitStr_def omitInt_def omitBool_def omitPtr_def omitList_def list_all_iff split: option.splits)

lemma intJson_slice: "intJson (jsonSlice f s) \<longleftrightarrow> list_all (\<lambda>x. intJson (f x)) (elems s)"
  by (cases s) (auto simp: jsonSlice_def list_all_iff)

lemma list_all_True [simp]: "list_all (\<lambda>x. True) xs"
  by (simp add: list_all_iff)

lemma intJson_parts [simp]:
  "intJson (jsonHeader h)" "intJson (jsonRule r)" "intJson (jsonAuth au)" "intJson (jsonMaintenance m)"
  by (auto simp: jsonHeader_def jsonRule_def jsonAuth_def jsonMaintenance_def intJson_omit)

lemma intJson_check [simp]: "intJson (jsonHealthCheck hc)"
  by (auto simp: jsonHealthCheck_def intJson_omit split: option.splits)

lemma intJson_target [simp]: "intJson (jsonTarget t)"
  by (auto simp: jsonTarget_def intJson_omit split: option.splits)

lemma intJson_spec [simp]: "intJson (jsonSpec s)"
  by (auto simp: jsonSpec_def intJson_omit intJson_slice split: option.splits)

lemma specText_eq: "jsonText (jsonSpec s) = jsonText (jsonSpec s') \<longleftrightarrow> sameSpec s s'"
  by (simp add: jsonText_inj jsonSpec_eq)

end
