(* ===== verification/DiscoveryLaws.thy ===== *)
theory DiscoveryLaws
  imports Autodiscover SpecJson
begin

text \<open>
  What discovery guarantees of the resources it builds: well-formed specifications, one
  resource for each port, and names that fit, but do not always differ.
\<close>

section \<open>Lists, rules and targets\<close>

lemma collect_foldl:
  "foldl (\<lambda>out v. let w = f v in if w \<noteq> [] then out @ [g w] else out) acc xs
     = acc @ map g (filter (\<lambda>w. w \<noteq> []) (map f xs))"
  by (induction xs arbitrary: acc) (simp_all add: Let_def)

lemma splitCSV_eq: "splitCSV s = (if s = [] then [] else filter (\<lambda>v. v \<noteq> []) (map trimSpace (splitOn (CHR '','') s)))"
  using collect_foldl [of trimSpace "\<lambda>x. x" "[]" "splitOn (CHR '','') s"] by (simp add: splitCSV_def)

lemma isValidRule_deny: "country \<noteq> [] \<Longrightarrow> isValidRule (denyRule country)"
  by (simp add: isValidRule_def denyRule_def)

lemma annotatedRules_valid: "list_all isValidRule (annotatedRules annotations prefix)"
  by (auto simp: annotatedRules_def list_all_iff split: option.splits)

lemma buildRules_valid: "list_all isValidRule (elems (buildRules annotations prefix cfg))"
proof -
  have "list_all isValidRule (map denyRule (filter (\<lambda>w. w \<noteq> []) ws))" for ws
    by (auto simp: list_all_iff isValidRule_deny)
  then show ?thesis
    using annotatedRules_valid [of annotations prefix]
    by (simp add: buildRules_def Let_def collect_foldl [unfolded Let_def] split: if_splits)
qed

definition goodTarget :: "PublicTargetSpec \<Rightarrow> bool" where
  "goodTarget t \<longleftrightarrow>
     pt_PathMatchType t \<in> {[], ''prefix'', ''exact'', ''regex''}
     \<and> pt_RewritePathType t \<in> {[], ''exact'', ''prefix'', ''regex'', rewriteStripPrefix}
     \<and> 0 \<le> pt_Priority t \<and> pt_Priority t \<le> 1000"

lemma goodTarget_steps:
  "goodTarget t \<Longrightarrow> goodTarget (withPath v t)"
  "goodTarget t \<Longrightarrow> goodTarget (withPathMatch v t)"
  "goodTarget t \<Longrightarrow> goodTarget (withRewritePath v t)"
  "goodTarget t \<Longrightarrow> goodTarget (withRewriteMatch v t)"
  "goodTarget t \<Longrightarrow> goodTarget (withPriority v t)"
  "goodTarget t \<Longrightarrow> goodTarget (withEnabled v t)"
  by (auto simp: targetExtras_defs goodTarget_def split: option.splits)

lemma buildTargetExtras_good:
  "goodTarget base \<Longrightarrow> goodTarget (buildTargetExtras base annotations prefix)"
  by (simp add: buildTargetExtras_def goodTarget_steps)

definition sameAddress :: "PublicTargetSpec \<Rightarrow> PublicTargetSpec \<Rightarrow> bool" where
  "sameAddress t t' \<longleftrightarrow> pt_Hostname t = pt_Hostname t' \<and> pt_Port t = pt_Port t' \<and> pt_Method t = pt_Method t'"

lemma sameAddress_steps:
  "sameAddress (withPath v t) b = sameAddress t b"
  "sameAddress (withPathMatch v t) b = sameAddress t b"
  "sameAddress (withRewritePath v t) b = sameAddress t b"
  "sameAddress (withRewriteMatch v t) b = sameAddress t b"
  "sameAddress (withPriority v t) b = sameAddress t b"
  "sameAddress (withEnabled v t) b = sameAddress t b"
  by (simp_all add: targetExtras_defs sameAddress_def split: option.splits)

lemma buildTargetExtras_address: "sameAddress (buildTargetExtras base annotations prefix) base"
  by (simp add: buildTargetExtras_def sameAddress_steps) (simp add: sameAddress_def)

lemma buildTargetExtras_keeps:
  "pt_Hostname (buildTargetExtras base annotations prefix) = pt_Hostname base"
  "pt_Port (buildTargetExtras base annotations prefix) = pt_Port base"
  "pt_Method (buildTargetExtras base annotations prefix) = pt_Method base"
  using buildTargetExtras_address [of base annotations prefix] by (simp_all add: sameAddress_def)

text \<open>A specification for one hostname of a route.\<close>

definition goodHTTPSpec :: "AutoDiscoverSpec \<Rightarrow> string \<Rightarrow> PublicResourceSpec \<Rightarrow> bool" where
  "goodHTTPSpec cfg hostname spec \<longleftrightarrow>
     ps_Protocol spec = ''http'' \<and> ps_FullDomain spec = hostname \<and> ps_SiteRef spec \<noteq> []
     \<and> list_all isValidRule (elems (ps_Rules spec))
     \<and> (case ps_Auth spec of None \<Rightarrow> True
        | Some au \<Rightarrow> pa_SsoEnabled au \<or> (pa_SsoRoles au = [] \<and> pa_SsoUsers au = [] \<and> pa_AutoLoginIdp au = 0))
     \<and> (case ps_Targets spec of
          Some [t] \<Rightarrow> goodTarget t
            \<and> pt_Method t \<in> {''http'', ''https'', ''h2c''} \<union> (if ad_GatewayName cfg = [] then {} else {ad_GatewayTargetMethod cfg})
            \<and> (ad_GatewayName cfg = [] \<or> ad_GatewayTargetHostname cfg = [] \<or> pt_Hostname t = ad_GatewayTargetHostname cfg)
        | _ \<Rightarrow> False)"

lemma rv_siteRef_nonempty: "rv_siteRef r fallback = Some s \<Longrightarrow> s \<noteq> []"
  by (auto simp: rv_siteRef_def split: option.splits if_splits)

lemma rv_method_cases: "rv_method r d \<in> {methodHTTP, methodHTTPS, methodH2C, d}"
  by (auto simp: rv_method_def Let_def split: option.splits)

lemma buildAuth_sso:
  "buildAuth annotations prefix cfg = Some au
    \<Longrightarrow> pa_SsoEnabled au \<or> (pa_SsoRoles au = [] \<and> pa_SsoUsers au = [] \<and> pa_AutoLoginIdp au = 0)"
  by (auto simp: buildAuth_def Let_def split: if_splits)

text \<open>
  Every specification discovered for a hostname is well formed, whatever the annotations say:
  it is an http resource for that hostname on a named site with one target, its method one of
  the three known or the configured one, its match types and priority in their ranges; all
  its rules are valid ones; and the single sign-on settings are empty unless it is enabled.
\<close>

theorem BuildHTTPRouteSpec_good:
  "case BuildHTTPRouteSpec route hostname annotations cfg fallback of
     Inl _ \<Rightarrow> True | Inr spec \<Rightarrow> goodHTTPSpec cfg hostname spec"
proof (cases "BuildHTTPRouteSpec route hostname annotations cfg fallback")
  case (Inr spec)
  let ?r = "newResolver annotations cfg"
  from Inr obtain s h p m where sr: "rv_siteRef ?r fallback = Some s"
    and rt: "routeTarget route cfg = Inr (h, p, m)"
    and spec: "spec = buildHTTPSpec ?r s (rv_name ?r (m_Name (hr_Meta route))) hostname
      (rv_targetExtras ?r (zeroTarget\<lparr>pt_Hostname := h, pt_Port := p, pt_Method := rv_method ?r m\<rparr>))"
    by (auto simp: BuildHTTPRouteSpec_def Let_def split: option.splits sum.splits prod.splits)
  have good: "goodTarget (zeroTarget\<lparr>pt_Hostname := h, pt_Port := p, pt_Method := x\<rparr>)" for x
    by (simp add: goodTarget_def zeroTarget_def)
  from rt have host: "ad_GatewayName cfg = [] \<or> ad_GatewayTargetHostname cfg = [] \<or> h = ad_GatewayTargetHostname cfg"
    by (auto simp: routeTarget_def Let_def split: if_splits)
  from rt have "m \<in> {''http'', ''https''} \<union> (if ad_GatewayName cfg = [] then {} else {ad_GatewayTargetMethod cfg})"
    by (auto simp: routeTarget_def Let_def autodiscover_consts split: if_splits list.splits prod.splits)
  with rv_method_cases [of ?r m]
  have "rv_method ?r m \<in> {''http'', ''https'', ''h2c''} \<union> (if ad_GatewayName cfg = [] then {} else {ad_GatewayTargetMethod cfg})"
    by (auto simp: autodiscover_consts)
  with good host rv_siteRef_nonempty [OF sr] show ?thesis
    unfolding Inr spec
    by (auto simp: goodHTTPSpec_def buildHTTPSpec_def buildTargetExtras_good buildTargetExtras_keeps
        buildRules_valid methodHTTP_def split: option.splits dest: buildAuth_sso)
qed simp

section \<open>Names\<close>

lemma replaceByte_append: "replaceByte c d (u @ v) = replaceByte c d u @ replaceByte c d v"
  by (simp add: replaceByte_def)

lemma replaceByte_cases: "replaceByte (CHR ''.'') (CHR ''-'') ''.'' = ''-''" "replaceByte (CHR ''.'') (CHR ''-'') ''-'' = ''-''"
  by (simp_all add: replaceByte_def)

text \<open>
  C40.  The name of the resource of a hostname fits the length Kubernetes allows, but it does not
  tell hostnames apart: a dot and a dash give the same name, and so do a route and a hostname
  that divide the same text differently, so two hostnames of one route, or of two routes in a
  namespace, can fight over one resource; and the asterisk of a wildcard hostname stays in
  the name, where Kubernetes does not accept it.
\<close>

theorem HostnameToResourceName_collides:
  "length (HostnameToResourceName s h) \<le> 253
   \<and> HostnameToResourceName s (u @ ''.'' @ v) = HostnameToResourceName s (u @ ''-'' @ v)
   \<and> HostnameToResourceName (s @ ''-'' @ replaceByte (CHR ''.'') (CHR ''-'') t) h
        = HostnameToResourceName s (t @ ''.'' @ h)
   \<and> HostnameToResourceName ''web'' ''*.example.com'' = ''web-*-example-com''"
  by (simp add: HostnameToResourceName_def replaceByte_append replaceByte_cases Let_def)
     (auto simp: replaceByte_def min_def)

section \<open>Ports of a service\<close>

definition portKey :: "Service \<Rightarrow> servicePort \<Rightarrow> string" where
  "portKey svc p = ServiceResourceName (m_Namespace (svc_Meta svc)) (m_Name (svc_Meta svc))
     (itoa (sp_Port p)) (serviceProtocol (sp_Protocol p))"

lemma portKey_eq_iff:
  "portKey svc p = portKey svc q \<longleftrightarrow>
     sp_Port p = sp_Port q \<and> serviceProtocol (sp_Protocol p) = serviceProtocol (sp_Protocol q)"
proof
  let ?proto = "\<lambda>p. serviceProtocol (sp_Protocol p)"
  assume "portKey svc p = portKey svc q"
  then have "itoa (sp_Port p) @ ''-'' @ ?proto p = itoa (sp_Port q) @ ''-'' @ ?proto q"
    by (simp add: portKey_def ServiceResourceName_def)
  moreover have "length (''-'' @ ?proto p) = length (''-'' @ ?proto q)"
    by (simp add: serviceProtocol_def autodiscover_consts)
  ultimately have "itoa (sp_Port p) = itoa (sp_Port q) \<and> ''-'' @ ?proto p = ''-'' @ ?proto q"
    using append_eq_append_conv by blast
  then show "sp_Port p = sp_Port q \<and> ?proto p = ?proto q"
    by (auto dest: itoa_inj)
qed (simp add: portKey_def)

definition portEntry :: "servicePort \<Rightarrow> string \<Rightarrow> PublicResourceSpec \<Rightarrow> bool" where
  "portEntry p host spec \<longleftrightarrow>
     ps_Protocol spec = serviceProtocol (sp_Protocol p) \<and> ps_ProxyPort spec = sp_Port p
     \<and> ps_Targets spec = Some [zeroTarget\<lparr>pt_Hostname := host, pt_Port := sp_Port p\<rparr>]"

lemma foldl_update_dom:
  "dom (map_of (foldl (\<lambda>out p. AList.update (f p) (g p) out) acc ps)) = dom (map_of acc) \<union> f ` set ps"
  by (induction ps arbitrary: acc) (auto simp: update_conv')

lemma foldl_update_distinct:
  "distinct (map fst acc) \<Longrightarrow> distinct (map fst (foldl (\<lambda>out p. AList.update (f p) (g p) out) acc ps))"
  by (induction ps arbitrary: acc) (simp_all add: distinct_update)

lemma foldl_update_lookup:
  "map_of (foldl (\<lambda>out p. AList.update (f p) (g p) out) acc ps) k
     = (case List.find (\<lambda>p. f p = k) (rev ps) of Some p \<Rightarrow> Some (g p) | None \<Rightarrow> map_of acc k)"
  by (induction ps rule: rev_induct) (simp_all add: update_conv')

text \<open>
  C35.  With all ports discovered, the resources of a service are one for each pair of a port number
  and a protocol: their names differ exactly when the pairs do, each port of the service has
  one, and the resource proxies that same port and protocol to the service.
\<close>

theorem BuildAllPortSpecs_per_port:
  assumes "p \<in> set (svc_Ports svc)"
  shows "distinct (map fst (BuildAllPortSpecs svc annotations cfg siteRef host))
    \<and> fst ` set (BuildAllPortSpecs svc annotations cfg siteRef host) = portKey svc ` set (svc_Ports svc)
    \<and> (portKey svc p = portKey svc q \<longleftrightarrow>
         sp_Port p = sp_Port q \<and> serviceProtocol (sp_Protocol p) = serviceProtocol (sp_Protocol q))
    \<and> (case map_of (BuildAllPortSpecs svc annotations cfg siteRef host) (portKey svc p) of
         None \<Rightarrow> False | Some spec \<Rightarrow> portEntry p host spec \<and> ps_SiteRef spec = siteRef)"
proof -
  let ?g = "\<lambda>p. buildTCPSpec (newResolver annotations cfg) siteRef (m_Name (svc_Meta svc) @ ''-'' @ portNameOf p)
     (serviceProtocol (sp_Protocol p)) (sp_Port p) (zeroTarget\<lparr>pt_Hostname := host, pt_Port := sp_Port p\<rparr>)"
  have eq: "BuildAllPortSpecs svc annotations cfg siteRef host
    = foldl (\<lambda>out p. AList.update (portKey svc p) (?g p) out) [] (svc_Ports svc)"
    by (simp add: BuildAllPortSpecs_def portKey_def Let_def)
  have dom: "fst ` set (BuildAllPortSpecs svc annotations cfg siteRef host) = portKey svc ` set (svc_Ports svc)"
    by (simp add: eq dom_map_of_conv_image_fst [symmetric] foldl_update_dom)
  obtain p' where f: "List.find (\<lambda>q. portKey svc q = portKey svc p) (rev (svc_Ports svc)) = Some p'"
    using assms by (cases "List.find (\<lambda>q. portKey svc q = portKey svc p) (rev (svc_Ports svc))")
      (auto simp: find_None_iff)
  then have "portKey svc p' = portKey svc p" by (auto simp: find_Some_iff)
  then have "portEntry p host (?g p')"
    by (simp add: portKey_eq_iff portEntry_def buildTCPSpec_def)
  with f have "case map_of (BuildAllPortSpecs svc annotations cfg siteRef host) (portKey svc p) of
         None \<Rightarrow> False | Some spec \<Rightarrow> portEntry p host spec \<and> ps_SiteRef spec = siteRef"
    by (simp add: eq foldl_update_lookup buildTCPSpec_def)
  with dom show ?thesis
    by (simp add: portKey_eq_iff eq foldl_update_distinct)
qed

definition dnsService :: Service where
  "dnsService = \<lparr>svc_Meta = \<lparr>m_Name = ''dns'', m_Namespace = ''infra'', m_UID = [], m_Generation = 1, m_Deleting = False,
        m_Finalizers = [], m_Annotations = [], m_Labels = None, m_OwnerReferences = []\<rparr>,
     svc_Ports = [\<lparr>sp_Name = ''dns'', sp_Port = 53, sp_Protocol = ''UDP''\<rparr>, \<lparr>sp_Name = ''dns-tcp'', sp_Port = 53, sp_Protocol = ''TCP''\<rparr>]\<rparr>"

theorem BuildAllPortSpecs_per_port_witness:
  "\<forall>annotations cfg siteRef host. case map_of (BuildAllPortSpecs dnsService annotations cfg siteRef host)
      (portKey dnsService (hd (svc_Ports dnsService))) of
         None \<Rightarrow> False
       | Some spec \<Rightarrow> portEntry (hd (svc_Ports dnsService)) host spec \<and> ps_SiteRef spec = siteRef"
proof (intro allI)
  fix annotations cfg siteRef host
  show "case map_of (BuildAllPortSpecs dnsService annotations cfg siteRef host)
      (portKey dnsService (hd (svc_Ports dnsService))) of
         None \<Rightarrow> False
       | Some spec \<Rightarrow> portEntry (hd (svc_Ports dnsService)) host spec \<and> ps_SiteRef spec = siteRef"
    using BuildAllPortSpecs_per_port [of "hd (svc_Ports dnsService)" dnsService annotations cfg siteRef host]
    by (simp add: dnsService_def)
qed

section \<open>Comparing and reading back\<close>

text \<open>
  C25.  The comparison that decides whether an owned resource is written is exact: it writes when
  an owner label is missing or wrong or when the specification differs, and never for two
  specifications that are the same, however they came about; an empty and a missing list of
  rules count as the same.
\<close>

theorem needsPatch_exact:
  "needsPatch existing kind name site spec \<longleftrightarrow>
     \<not> (sameSpec spec (pub_Spec existing)
        \<and> (case m_Labels (pub_Meta existing) of
             None \<Rightarrow> False
           | Some ls \<Rightarrow> mget ls LabelOwnerKind = kind \<and> mget ls LabelOwnerName = name \<and> mget ls LabelSite = site))"
  by (auto simp: needsPatch_def labelsOf_def specText_eq split: option.splits)

subsection \<open>Annotations\<close>

lemma header_keys: "keyIs ''name'' ''name''" "\<not> keyIs ''name'' ''value''" "keyIs ''value'' ''value''"
  by code_simp+

lemma decHeader_jsonHeader: "decHeader (jsonHeader h) = Some h"
  by (simp add: decHeader_def jsonHeader_def decObj_def header_keys decStr_def zeroHeader_def)

lemma rule_keys:
  "keyIs ''action'' ''action''" "\<not> keyIs ''action'' ''match''" "\<not> keyIs ''action'' ''value''" "\<not> keyIs ''action'' ''priority''"
  "keyIs ''match'' ''match''" "\<not> keyIs ''match'' ''value''" "\<not> keyIs ''match'' ''priority''"
  "keyIs ''value'' ''value''" "\<not> keyIs ''value'' ''priority''" "keyIs ''priority'' ''priority''"
  by code_simp+

lemma decRule_jsonRule: "inInt64 (pr_Priority r) \<Longrightarrow> decRule (jsonRule r) = Some r"
  by (cases "pr_Priority r = 0")
    (simp_all add: decRule_def jsonRule_def decObj_def rule_keys decStr_def decInt_def zeroRule_def omitInt_def atoi_itoa)

lemma allSome_map: "(\<And>x. x \<in> set xs \<Longrightarrow> f (g x) = Some x) \<Longrightarrow> allSome (map f (map g xs)) = Some xs"
  by (induction xs) simp_all

lemma decSlice_map:
  "(\<And>x. x \<in> set xs \<Longrightarrow> f (g x) = Some x) \<Longrightarrow> decSlice f (JArr (map g xs)) = Some (Some xs)"
  using allSome_map [of xs f g] by (simp add: decSlice_def)

lemma headers_annotated:
  "buildHeaders ((annotationKey prefix ''headers'', jsonText (JArr (map jsonHeader hs))) # annotations) prefix = hs"
proof -
  have "decSlice decHeader (JArr (map jsonHeader hs)) = Some (Some hs)"
    by (intro decSlice_map decHeader_jsonHeader)
  moreover have "parseJson (jsonText (JArr (map jsonHeader hs))) = Some (JArr (map jsonHeader hs))"
    by (rule parseJson_jsonText) (simp add: list_all_iff)
  ultimately show ?thesis by (simp add: buildHeaders_def del: jsonText.simps) simp
qed

lemma validRule_priority: "isValidRule r \<Longrightarrow> inInt64 (pr_Priority r)"
  by (auto simp: isValidRule_def inInt64_def split: if_splits)

text \<open>
  C26.  The annotations for headers and rules read back what their JSON was made from: every list
  of headers, and every list of valid rules, in the same order.
\<close>

theorem annotations_roundtrip:
  assumes "list_all isValidRule rs"
  shows "annotatedRules ((annotationKey prefix ''rules'', jsonText (JArr (map jsonRule rs))) # annotations) prefix = rs
    \<and> buildHeaders ((annotationKey prefix ''headers'', jsonText (JArr (map jsonHeader hs))) # annotations) prefix = hs"
proof -
  have ne: "jsonText (JArr js) \<noteq> []" for js by simp
  have "decSlice decRule (JArr (map jsonRule rs)) = Some (Some rs)"
    using assms by (intro decSlice_map decRule_jsonRule validRule_priority) (auto simp: list_all_iff)
  moreover have "parseJson (jsonText (JArr (map jsonRule rs))) = Some (JArr (map jsonRule rs))"
    by (rule parseJson_jsonText) (simp add: list_all_iff)
  moreover have "filter isValidRule rs = rs" using assms by (simp add: list_all_iff)
  ultimately show ?thesis
    by (simp add: annotatedRules_def ne headers_annotated del: jsonText.simps)
qed

theorem annotations_roundtrip_witness:
  "annotatedRules [(annotationKey ''p'' ''rules'', jsonText (JArr [jsonRule (denyRule ''FR'')]))] ''p'' = [denyRule ''FR'']"
  using annotations_roundtrip [of "[denyRule ''FR'']" "''p''" "[]" "[]"]
  by (simp add: isValidRule_def denyRule_def autodiscover_consts annotatedRules_def annotationKey_def)

end
