(* ===== verification/Wire.thy ===== *)
theory Wire
  imports Pangolin
begin

text \<open>
  The structs of \<open>internal/pangolin/client.go\<close> on the wire: the JSON document that
  \<open>json.Marshal\<close> makes of a request, field by field in declaration order with its tags, and
  the decoding of an answer into a struct that is zero before.
\<close>

section \<open>Requests as JSON\<close>

definition jsonCreateSiteRequest :: "CreateSiteRequest \<Rightarrow> json" where
  "jsonCreateSiteRequest q = JObj ([(''name'', JStr (csq_Name q)), (''address'', JStr (csq_Address q)),
       (''type'', JStr (csq_Type q)), (''newtId'', JStr (csq_NewtID q)),
       (''secret'', JStr (csq_Secret q))])"

definition jsonUpdateSiteRequest :: "UpdateSiteRequest \<Rightarrow> json" where
  "jsonUpdateSiteRequest q = JObj (omitStr ''name'' (usq_Name q))"

definition jsonCreateResourceRequest :: "CreateResourceRequest \<Rightarrow> json" where
  "jsonCreateResourceRequest q = JObj ([(''name'', JStr (crq_Name q)), (''http'', JBool (crq_Http q)),
       (''protocol'', JStr (crq_Protocol q))]
     @ omitInt ''proxyPort'' (crq_ProxyPort q)
     @ omitStr ''domainId'' (crq_DomainId q) @ omitStr ''subdomain'' (crq_Subdomain q))"

definition jsonUpdateResourceRequest :: "UpdateResourceRequest \<Rightarrow> json" where
  "jsonUpdateResourceRequest q = JObj (omitStr ''name'' (urq_Name q) @ omitStr ''subdomain'' (urq_Subdomain q)
     @ omitPtr ''ssl'' JBool (urq_Ssl q) @ omitPtr ''sso'' JBool (urq_Sso q)
     @ omitPtr ''blockAccess'' JBool (urq_BlockAccess q) @ omitPtr ''emailWhitelistEnabled'' JBool (urq_EmailWhitelistEnabled q)
     @ omitPtr ''applyRules'' JBool (urq_ApplyRules q) @ omitPtr ''enabled'' JBool (urq_Enabled q)
     @ omitPtr ''stickySession'' JBool (urq_StickySession q) @ omitPtr ''tlsServerName'' JStr (urq_TlsServerName q)
     @ omitPtr ''setHostHeader'' JStr (urq_SetHostHeader q) @ omitPtr ''skipToIdpId'' JInt (urq_SkipToIdpId q))"

definition jsonCreateRuleRequest :: "CreateRuleRequest \<Rightarrow> json" where
  "jsonCreateRuleRequest q = JObj ([(''action'', JStr (cuq_Action q)), (''match'', JStr (cuq_Match q)),
       (''value'', JStr (cuq_Value q)),
       (''priority'', JInt (cuq_Priority q))]
     @ omitPtr ''enabled'' JBool (cuq_Enabled q))"

definition jsonCreateTargetRequest :: "CreateTargetRequest \<Rightarrow> json" where
  "jsonCreateTargetRequest q = JObj ([(''siteId'', JInt (ctq_SiteID q)), (''ip'', JStr (ctq_IP q)),
       (''port'', JInt (ctq_Port q))]
     @ omitStr ''method'' (ctq_Method q)
     @ omitPtr ''enabled'' JBool (ctq_Enabled q) @ omitStr ''path'' (ctq_Path q)
     @ omitStr ''pathMatchType'' (ctq_PathMatchType q) @ omitStr ''rewritePath'' (ctq_RewritePath q)
     @ omitStr ''rewritePathType'' (ctq_RewritePathType q) @ omitInt ''priority'' (ctq_Priority q))"

definition jsonCreateSiteResourceRequest :: "CreateSiteResourceRequest \<Rightarrow> json" where
  "jsonCreateSiteResourceRequest q = JObj ([(''name'', JStr (cvq_Name q)),
       (''siteId'', JInt (cvq_SiteID q)), (''mode'', JStr (cvq_Mode q)),
       (''destination'', JStr (cvq_Destination q))]
     @ omitStr ''tcpPortRangeString'' (cvq_TcpPortRangeString q)
     @ omitStr ''udpPortRangeString'' (cvq_UdpPortRangeString q) @ omitBool ''disableIcmp'' (cvq_DisableIcmp q)
     @ omitStr ''alias'' (cvq_Alias q) @ [(''roleIds'', jsonSlice JInt (cvq_RoleIds q)),
       (''userIds'', jsonSlice JStr (cvq_UserIds q)), (''clientIds'', jsonSlice JInt (cvq_ClientIds q))]
     @ omitPtr ''ssl'' JBool (cvq_Ssl q) @ omitStr ''scheme'' (cvq_Scheme q)
     @ omitStr ''domainId'' (cvq_DomainId q) @ omitStr ''subdomain'' (cvq_Subdomain q)
     @ omitInt ''destinationPort'' (cvq_DestinationPort q))"

definition jsonUpdateSiteResourceRequest :: "UpdateSiteResourceRequest \<Rightarrow> json" where
  "jsonUpdateSiteResourceRequest q = JObj ([(''userIds'', jsonSlice JStr (uvq_UserIds q)),
       (''roleIds'', jsonSlice JInt (uvq_RoleIds q)),
       (''clientIds'', jsonSlice JInt (uvq_ClientIds q))]
     @ omitInt ''siteId'' (uvq_SiteID q)
     @ omitStr ''name'' (uvq_Name q) @ omitStr ''mode'' (uvq_Mode q)
     @ omitStr ''destination'' (uvq_Destination q) @ omitStr ''tcpPortRangeString'' (uvq_TcpPortRangeString q)
     @ omitStr ''udpPortRangeString'' (uvq_UdpPortRangeString q) @ omitBool ''disableIcmp'' (uvq_DisableIcmp q)
     @ omitStr ''alias'' (uvq_Alias q) @ omitPtr ''ssl'' JBool (uvq_Ssl q)
     @ omitStr ''scheme'' (uvq_Scheme q) @ omitStr ''domainId'' (uvq_DomainId q)
     @ omitStr ''subdomain'' (uvq_Subdomain q) @ omitInt ''destinationPort'' (uvq_DestinationPort q))"

section \<open>Answers from JSON\<close>

definition zeroPickSiteDefaultsResponse :: PickSiteDefaultsResponse where
  "zeroPickSiteDefaultsResponse = \<lparr>psd_NewtID = [], psd_NewtSecret = [], psd_ClientAddress = []\<rparr>"

definition decPickSiteDefaultsResponse :: "json \<Rightarrow> PickSiteDefaultsResponse option" where
  "decPickSiteDefaultsResponse j =
     decObj (\<lambda>k v x.
       if keyIs ''newtId'' k then map_option (\<lambda>y. x\<lparr>psd_NewtID := y\<rparr>) (decStr v (psd_NewtID x))
       else if keyIs ''newtSecret'' k then map_option (\<lambda>y. x\<lparr>psd_NewtSecret := y\<rparr>) (decStr v (psd_NewtSecret x))
       else if keyIs ''clientAddress'' k then map_option (\<lambda>y. x\<lparr>psd_ClientAddress := y\<rparr>) (decStr v (psd_ClientAddress x))
       else Some x) j zeroPickSiteDefaultsResponse"

definition zeroCreateSiteResponse :: CreateSiteResponse where
  "zeroCreateSiteResponse = \<lparr>csr_SiteID = 0, csr_NiceID = []\<rparr>"

definition decCreateSiteResponse :: "json \<Rightarrow> CreateSiteResponse option" where
  "decCreateSiteResponse j =
     decObj (\<lambda>k v x.
       if keyIs ''siteId'' k then map_option (\<lambda>y. x\<lparr>csr_SiteID := y\<rparr>) (decInt v (csr_SiteID x))
       else if keyIs ''niceId'' k then map_option (\<lambda>y. x\<lparr>csr_NiceID := y\<rparr>) (decStr v (csr_NiceID x))
       else Some x) j zeroCreateSiteResponse"

definition zeroGetSiteResponse :: GetSiteResponse where
  "zeroGetSiteResponse =
     \<lparr>gsr_SiteID = 0, gsr_NiceID = [], gsr_Name = [], gsr_Type = [], gsr_Online = False, gsr_Address = []\<rparr>"

definition decGetSiteResponse :: "json \<Rightarrow> GetSiteResponse option" where
  "decGetSiteResponse j =
     decObj (\<lambda>k v x.
       if keyIs ''siteId'' k then map_option (\<lambda>y. x\<lparr>gsr_SiteID := y\<rparr>) (decInt v (gsr_SiteID x))
       else if keyIs ''niceId'' k then map_option (\<lambda>y. x\<lparr>gsr_NiceID := y\<rparr>) (decStr v (gsr_NiceID x))
       else if keyIs ''name'' k then map_option (\<lambda>y. x\<lparr>gsr_Name := y\<rparr>) (decStr v (gsr_Name x))
       else if keyIs ''type'' k then map_option (\<lambda>y. x\<lparr>gsr_Type := y\<rparr>) (decStr v (gsr_Type x))
       else if keyIs ''online'' k then map_option (\<lambda>y. x\<lparr>gsr_Online := y\<rparr>) (decBool v (gsr_Online x))
       else if keyIs ''address'' k then map_option (\<lambda>y. x\<lparr>gsr_Address := y\<rparr>) (decStr v (gsr_Address x))
       else Some x) j zeroGetSiteResponse"

definition zeroSiteItem :: SiteItem where
  "zeroSiteItem = \<lparr>si_SiteID = 0, si_NiceID = [], si_Name = [], si_Type = []\<rparr>"

definition decSiteItem :: "json \<Rightarrow> SiteItem option" where
  "decSiteItem j =
     decObj (\<lambda>k v x.
       if keyIs ''siteId'' k then map_option (\<lambda>y. x\<lparr>si_SiteID := y\<rparr>) (decInt v (si_SiteID x))
       else if keyIs ''niceId'' k then map_option (\<lambda>y. x\<lparr>si_NiceID := y\<rparr>) (decStr v (si_NiceID x))
       else if keyIs ''name'' k then map_option (\<lambda>y. x\<lparr>si_Name := y\<rparr>) (decStr v (si_Name x))
       else if keyIs ''type'' k then map_option (\<lambda>y. x\<lparr>si_Type := y\<rparr>) (decStr v (si_Type x))
       else Some x) j zeroSiteItem"

definition zeroDomain :: Domain where
  "zeroDomain = \<lparr>dm_DomainID = [], dm_BaseDomain = []\<rparr>"

definition decDomain :: "json \<Rightarrow> Domain option" where
  "decDomain j =
     decObj (\<lambda>k v x.
       if keyIs ''domainId'' k then map_option (\<lambda>y. x\<lparr>dm_DomainID := y\<rparr>) (decStr v (dm_DomainID x))
       else if keyIs ''baseDomain'' k then map_option (\<lambda>y. x\<lparr>dm_BaseDomain := y\<rparr>) (decStr v (dm_BaseDomain x))
       else Some x) j zeroDomain"

definition zeroCreateResourceResponse :: CreateResourceResponse where
  "zeroCreateResourceResponse = \<lparr>crr_ResourceID = 0, crr_NiceID = [], crr_FullDomain = []\<rparr>"

definition decCreateResourceResponse :: "json \<Rightarrow> CreateResourceResponse option" where
  "decCreateResourceResponse j =
     decObj (\<lambda>k v x.
       if keyIs ''resourceId'' k then map_option (\<lambda>y. x\<lparr>crr_ResourceID := y\<rparr>) (decInt v (crr_ResourceID x))
       else if keyIs ''niceId'' k then map_option (\<lambda>y. x\<lparr>crr_NiceID := y\<rparr>) (decStr v (crr_NiceID x))
       else if keyIs ''fullDomain'' k then map_option (\<lambda>y. x\<lparr>crr_FullDomain := y\<rparr>) (decStr v (crr_FullDomain x))
       else Some x) j zeroCreateResourceResponse"

definition zeroResourceItem :: ResourceItem where
  "zeroResourceItem =
     \<lparr>ri_ResourceID = 0, ri_NiceID = [], ri_Name = [], ri_FullDomain = [], ri_Subdomain = [], ri_DomainID = [], ri_Enabled = False\<rparr>"

definition decResourceItem :: "json \<Rightarrow> ResourceItem option" where
  "decResourceItem j =
     decObj (\<lambda>k v x.
       if keyIs ''resourceId'' k then map_option (\<lambda>y. x\<lparr>ri_ResourceID := y\<rparr>) (decInt v (ri_ResourceID x))
       else if keyIs ''niceId'' k then map_option (\<lambda>y. x\<lparr>ri_NiceID := y\<rparr>) (decStr v (ri_NiceID x))
       else if keyIs ''name'' k then map_option (\<lambda>y. x\<lparr>ri_Name := y\<rparr>) (decStr v (ri_Name x))
       else if keyIs ''fullDomain'' k then map_option (\<lambda>y. x\<lparr>ri_FullDomain := y\<rparr>) (decStr v (ri_FullDomain x))
       else if keyIs ''subdomain'' k then map_option (\<lambda>y. x\<lparr>ri_Subdomain := y\<rparr>) (decStr v (ri_Subdomain x))
       else if keyIs ''domainId'' k then map_option (\<lambda>y. x\<lparr>ri_DomainID := y\<rparr>) (decStr v (ri_DomainID x))
       else if keyIs ''enabled'' k then map_option (\<lambda>y. x\<lparr>ri_Enabled := y\<rparr>) (decBool v (ri_Enabled x))
       else Some x) j zeroResourceItem"

definition zeroCreateSiteResourceResponse :: CreateSiteResourceResponse where
  "zeroCreateSiteResourceResponse = \<lparr>cvr_SiteResourceID = 0, cvr_NiceID = [], cvr_FullDomain = []\<rparr>"

definition decCreateSiteResourceResponse :: "json \<Rightarrow> CreateSiteResourceResponse option" where
  "decCreateSiteResourceResponse j =
     decObj (\<lambda>k v x.
       if keyIs ''siteResourceId'' k then map_option (\<lambda>y. x\<lparr>cvr_SiteResourceID := y\<rparr>) (decInt v (cvr_SiteResourceID x))
       else if keyIs ''niceId'' k then map_option (\<lambda>y. x\<lparr>cvr_NiceID := y\<rparr>) (decStr v (cvr_NiceID x))
       else if keyIs ''fullDomain'' k then map_option (\<lambda>y. x\<lparr>cvr_FullDomain := y\<rparr>) (decStr v (cvr_FullDomain x))
       else Some x) j zeroCreateSiteResourceResponse"

definition zeroSiteResourceItem :: SiteResourceItem where
  "zeroSiteResourceItem =
     \<lparr>vi_SiteResourceID = 0, vi_SiteID = 0, vi_NiceID = [], vi_Name = [], vi_Mode = [], vi_Destination = [], vi_Enabled = False, vi_FullDomain = [], vi_DomainID = [], vi_Subdomain = []\<rparr>"

definition decSiteResourceItem :: "json \<Rightarrow> SiteResourceItem option" where
  "decSiteResourceItem j =
     decObj (\<lambda>k v x.
       if keyIs ''siteResourceId'' k then map_option (\<lambda>y. x\<lparr>vi_SiteResourceID := y\<rparr>) (decInt v (vi_SiteResourceID x))
       else if keyIs ''siteId'' k then map_option (\<lambda>y. x\<lparr>vi_SiteID := y\<rparr>) (decInt v (vi_SiteID x))
       else if keyIs ''niceId'' k then map_option (\<lambda>y. x\<lparr>vi_NiceID := y\<rparr>) (decStr v (vi_NiceID x))
       else if keyIs ''name'' k then map_option (\<lambda>y. x\<lparr>vi_Name := y\<rparr>) (decStr v (vi_Name x))
       else if keyIs ''mode'' k then map_option (\<lambda>y. x\<lparr>vi_Mode := y\<rparr>) (decStr v (vi_Mode x))
       else if keyIs ''destination'' k then map_option (\<lambda>y. x\<lparr>vi_Destination := y\<rparr>) (decStr v (vi_Destination x))
       else if keyIs ''enabled'' k then map_option (\<lambda>y. x\<lparr>vi_Enabled := y\<rparr>) (decBool v (vi_Enabled x))
       else if keyIs ''fullDomain'' k then map_option (\<lambda>y. x\<lparr>vi_FullDomain := y\<rparr>) (decStr v (vi_FullDomain x))
       else if keyIs ''domainId'' k then map_option (\<lambda>y. x\<lparr>vi_DomainID := y\<rparr>) (decStr v (vi_DomainID x))
       else if keyIs ''subdomain'' k then map_option (\<lambda>y. x\<lparr>vi_Subdomain := y\<rparr>) (decStr v (vi_Subdomain x))
       else Some x) j zeroSiteResourceItem"

text \<open>Structs of one field are that field.\<close>

definition decCreateTargetResponse :: "json \<Rightarrow> int option" where
  "decCreateTargetResponse j =
     decObj (\<lambda>k v x. if keyIs ''targetId'' k then decInt v x else Some x) j 0"

definition decCreateRuleResponse :: "json \<Rightarrow> int option" where
  "decCreateRuleResponse j =
     decObj (\<lambda>k v x. if keyIs ''ruleId'' k then decInt v x else Some x) j 0"

definition declistSitesResponse :: "json \<Rightarrow> SiteItem slice option" where
  "declistSitesResponse j =
     decObj (\<lambda>k v x. if keyIs ''sites'' k then decSlice decSiteItem v else Some x) j None"

definition decListDomainsResponse :: "json \<Rightarrow> Domain slice option" where
  "decListDomainsResponse j =
     decObj (\<lambda>k v x. if keyIs ''domains'' k then decSlice decDomain v else Some x) j None"

definition declistResourcesResponse :: "json \<Rightarrow> ResourceItem slice option" where
  "declistResourcesResponse j =
     decObj (\<lambda>k v x. if keyIs ''resources'' k then decSlice decResourceItem v else Some x) j None"

definition declistSiteResourcesResponse :: "json \<Rightarrow> SiteResourceItem slice option" where
  "declistSiteResourcesResponse j =
     decObj (\<lambda>k v x. if keyIs ''siteResources'' k then decSlice decSiteResourceItem v else Some x) j None"

end
