(* ===== verification/Metrics.thy ===== *)
theory Metrics
  imports Observe "HOL-Library.AList" "HOL-Library.Multiset"
begin

text \<open>
  The package \<open>internal/metrics\<close>: the series that are declared, the label of an API request, and
  the collector that counts the objects of the cluster by phase.  Parsing a URL is an argument, which returns the
  field \<open>Path\<close> of what \<open>url.Parse\<close> returns, or nothing where it fails; a metric that is sent
  on the collector's channel is an element of the list it returns, in the order sent.
\<close>

section \<open>Declarations\<close>

text \<open>
  The description of a family of series: its name, help text and label names.  The name is
  what the library's \<open>BuildFQName\<close> makes of namespace, subsystem and name, which are all given
  here: the three joined by underscores.
\<close>

record desc =
  de_Name :: string
  de_Help :: string
  de_Labels :: "string list"

definition metricsNamespace :: string where "metricsNamespace = ''pangolin''"

definition fqName :: "string \<Rightarrow> string \<Rightarrow> string" where
  "fqName subsystem name = metricsNamespace @ ''_'' @ subsystem @ ''_'' @ name"

definition APIRequestDuration :: desc where
  "APIRequestDuration = \<lparr>de_Name = fqName ''api'' ''request_duration_seconds'',
     de_Help = ''Latency of Pangolin API requests.'', de_Labels = [''method'', ''endpoint'']\<rparr>"

definition APIRequestsTotal :: desc where
  "APIRequestsTotal = \<lparr>de_Name = fqName ''api'' ''requests_total'',
     de_Help = ''Total Pangolin API requests by result.'', de_Labels = [''method'', ''endpoint'', ''status'']\<rparr>"

definition phaseDesc :: desc where
  "phaseDesc = \<lparr>de_Name = fqName ''resource'' ''phase'',
     de_Help = ''Number of Pangolin resources by kind and phase.'', de_Labels = [''kind'', ''phase'']\<rparr>"

definition onlineDesc :: desc where
  "onlineDesc = \<lparr>de_Name = fqName ''newtsite'' ''online'',
     de_Help = ''Whether a NewtSite tunnel is online (1) or offline (0).'', de_Labels = [''name'', ''namespace'']\<rparr>"

definition collectErrorDesc :: desc where
  "collectErrorDesc = \<lparr>de_Name = fqName ''collector'' ''errors_total'',
     de_Help = ''Number of errors encountered while collecting metrics.'', de_Labels = [''kind'']\<rparr>"

text \<open>What the package registers at its start, and what the collector announces.\<close>

definition requestMetrics :: "desc list" where
  "requestMetrics = [APIRequestDuration, APIRequestsTotal]"

definition Describe :: "desc list" where
  "Describe = [phaseDesc, onlineDesc, collectErrorDesc]"

lemmas desc_defs = APIRequestDuration_def APIRequestsTotal_def phaseDesc_def onlineDesc_def collectErrorDesc_def
  fqName_def metricsNamespace_def

text \<open>No two families share a name, so all of them can be registered in one registry.\<close>

lemma families_distinct: "distinct (map de_Name (requestMetrics @ Describe))"
  by (simp add: requestMetrics_def Describe_def desc_defs)

section \<open>Names of endpoints\<close>

definition endpointTarget :: string where "endpointTarget = ''target''"
definition endpointRule :: string where "endpointRule = ''rule''"
definition endpointUnknown :: string where "endpointUnknown = ''unknown''"
definition endpointSite :: string where "endpointSite = ''site''"
definition endpointResource :: string where "endpointResource = ''resource''"
definition endpointSiteResource :: string where "endpointSiteResource = ''site_resource''"

lemmas endpoint_defs = endpointTarget_def endpointRule_def endpointUnknown_def endpointSite_def
  endpointResource_def endpointSiteResource_def

section \<open>The label of a request\<close>

definition classifyPath :: "string \<Rightarrow> string" where
  "classifyPath urlPath =
     (let path = trimPrefix urlPath ''/v1/'';
          path = (if hasPrefix path ''org/'' then
                    (let parts = splitOnN 3 (CHR ''/'') path in if length parts \<ge> 3 then parts ! 2 else path)
                  else path);
          segments = splitOn (CHR ''/'') (trimRightByte (CHR ''/'') path);
          first = hd segments
      in if first = ''pick-site-defaults'' then ''site_defaults''
         else if first = endpointSite then endpointSite
         else if first = endpointResource then
           (if length segments \<ge> 3 \<and> segments ! 2 = endpointTarget then endpointTarget
            else if length segments \<ge> 3 \<and> segments ! 2 = endpointRule then endpointRule
            else endpointResource)
         else if first = endpointTarget then endpointTarget
         else if first = endpointRule then endpointRule
         else if first = ''site-resource'' then endpointSiteResource
         else if first = ''domains'' then ''domain''
         else endpointUnknown)"

definition ClassifyEndpoint :: "(string \<Rightarrow> string option) \<Rightarrow> string \<Rightarrow> string" where
  "ClassifyEndpoint parse rawURL =
     (case parse rawURL of None \<Rightarrow> endpointUnknown | Some path \<Rightarrow> classifyPath path)"

text \<open>The path behind the name of an organisation that has no slash.\<close>

lemma takeWhile_slash: "CHR ''/'' \<notin> set u \<Longrightarrow> takeWhile (\<lambda>x. x \<noteq> CHR ''/'') (u @ CHR ''/'' # s) = u"
  by (induction u) auto

lemma dropWhile_slash: "CHR ''/'' \<notin> set u \<Longrightarrow> dropWhile (\<lambda>x. x \<noteq> CHR ''/'') (u @ CHR ''/'' # s) = CHR ''/'' # s"
  by (induction u) auto

lemma splitOnN_org:
  "CHR ''/'' \<notin> set org \<Longrightarrow> splitOnN 3 (CHR ''/'') (''org/'' @ org @ ''/'' @ p) = [''org'', org, p]"
  by (simp add: numeral_3_eq_3 takeWhile_slash dropWhile_slash)

lemma classifyPath_org:
  "CHR ''/'' \<notin> set org \<Longrightarrow> classifyPath (''/v1/org/'' @ org @ ''/'' @ p)
     = (let segments = splitOn (CHR ''/'') (trimRightByte (CHR ''/'') p); first = hd segments
        in if first = ''pick-site-defaults'' then ''site_defaults''
         else if first = endpointSite then endpointSite
         else if first = endpointResource then
           (if length segments \<ge> 3 \<and> segments ! 2 = endpointTarget then endpointTarget
            else if length segments \<ge> 3 \<and> segments ! 2 = endpointRule then endpointRule
            else endpointResource)
         else if first = endpointTarget then endpointTarget
         else if first = endpointRule then endpointRule
         else if first = ''site-resource'' then endpointSiteResource
         else if first = ''domains'' then ''domain''
         else endpointUnknown)"
  using splitOnN_org [of org p] trimPrefix_append [of "''/v1/''" "''org/'' @ org @ ''/'' @ p"]
    hasPrefix_append [of "''org/''" "org @ ''/'' @ p"]
  by (simp add: classifyPath_def Let_def)

text \<open>
  What the requests of an organisation count as: the creations of sites, resources and site
  resources, the defaults and the domains have labels of their own, but the listings do not,
  so the most frequent requests of all three kinds count as unknown.
\<close>

theorem classifyPath_listings_unknown:
  assumes "CHR ''/'' \<notin> set org"
  shows "map (\<lambda>p. classifyPath (''/v1/org/'' @ org @ ''/'' @ p))
      [''pick-site-defaults'', ''site'', ''resource'', ''site-resource'', ''domains'',
       ''sites'', ''resources'', ''site-resources'']
    = [''site_defaults'', ''site'', ''resource'', ''site_resource'', ''domain'',
       ''unknown'', ''unknown'', ''unknown'']"
  unfolding list.map classifyPath_org [OF assms] by (simp add: trimRightByte_def endpoint_defs)

theorem classifyPath_listings_unknown_witness:
  "classifyPath ''/v1/org/home/sites'' = ''unknown''"
  using classifyPath_listings_unknown [of "''home''"] by simp

section \<open>The collector\<close>

datatype metric =
    PhaseCount string string nat
  | Online string string bool
  | CollectError string

text \<open>
  The sample that \<open>MustNewConstMetric\<close> makes of each, and its series: the description with the
  values of the labels.  The library panics when their number is not that of the
  description's labels, which is nothing here.
\<close>

datatype valueType = CounterValue | GaugeValue

record sample =
  sm_Desc :: desc
  sm_Type :: valueType
  sm_Value :: nat
  sm_LabelValues :: "string list"

definition MustNewConstMetric :: "desc \<Rightarrow> valueType \<Rightarrow> nat \<Rightarrow> string list \<Rightarrow> sample option" where
  "MustNewConstMetric d ty v ls =
     (if length ls = length (de_Labels d)
      then Some \<lparr>sm_Desc = d, sm_Type = ty, sm_Value = v, sm_LabelValues = ls\<rparr> else None)"

fun sampleOf :: "metric \<Rightarrow> sample option" where
  "sampleOf (PhaseCount kind phase n) = MustNewConstMetric phaseDesc GaugeValue n [kind, phase]"
| "sampleOf (Online name ns online) = MustNewConstMetric onlineDesc GaugeValue (if online then 1 else 0) [name, ns]"
| "sampleOf (CollectError kind) = MustNewConstMetric collectErrorDesc CounterValue 1 [kind]"

definition series :: "metric \<Rightarrow> (desc \<times> string list) option" where
  "series m = map_option (\<lambda>s. (sm_Desc s, sm_LabelValues s)) (sampleOf m)"

definition defaultPhase :: string where
  "defaultPhase = ''Pending''"

definition phaseLabel :: "phase \<Rightarrow> string" where
  "phaseLabel p = (if phaseString p = [] then defaultPhase else phaseString p)"

text \<open>The map \<open>counts\<close> after the loop: \<open>counts[phase]++\<close> for each object.\<close>

definition bump :: "string \<Rightarrow> (string \<times> nat) list \<Rightarrow> (string \<times> nat) list" where
  "bump phase counts =
     AList.update phase (Suc (case map_of counts phase of None \<Rightarrow> 0 | Some n \<Rightarrow> n)) counts"

definition countPhases :: "phase list \<Rightarrow> (string \<times> nat) list" where
  "countPhases ps = foldl (\<lambda>counts p. bump (phaseLabel p) counts) [] ps"

type_synonym countOrder = "(string \<times> nat) list \<Rightarrow> (string \<times> nat) list"

definition phaseCounts :: "countOrder \<Rightarrow> string \<Rightarrow> phase list \<Rightarrow> metric list" where
  "phaseCounts mapOrder kind ps = map (\<lambda>(p, n). PhaseCount kind p n) (mapOrder (countPhases ps))"

definition collectNewtSites :: "'w kube \<Rightarrow> countOrder \<Rightarrow> ('w, metric list) state" where
  "collectNewtSites k mapOrder =
     do {
       l \<leftarrow> oc_List (kSites k);
       ret (case l of
              Inl _ \<Rightarrow> [CollectError ''newtsite'']
            | Inr items \<Rightarrow>
                map (\<lambda>site. Online (m_Name (site_Meta site)) (m_Namespace (site_Meta site)) (nst_Online (site_Status site))) items
                @ phaseCounts mapOrder ''newtsite'' (map (\<lambda>site. nst_Phase (site_Status site)) items))
     }"

definition collectPublicResources :: "'w kube \<Rightarrow> countOrder \<Rightarrow> ('w, metric list) state" where
  "collectPublicResources k mapOrder =
     do {
       l \<leftarrow> oc_List (kPubs k);
       ret (case l of
              Inl _ \<Rightarrow> [CollectError ''publicresource'']
            | Inr items \<Rightarrow> phaseCounts mapOrder ''publicresource'' (map (\<lambda>res. pst_Phase (pub_Status res)) items))
     }"

definition collectPrivateResources :: "'w kube \<Rightarrow> countOrder \<Rightarrow> ('w, metric list) state" where
  "collectPrivateResources k mapOrder =
     do {
       l \<leftarrow> oc_List (kPrivs k);
       ret (case l of
              Inl _ \<Rightarrow> [CollectError ''privateresource'']
            | Inr items \<Rightarrow> phaseCounts mapOrder ''privateresource'' (map (\<lambda>res. vst_Phase (priv_Status res)) items))
     }"

definition Collect :: "'w kube \<Rightarrow> countOrder \<Rightarrow> ('w, metric list) state" where
  "Collect k mapOrder =
     do {
       sites \<leftarrow> collectNewtSites k mapOrder;
       pubs \<leftarrow> collectPublicResources k mapOrder;
       privs \<leftarrow> collectPrivateResources k mapOrder;
       ret (sites @ pubs @ privs)
     }"

lemma sum_bump: "sum_list (map snd (bump p counts)) = Suc (sum_list (map snd counts))"
proof -
  have "sum_list (map snd (AList.update p (n + (case map_of counts p of None \<Rightarrow> 0 | Some i \<Rightarrow> i)) counts))
      = n + sum_list (map snd counts)" for n :: nat
    by (induction counts) auto
  from this [of 1] show ?thesis by (simp add: bump_def)
qed

lemma sum_countPhases: "sum_list (map snd (countPhases ps)) = length ps"
proof -
  have "sum_list (map snd (foldl (\<lambda>counts p. bump (phaseLabel p) counts) acc ps))
      = sum_list (map snd acc) + length ps" for acc
    by (induction ps arbitrary: acc) (simp_all add: sum_bump)
  from this [of "[]"] show ?thesis by (simp add: countPhases_def)
qed

definition phaseTotal :: "string \<Rightarrow> metric list \<Rightarrow> nat" where
  "phaseTotal kind ms = sum_list (map (\<lambda>m. case m of PhaseCount k' _ n \<Rightarrow> if k' = kind then n else 0 | _ \<Rightarrow> 0) ms)"

lemma phaseTotal_append [simp]: "phaseTotal kind (us @ vs) = phaseTotal kind us + phaseTotal kind vs"
  by (simp add: phaseTotal_def)

lemma phaseTotal_simps [simp]:
  "phaseTotal kind [] = 0" "phaseTotal kind (CollectError e # ms) = phaseTotal kind ms"
  "phaseTotal kind (map (\<lambda>x. Online (f x) (g x) (h x)) xs) = 0"
  by (simp_all add: phaseTotal_def comp_def)

lemma phaseTotal_counts:
  assumes "\<forall>xs. mset (mapOrder xs) = mset xs"
  shows "phaseTotal kind (phaseCounts mapOrder kind' ps) = (if kind = kind' then length ps else 0)"
proof -
  have "sum_list (map snd (mapOrder (countPhases ps))) = sum_list (map snd (countPhases ps))"
    using assms by (metis mset_map sum_mset_sum_list)
  then show ?thesis
    by (simp add: phaseTotal_def phaseCounts_def comp_def case_prod_beta sum_countPhases)
qed

lemma errors_of_counts [simp]:
  "CollectError e \<notin> set (phaseCounts mapOrder kind ps)"
  by (auto simp: phaseCounts_def)

text \<open>
  The series of a scrape.  Every metric is a sample of an announced family with a value for
  each label; the registry refuses a scrape in which a series comes twice.
\<close>

lemma series_simps [simp]:
  "series (PhaseCount kind phase n) = Some (phaseDesc, [kind, phase])"
  "series (Online name ns b) = Some (onlineDesc, [name, ns])"
  "series (CollectError kind) = Some (collectErrorDesc, [kind])"
  by (simp_all add: series_def MustNewConstMetric_def phaseDesc_def onlineDesc_def collectErrorDesc_def)

lemma descs_differ [simp]:
  "phaseDesc \<noteq> onlineDesc" "onlineDesc \<noteq> phaseDesc" "phaseDesc \<noteq> collectErrorDesc"
  "collectErrorDesc \<noteq> phaseDesc" "onlineDesc \<noteq> collectErrorDesc" "collectErrorDesc \<noteq> onlineDesc"
  by (simp_all add: desc_defs)

definition exposable :: "metric list \<Rightarrow> bool" where
  "exposable ms \<longleftrightarrow>
     list_all (\<lambda>m. case sampleOf m of Some s \<Rightarrow> sm_Desc s \<in> set Describe | None \<Rightarrow> False) ms
     \<and> distinct (map series ms)"

lemma sampleOf_announced: "case sampleOf m of Some s \<Rightarrow> sm_Desc s \<in> set Describe | None \<Rightarrow> False"
  by (cases m) (simp_all add: MustNewConstMetric_def Describe_def phaseDesc_def onlineDesc_def collectErrorDesc_def)

lemma exposable_eq: "exposable ms = distinct (map series ms)"
  by (simp add: exposable_def list_all_iff sampleOf_announced)

lemma countPhases_distinct: "distinct (map fst (countPhases ps))"
proof -
  have "distinct (map fst acc) \<Longrightarrow> distinct (map fst (foldl (\<lambda>counts p. bump (phaseLabel p) counts) acc ps))" for acc
    by (induction ps arbitrary: acc) (simp_all add: bump_def distinct_update)
  then show ?thesis by (simp add: countPhases_def)
qed

lemma phaseCounts_distinct:
  assumes "\<forall>xs. mset (mapOrder xs) = mset xs"
  shows "distinct (map series (phaseCounts mapOrder kind ps))"
proof -
  have "mset (map fst (mapOrder (countPhases ps))) = mset (map fst (countPhases ps))"
    using assms by simp
  then have "distinct (map fst (mapOrder (countPhases ps)))"
    using countPhases_distinct mset_eq_imp_distinct_iff by blast
  then show ?thesis
    by (simp add: phaseCounts_def comp_def case_prod_beta distinct_map inj_on_def)
qed

lemma phaseCounts_series:
  "s \<in> series ` set (phaseCounts mapOrder kind ps) \<Longrightarrow> \<exists>p. s = Some (phaseDesc, [kind, p])"
  by (auto simp: phaseCounts_def)

definition siteKeys :: "kerr + NewtSite list \<Rightarrow> (string \<times> string) list" where
  "siteKeys listing =
     (case listing of
        Inl _ \<Rightarrow> []
      | Inr sites \<Rightarrow> map (\<lambda>site. (m_Name (site_Meta site), m_Namespace (site_Meta site))) sites)"

text \<open>The metrics of one kind: those of the objects one by one, and the counts or the error.\<close>

definition kindMetrics :: "countOrder \<Rightarrow> string \<Rightarrow> ('o \<Rightarrow> phase) \<Rightarrow> kerr + 'o list \<Rightarrow> metric list" where
  "kindMetrics mapOrder kind phaseOf listing =
     (case listing of
        Inl _ \<Rightarrow> [CollectError kind]
      | Inr items \<Rightarrow> phaseCounts mapOrder kind (map phaseOf items))"

definition siteOnlines :: "kerr + NewtSite list \<Rightarrow> metric list" where
  "siteOnlines listing =
     (case listing of
        Inl _ \<Rightarrow> []
      | Inr items \<Rightarrow>
          map (\<lambda>site. Online (m_Name (site_Meta site)) (m_Namespace (site_Meta site)) (nst_Online (site_Status site))) items)"

text \<open>A log that is the three listings, with what holds of them.\<close>

definition scraped ::
  "(kerr + NewtSite list \<Rightarrow> kerr + PublicResource list \<Rightarrow> kerr + PrivateResource list \<Rightarrow> bool) \<Rightarrow> event list \<Rightarrow> bool" where
  "scraped P new = (\<exists>ls lp lv. new = [ESite (OList ls), EPub (OList lp), EPriv (OList lv)] \<and> P ls lp lv)"

lemma scraped_mono: "scraped P new \<Longrightarrow> (\<And>ls lp lv. P ls lp lv \<Longrightarrow> Q ls lp lv) \<Longrightarrow> scraped Q new"
  by (auto simp: scraped_def)

lemma Collect_pieces:
  "emits (Collect (record_kube k) mapOrder)
     (\<lambda>ms. scraped (\<lambda>ls lp lv.
          ms = siteOnlines ls @ kindMetrics mapOrder ''newtsite'' (\<lambda>x. nst_Phase (site_Status x)) ls
             @ kindMetrics mapOrder ''publicresource'' (\<lambda>x. pst_Phase (pub_Status x)) lp
             @ kindMetrics mapOrder ''privateresource'' (\<lambda>x. vst_Phase (priv_Status x)) lv))"
  unfolding Collect_def collectNewtSites_def collectPublicResources_def collectPrivateResources_def
  by (auto simp: scraped_def siteOnlines_def kindMetrics_def simp del: ex_simps split: sum.split intro!: emits_bind_op)

lemma kindMetrics_total:
  assumes "\<forall>xs. mset (mapOrder xs) = mset xs"
  shows "phaseTotal kind (kindMetrics mapOrder kind' f l)
      = (if kind = kind' then (case l of Inl _ \<Rightarrow> 0 | Inr items \<Rightarrow> length items) else 0)"
    and "CollectError kind \<in> set (kindMetrics mapOrder kind' f l) \<longleftrightarrow> kind = kind' \<and> isl l"
  by (auto simp: kindMetrics_def phaseTotal_counts [OF assms] split: sum.splits)

lemma siteOnlines_total [simp]:
  "phaseTotal kind (siteOnlines l) = 0" "CollectError kind \<notin> set (siteOnlines l)"
  by (auto simp: siteOnlines_def split: sum.splits)

lemma kindMetrics_distinct:
  assumes "\<forall>xs. mset (mapOrder xs) = mset xs"
  shows "distinct (map series (kindMetrics mapOrder kind f l))"
  by (simp add: kindMetrics_def phaseCounts_distinct [OF assms] split: sum.split)

lemma kindMetrics_series:
  "s \<in> series ` set (kindMetrics mapOrder kind f l) \<Longrightarrow>
     s = Some (collectErrorDesc, [kind]) \<or> (\<exists>p. s = Some (phaseDesc, [kind, p]))"
  by (auto simp: kindMetrics_def phaseCounts_def split: sum.splits)

lemma onlines_distinct:
  "distinct (map (\<lambda>x. Some (onlineDesc, [f x, g x])) xs) = distinct (map (\<lambda>x. (f x, g x)) xs)"
  by (simp add: distinct_map inj_on_def)

lemma siteOnlines_distinct: "distinct (map series (siteOnlines l)) = distinct (siteKeys l)"
  by (simp add: siteOnlines_def siteKeys_def comp_def onlines_distinct split: sum.split)

lemma siteOnlines_series:
  "s \<in> series ` set (siteOnlines l) \<Longrightarrow> \<exists>ls. s = Some (onlineDesc, ls)"
  by (auto simp: siteOnlines_def split: sum.splits)

lemma kinds_apart:
  assumes "kind \<noteq> kind'"
  shows "series ` set (kindMetrics mapOrder kind f l) \<inter> series ` set (kindMetrics mapOrder kind' f' l') = {}"
proof -
  have "False" if "s \<in> series ` set (kindMetrics mapOrder kind f l)" "s \<in> series ` set (kindMetrics mapOrder kind' f' l')" for s
    using kindMetrics_series [OF that(1)] kindMetrics_series [OF that(2)] assms by auto
  then show ?thesis by blast
qed

lemma sites_apart: "series ` set (siteOnlines ls) \<inter> series ` set (kindMetrics mapOrder kind f l) = {}"
proof -
  have "False" if "s \<in> series ` set (siteOnlines ls)" "s \<in> series ` set (kindMetrics mapOrder kind f l)" for s
    using siteOnlines_series [OF that(1)] kindMetrics_series [OF that(2)] by auto
  then show ?thesis by blast
qed

lemma scrape_exposable:
  assumes "\<forall>xs. mset (mapOrder xs) = mset xs" "kind1 \<noteq> kind2" "kind1 \<noteq> kind3" "kind2 \<noteq> kind3"
  shows "exposable (siteOnlines ls @ kindMetrics mapOrder kind1 f1 l1 @ kindMetrics mapOrder kind2 f2 l2
      @ kindMetrics mapOrder kind3 f3 l3) = distinct (siteKeys ls)"
  using assms(2-4) by (simp add: exposable_eq siteOnlines_distinct kindMetrics_distinct [OF assms(1)] kinds_apart
      sites_apart Int_Un_distrib)

text \<open>What a scrape should expose, sample by sample, said apart from the code.\<close>

definition phaseSample :: "string \<Rightarrow> string \<Rightarrow> nat \<Rightarrow> sample" where
  "phaseSample kind p n = \<lparr>sm_Desc = phaseDesc, sm_Type = GaugeValue, sm_Value = n, sm_LabelValues = [kind, p]\<rparr>"

definition onlineSample :: "NewtSite \<Rightarrow> sample" where
  "onlineSample site =
     \<lparr>sm_Desc = onlineDesc, sm_Type = GaugeValue, sm_Value = of_bool (nst_Online (site_Status site)),
      sm_LabelValues = [m_Name (site_Meta site), m_Namespace (site_Meta site)]\<rparr>"

definition errorSample :: "string \<Rightarrow> sample" where
  "errorSample kind = \<lparr>sm_Desc = collectErrorDesc, sm_Type = CounterValue, sm_Value = 1, sm_LabelValues = [kind]\<rparr>"

text \<open>The label of a phase, an unset one being Pending, and how many of a list have it.\<close>

fun hasLabel :: "string \<Rightarrow> phase \<Rightarrow> bool" where
  "hasLabel p PhaseUnset = (p = ''Pending'')"
| "hasLabel p PhasePending = (p = ''Pending'')"
| "hasLabel p PhaseCreating = (p = ''Creating'')"
| "hasLabel p PhaseReady = (p = ''Ready'')"
| "hasLabel p PhaseDeleting = (p = ''Deleting'')"
| "hasLabel p PhaseError = (p = ''Error'')"

definition tally :: "string \<Rightarrow> phase list \<Rightarrow> nat" where
  "tally p phases = length (filter (hasLabel p) phases)"

lemma tally_simps [simp]:
  "tally p [] = 0" "tally p (x # xs) = (if hasLabel p x then Suc (tally p xs) else tally p xs)"
  by (simp_all add: tally_def)

lemma hasLabel_eq: "hasLabel p x \<longleftrightarrow> phaseLabel x = p"
  by (cases x) (auto simp: phaseLabel_def defaultPhase_def)

lemma map_of_bump:
  "map_of (bump p counts) = (map_of counts)(p \<mapsto> Suc (case map_of counts p of None \<Rightarrow> 0 | Some n \<Rightarrow> n))"
  by (simp add: bump_def update_conv')

lemma map_of_countPhases:
  "map_of (countPhases ps) p = (if tally p ps = 0 then None else Some (tally p ps))"
proof -
  have "map_of (foldl (\<lambda>counts x. bump (phaseLabel x) counts) acc ps) p
      = (if tally p ps = 0 then map_of acc p
         else Some (tally p ps + (case map_of acc p of None \<Rightarrow> 0 | Some n \<Rightarrow> n)))" for acc
    by (induction ps arbitrary: acc) (auto simp: map_of_bump hasLabel_eq split: option.splits)
  from this [of "[]"] show ?thesis by (simp add: countPhases_def)
qed

lemma phaseCounts_tally:
  assumes "\<forall>xs. mset (mapOrder xs) = mset xs"
  shows "PhaseCount kind p n \<in> set (phaseCounts mapOrder kind' ps) \<longleftrightarrow> kind = kind' \<and> 0 < n \<and> n = tally p ps"
proof -
  have "set (mapOrder (countPhases ps)) = set (countPhases ps)"
    using assms mset_eq_setD by blast
  then have "PhaseCount kind p n \<in> set (phaseCounts mapOrder kind' ps) \<longleftrightarrow> kind = kind' \<and> (p, n) \<in> set (countPhases ps)"
    by (auto simp: phaseCounts_def)
  also have "(p, n) \<in> set (countPhases ps) \<longleftrightarrow> map_of (countPhases ps) p = Some n"
    using countPhases_distinct by simp
  finally show ?thesis by (auto simp: map_of_countPhases)
qed

lemma sampleOf_eq:
  "sampleOf m = Some (phaseSample kind p n) \<longleftrightarrow> m = PhaseCount kind p n"
  "sampleOf m = Some (errorSample kind) \<longleftrightarrow> m = CollectError kind"
  by (cases m; auto simp: MustNewConstMetric_def phaseSample_def errorSample_def
      phaseDesc_def onlineDesc_def collectErrorDesc_def desc_defs)+

text \<open>
  What a listing of one kind comes to: one count for each label that an object has, and no
  other, or the error; for the sites one gauge each, in the order listed.
\<close>

definition isOnline :: "sample option \<Rightarrow> bool" where
  "isOnline s = (case s of Some x \<Rightarrow> sm_Desc x = onlineDesc | None \<Rightarrow> False)"

definition counted :: "string \<Rightarrow> ('o \<Rightarrow> phase) \<Rightarrow> kerr + 'o list \<Rightarrow> metric list \<Rightarrow> bool" where
  "counted kind phaseOf listing ms =
     (case listing of
        Inl _ \<Rightarrow> Some (errorSample kind) \<in> set (map sampleOf ms)
          \<and> (\<forall>p n. Some (phaseSample kind p n) \<notin> set (map sampleOf ms))
      | Inr items \<Rightarrow> Some (errorSample kind) \<notin> set (map sampleOf ms) \<and> phaseTotal kind ms = length items
          \<and> (\<forall>p n. Some (phaseSample kind p n) \<in> set (map sampleOf ms) \<longleftrightarrow> 0 < n \<and> n = tally p (map phaseOf items)))"

definition gauged :: "kerr + NewtSite list \<Rightarrow> metric list \<Rightarrow> bool" where
  "gauged listing ms \<longleftrightarrow>
     filter isOnline (map sampleOf ms)
       = (case listing of Inl _ \<Rightarrow> [] | Inr sites \<Rightarrow> map (\<lambda>site. Some (onlineSample site)) sites)"

lemma sampled:
  "Some (phaseSample kind p n) \<in> set (map sampleOf ms) \<longleftrightarrow> PhaseCount kind p n \<in> set ms"
  "Some (errorSample kind) \<in> set (map sampleOf ms) \<longleftrightarrow> CollectError kind \<in> set ms"
  using sampleOf_eq by (auto simp: image_iff) metis+

lemma kindMetrics_tally:
  assumes "\<forall>xs. mset (mapOrder xs) = mset xs"
  shows "PhaseCount kind p n \<in> set (kindMetrics mapOrder kind' f l)
      \<longleftrightarrow> kind = kind' \<and> 0 < n \<and> (case l of Inl _ \<Rightarrow> False | Inr items \<Rightarrow> n = tally p (map f items))"
  by (auto simp: kindMetrics_def phaseCounts_tally [OF assms] split: sum.splits)

lemma siteOnlines_tally [simp]: "PhaseCount kind p n \<notin> set (siteOnlines l)"
  by (auto simp: siteOnlines_def split: sum.splits)

lemma siteOnlines_gauges:
  "filter isOnline (map sampleOf (siteOnlines l))
     = (case l of Inl _ \<Rightarrow> [] | Inr sites \<Rightarrow> map (\<lambda>site. Some (onlineSample site)) sites)"
  "filter isOnline (map sampleOf (kindMetrics mapOrder kind f l')) = []"
proof -
  have "sampleOf (Online (m_Name (site_Meta x)) (m_Namespace (site_Meta x)) (nst_Online (site_Status x)))
      = Some (onlineSample x)" "isOnline (Some (onlineSample x))" for x
    by (simp_all add: onlineSample_def isOnline_def MustNewConstMetric_def onlineDesc_def)
  then show "filter isOnline (map sampleOf (siteOnlines l))
     = (case l of Inl _ \<Rightarrow> [] | Inr sites \<Rightarrow> map (\<lambda>site. Some (onlineSample site)) sites)"
    by (simp add: siteOnlines_def comp_def filter_map split: sum.split)
  have "\<not> isOnline (sampleOf (PhaseCount kind p n))" "\<not> isOnline (sampleOf (CollectError kind))" for p n
    by (auto simp: isOnline_def MustNewConstMetric_def split: option.split)
  then show "filter isOnline (map sampleOf (kindMetrics mapOrder kind f l')) = []"
    by (auto simp: kindMetrics_def phaseCounts_def filter_empty_conv split: sum.split)
qed

lemma scrape_gauged:
  "gauged ls (siteOnlines ls @ kindMetrics mapOrder kind1 f1 l1 @ kindMetrics mapOrder kind2 f2 l2
      @ kindMetrics mapOrder kind3 f3 l3)"
  by (simp add: gauged_def siteOnlines_gauges)

text \<open>
  C39.  A scrape counts every object once, under its phase, and can be exposed.  It makes the three
  listings and nothing else.  For each kind that could be listed there is one count for each
  phase that an object of the listing has, an unset phase counting as Pending; its value is
  the number of those objects, and there is no other count, so that the counts add up to the
  number of objects; each other kind reports its error and no count.  The online gauges are
  one for each site listed, with its name and namespace, and 1 exactly when its status says
  online.  Every metric is a sample of an announced family with a value for each of its
  labels, and no series comes twice, except when the listing itself has two sites of one name
  and namespace.
\<close>

theorem Collect_counts:
  assumes "\<forall>xs. mset (mapOrder xs) = mset xs"
  shows "emits (Collect (record_kube k) mapOrder)
    (\<lambda>ms. scraped (\<lambda>ls lp lv.
       counted ''newtsite'' (\<lambda>x. nst_Phase (site_Status x)) ls ms
       \<and> counted ''publicresource'' (\<lambda>x. pst_Phase (pub_Status x)) lp ms
       \<and> counted ''privateresource'' (\<lambda>x. vst_Phase (priv_Status x)) lv ms
       \<and> gauged ls ms
       \<and> exposable ms = distinct (siteKeys ls)))"
  by (rule emits_conseq [OF Collect_pieces], erule scraped_mono)
    (auto simp: counted_def sampled kindMetrics_total [OF assms] kindMetrics_tally [OF assms]
      scrape_gauged scrape_exposable [OF assms] simp del: set_map map_append split: sum.split)

theorem Collect_counts_witness:
  "\<forall>k :: unit kube. emits (Collect (record_kube k) rev)
    (\<lambda>ms. scraped (\<lambda>ls lp lv.
       counted ''newtsite'' (\<lambda>x. nst_Phase (site_Status x)) ls ms
       \<and> counted ''publicresource'' (\<lambda>x. pst_Phase (pub_Status x)) lp ms
       \<and> counted ''privateresource'' (\<lambda>x. vst_Phase (priv_Status x)) lv ms
       \<and> gauged ls ms
       \<and> exposable ms = distinct (siteKeys ls)))"
  by (intro allI Collect_counts) simp

end
