(* ===== verification/GoUrl.thy ===== *)
theory GoUrl
  imports GoStrings
begin

text \<open>
  What the client uses of Go's net/url: the escaping of a query parameter.  It is injective,
  and what it returns cannot end the parameter or start another.
\<close>

definition unreserved :: "char \<Rightarrow> bool" where
  "unreserved c =
     (let n = of_char c :: nat in
      (48 \<le> n \<and> n \<le> 57) \<or> (65 \<le> n \<and> n \<le> 90) \<or> (97 \<le> n \<and> n \<le> 122)
      \<or> n = 45 \<or> n = 95 \<or> n = 46 \<or> n = 126)"

definition hexUpper :: "nat \<Rightarrow> char" where
  "hexUpper n = (if n < 10 then char_of (48 + n) else char_of (55 + n))"

definition escapeQueryByte :: "char \<Rightarrow> string" where
  "escapeQueryByte c =
     (if unreserved c then [c]
      else if c = CHR '' '' then ''+''
      else [CHR 37, hexUpper (of_char c div 16), hexUpper (of_char c mod 16)])"

definition QueryEscape :: "string \<Rightarrow> string" where
  "QueryEscape s = concat (map escapeQueryByte s)"

section \<open>Reading it back\<close>

definition hexUpperVal :: "char \<Rightarrow> nat" where
  "hexUpperVal c = (let n = of_char c :: nat in if n < 65 then n - 48 else n - 55)"

fun unescapeQuery :: "string \<Rightarrow> string" where
  "unescapeQuery [] = []"
| "unescapeQuery (c # s) =
     (if c = CHR 37 then
        (case s of a # b # t \<Rightarrow> char_of (16 * hexUpperVal a + hexUpperVal b) # unescapeQuery t | _ \<Rightarrow> [])
      else if c = CHR ''+'' then CHR '' '' # unescapeQuery s
      else c # unescapeQuery s)"

lemma hexUpperVal_hexUpper: "n < 16 \<Longrightarrow> hexUpperVal (hexUpper n) = n"
  by (simp add: hexUpperVal_def hexUpper_def Let_def)

lemma high_nibble: "of_char c div 16 < (16 :: nat)"
  by (rule less_mult_imp_div_less) simp

lemma unescape_byte: "unescapeQuery (escapeQueryByte c @ s) = c # unescapeQuery s"
proof -
  have "16 * (of_char c div 16) + of_char c mod 16 = (of_char c :: nat)" by simp
  moreover have "unreserved c \<Longrightarrow> c \<noteq> CHR 37 \<and> c \<noteq> CHR ''+''" by (auto simp: unreserved_def)
  ultimately show ?thesis
    by (simp add: escapeQueryByte_def hexUpperVal_hexUpper high_nibble)
qed

lemma unescape_QueryEscape: "unescapeQuery (QueryEscape s) = s"
  by (induction s) (simp_all add: QueryEscape_def unescape_byte)

lemma QueryEscape_inj: "QueryEscape s = QueryEscape t \<longleftrightarrow> s = t"
  by (metis unescape_QueryEscape)

definition querySafe :: "char \<Rightarrow> bool" where
  "querySafe c \<longleftrightarrow> unreserved c \<or> c = CHR ''+'' \<or> c = CHR 37"

lemma hexUpper_unreserved: "n < 16 \<Longrightarrow> unreserved (hexUpper n)"
  by (simp add: unreserved_def hexUpper_def Let_def)

lemma QueryEscape_safe: "list_all querySafe (QueryEscape s)"
proof -
  have "list_all querySafe (escapeQueryByte c)" for c
    by (simp add: escapeQueryByte_def querySafe_def hexUpper_unreserved high_nibble)
  then show ?thesis by (simp add: QueryEscape_def list_all_iff)
qed

end
