(* ===== verification/Client.thy ===== *)
theory Client
  imports Wire Metrics GoUrl
begin

text \<open>
  The HTTP client of \<open>internal/pangolin/client.go\<close>: \<open>do\<close>, which sends one request and reads the
  answer, the methods, and the loops over the pages of a listing.  The transport (net/http
  and the server behind it) and the metrics registry are arguments.
\<close>

section \<open>The transport\<close>

record Credentials =
  cd_Endpoint :: string
  cd_APIKey :: string
  cd_OrgID :: string

record Client =
  cl_endpoint :: string
  cl_apiKey :: string
  cl_orgID :: string

definition NewClient :: "Credentials \<Rightarrow> Client" where
  "NewClient creds =
     \<lparr>cl_endpoint = trimRightByte (CHR ''/'') (cd_Endpoint creds), cl_apiKey = cd_APIKey creds, cl_orgID = cd_OrgID creds\<rparr>"

definition Endpoint :: "Client \<Rightarrow> string" where
  "Endpoint c = cl_endpoint c"

definition apiBase :: "Client \<Rightarrow> string" where
  "apiBase c = cl_endpoint c @ ''/v1''"

text \<open>A request as the program builds it; a request without a body has no content type.\<close>

record httpRequest =
  hq_Method :: string
  hq_URL :: string
  hq_Authorization :: string
  hq_ContentType :: "string option"
  hq_Body :: "string option"

record httpResponse =
  hs_StatusCode :: int
  hs_Body :: string

text \<open>
  The environment of the client: whether a request can be built for a URL (the text of the
  error if not), sending it, parsing a URL for its path and counting a request, by method,
  endpoint and status; the text of a decoding error, which is only passed on; and the number
  of requests that one listing can make before the deadline of its context.
\<close>

record 'w transport =
  tp_BuildError :: "httpRequest \<Rightarrow> string option"
  tp_Do :: "httpRequest \<Rightarrow> ('w, string + httpResponse) state"
  tp_ParseURL :: "string \<Rightarrow> string option"
  tp_Observe :: "string \<Rightarrow> string \<Rightarrow> string \<Rightarrow> ('w, unit) state"
  tp_JsonError :: "string \<Rightarrow> string"
  tp_Rounds :: nat

section \<open>Reading an answer\<close>

text \<open>
  \<open>json.NewDecoder(body).Decode\<close> reads the first value.  An array or object ends at its
  bracket, and what follows is left unread; any other value must be followed by white
  space or by the end.
\<close>

definition decodeStream :: "string \<Rightarrow> json option" where
  "decodeStream body =
     (case pVal (2 * length body + 1) body of
        None \<Rightarrow> None
      | Some (j, r) \<Rightarrow>
          (case j of JObj _ \<Rightarrow> Some j | JArr _ \<Rightarrow> Some j
           | _ \<Rightarrow> if r = [] \<or> isJsonSpace (hd r) then Some j else None))"

definition decMessage :: "json \<Rightarrow> string option" where
  "decMessage j =
     decObj (\<lambda>k v m. if keyIs ''message'' k then decStr v m else Some m) j []"

record envelope =
  en_Data :: "json option"
  en_Success :: bool
  en_Error :: bool
  en_Message :: string
  en_Status :: int

definition decEnvelope :: "json \<Rightarrow> envelope option" where
  "decEnvelope j =
     decObj (\<lambda>k v e.
       if keyIs ''data'' k then Some (e\<lparr>en_Data := Some v\<rparr>)
       else if keyIs ''success'' k then map_option (\<lambda>b. e\<lparr>en_Success := b\<rparr>) (decBool v (en_Success e))
       else if keyIs ''error'' k then map_option (\<lambda>b. e\<lparr>en_Error := b\<rparr>) (decBool v (en_Error e))
       else if keyIs ''message'' k then map_option (\<lambda>s. e\<lparr>en_Message := s\<rparr>) (decStr v (en_Message e))
       else if keyIs ''status'' k then map_option (\<lambda>i. e\<lparr>en_Status := i\<rparr>) (decInt v (en_Status e))
       else Some e) j
       \<lparr>en_Data = None, en_Success = False, en_Error = False, en_Message = [], en_Status = 0\<rparr>"

definition badRequestMessage :: "string \<Rightarrow> string" where
  "badRequestMessage body =
     (case Option.bind (decodeStream body) decMessage of
        Some m \<Rightarrow> if m \<noteq> [] then ''bad request (HTTP 400): '' @ m else ''bad request (HTTP 400)''
      | None \<Rightarrow> ''bad request (HTTP 400)'')"

text \<open>
  The answer to a request: the result and the status it is counted with.  The decoder of the
  caller's struct reads the data into the zero value \<open>zero\<close>.
\<close>

definition readEnvelope ::
  "'w transport \<Rightarrow> httpResponse \<Rightarrow> (json \<Rightarrow> 'a option) \<Rightarrow> 'a \<Rightarrow> envelope \<Rightarrow> (gerr + 'a) \<times> string" where
  "readEnvelope t resp dec zero en =
     (if \<not> en_Success en then
        (Inl (ErrMsg (''pangolin API error (HTTP '' @ itoa (hs_StatusCode resp) @ '', status '' @ itoa (en_Status en)
           @ ''): '' @ en_Message en)), ''error'')
      else (case en_Data en of
              None \<Rightarrow> (Inr zero, ''success'')
            | Some j \<Rightarrow>
                (case dec j of
                   None \<Rightarrow> (Inl (Wrap ''decode response data: '' (ErrMsg (tp_JsonError t (jsonText j))) []), ''error'')
                 | Some out \<Rightarrow> (Inr out, ''success''))))"

definition readResponse ::
  "'w transport \<Rightarrow> httpRequest \<Rightarrow> httpResponse \<Rightarrow> (json \<Rightarrow> 'a option) \<Rightarrow> 'a \<Rightarrow> (gerr + 'a) \<times> string" where
  "readResponse t req resp dec zero =
     (if hs_StatusCode resp = 404 then (Inl (ErrNotFound ''not found (HTTP 404)''), ''not_found'')
      else if hs_StatusCode resp = 400 then (Inl (ErrBadRequest (badRequestMessage (hs_Body resp))), ''bad_request'')
      else if hs_StatusCode resp = 409 then (Inl (ErrConflict ''conflict (HTTP 409)''), ''conflict'')
      else (case Option.bind (decodeStream (hs_Body resp)) decEnvelope of
              None \<Rightarrow> (Inl (Wrap (''decode response from '' @ hq_Method req @ '' '' @ hq_URL req @ '' (HTTP ''
                         @ itoa (hs_StatusCode resp) @ ''): '') (ErrMsg (tp_JsonError t (hs_Body resp))) []), ''error'')
            | Some en \<Rightarrow> readEnvelope t resp dec zero en))"

section \<open>One request\<close>

definition newRequest :: "Client \<Rightarrow> string \<Rightarrow> string \<Rightarrow> json option \<Rightarrow> httpRequest" where
  "newRequest c method url body =
     \<lparr>hq_Method = method, hq_URL = url, hq_Authorization = ''Bearer '' @ cl_apiKey c,
      hq_ContentType = (case body of None \<Rightarrow> None | Some _ \<Rightarrow> Some ''application/json''),
      hq_Body = map_option jsonText body\<rparr>"

definition sendRequest ::
  "'w transport \<Rightarrow> httpRequest \<Rightarrow> (json \<Rightarrow> 'a option) \<Rightarrow> 'a \<Rightarrow> ('w, (gerr + 'a) \<times> string) state" where
  "sendRequest t req dec zero =
     (case tp_BuildError t req of
        Some e \<Rightarrow> ret (Inl (Wrap ''build request: '' (ErrMsg e) []), ''error'')
      | None \<Rightarrow> do {
          r \<leftarrow> tp_Do t req;
          ret (case r of
                 Inl e \<Rightarrow> (Inl (Wrap (hq_Method req @ '' request failed: '') (ErrMsg e) []), ''error'')
               | Inr resp \<Rightarrow> readResponse t req resp dec zero)
        })"

text \<open>The method \<open>do\<close>, with the deferred count at its end.\<close>

definition client_do ::
  "'w transport \<Rightarrow> Client \<Rightarrow> string \<Rightarrow> string \<Rightarrow> json option \<Rightarrow> (json \<Rightarrow> 'a option) \<Rightarrow> 'a \<Rightarrow> ('w, gerr + 'a) state" where
  "client_do t c method url body dec zero =
     do {
       (r, status) \<leftarrow> sendRequest t (newRequest c method url body) dec zero;
       _ \<leftarrow> tp_Observe t method (ClassifyEndpoint (tp_ParseURL t) url) status;
       ret r
     }"

text \<open>A method that returns a struct, and one that returns an error only.\<close>

definition callFor ::
  "'w transport \<Rightarrow> Client \<Rightarrow> string \<Rightarrow> string \<Rightarrow> string \<Rightarrow> json option \<Rightarrow> (json \<Rightarrow> 'a option) \<Rightarrow> 'a \<Rightarrow> ('w, gerr + 'a) state" where
  "callFor t c name method url body dec zero =
     do {
       r \<leftarrow> client_do t c method url body dec zero;
       ret (case r of Inl e \<Rightarrow> Inl (Wrap (name @ '': '') e []) | Inr out \<Rightarrow> Inr out)
     }"

definition callErr :: "'w transport \<Rightarrow> Client \<Rightarrow> string \<Rightarrow> string \<Rightarrow> string \<Rightarrow> json option \<Rightarrow> ('w, gerr option) state" where
  "callErr t c name method url body =
     do {
       r \<leftarrow> client_do t c method url body (\<lambda>_. Some ()) ();
       ret (case r of Inl e \<Rightarrow> Some (Wrap (name @ '': '') e []) | Inr _ \<Rightarrow> None)
     }"

section \<open>The methods\<close>

definition orgURL :: "Client \<Rightarrow> string \<Rightarrow> string" where
  "orgURL c path = apiBase c @ ''/org/'' @ cl_orgID c @ path"

definition idURL :: "Client \<Rightarrow> string \<Rightarrow> int \<Rightarrow> string" where
  "idURL c kind i = apiBase c @ ''/'' @ kind @ ''/'' @ itoa i"

definition listPageSize :: nat where
  "listPageSize = 100"

definition listURL :: "Client \<Rightarrow> string \<Rightarrow> string \<Rightarrow> int \<Rightarrow> string" where
  "listURL c path query page =
     orgURL c path @ ''?pageSize='' @ itoa (int listPageSize) @ ''&page='' @ itoa page @ ''&query='' @ QueryEscape query"

text \<open>
  The loop over the pages of a listing.  The requests of a listing share the context of the
  reconciliation, so after a number of them the deadline has passed and the next request
  fails; that number is the first argument, and \<open>late\<close> is the error.
\<close>

fun pages ::
  "nat \<Rightarrow> (int \<Rightarrow> ('w, gerr + 'i list) state) \<Rightarrow> gerr \<Rightarrow> int \<Rightarrow> 'i list \<Rightarrow> ('w, gerr + 'i list) state" where
  "pages 0 fetch late page all = ret (Inl late)"
| "pages (Suc n) fetch late page all =
     do {
       r \<leftarrow> fetch page;
       case r of
         Inl e \<Rightarrow> ret (Inl e)
       | Inr out \<Rightarrow>
           (let all = all @ out in
            if length out < listPageSize then ret (Inr all)
            else pages n fetch late (page + 1) all)
     }"

definition fetchPage ::
  "'w transport \<Rightarrow> Client \<Rightarrow> string \<Rightarrow> string \<Rightarrow> (json \<Rightarrow> 'i slice option) \<Rightarrow> string \<Rightarrow> int \<Rightarrow> ('w, gerr + 'i list) state" where
  "fetchPage t c name path dec query page =
     do {
       r \<leftarrow> callFor t c name ''GET'' (listURL c path query page) None dec None;
       ret (case r of Inl e \<Rightarrow> Inl e | Inr out \<Rightarrow> Inr (elems out))
     }"

definition lateError :: "string \<Rightarrow> gerr" where
  "lateError name = Wrap (name @ '': '') (Wrap ''GET request failed: '' (ErrMsg ''context deadline exceeded'') []) []"

definition listAll ::
  "'w transport \<Rightarrow> Client \<Rightarrow> string \<Rightarrow> string \<Rightarrow> (json \<Rightarrow> 'i slice option) \<Rightarrow> string \<Rightarrow> ('w, gerr + 'i list) state" where
  "listAll t c name path dec query = pages (tp_Rounds t) (fetchPage t c name path dec query) (lateError name) 1 []"

definition client_ListDomains :: "'w transport \<Rightarrow> Client \<Rightarrow> ('w, gerr + Domain list) state" where
  "client_ListDomains t c =
     do {
       r \<leftarrow> callFor t c ''ListDomains'' ''GET'' (orgURL c ''/domains'') None decListDomainsResponse None;
       ret (case r of Inl e \<Rightarrow> Inl e | Inr out \<Rightarrow> Inr (elems out))
     }"

definition client_PickSiteDefaults :: "'w transport \<Rightarrow> Client \<Rightarrow> ('w, gerr + PickSiteDefaultsResponse) state" where
  "client_PickSiteDefaults t c =
     callFor t c ''PickSiteDefaults'' ''GET'' (orgURL c ''/pick-site-defaults'') None
       decPickSiteDefaultsResponse zeroPickSiteDefaultsResponse"

definition client_CreateSite :: "'w transport \<Rightarrow> Client \<Rightarrow> CreateSiteRequest \<Rightarrow> ('w, gerr + CreateSiteResponse) state" where
  "client_CreateSite t c req =
     callFor t c ''CreateSite'' ''PUT'' (orgURL c ''/site'') (Some (jsonCreateSiteRequest req))
       decCreateSiteResponse zeroCreateSiteResponse"

definition client_GetSite :: "'w transport \<Rightarrow> Client \<Rightarrow> int \<Rightarrow> ('w, gerr + GetSiteResponse) state" where
  "client_GetSite t c siteID =
     callFor t c (''GetSite('' @ itoa siteID @ '')'') ''GET'' (idURL c ''site'' siteID) None
       decGetSiteResponse zeroGetSiteResponse"

definition client_ListSites :: "'w transport \<Rightarrow> Client \<Rightarrow> string \<Rightarrow> ('w, gerr + SiteItem list) state" where
  "client_ListSites t c query =
     listAll t c ''ListSites'' ''/sites'' declistSitesResponse query"

definition client_UpdateSite :: "'w transport \<Rightarrow> Client \<Rightarrow> int \<Rightarrow> UpdateSiteRequest \<Rightarrow> ('w, gerr option) state" where
  "client_UpdateSite t c siteID req =
     callErr t c (''UpdateSite('' @ itoa siteID @ '')'') ''POST'' (idURL c ''site'' siteID)
       (Some (jsonUpdateSiteRequest req))"

definition client_DeleteSite :: "'w transport \<Rightarrow> Client \<Rightarrow> int \<Rightarrow> ('w, gerr option) state" where
  "client_DeleteSite t c siteID =
     callErr t c (''DeleteSite('' @ itoa siteID @ '')'') ''DELETE'' (idURL c ''site'' siteID) None"

definition client_CreateResource :: "'w transport \<Rightarrow> Client \<Rightarrow> CreateResourceRequest \<Rightarrow> ('w, gerr + CreateResourceResponse) state" where
  "client_CreateResource t c req =
     callFor t c ''CreateResource'' ''PUT'' (orgURL c ''/resource'') (Some (jsonCreateResourceRequest req))
       decCreateResourceResponse zeroCreateResourceResponse"

definition client_ListResources :: "'w transport \<Rightarrow> Client \<Rightarrow> string \<Rightarrow> ('w, gerr + ResourceItem list) state" where
  "client_ListResources t c query =
     listAll t c ''ListResources'' ''/resources'' declistResourcesResponse query"

definition client_UpdateResource :: "'w transport \<Rightarrow> Client \<Rightarrow> int \<Rightarrow> UpdateResourceRequest \<Rightarrow> ('w, gerr option) state" where
  "client_UpdateResource t c resourceID req =
     callErr t c (''UpdateResource('' @ itoa resourceID @ '')'') ''POST'' (idURL c ''resource'' resourceID)
       (Some (jsonUpdateResourceRequest req))"

definition client_DeleteResource :: "'w transport \<Rightarrow> Client \<Rightarrow> int \<Rightarrow> ('w, gerr option) state" where
  "client_DeleteResource t c resourceID =
     callErr t c (''DeleteResource('' @ itoa resourceID @ '')'') ''DELETE'' (idURL c ''resource'' resourceID) None"

definition client_CreateTarget :: "'w transport \<Rightarrow> Client \<Rightarrow> int \<Rightarrow> CreateTargetRequest \<Rightarrow> ('w, gerr + int) state" where
  "client_CreateTarget t c resourceID req =
     callFor t c (''CreateTarget(resource='' @ itoa resourceID @ '')'') ''PUT''
       (idURL c ''resource'' resourceID @ ''/target'') (Some (jsonCreateTargetRequest req)) decCreateTargetResponse 0"

definition client_DeleteTarget :: "'w transport \<Rightarrow> Client \<Rightarrow> int \<Rightarrow> ('w, gerr option) state" where
  "client_DeleteTarget t c targetID =
     callErr t c (''DeleteTarget('' @ itoa targetID @ '')'') ''DELETE'' (idURL c ''target'' targetID) None"

definition client_CreateRule :: "'w transport \<Rightarrow> Client \<Rightarrow> int \<Rightarrow> CreateRuleRequest \<Rightarrow> ('w, gerr + int) state" where
  "client_CreateRule t c resourceID req =
     callFor t c (''CreateRule(resource='' @ itoa resourceID @ '')'') ''PUT''
       (idURL c ''resource'' resourceID @ ''/rule'') (Some (jsonCreateRuleRequest req)) decCreateRuleResponse 0"

definition client_DeleteRule :: "'w transport \<Rightarrow> Client \<Rightarrow> int \<Rightarrow> int \<Rightarrow> ('w, gerr option) state" where
  "client_DeleteRule t c resourceID ruleID =
     callErr t c (''DeleteRule('' @ itoa ruleID @ '')'') ''DELETE''
       (idURL c ''resource'' resourceID @ ''/rule/'' @ itoa ruleID) None"

definition client_CreateSiteResource :: "'w transport \<Rightarrow> Client \<Rightarrow> CreateSiteResourceRequest \<Rightarrow> ('w, gerr + CreateSiteResourceResponse) state" where
  "client_CreateSiteResource t c req =
     callFor t c (''CreateSiteResource(site='' @ itoa (cvq_SiteID req) @ '')'') ''PUT'' (orgURL c ''/site-resource'')
       (Some (jsonCreateSiteResourceRequest req)) decCreateSiteResourceResponse zeroCreateSiteResourceResponse"

definition client_ListSiteResources :: "'w transport \<Rightarrow> Client \<Rightarrow> string \<Rightarrow> ('w, gerr + SiteResourceItem list) state" where
  "client_ListSiteResources t c query =
     listAll t c ''ListSiteResources'' ''/site-resources'' declistSiteResourcesResponse query"

definition client_UpdateSiteResource :: "'w transport \<Rightarrow> Client \<Rightarrow> int \<Rightarrow> UpdateSiteResourceRequest \<Rightarrow> ('w, gerr option) state" where
  "client_UpdateSiteResource t c siteResourceID req =
     callErr t c (''UpdateSiteResource('' @ itoa siteResourceID @ '')'') ''POST''
       (idURL c ''site-resource'' siteResourceID) (Some (jsonUpdateSiteResourceRequest req))"

definition client_DeleteSiteResource :: "'w transport \<Rightarrow> Client \<Rightarrow> int \<Rightarrow> ('w, gerr option) state" where
  "client_DeleteSiteResource t c siteResourceID =
     callErr t c (''DeleteSiteResource('' @ itoa siteResourceID @ '')'') ''DELETE''
       (idURL c ''site-resource'' siteResourceID) None"

text \<open>The client as a provider of the interface.\<close>

definition clientAPI :: "'w transport \<Rightarrow> Client \<Rightarrow> 'w API" where
  "clientAPI t c =
     \<lparr>PickSiteDefaults = client_PickSiteDefaults t c,
      CreateSite = client_CreateSite t c,
      GetSite = client_GetSite t c,
      ListSites = client_ListSites t c,
      UpdateSite = client_UpdateSite t c,
      DeleteSite = client_DeleteSite t c,
      ListDomains = client_ListDomains t c,
      CreateResource = client_CreateResource t c,
      ListResources = client_ListResources t c,
      UpdateResource = client_UpdateResource t c,
      DeleteResource = client_DeleteResource t c,
      CreateTarget = client_CreateTarget t c,
      DeleteTarget = client_DeleteTarget t c,
      CreateRule = client_CreateRule t c,
      DeleteRule = client_DeleteRule t c,
      CreateSiteResource = client_CreateSiteResource t c,
      ListSiteResources = client_ListSiteResources t c,
      UpdateSiteResource = client_UpdateSiteResource t c,
      DeleteSiteResource = client_DeleteSiteResource t c\<rparr>"

end
