(* ===== verification/ClientLaws.thy ===== *)
theory ClientLaws
  imports Client SpecJson Interfaces PublicResource PrivateResource NewtSiteController
begin

text \<open>
  What the HTTP client guarantees the controllers: what its errors mean, that its listings are
  complete, what its requests send, and that a finalizer is kept until the server has
  confirmed the deletion over the wire.
\<close>

section \<open>What an error says\<close>

text \<open>The answer of the transport to a request sent in a world, an error when it cannot be built.\<close>

definition httpAnswer :: "'w transport \<Rightarrow> httpRequest \<Rightarrow> 'w \<Rightarrow> string + httpResponse" where
  "httpAnswer t req w =
     (case tp_BuildError t req of Some e \<Rightarrow> Inl e | None \<Rightarrow> fst (run_state (tp_Do t req) w))"

definition answered :: "int \<Rightarrow> string + httpResponse \<Rightarrow> bool" where
  "answered code a = (case a of Inl _ \<Rightarrow> False | Inr resp \<Rightarrow> hs_StatusCode resp = code)"

definition kindsAgree :: "string + httpResponse \<Rightarrow> gerr \<Rightarrow> bool" where
  "kindsAgree a e \<longleftrightarrow> IsNotFound e = answered 404 a \<and> IsBadRequest e = answered 400 a \<and> IsConflict e = answered 409 a"

text \<open>The answer carries an envelope that reports success.\<close>

definition successful :: "string + httpResponse \<Rightarrow> bool" where
  "successful a =
     (case a of Inl _ \<Rightarrow> False
      | Inr resp \<Rightarrow> hs_StatusCode resp \<notin> {400, 404, 409}
          \<and> (case Option.bind (decodeStream (hs_Body resp)) decEnvelope of None \<Rightarrow> False | Some en \<Rightarrow> en_Success en))"

definition resultAgrees :: "string + httpResponse \<Rightarrow> (gerr + 'a) \<times> string \<Rightarrow> bool" where
  "resultAgrees a rs =
     (case fst rs of
        Inl e \<Rightarrow> kindsAgree a e \<and> snd rs =
          (if answered 404 a then ''not_found'' else if answered 400 a then ''bad_request''
           else if answered 409 a then ''conflict'' else ''error'')
      | Inr _ \<Rightarrow> successful a \<and> snd rs = ''success'')"

lemma readEnvelope_agrees:
  "hs_StatusCode resp \<notin> {400, 404, 409} \<Longrightarrow> Option.bind (decodeStream (hs_Body resp)) decEnvelope = Some en
    \<Longrightarrow> resultAgrees (Inr resp) (readEnvelope t resp dec zero en)"
  by (auto simp: resultAgrees_def readEnvelope_def kindsAgree_def answered_def successful_def split: option.splits)

lemma readResponse_agrees: "resultAgrees (Inr resp) (readResponse t req resp dec zero)"
proof (cases "hs_StatusCode resp \<in> {400, 404, 409}")
  case True
  then show ?thesis
    by (auto simp: readResponse_def resultAgrees_def kindsAgree_def answered_def)
next
  case False
  then show ?thesis
  proof (cases "Option.bind (decodeStream (hs_Body resp)) decEnvelope")
    case None
    with False show ?thesis by (simp add: readResponse_def resultAgrees_def kindsAgree_def answered_def)
  next
    case (Some en)
    with False readEnvelope_agrees [OF False Some] show ?thesis by (simp add: readResponse_def)
  qed
qed

lemma sendRequest_agrees:
  "resultAgrees (httpAnswer t req w) (fst (run_state (sendRequest t req dec zero) w))"
proof (cases "tp_BuildError t req")
  case None
  obtain r w' where run: "run_state (tp_Do t req) w = (r, w')" by fastforce
  with None show ?thesis
    by (cases r) (simp_all add: sendRequest_def httpAnswer_def readResponse_agrees,
      simp add: resultAgrees_def kindsAgree_def answered_def)
qed (simp add: sendRequest_def httpAnswer_def resultAgrees_def kindsAgree_def answered_def)

lemma client_do_run:
  "run_state (client_do t c verb url body dec zero) w
     = (case run_state (sendRequest t (newRequest c verb url body) dec zero) w of
          ((r, status), w1) \<Rightarrow>
            (r, snd (run_state (tp_Observe t verb (ClassifyEndpoint (tp_ParseURL t) url) status) w1)))"
  by (simp add: client_do_def split: prod.splits)

text \<open>
  C15.  An error of any method means what the controllers take it to mean: it is a not-found, bad
  request or conflict error exactly when the server answered this request with status 404,
  400 or 409, and a method succeeds only on another status with an envelope that reports
  success.  The one observation the request makes counts it under the same outcome.
\<close>

theorem client_do_classifies:
  "case run_state (sendRequest t (newRequest c verb url body) dec zero) w of
     ((r, status), w1) \<Rightarrow>
       resultAgrees (httpAnswer t (newRequest c verb url body) w) (r, status)
       \<and> run_state (client_do t c verb url body dec zero) w
           = (r, snd (run_state (tp_Observe t verb (ClassifyEndpoint (tp_ParseURL t) url) status) w1))"
  using sendRequest_agrees [of t "newRequest c verb url body" w dec zero]
  by (auto simp: client_do_run split: prod.splits)

lemma callErr_agrees:
  "case fst (run_state (callErr t c name verb url body) w) of
     None \<Rightarrow> successful (httpAnswer t (newRequest c verb url body) w)
   | Some e \<Rightarrow> kindsAgree (httpAnswer t (newRequest c verb url body) w) e"
  using sendRequest_agrees [of t "newRequest c verb url body" w "\<lambda>_. Some ()" "()"]
  by (auto simp: callErr_def client_do_run resultAgrees_def kindsAgree_def split: sum.splits prod.splits)

section \<open>Pages\<close>

definition pageOf :: "'i list \<Rightarrow> int \<Rightarrow> 'i list" where
  "pageOf xs page = take listPageSize (drop (listPageSize * nat (page - 1)) xs)"

lemma pages_complete:
  assumes "\<And>p w. 1 \<le> p \<Longrightarrow> fst (run_state (fetch p) w) = Inr (pageOf xs p)"
  shows "1 \<le> page \<Longrightarrow> fst (run_state (pages n fetch late page all) w)
    = (if length (drop (listPageSize * nat (page - 1)) xs) div listPageSize < n
       then Inr (all @ drop (listPageSize * nat (page - 1)) xs) else Inl late)"
proof (induction n arbitrary: page all w)
  case (Suc n)
  define r where "r = drop (listPageSize * nat (page - 1)) xs"
  obtain w' where run: "run_state (fetch page) w = (Inr (take listPageSize r), w')"
    using assms [OF Suc.prems, of w] by (metis pageOf_def prod.collapse r_def)
  show ?case
  proof (cases "length r < listPageSize")
    case True
    then show ?thesis by (simp add: run flip: r_def)
  next
    case False
    have "nat (page + 1 - 1) = Suc (nat (page - 1))" using Suc.prems by simp
    then have step: "drop (listPageSize * nat (page + 1 - 1)) xs = drop listPageSize r"
      by (simp add: r_def add.commute)
    have len: "length (drop listPageSize r) div listPageSize < n \<longleftrightarrow> length r div listPageSize < Suc n"
      using False le_div_geq [of listPageSize "length r"] by (simp add: listPageSize_def)
    have ge: "1 \<le> page + 1" using Suc.prems by simp
    have "fst (run_state (pages (Suc n) fetch late page all) w)
        = fst (run_state (pages n fetch late (page + 1) (all @ take listPageSize r)) w')"
      using False by (simp add: run)
    also have "\<dots> = (if length r div listPageSize < Suc n then Inr (all @ r) else Inl late)"
      unfolding Suc.IH [OF ge] step len by simp
    finally show ?thesis unfolding r_def .
  qed
qed simp

text \<open>The server answers the request for each page of a listing with that part of the list.\<close>

definition serves ::
  "'w transport \<Rightarrow> Client \<Rightarrow> string \<Rightarrow> (json \<Rightarrow> 'i slice option) \<Rightarrow> string \<Rightarrow> 'i list \<Rightarrow> bool" where
  "serves t c path dec query xs \<longleftrightarrow>
     (\<forall>page w. 1 \<le> page \<longrightarrow>
        fst (fst (run_state (sendRequest t (newRequest c ''GET'' (listURL c path query page) None) dec None) w))
          = Inr (Some (pageOf xs page)))"

text \<open>
  C16.  A listing is complete.  Whatever the number of objects, when the server answers each page
  request with the part of its list that was asked for, the loop returns the whole list in
  order if the deadline leaves room for one request more than there are full pages, and
  otherwise it returns the error of the deadline and never a part of the list.
\<close>

theorem listAll_complete:
  assumes "serves t c path dec query xs"
  shows "fst (run_state (listAll t c name path dec query) w)
    = (if length xs div listPageSize < tp_Rounds t then Inr xs else Inl (lateError name))"
proof -
  have "fst (run_state (fetchPage t c name path dec query p) w') = Inr (pageOf xs p)" if "1 \<le> p" for p w'
  proof -
    obtain r status w1 where run: "run_state (sendRequest t (newRequest c ''GET'' (listURL c path query p) None) dec None) w'
        = ((r, status), w1)"
      by (metis prod.exhaust)
    moreover from run assms that have "r = Inr (Some (pageOf xs p))"
      unfolding serves_def by (metis fst_conv)
    ultimately show ?thesis by (simp add: fetchPage_def callFor_def client_do_run)
  qed
  from pages_complete [of "fetchPage t c name path dec query", OF this, of 1 "tp_Rounds t" "lateError name" "[]" w]
  show ?thesis by (simp add: listAll_def)
qed

definition homeClient :: Client where
  "homeClient = NewClient \<lparr>cd_Endpoint = ''http://p/'', cd_APIKey = ''key'', cd_OrgID = ''o''\<rparr>"

definition staticTransport :: "nat \<Rightarrow> (string \<Rightarrow> string) \<Rightarrow> unit transport" where
  "staticTransport rounds bodyOf =
     \<lparr>tp_BuildError = (\<lambda>_. None), tp_Do = (\<lambda>req. ret (Inr \<lparr>hs_StatusCode = 200, hs_Body = bodyOf (hq_URL req)\<rparr>)),
      tp_ParseURL = (\<lambda>_. None), tp_Observe = (\<lambda>_ _ _. ret ()), tp_JsonError = (\<lambda>_. []), tp_Rounds = rounds\<rparr>"

lemma sendRequest_static:
  "run_state (sendRequest (staticTransport rounds bodyOf) req dec zero) w
     = (readResponse (staticTransport rounds bodyOf) req \<lparr>hs_StatusCode = 200, hs_Body = bodyOf (hq_URL req)\<rparr> dec zero, w)"
  by (simp add: sendRequest_def staticTransport_def)

definition sitesBody :: "string \<Rightarrow> string" where
  "sitesBody url =
     (if url = listURL homeClient ''/sites'' ''home'' 1
      then ''{\"data\":{\"sites\":[{\"siteId\":7,\"name\":\"home\"}]},\"success\":true}''
      else ''{\"data\":{\"sites\":[]},\"success\":true}'')"

lemma sites_envelopes:
  "Option.bind (decodeStream ''{\"data\":{\"sites\":[{\"siteId\":7,\"name\":\"home\"}]},\"success\":true}'') decEnvelope
     = Some \<lparr>en_Data = Some (JObj [(''sites'', JArr [JObj [(''siteId'', JNum ''7''), (''name'', JStr ''home'')]])]),
         en_Success = True, en_Error = False, en_Message = [], en_Status = 0\<rparr>"
  "Option.bind (decodeStream ''{\"data\":{\"sites\":[]},\"success\":true}'') decEnvelope
     = Some \<lparr>en_Data = Some (JObj [(''sites'', JArr [])]), en_Success = True, en_Error = False, en_Message = [], en_Status = 0\<rparr>"
  by code_simp+

lemma sites_items:
  "declistSitesResponse (JObj [(''sites'', JArr [JObj [(''siteId'', JNum ''7''), (''name'', JStr ''home'')]])])
     = Some (Some [\<lparr>si_SiteID = 7, si_NiceID = [], si_Name = ''home'', si_Type = []\<rparr>])"
  "declistSitesResponse (JObj [(''sites'', JArr [])]) = Some (Some [])"
  by code_simp+

lemma sites_decoded:
  "fst (readResponse t req \<lparr>hs_StatusCode = 200, hs_Body = ''{\"data\":{\"sites\":[{\"siteId\":7,\"name\":\"home\"}]},\"success\":true}''\<rparr> declistSitesResponse None)
     = Inr (Some [\<lparr>si_SiteID = 7, si_NiceID = [], si_Name = ''home'', si_Type = []\<rparr>])"
  "fst (readResponse t req \<lparr>hs_StatusCode = 200, hs_Body = ''{\"data\":{\"sites\":[]},\"success\":true}''\<rparr> declistSitesResponse None)
     = Inr (Some [])"
  unfolding readResponse_def httpResponse.simps sites_envelopes
  by (simp_all add: readEnvelope_def sites_items)

lemma listURL_inj: "listURL c path query p = listURL c path query q \<Longrightarrow> p = q"
  by (auto simp: listURL_def dest: itoa_inj)

theorem listAll_complete_witness:
  "fst (run_state (client_ListSites (staticTransport 1 sitesBody) homeClient ''home'') ())
     = Inr [\<lparr>si_SiteID = 7, si_NiceID = [], si_Name = ''home'', si_Type = []\<rparr>]"
proof -
  have "serves (staticTransport 1 sitesBody) homeClient ''/sites'' declistSitesResponse ''home''
      [\<lparr>si_SiteID = 7, si_NiceID = [], si_Name = ''home'', si_Type = []\<rparr>]"
    unfolding serves_def sendRequest_static
  proof (intro allI impI)
    fix page :: int and w :: unit
    assume "1 \<le> page"
    then show "fst (fst (readResponse (staticTransport 1 sitesBody)
        (newRequest homeClient ''GET'' (listURL homeClient ''/sites'' ''home'' page) None)
        \<lparr>hs_StatusCode = 200, hs_Body = sitesBody (hq_URL (newRequest homeClient ''GET'' (listURL homeClient ''/sites'' ''home'' page) None))\<rparr>
        declistSitesResponse None, w)) = Inr (Some (pageOf [\<lparr>si_SiteID = 7, si_NiceID = [], si_Name = ''home'', si_Type = []\<rparr>] page))"
      by (cases "page = 1") (auto simp: sitesBody_def newRequest_def sites_decoded pageOf_def listPageSize_def
          dest!: listURL_inj)
  qed
  from listAll_complete [OF this, of "''ListSites''" "()"] show ?thesis
    by (simp add: client_ListSites_def staticTransport_def listPageSize_def)
qed

section \<open>What the answers leave out\<close>

lemma empty_success:
  "Option.bind (decodeStream ''{\"success\":true}'') decEnvelope
     = Some \<lparr>en_Data = None, en_Success = True, en_Error = False, en_Message = [], en_Status = 0\<rparr>"
  by code_simp

text \<open>
  A success without data is taken at its word: when the server answers a creation with an
  envelope that has no data, the client reports a resource created with the identifier 0,
  which the controllers read as a resource that was never created; and it does so for every
  status but 400, 404 and 409, a server error included.
\<close>

theorem CreateResource_without_data:
  assumes "tp_BuildError t (newRequest c ''PUT'' (orgURL c ''/resource'') (Some (jsonCreateResourceRequest req))) = None"
    and "fst (run_state (tp_Do t (newRequest c ''PUT'' (orgURL c ''/resource'') (Some (jsonCreateResourceRequest req)))) w)
      = Inr \<lparr>hs_StatusCode = code, hs_Body = ''{\"success\":true}''\<rparr>"
    and "code \<notin> {400, 404, 409}"
  shows "fst (run_state (client_CreateResource t c req) w)
    = Inr \<lparr>crr_ResourceID = 0, crr_NiceID = [], crr_FullDomain = []\<rparr>"
proof -
  let ?q = "newRequest c ''PUT'' (orgURL c ''/resource'') (Some (jsonCreateResourceRequest req))"
  obtain w1 where run: "run_state (tp_Do t ?q) w = (Inr \<lparr>hs_StatusCode = code, hs_Body = ''{\"success\":true}''\<rparr>, w1)"
    using assms(2) by (metis prod.collapse)
  have "fst (readResponse t ?q \<lparr>hs_StatusCode = code, hs_Body = ''{\"success\":true}''\<rparr> decCreateResourceResponse zeroCreateResourceResponse)
     = Inr zeroCreateResourceResponse"
    using assms(3) unfolding readResponse_def httpResponse.simps empty_success by (simp add: readEnvelope_def)
  then show ?thesis
    using assms(1) run
    by (auto simp: client_CreateResource_def callFor_def client_do_run sendRequest_def zeroCreateResourceResponse_def
        split: prod.splits)
qed

definition noDataRequest :: CreateResourceRequest where
  "noDataRequest = \<lparr>crq_Name = ''web'', crq_Http = True, crq_Protocol = ''tcp'', crq_ProxyPort = 0,
     crq_DomainId = ''d'', crq_Subdomain = []\<rparr>"

theorem CreateResource_without_data_witness:
  "fst (run_state (client_CreateResource (staticTransport 1 (\<lambda>_. ''{\"success\":true}'')) homeClient noDataRequest) ())
     = Inr \<lparr>crr_ResourceID = 0, crr_NiceID = [], crr_FullDomain = []\<rparr>"
  by (rule CreateResource_without_data [where code = 200]) (simp_all add: staticTransport_def)

lemma some_itoa [simp]: "\<exists>i. itoa x = itoa i"
  by blast

lemma intJson_requests [simp]:
  "intJson (jsonCreateSiteRequest q1)" "intJson (jsonUpdateSiteRequest q2)" "intJson (jsonCreateResourceRequest q3)"
  "intJson (jsonUpdateResourceRequest q4)" "intJson (jsonCreateRuleRequest q5)" "intJson (jsonCreateTargetRequest q6)"
  "intJson (jsonCreateSiteResourceRequest q7)" "intJson (jsonUpdateSiteResourceRequest q8)"
  by (auto simp: jsonCreateSiteRequest_def jsonUpdateSiteRequest_def jsonCreateResourceRequest_def
      jsonUpdateResourceRequest_def jsonCreateRuleRequest_def jsonCreateTargetRequest_def jsonCreateSiteResourceRequest_def
      jsonUpdateSiteResourceRequest_def intJson_omit intJson_slice list.pred_True split: option.splits)

text \<open>
  An update of a private resource cannot turn a setting off.  The body of the request reads
  back as an object in which the member of a flag or of a text is there exactly when it is
  set, so an update that clears it says nothing about it; the three lists of identifiers are
  always there.
\<close>

theorem UpdateSiteResource_sends:
  "\<exists>j. Option.bind (hq_Body (newRequest c ''POST'' url (Some (jsonUpdateSiteResourceRequest q)))) parseJson = Some j
     \<and> fieldOf j ''disableIcmp'' = (if uvq_DisableIcmp q then Some (JBool True) else None)
     \<and> fieldOf j ''alias'' = (if uvq_Alias q = [] then None else Some (JStr (uvq_Alias q)))
     \<and> fieldOf j ''tcpPortRangeString'' = (if uvq_TcpPortRangeString q = [] then None else Some (JStr (uvq_TcpPortRangeString q)))
     \<and> fieldOf j ''udpPortRangeString'' = (if uvq_UdpPortRangeString q = [] then None else Some (JStr (uvq_UdpPortRangeString q)))
     \<and> fieldOf j ''ssl'' = map_option JBool (uvq_Ssl q)
     \<and> fieldOf j ''roleIds'' = Some (jsonSlice JInt (uvq_RoleIds q))
     \<and> fieldOf j ''userIds'' = Some (jsonSlice JStr (uvq_UserIds q))
     \<and> fieldOf j ''clientIds'' = Some (jsonSlice JInt (uvq_ClientIds q))"
proof (intro exI [of _ "jsonUpdateSiteResourceRequest q"] conjI)
  show "Option.bind (hq_Body (newRequest c ''POST'' url (Some (jsonUpdateSiteResourceRequest q)))) parseJson
      = Some (jsonUpdateSiteResourceRequest q)"
    by (simp add: newRequest_def parseJson_jsonText intJson_requests)
qed (simp_all add: jsonUpdateSiteResourceRequest_def field_simps optStr_def optBool_def)

section \<open>Deletion, from the finalizer to the wire\<close>

text \<open>
  What a controller relies on when it deletes: an operation that returns no error, or a
  not-found error, only when the deletion is confirmed.
\<close>

locale deletion =
  fixes del :: "int \<Rightarrow> ('w, gerr option) state"
    and confirmed :: "int \<Rightarrow> 'w \<Rightarrow> bool"
  assumes del_confirmed:
    "case fst (run_state (del i) w) of None \<Rightarrow> confirmed i w | Some e \<Rightarrow> IsNotFound e \<longrightarrow> confirmed i w"
begin

lemma refused:
  assumes "\<not> confirmed i w"
  obtains e w' where "run_state (del i) w = (Some e, w')" and "\<not> IsNotFound e"
  using del_confirmed [of i w] assms
  by (cases "run_state (del i) w"; cases "fst (run_state (del i) w)") auto

lemma keeps_finalizer:
  assumes "\<not> confirmed i w" and "i \<noteq> 0"
  shows "\<exists>e. run_state (do {
      d \<leftarrow> (if i \<noteq> 0 then del i else ret None);
      case d of
        Some e \<Rightarrow> if \<not> IsNotFound e then ret (Some (Wrap p e [])) else release
      | None \<Rightarrow> release'
    }) w = (Some e, snd (run_state (del i) w))"
  using assms by (auto elim!: refused)

end

text \<open>The server confirms over HTTP: a success, or 404, for the request to delete.\<close>

definition goneOverHTTP :: "'w transport \<Rightarrow> Client \<Rightarrow> string \<Rightarrow> int \<Rightarrow> 'w \<Rightarrow> bool" where
  "goneOverHTTP t c kind i w =
     (let a = httpAnswer t (newRequest c ''DELETE'' (idURL c kind i) None) w in successful a \<or> answered 404 a)"

lemma callErr_gone:
  "case fst (run_state (callErr t c name ''DELETE'' (idURL c kind i) None) w) of
     None \<Rightarrow> goneOverHTTP t c kind i w | Some e \<Rightarrow> IsNotFound e \<longrightarrow> goneOverHTTP t c kind i w"
  using callErr_agrees [where t = t and c = c and name = name and verb = "''DELETE''"
      and url = "idURL c kind i" and body = None and w = w]
  by (auto simp: goneOverHTTP_def kindsAgree_def Let_def split: option.splits)

interpretation resource_deletion: deletion "client_DeleteResource t c" "goneOverHTTP t c ''resource''" for t c
  by unfold_locales (simp only: client_DeleteResource_def callErr_gone)

interpretation site_resource_deletion: deletion "client_DeleteSiteResource t c" "goneOverHTTP t c ''site-resource''" for t c
  by unfold_locales (simp only: client_DeleteSiteResource_def callErr_gone)

interpretation site_deletion: deletion "client_DeleteSite t c" "goneOverHTTP t c ''site''" for t c
  by unfold_locales (simp only: client_DeleteSite_def callErr_gone)

lemma clientAPI_simps [simp]:
  "DeleteResource (clientAPI t c) = client_DeleteResource t c"
  "DeleteSiteResource (clientAPI t c) = client_DeleteSiteResource t c"
  "DeleteSite (clientAPI t c) = client_DeleteSite t c"
  by (simp_all add: clientAPI_def)

text \<open>
  C10.  A finalizer is never removed on a guess.  When a controller that runs on the HTTP client
  deletes an object that has an identifier, and the server answers the request neither with
  a success nor with 404 (it is unreachable, refuses, fails, or answers what cannot be
  decoded), the deletion returns an error and the request is all that happens: Kubernetes is
  not asked to release the object.  This holds for all three kinds.
\<close>

theorem cleanups_over_http:
  "(pst_ResourceID (pub_Status pub) \<noteq> 0 \<and> \<not> goneOverHTTP t c ''resource'' (pst_ResourceID (pub_Status pub)) w \<longrightarrow>
      (\<exists>e. run_state (PublicResource.cleanup k (clientAPI t c) pub) w
        = (Some e, snd (run_state (client_DeleteResource t c (pst_ResourceID (pub_Status pub))) w))))
   \<and> (vst_SiteResourceID (priv_Status priv) \<noteq> 0
      \<and> \<not> goneOverHTTP t c ''site-resource'' (vst_SiteResourceID (priv_Status priv)) w \<longrightarrow>
      (\<exists>e. run_state (PrivateResource.cleanup k (clientAPI t c) priv) w
        = (Some e, snd (run_state (client_DeleteSiteResource t c (vst_SiteResourceID (priv_Status priv))) w))))
   \<and> (nst_SiteID (site_Status site) \<noteq> 0 \<and> \<not> goneOverHTTP t c ''site'' (nst_SiteID (site_Status site)) w \<longrightarrow>
      (\<exists>e. run_state (NewtSiteController.cleanup k (clientAPI t c) site) w
        = (Some e, snd (run_state (client_DeleteSite t c (nst_SiteID (site_Status site))) w))))"
  unfolding PublicResource.cleanup_def PrivateResource.cleanup_def NewtSiteController.cleanup_def Let_def clientAPI_simps
  by (intro conjI impI; elim conjE;
      rule resource_deletion.keeps_finalizer site_resource_deletion.keeps_finalizer site_deletion.keeps_finalizer;
      assumption)

definition downTransport :: "unit transport" where
  "downTransport = (staticTransport 1 (\<lambda>_. []))\<lparr>tp_Do := (\<lambda>_. ret (Inl ''connection refused''))\<rparr>"

theorem cleanups_over_http_witness:
  "\<forall>k pub. \<exists>e. fst (run_state (PublicResource.cleanup k (clientAPI downTransport homeClient)
      (pub\<lparr>pub_Status := (pub_Status pub)\<lparr>pst_ResourceID := 7\<rparr>\<rparr>)) ()) = Some e"
proof (intro allI)
  fix k :: "unit kube" and pub :: PublicResource
  let ?pub = "pub\<lparr>pub_Status := (pub_Status pub)\<lparr>pst_ResourceID := 7\<rparr>\<rparr>"
  have "\<not> goneOverHTTP downTransport homeClient ''resource'' 7 ()"
    by (simp add: goneOverHTTP_def httpAnswer_def downTransport_def staticTransport_def successful_def answered_def)
  then show "\<exists>e. fst (run_state (PublicResource.cleanup k (clientAPI downTransport homeClient) ?pub) ()) = Some e"
    using cleanups_over_http [of ?pub downTransport homeClient "()" k, THEN conjunct1] by auto
qed

section \<open>Every request is well formed\<close>

text \<open>The requests of a run, in order: the transport that writes each down before it sends it.\<close>

definition record_transport :: "'w transport \<Rightarrow> ('w \<times> httpRequest list) transport" where
  "record_transport t =
     \<lparr>tp_BuildError = tp_BuildError t,
      tp_Do = (\<lambda>req. State (\<lambda>(w, rs). case run_state (tp_Do t req) w of (r, w') \<Rightarrow> (r, (w', rs @ [req])))),
      tp_ParseURL = tp_ParseURL t,
      tp_Observe = (\<lambda>m e s. State (\<lambda>(w, rs). case run_state (tp_Observe t m e s) w of (r, w') \<Rightarrow> (r, (w', rs)))),
      tp_JsonError = tp_JsonError t,
      tp_Rounds = tp_Rounds t\<rparr>"

definition sends :: "(httpRequest \<Rightarrow> bool) \<Rightarrow> ('w \<times> httpRequest list, 'a) state \<Rightarrow> bool" where
  "sends P m \<longleftrightarrow> (\<forall>w rs. wp m (\<lambda>_ s. \<exists>new. snd s = rs @ new \<and> list_all P new) (w, rs))"

lemma sends_ret [simp]: "sends P (ret r)"
  by (simp add: sends_def)

lemma sends_bind:
  fixes m :: "('w \<times> httpRequest list, 'a) state"
  assumes "sends P m" and "\<And>r. sends P (f r)"
  shows "sends P (m \<bind> f)"
  unfolding sends_def wp_bind
proof (intro allI)
  fix w :: 'w and rs
  from assms(1) have "wp m (\<lambda>_ s. \<exists>new. snd s = rs @ new \<and> list_all P new) (w, rs)"
    by (simp add: sends_def)
  then show "wp m (\<lambda>r. wp (f r) (\<lambda>_ s. \<exists>new. snd s = rs @ new \<and> list_all P new)) (w, rs)"
  proof (rule wp_conseq)
    fix r and s :: "'w \<times> httpRequest list"
    assume "\<exists>new. snd s = rs @ new \<and> list_all P new"
    then obtain new w' where new: "s = (w', rs @ new)" "list_all P new" by (cases s) auto
    from assms(2) [of r] have "wp (f r) (\<lambda>_ s'. \<exists>new'. snd s' = (rs @ new) @ new' \<and> list_all P new') (w', rs @ new)"
      unfolding sends_def by blast
    then show "wp (f r) (\<lambda>_ s. \<exists>new. snd s = rs @ new \<and> list_all P new) s"
      unfolding new(1) by (rule wp_conseq) (use new(2) in auto)
  qed
qed

lemma sends_do: "P req \<Longrightarrow> sends P (tp_Do (record_transport t) req)"
  by (auto simp: sends_def record_transport_def wp_State split: prod.splits)

lemma sends_observe: "sends P (tp_Observe (record_transport t) m e s)"
  by (auto simp: sends_def record_transport_def wp_State split: prod.splits)

lemma sends_cases [simp]:
  "sends P (case p of (x, y) \<Rightarrow> f x y) = (case p of (x, y) \<Rightarrow> sends P (f x y))"
  "sends P (case z of None \<Rightarrow> m | Some u \<Rightarrow> g u) = (case z of None \<Rightarrow> sends P m | Some u \<Rightarrow> sends P (g u))"
  "sends P (case s of Inl l \<Rightarrow> fl l | Inr v \<Rightarrow> fr v) = (case s of Inl l \<Rightarrow> sends P (fl l) | Inr v \<Rightarrow> sends P (fr v))"
  "sends P (if b then m1 else m2) = (if b then sends P m1 else sends P m2)"
  by (simp_all split: prod.splits option.splits sum.splits)

lemma client_do_sends:
  assumes "P (newRequest c verb url body)"
  shows "sends P (client_do (record_transport t) c verb url body dec zero)"
  by (auto simp: client_do_def sendRequest_def assms intro!: sends_bind sends_do sends_observe split: option.splits prod.splits)

lemma callFor_sends: "P (newRequest c verb url body) \<Longrightarrow> sends P (callFor (record_transport t) c name verb url body dec zero)"
  and callErr_sends: "P (newRequest c verb url body) \<Longrightarrow> sends P (callErr (record_transport t) c name verb url body)"
  by (auto simp: callFor_def callErr_def intro!: sends_bind client_do_sends)

lemma pages_sends:
  assumes "\<And>page. sends P (fetch page)"
  shows "sends P (pages n fetch late page all)"
  by (induction n arbitrary: page all) (auto simp: Let_def intro!: sends_bind assms split: sum.splits)

lemma listAll_sends:
  assumes "\<And>page. P (newRequest c ''GET'' (listURL c path query page) None)"
  shows "sends P (listAll (record_transport t) c name path dec query)"
  unfolding listAll_def by (auto intro!: pages_sends sends_bind callFor_sends assms simp: fetchPage_def)

text \<open>
  A request as the server expects it: to the API of the configured server, with the key; the
  reading methods and DELETE have no body, PUT and POST have one, which is a JSON object and
  is declared so.
\<close>

definition goodRequest :: "Client \<Rightarrow> httpRequest \<Rightarrow> bool" where
  "goodRequest c req \<longleftrightarrow>
     hasPrefix (hq_URL req) (cl_endpoint c @ ''/v1/'')
     \<and> hq_Authorization req = ''Bearer '' @ cl_apiKey c
     \<and> (if hq_Method req \<in> {''GET'', ''DELETE''} then hq_ContentType req = None \<and> hq_Body req = None
        else hq_Method req \<in> {''PUT'', ''POST''} \<and> hq_ContentType req = Some ''application/json''
          \<and> (case Option.bind (hq_Body req) parseJson of Some (JObj _) \<Rightarrow> True | _ \<Rightarrow> False))"

lemma goodRequest_none:
  "verb \<in> {''GET'', ''DELETE''} \<Longrightarrow> hasPrefix url (cl_endpoint c @ ''/v1/'') \<Longrightarrow> goodRequest c (newRequest c verb url None)"
  by (simp add: goodRequest_def newRequest_def)

lemma goodRequest_body:
  "verb \<in> {''PUT'', ''POST''} \<Longrightarrow> hasPrefix url (cl_endpoint c @ ''/v1/'') \<Longrightarrow> intJson (JObj kvs)
    \<Longrightarrow> goodRequest c (newRequest c verb url (Some (JObj kvs)))"
  by (auto simp: goodRequest_def newRequest_def parseJson_jsonText simp del: intJson.simps jsonText.simps)

lemma requests_are_objects:
  "\<exists>kvs. jsonCreateSiteRequest q1 = JObj kvs" "\<exists>kvs. jsonUpdateSiteRequest q2 = JObj kvs"
  "\<exists>kvs. jsonCreateResourceRequest q3 = JObj kvs" "\<exists>kvs. jsonUpdateResourceRequest q4 = JObj kvs"
  "\<exists>kvs. jsonCreateRuleRequest q5 = JObj kvs" "\<exists>kvs. jsonCreateTargetRequest q6 = JObj kvs"
  "\<exists>kvs. jsonCreateSiteResourceRequest q7 = JObj kvs" "\<exists>kvs. jsonUpdateSiteResourceRequest q8 = JObj kvs"
  by (simp_all add: jsonCreateSiteRequest_def jsonUpdateSiteRequest_def jsonCreateResourceRequest_def
      jsonUpdateResourceRequest_def jsonCreateRuleRequest_def jsonCreateTargetRequest_def
      jsonCreateSiteResourceRequest_def jsonUpdateSiteResourceRequest_def)

lemma goodRequest_json:
  "verb \<in> {''PUT'', ''POST''} \<Longrightarrow> hasPrefix url (cl_endpoint c @ ''/v1/'') \<Longrightarrow> \<exists>kvs. j = JObj kvs \<Longrightarrow> intJson j
    \<Longrightarrow> goodRequest c (newRequest c verb url (Some j))"
  using goodRequest_body by blast

lemma urls_good [simp]:
  "hasPrefix (orgURL c path) (cl_endpoint c @ ''/v1/'')" "hasPrefix (idURL c kind i) (cl_endpoint c @ ''/v1/'')"
  "hasPrefix (listURL c path query page) (cl_endpoint c @ ''/v1/'')"
  "hasPrefix (idURL c kind i @ rest) (cl_endpoint c @ ''/v1/'')"
  by (simp_all add: hasPrefix_iff orgURL_def idURL_def listURL_def apiBase_def)

abbreviation sendsGood :: "Client \<Rightarrow> ('w \<times> httpRequest list, 'a) state \<Rightarrow> bool" where
  "sendsGood c \<equiv> sends (goodRequest c)"

text \<open>
  C27.  Whatever operation of the client is called, with whatever arguments and against whatever
  server, every request that leaves it is well formed: it goes to the version 1 API of the
  configured endpoint and carries the key there; a reading or deleting request has no body,
  and every other one a body that is declared as JSON and parses as one JSON object.
\<close>

theorem client_requests_good:
  "let a = clientAPI (record_transport t) c in
    sendsGood c (PickSiteDefaults a) \<and> sendsGood c (CreateSite a q1) \<and> sendsGood c (GetSite a i)
    \<and> sendsGood c (ListSites a s) \<and> sendsGood c (UpdateSite a i q2) \<and> sendsGood c (DeleteSite a i)
    \<and> sendsGood c (ListDomains a)
    \<and> sendsGood c (CreateResource a q3) \<and> sendsGood c (ListResources a s) \<and> sendsGood c (UpdateResource a i q4)
    \<and> sendsGood c (DeleteResource a i)
    \<and> sendsGood c (CreateTarget a i q6) \<and> sendsGood c (DeleteTarget a i)
    \<and> sendsGood c (CreateRule a i q5) \<and> sendsGood c (DeleteRule a i i')
    \<and> sendsGood c (CreateSiteResource a q7) \<and> sendsGood c (ListSiteResources a s)
    \<and> sendsGood c (UpdateSiteResource a i q8) \<and> sendsGood c (DeleteSiteResource a i)"
  unfolding Let_def clientAPI_def API.simps client_PickSiteDefaults_def client_CreateSite_def client_GetSite_def
    client_ListSites_def client_UpdateSite_def client_DeleteSite_def client_ListDomains_def client_CreateResource_def
    client_ListResources_def client_UpdateResource_def client_DeleteResource_def client_CreateTarget_def
    client_DeleteTarget_def client_CreateRule_def client_DeleteRule_def client_CreateSiteResource_def
    client_ListSiteResources_def client_UpdateSiteResource_def client_DeleteSiteResource_def
  by (intro conjI callFor_sends callErr_sends listAll_sends sends_bind sends_ret goodRequest_none goodRequest_json
      requests_are_objects intJson_requests urls_good) simp_all

end
