(* ===== verification/Liveness.thy ===== *)
theory Liveness
  imports PublicLaws PrivateLaws SiteLaws
begin

text \<open>
  Progress of the three controllers: a reconciliation in whose log nothing stands in the way
  ends in the accepted Ready status.  What can stand in the way is a predicate of the log,
  and the rules for putting computations together are those of the locale \<open>evidence\<close>.
\<close>

section \<open>What keeps a reconciliation from its end\<close>

text \<open>
  The answers that stop a reconciliation: a refusal of any call but a deletion, and a site
  that is missing or not ready.
\<close>

fun refusedApi :: "apiEvent \<Rightarrow> bool" where
  "refusedApi (AListResources _ r) = isl r"
| "refusedApi (AListSiteResources _ r) = isl r"
| "refusedApi (AListDomains r) = isl r"
| "refusedApi (ACreateResource _ r) = isl r"
| "refusedApi (ACreateTarget _ _ r) = isl r"
| "refusedApi (ACreateRule _ _ r) = isl r"
| "refusedApi (ACreateSiteResource _ r) = isl r"
| "refusedApi (AUpdateResource _ _ r) = (r \<noteq> None)"
| "refusedApi (AUpdateSiteResource _ _ r) = (r \<noteq> None)"
| "refusedApi _ = False"

fun refusedObj :: "'o objEvent \<Rightarrow> bool" where
  "refusedObj (OGet _ r) = isl r"
| "refusedObj (OStatusPatch _ _ r) = isl r"
| "refusedObj _ = False"

text \<open>A private resource in http mode whose specification, as the server returns it, has no domain.\<close>

fun incomplete :: "PrivateResource objEvent \<Rightarrow> bool" where
  "incomplete (OGet _ (Inr x)) = (vs_Mode (priv_Spec x) = modeHTTP \<and> vs_FullDomain (priv_Spec x) = [])"
| "incomplete (OStatusPatch _ _ (Inr x)) = (vs_Mode (priv_Spec x) = modeHTTP \<and> vs_FullDomain (priv_Spec x) = [])"
| "incomplete _ = False"

fun hinders :: "event \<Rightarrow> bool" where
  "hinders (EApi x) = refusedApi x"
| "hinders (EPub x) = refusedObj x"
| "hinders (EPriv x) = (refusedObj x \<or> incomplete x)"
| "hinders (EListSitesByName _ r) = (case r of Inr (s # _) \<Rightarrow> \<not> usableSite s | _ \<Rightarrow> True)"
| "hinders _ = False"

text \<open>
  The other obstacle is in no answer alone: the domain of the object as it was last read is
  not one of those the server lists next.
\<close>

fun unresolved :: "(event \<Rightarrow> string option) \<Rightarrow> event list \<Rightarrow> bool" where
  "unresolved domain (e # d # tr) =
     ((case domain e of
         None \<Rightarrow> False
       | Some fullDomain \<Rightarrow>
           (case d of EApi (AListDomains (Inr ds)) \<Rightarrow> \<not> snd (ResolveDomainID ds fullDomain) | _ \<Rightarrow> False))
      \<or> unresolved domain (d # tr))"
| "unresolved domain _ = False"

definition hindered :: "(event \<Rightarrow> string option) \<Rightarrow> event list \<Rightarrow> bool" where
  "hindered domain new \<longleftrightarrow> list_ex hinders new \<or> unresolved domain new"

lemma unresolved_left: "unresolved domain xs \<Longrightarrow> unresolved domain (xs @ ys)"
  by (induction domain xs rule: unresolved.induct) auto

lemma unresolved_Cons: "unresolved domain ys \<Longrightarrow> unresolved domain (e # ys)"
  by (cases ys) auto

lemma unresolved_right: "unresolved domain ys \<Longrightarrow> unresolved domain (xs @ ys)"
  by (induction xs) (auto intro: unresolved_Cons)

text \<open>
  Evidence of an obstacle is never lost when a log grows.  A computation succeeds unless
  there is evidence, and so do computations one after the other.
\<close>

locale evidence =
  fixes H :: "event list \<Rightarrow> bool"
  assumes H_left: "H xs \<Longrightarrow> H (xs @ ys)"
    and H_right: "H ys \<Longrightarrow> H (xs @ ys)"
begin

lemma unless_bind_after:
  assumes "emits m (\<lambda>r new. H (pre @ new) \<or> R r)"
    and "\<And>r. emits (f r) (\<lambda>_ _. True)"
    and "\<And>r. R r \<Longrightarrow> emits (f r) (\<lambda>r' new. H new \<or> R' r')"
  shows "emits (m \<bind> f) (\<lambda>r' new. H (pre @ new) \<or> R' r')"
  using assms(1)
proof (rule emits_bind)
  fix r new assume "H (pre @ new) \<or> R r"
  then show "emits (f r) (\<lambda>r' new'. H (pre @ new @ new') \<or> R' r')"
  proof
    assume "H (pre @ new)"
    then have "H (pre @ new @ new')" for new' using H_left [of "pre @ new" new'] by simp
    then show ?thesis by (auto intro: emits_after [OF assms(2)])
  next
    assume "R r"
    from assms(3) [OF this] show ?thesis
      by (rule emits_conseq) (auto intro: H_right [where xs = "pre @ xs" for xs, simplified])
  qed
qed

lemmas unless_bind = unless_bind_after [where pre = "[]", simplified]
  and unless_bind_Cons = unless_bind_after [where pre = "[e]" for e, simplified]

lemma after_any:
  assumes "emits m (\<lambda>_ _. True)" and "\<And>r. emits (f r) (\<lambda>r' new. H new \<or> R' r')"
  shows "emits (m \<bind> f) (\<lambda>r' new. H new \<or> R' r')"
  by (rule emits_bind [OF assms(1)], rule emits_conseq [OF assms(2)]) (auto intro: H_right)

end

interpretation hindered: evidence "hindered domain" for domain
  by unfold_locales (auto simp: hindered_def unresolved_left unresolved_right)

lemma hindered_Cons:
  "hinders e \<Longrightarrow> hindered domain (e # new)"
  "hindered domain new \<Longrightarrow> hindered domain (e # new)"
  by (auto simp: hindered_def unresolved_Cons)

lemma unless_op:
  assumes "\<And>r. hinders (ev r) \<or> R r"
  shows "emits (record_op ev m) (\<lambda>r new. hindered domain new \<or> R r)"
  by (rule emits_op) (use assms in \<open>auto simp: hindered_def\<close>)

section \<open>Public resources\<close>

definition pubDomain :: "event \<Rightarrow> string option" where
  "pubDomain e =
     (case e of EPub (OStatusPatch _ _ (Inr x)) \<Rightarrow> Some (ps_FullDomain (pub_Spec x)) | _ \<Rightarrow> None)"

abbreviation pubHindered :: "event list \<Rightarrow> bool" where
  "pubHindered \<equiv> hindered pubDomain"

lemma patch_live:
  "emits (PublicResource.patchStatus (record_kube k) res f) (\<lambda>out new. pubHindered new \<or> fst out = None)"
  by (rule emits_patch) (auto simp: hindered_def)

lemma fan_live:
  assumes "fanOutcome label n res ord out" and "snd out \<noteq> None"
  shows "\<exists>i \<in> set ord. isl (res i)"
proof -
  from assms(2) obtain e where "snd out = Some e" by blast
  with assms(1) obtain eord where e: "eord \<noteq> []" "set eord = {i. i < n \<and> isl (res i)}" and ord: "set ord = {..<n}"
    by (auto simp: fanOutcome_def)
  from e(1) have "hd eord \<in> set eord" by simp
  with e(2) ord show ?thesis by auto
qed

lemma createTargets_live:
  "emits (createTargets (record_api a) sched rid sid ts) (\<lambda>out new. pubHindered new \<or> snd out = None)"
proof (rule emits_conseq [OF createTargets_emits], elim exE conjE)
  fix out :: "int list \<times> gerr option" and new res ord
  assume new: "new = targetEvents rid sid ts res ord" and o: "fanOutcome ''CreateTarget: '' (length ts) res ord out"
  show "pubHindered new \<or> snd out = None"
    using fan_live [OF o] unfolding new targetEvents_def hindered_def list_ex_iff by fastforce
qed

lemma createRules_live:
  "emits (createRules (record_api a) sched rid rs) (\<lambda>out new. pubHindered new \<or> snd out = None)"
proof (rule emits_conseq [OF createRules_emits], elim exE conjE)
  fix out :: "int list \<times> gerr option" and new res ord
  assume new: "new = ruleEvents rid rs res ord" and o: "fanOutcome ''CreateRule: '' (length rs) res ord out"
  show "pubHindered new \<or> snd out = None"
    using fan_live [OF o] unfolding new ruleEvents_def hindered_def list_ex_iff by fastforce
qed

lemma grows_bind: "emits m (\<lambda>_ _. True) \<Longrightarrow> (\<And>r. emits (f r) (\<lambda>_ _. True)) \<Longrightarrow> emits (m \<bind> f) (\<lambda>_ _. True)"
  by (erule emits_bind)

lemma emits_grows: "emits m P \<Longrightarrow> emits m (\<lambda>_ _. True)"
  by (erule emits_conseq) simp

lemma op_grows: "emits (record_op ev m) (\<lambda>_ _. True)"
  by (rule emits_op) simp

lemma fans_grow:
  "emits (createTargets (record_api a) sched rid sid ts) (\<lambda>_ _. True)"
  "emits (createRules (record_api a) sched rid rs) (\<lambda>_ _. True)"
  "emits (deleteTargets (record_api a) ids) (\<lambda>_ _. True)"
  "emits (deleteRules (record_api a) rid ids) (\<lambda>_ _. True)"
  by (rule emitsAll_grows [OF createTargets_all] emitsAll_grows [OF createRules_all]
      emitsAll_grows [OF deleteTargets_all] emitsAll_grows [OF deleteRules_all], simp)+

lemmas pub_grows = grows_bind op_grows fans_grow PublicLaws.pieces_grow

lemma finishCreate_live:
  "emits (finishCreate (record_kube k) (record_api a) sch http res rid sid) (\<lambda>out new. pubHindered new \<or> fst out = None)"
  unfolding finishCreate_def Let_def record_api_simps
  by (auto split: option.splits intro!: pub_grows patch_live hindered.unless_bind [OF unless_op [where R = "\<lambda>r. r = None"]]
      hindered.unless_bind [OF createTargets_live] hindered.unless_bind [OF createRules_live])

lemma updateTargets_live:
  "emits (updateTargets (record_kube k) (record_api a) sched res sid) (\<lambda>out new. pubHindered new \<or> fst out = None)"
  unfolding updateTargets_def Let_def
  by (auto split: option.splits intro!: pub_grows hindered.unless_bind [OF patch_live]
      hindered.unless_bind [OF createTargets_live] hindered.after_any [OF fans_grow(3)])

lemma updateRules_live:
  "emits (updateRules (record_kube k) (record_api a) sched res) (\<lambda>out new. pubHindered new \<or> fst out = None)"
  unfolding updateRules_def Let_def
  by (auto split: option.splits intro!: pub_grows hindered.unless_bind [OF patch_live]
      hindered.unless_bind [OF createRules_live] hindered.after_any [OF fans_grow(4)])

lemma updateResource_live:
  "emits (updateResource (record_kube k) (record_api a) sch res sid) (\<lambda>out new. pubHindered new \<or> fst out = None)"
  unfolding updateResource_def record_api_simps
  by (auto split: option.splits intro!: pub_grows emits_grows [OF updateTargets_live] emits_grows [OF updateRules_live]
      hindered.unless_bind [OF unless_op [where R = "\<lambda>r. r = None"]]
      hindered.unless_bind [OF updateTargets_live] updateRules_live)

lemma ResolveDomain_ok: "snd (snd (ResolveDomain ds d)) = snd (ResolveDomainID ds d)"
  by (auto simp: ResolveDomain_def split: prod.splits option.splits simp: Let_def)

text \<open>A request that needs the domain resolved is built, or there is an obstacle.\<close>

definition requested :: "string \<Rightarrow> gerr + 'b \<Rightarrow> event list \<Rightarrow> bool" where
  "requested fullDomain out new \<longleftrightarrow> \<not> isl out \<or> list_ex hinders new
     \<or> (\<exists>ds. new = [EApi (AListDomains (Inr ds))] \<and> \<not> snd (ResolveDomainID ds fullDomain))"

lemma createRequestFor_live:
  "emits (PublicResource.createRequestFor (record_api a) spec)
     (requested (ps_FullDomain spec))"
  unfolding PublicResource.createRequestFor_def Let_def record_api_simps
  using ResolveDomain_ok [of _ "ps_FullDomain spec"]
  by (auto simp: requested_def split: sum.splits prod.splits intro!: emits_bind_op) (metis snd_conv)

lemma requested_grows:
  "emits (finishCreate (record_kube k) (record_api a) sch http res rid sid) (\<lambda>_ _. True)"
  "emits (PublicResource.createRequestFor (record_api a) spec) (\<lambda>_ _. True)"
  by (rule emits_grows [OF finishCreate_live] emits_grows [OF createRequestFor_live])+

lemma request_after:
  assumes "emits m (requested d)"
    and "domain e = Some d"
  shows "emits m (\<lambda>out new. hindered domain (e # new) \<or> \<not> isl out)"
  by (rule emits_conseq [OF assms(1)]) (auto simp: requested_def hindered_def assms(2))

lemma pubRequest_after:
  "emits (PublicResource.createRequestFor (record_api a) (pub_Spec x))
     (\<lambda>out new. pubHindered (EPub (OStatusPatch b n (Inr x)) # new) \<or> \<not> isl out)"
  by (rule request_after [OF createRequestFor_live]) (simp add: pubDomain_def)

lemma createResource_live:
  "emits (createResource (record_kube k) (record_api a) sch res sid) (\<lambda>out new. pubHindered new \<or> fst out = None)"
  unfolding createResource_def Let_def record_api_simps record_kube_simps record_obj_simps
  by (rule emits_bind_patch)
    (auto split: option.splits sum.splits simp: hindered_Cons pubDomain_def
      intro!: hindered.unless_bind_Cons [OF pubRequest_after] pub_grows requested_grows finishCreate_live
       hindered.unless_bind [OF patch_live] hindered.unless_bind [OF unless_op [where R = "\<lambda>r. \<not> isl r"]])

lemma ensureExists_live:
  "emits (PublicResource.ensureExists (record_kube k) (record_api a) sch res sid)
     (\<lambda>out new. pubHindered new \<or> fst (snd out) = None)"
  unfolding PublicResource.ensureExists_def Let_def record_api_simps
  by (rule hindered.unless_bind [OF unless_op [where R = "\<lambda>r. \<not> isl r"]])
    (auto split: option.splits sum.splits intro!: pub_grows hindered.unless_bind [OF patch_live]
      hindered.unless_bind [OF createResource_live])

lemma markReady_live:
  "emits (PublicResource.markReady (record_kube k) res)
     (\<lambda>out new. pubHindered new \<or> out = (\<lparr>RequeueAfter = ResyncInterval\<rparr>, None))"
  unfolding PublicResource.markReady_def
  by (auto intro!: hindered.unless_bind [OF patch_live] split: option.splits)

lemma reconcileOnSite_live:
  "emits (PublicResource.reconcileOnSite (record_kube k) (record_api a) sch res sid)
     (\<lambda>out new. pubHindered new \<or> out = (\<lparr>RequeueAfter = ResyncInterval\<rparr>, None))"
  unfolding PublicResource.reconcileOnSite_def Let_def record_kube_simps record_obj_simps
  by (rule hindered.unless_bind [OF ensureExists_live])
    (auto split: option.splits sum.splits intro!: pub_grows markReady_live
      hindered.unless_bind [OF unless_op [where R = "\<lambda>r. \<not> isl r"]]
      hindered.unless_bind [OF updateResource_live])

lemma reconcile_live:
  "emits (PublicResource.reconcile (record_kube k) (record_api a) sch res)
     (\<lambda>out new. pubHindered new \<or> out = (\<lparr>RequeueAfter = ResyncInterval\<rparr>, None))"
  unfolding PublicResource.reconcile_def
  by (rule emits_bind_Site)
    (auto intro!: emits_bind_patch emits_conseq [OF reconcileOnSite_live]
      simp: hindered_Cons usableSite_def)

lemma emits_conj:
  assumes "emits m P" and "emits m Q"
  shows "emits m (\<lambda>r new. P r new \<and> Q r new)"
  unfolding emits_def
proof (intro allI wpI)
  fix w tr r and s :: "'a logged"
  assume run: "run_state m (w, tr) = (r, s)"
  then show "\<exists>new. snd s = tr @ new \<and> P r new \<and> Q r new"
    using emitsD [OF assms(1)] emitsD [OF assms(2)] by (cases s) fastforce
qed

lemma runEnd_ready:
  assumes "runEnd ready reset conflict waiting (\<lparr>RequeueAfter = ResyncInterval\<rparr>, None) new"
  shows "\<exists>pre e. new = pre @ [e] \<and> ready e"
  using assms by cases (auto simp: requeue_defs)

text \<open>
  A public resource becomes Ready when nothing stands in the way.  Every reconciliation
  whose site is ready, in which no call but a deletion is refused, and whose domain is one
  of those the server lists, ends as its very last step with the accepted Ready status, and
  is due again after the resync interval; and this under every schedule of the goroutines,
  whether the resource had to be made, adopted, updated or left alone.
\<close>

theorem reconcile_progress:
  "emits (PublicResource.reconcile (record_kube k) (record_api a) sch res)
     (\<lambda>out new. pubHindered new
        \<or> (out = (\<lparr>RequeueAfter = ResyncInterval\<rparr>, None) \<and> (\<exists>pre e. new = pre @ [e] \<and> readyPatch k e)))"
  by (rule emits_conseq [OF emits_conj [OF reconcile_live PublicLaws.reconcile_ends]]) (auto dest: runEnd_ready)

section \<open>Private resources\<close>

definition privDomain :: "event \<Rightarrow> string option" where
  "privDomain e =
     (case e of
        EPriv (OStatusPatch _ _ (Inr x)) \<Rightarrow> Some (vs_FullDomain (priv_Spec x))
      | EPriv (OGet _ (Inr x)) \<Rightarrow> Some (vs_FullDomain (priv_Spec x))
      | _ \<Rightarrow> None)"

abbreviation privHindered :: "event list \<Rightarrow> bool" where
  "privHindered \<equiv> hindered privDomain"

lemma vpatch_live:
  "emits (PrivateResource.patchStatus (record_kube k) res f) (\<lambda>out new. privHindered new \<or> fst out = None)"
  by (rule emits_vpatch) (auto simp: hindered_def)

lemma httpFieldsFor_live:
  "vs_FullDomain spec \<noteq> [] \<Longrightarrow> emits (httpFieldsFor (record_api a) spec)
     (requested (vs_FullDomain spec))"
  unfolding httpFieldsFor_def Let_def record_api_simps
  using ResolveDomain_ok [of _ "vs_FullDomain spec"]
  by (auto simp: requested_def split: sum.splits prod.splits intro!: emits_bind_op) (metis snd_conv)

lemmas vrequest_live = emits_bind [OF httpFieldsFor_live]

lemma vcreateRequestFor_live:
  "\<not> (vs_Mode spec = modeHTTP \<and> vs_FullDomain spec = []) \<Longrightarrow> emits (PrivateResource.createRequestFor (record_api a) spec sid)
     (requested (vs_FullDomain spec))"
  unfolding PrivateResource.createRequestFor_def 
  by (auto simp: requested_def intro!: vrequest_live split: sum.splits)

lemma vupdateRequestFor_live:
  "\<not> (vs_Mode spec = modeHTTP \<and> vs_FullDomain spec = []) \<Longrightarrow> emits (PrivateResource.updateRequestFor (record_api a) spec sid)
     (requested (vs_FullDomain spec))"
  unfolding PrivateResource.updateRequestFor_def 
  by (auto simp: requested_def intro!: vrequest_live split: sum.splits)

lemma vrequest_after:
  assumes "e = EPriv (OGet q (Inr x)) \<or> e = EPriv (OStatusPatch b n (Inr x))"
  shows "emits (PrivateResource.createRequestFor (record_api a) (priv_Spec x) sid)
       (\<lambda>out new. privHindered (e # new) \<or> \<not> isl out)"
    and "emits (PrivateResource.updateRequestFor (record_api a) (priv_Spec x) sid)
       (\<lambda>out new. privHindered (e # new) \<or> \<not> isl out)"
proof -
  have d: "privDomain e = Some (vs_FullDomain (priv_Spec x))"
    using assms by (auto simp: privDomain_def)
  have h: "hinders e" if "vs_Mode (priv_Spec x) = modeHTTP \<and> vs_FullDomain (priv_Spec x) = []"
    using assms that by auto
  show "emits (PrivateResource.createRequestFor (record_api a) (priv_Spec x) sid)
       (\<lambda>out new. privHindered (e # new) \<or> \<not> isl out)"
    using request_after [where domain = privDomain and e = e, OF vcreateRequestFor_live [of "priv_Spec x" a sid] d] h
    by (cases "vs_Mode (priv_Spec x) = modeHTTP \<and> vs_FullDomain (priv_Spec x) = []")
      (auto simp: hindered_Cons intro!: emitsAll_grows [OF vcreateRequestFor_all])
  show "emits (PrivateResource.updateRequestFor (record_api a) (priv_Spec x) sid)
       (\<lambda>out new. privHindered (e # new) \<or> \<not> isl out)"
    using request_after [where domain = privDomain and e = e, OF vupdateRequestFor_live [of "priv_Spec x" a sid] d] h
    by (cases "vs_Mode (priv_Spec x) = modeHTTP \<and> vs_FullDomain (priv_Spec x) = []")
      (auto simp: hindered_Cons intro!: emitsAll_grows [OF vupdateRequestFor_all])
qed

lemmas vgrows = grows_bind op_grows vpieces_grow

lemma createSiteResource_live:
  "emits (createSiteResource (record_kube k) (record_api a) res sid) (\<lambda>out new. privHindered new \<or> fst out = None)"
  unfolding createSiteResource_def record_api_simps
  by (rule emits_bind_vpatch)
    (auto split: option.splits sum.splits simp: hindered_Cons
      intro!: hindered.unless_bind_Cons [OF vrequest_after(1)] vgrows
       hindered.unless_bind [OF vpatch_live] hindered.unless_bind [OF unless_op [where R = "\<lambda>r. \<not> isl r"]])

lemma updateSiteResource_live:
  assumes "e = EPriv (OGet q (Inr x)) \<or> e = EPriv (OStatusPatch b n (Inr x))"
  shows "emits (updateSiteResource (record_api a) x sid) (\<lambda>out new. privHindered (e # new) \<or> out = None)"
  unfolding updateSiteResource_def record_api_simps
  by (rule hindered.unless_bind_Cons [OF vrequest_after(2) [OF assms]])
    (auto split: sum.splits option.splits intro!: vgrows hindered.unless_bind [OF unless_op [where R = "\<lambda>r. r = None"]])

lemma vmarkReady_live:
  "emits (PrivateResource.markReady (record_kube k) res)
     (\<lambda>out new. privHindered new \<or> out = (\<lparr>RequeueAfter = ResyncInterval\<rparr>, None))"
  unfolding PrivateResource.markReady_def
  by (auto intro!: hindered.unless_bind [OF vpatch_live] split: option.splits)

text \<open>An adopted resource is the one that the last answer shows.\<close>

definition vensured :: "bool \<times> gerr option \<times> PrivateResource \<Rightarrow> event list \<Rightarrow> bool" where
  "vensured out new = (case out of (adopted, err, x) \<Rightarrow> privHindered new
     \<or> (err = None \<and> (adopted \<longrightarrow> (\<exists>pre b n. new = pre @ [EPriv (OStatusPatch b n (Inr x))]))))"

lemma vensured_now: "hinders e \<Longrightarrow> vensured out (e # new)" "vensured (False, None, x) new"
  by (auto simp: vensured_def hindered_Cons split: prod.splits)

lemma vensureExists_live:
  "emits (PrivateResource.ensureExists (record_kube k) (record_api a) res sid) vensured"
  unfolding PrivateResource.ensureExists_def Let_def record_api_simps
proof (rule emits_bind_op)
  fix r :: "gerr + SiteResourceItem list"
  have made: "emits (createSiteResource (record_kube k) (record_api a) res sid \<bind> (\<lambda>(err, res'). ret (False, err, res')))
      (\<lambda>out new. vensured out (e # new))" for e
    by (rule emits_bind [OF createSiteResource_live]) (auto simp: vensured_def hindered_Cons)
  have adopted: "emits (PrivateResource.patchStatus (record_kube k) res f \<bind> (\<lambda>(err, res'). ret (True, err, res')))
      (\<lambda>out new. vensured out (e # new))" for e f
    by (rule emits_bind_vpatch) (auto simp: vensured_def hindered_Cons intro: exI [of _ "[e]"])
  show "emits (case r of Inl e \<Rightarrow> ret (False, Some (Wrap ''ListSiteResources: '' e []), res)
      | Inr items \<Rightarrow> if vst_SiteResourceID (priv_Status res) \<noteq> 0
            \<and> list_ex (\<lambda>item. vi_SiteResourceID item = vst_SiteResourceID (priv_Status res)) items
          then ret (False, None, res)
          else case findSiteResource items (priv_Spec res) sid of
              None \<Rightarrow> createSiteResource (record_kube k) (record_api a) res sid \<bind> (\<lambda>(err, res'). ret (False, err, res'))
            | Some m \<Rightarrow> PrivateResource.patchStatus (record_kube k) res (PrivateResource.adoptStatus m)
                \<bind> (\<lambda>(err, res'). ret (True, err, res')))
      (\<lambda>out new. vensured out (EApi (AListSiteResources (vs_Name (priv_Spec res)) r) # new))"
    by (auto split: sum.splits option.splits simp: vensured_now intro: made adopted)
qed

lemma vfinish_live:
  assumes "e = EPriv (OGet q (Inr x)) \<or> e = EPriv (OStatusPatch b n (Inr x))"
  shows "emits (updateSiteResource (record_api a) x sid
      \<bind> (\<lambda>err2. case err2 of Some e \<Rightarrow> PrivateResource.updateFailed (record_kube k) x e
            | None \<Rightarrow> PrivateResource.markReady (record_kube k) x))
    (\<lambda>out new. privHindered (e # new) \<or> out = (\<lparr>RequeueAfter = ResyncInterval\<rparr>, None))"
  by (rule hindered.unless_bind_Cons [OF updateSiteResource_live [OF assms]])
    (auto split: option.splits intro!: vgrows vmarkReady_live)

lemma vreconcileOnSite_live:
  "emits (PrivateResource.reconcileOnSite (record_kube k) (record_api a) res sid)
     (\<lambda>out new. privHindered new \<or> out = (\<lparr>RequeueAfter = ResyncInterval\<rparr>, None))"
  unfolding PrivateResource.reconcileOnSite_def Let_def record_kube_simps record_obj_simps
proof (rule emits_bind [OF vensureExists_live])
  fix out :: "bool \<times> gerr option \<times> PrivateResource" and new
  obtain adopted err x where out: "out = (adopted, err, x)" by (cases out)
  assume "vensured out new"
  then consider "privHindered new"
    | pre b n where "err = None" "adopted" "new = pre @ [EPriv (OStatusPatch b n (Inr x))]"
    | "err = None" "\<not> adopted"
    by (auto simp: vensured_def out)
  then show "emits (case out of (adopted, err, res1) \<Rightarrow> (case err of
        None \<Rightarrow> (if vst_SiteResourceID (priv_Status res) \<noteq> 0 \<and> \<not> adopted
              then record_op (\<lambda>r. EPriv (OGet (objectKey (priv_Meta res1)) r)) (oc_Get (kPrivs k) (objectKey (priv_Meta res1)))
              else ret (Inr res1)) \<bind>
          (\<lambda>g. case g of Inl e \<Rightarrow> ret (noResult, Some (ErrKube e))
            | Inr res2 \<Rightarrow> (if adopted \<or> vst_SiteResourceID (priv_Status res) \<noteq> 0 \<and> vst_SiteResourceID (priv_Status res2) \<noteq> 0
                  \<and> m_Generation (priv_Meta res2) \<noteq> vst_ObservedGeneration (priv_Status res2)
                then updateSiteResource (record_api a) res2 sid else ret None) \<bind>
              (\<lambda>err2. case err2 of None \<Rightarrow> PrivateResource.markReady (record_kube k) res2
                | Some e \<Rightarrow> PrivateResource.updateFailed (record_kube k) res2 e))
      | Some e \<Rightarrow> PrivateResource.ensureFailed (record_kube k) res1 e))
    (\<lambda>out' new'. privHindered (new @ new') \<or> out' = (\<lparr>RequeueAfter = ResyncInterval\<rparr>, None))"
  proof cases
    case 1
    then have "privHindered (new @ new')" for new' by (rule hindered.H_left)
    then show ?thesis by (auto simp: out split: option.splits sum.splits intro!: vgrows)
  next
    case (2 pre b n)
    then show ?thesis
      by (auto simp: out intro!: emits_conseq [OF vfinish_live [where e = "EPriv (OStatusPatch b n (Inr x))"]]
          dest: hindered.H_right [where xs = pre])
  next
    case 3
    have lift: "emits m (\<lambda>out' new'. privHindered (new @ new') \<or> out' = (\<lparr>RequeueAfter = ResyncInterval\<rparr>, None))"
      if "emits m (\<lambda>out' new'. privHindered new' \<or> out' = (\<lparr>RequeueAfter = ResyncInterval\<rparr>, None))" for m :: "('a logged, reconciled) state"
      by (rule emits_conseq [OF that]) (auto dest: hindered.H_right)
    have ready: "emits (PrivateResource.markReady (record_kube k) z)
        (\<lambda>out' new'. privHindered (e # new') \<or> out' = (\<lparr>RequeueAfter = ResyncInterval\<rparr>, None))" for z e
      by (rule emits_conseq [OF vmarkReady_live]) (auto intro: hindered_Cons)
    show ?thesis using 3 unfolding out
      by (intro lift) (auto simp: hindered_Cons split: sum.splits
          intro!: emits_bind_op ready vmarkReady_live intro: vfinish_live)
  qed
qed

lemma vreconcile_live:
  "emits (PrivateResource.reconcile (record_kube k) (record_api a) res)
     (\<lambda>out new. privHindered new \<or> out = (\<lparr>RequeueAfter = ResyncInterval\<rparr>, None))"
  unfolding PrivateResource.reconcile_def
  by (rule emits_bind_Site)
    (auto intro!: emits_bind_vpatch emits_conseq [OF vreconcileOnSite_live]
      simp: hindered_Cons usableSite_def)

text \<open>
  A private resource becomes Ready when nothing stands in the way: its site is ready, no
  call is refused, and in http mode its specification, as last read, has a domain that the
  server lists.
\<close>

theorem private_reconcile_progress:
  "emits (PrivateResource.reconcile (record_kube k) (record_api a) res)
     (\<lambda>out new. privHindered new
        \<or> (out = (\<lparr>RequeueAfter = ResyncInterval\<rparr>, None) \<and> (\<exists>pre e. new = pre @ [e] \<and> vreadyPatch k e)))"
  by (rule emits_conseq [OF emits_conj [OF vreconcile_live PrivateLaws.private_reconcile_ends]]) (auto dest: runEnd_ready)

section \<open>Sites\<close>

text \<open>
  What stops the reconciliation of a site: any refusal but those it makes up for, an object
  of a discovered resource that is not there yet, the reading of the Deployment, and the
  roll-back of a creation.
\<close>

fun siteHinders :: "event \<Rightarrow> bool" where
  "siteHinders (EApi (APickSiteDefaults r)) = isl r"
| "siteHinders (EApi (ACreateSite _ r)) = isl r"
| "siteHinders (EApi (AGetSite _ r)) = isl r"
| "siteHinders (EApi (AListSites _ r)) = isl r"
| "siteHinders (EApi (AUpdateSite _ _ r)) = (r \<noteq> None)"
| "siteHinders (ESite (OGet _ r)) = isl r"
| "siteHinders (ESite (OStatusPatch _ _ r)) = isl r"
| "siteHinders (ESecret (OCreateOrUpdate _ _ r)) = (r \<noteq> None)"
| "siteHinders (EServiceAccount (OCreateOrUpdate _ _ r)) = (r \<noteq> None)"
| "siteHinders (EDeployment (OCreateOrUpdate _ _ r)) = (r \<noteq> None)"
| "siteHinders (ERoute (OList r)) = isl r"
| "siteHinders (ETCPRoute (OList r)) = isl r"
| "siteHinders (EService (OList r)) = isl r"
| "siteHinders (EPub (OGet _ r)) = (case r of Inl e \<Rightarrow> ignoreNotFound (ErrKube e) \<noteq> None | Inr _ \<Rightarrow> False)"
| "siteHinders (EPub (OCreate _ r)) = (r \<noteq> None)"
| "siteHinders (EPub (OPatch _ _ r)) = isl r"
| "siteHinders _ = False"

abbreviation siteHindered :: "event list \<Rightarrow> bool" where
  "siteHindered \<equiv> list_ex siteHinders"

interpretation siteHindered: evidence siteHindered
  by unfold_locales auto

lemma site_op:
  assumes "\<And>r. siteHinders (ev r) \<or> R r"
  shows "emits (record_op ev m) (\<lambda>r new. siteHindered new \<or> R r)"
  by (rule emits_op) (use assms in auto)

lemma spatch_live:
  "emits (NewtSiteController.patchStatus (record_kube k) site f) (\<lambda>out new. siteHindered new \<or> fst out = None)"
  by (rule emits_spatch) auto

lemmas unless_ops = siteHindered.unless_bind [OF site_op [where R = "\<lambda>r. \<not> isl r"]]
  siteHindered.unless_bind [OF site_op [where R = "\<lambda>r. r = None"]]

lemma ensureOwned_live:
  "emits (ensureOwnedPublicResource (record_kube k) owner kind name ns rname spec) (\<lambda>out new. siteHindered new \<or> out = None)"
  unfolding ensureOwnedPublicResource_def Let_def record_kube_simps record_obj_simps
  by (auto split: sum.splits option.splits intro!: emits_bind_op)

lemma collectErrs_live:
  assumes "\<And>x. emits (f x) (\<lambda>out new. siteHindered new \<or> out = None)"
  shows "emits (collectErrs f xs) (\<lambda>out new. siteHindered new \<or> out = [])"
proof (induction xs)
  case (Cons x xs)
  show ?case
    unfolding collectErrs.simps
    by (rule siteHindered.unless_bind [OF assms])
      (auto split: option.splits intro!: siteHindered.unless_bind [OF Cons.IH] grows_bind emits_grows [OF Cons.IH] Cons.IH)
qed simp

lemma discovered_live:
  assumes "\<And>x. emits (f x) (\<lambda>out new. siteHindered new \<or> out = None)"
  shows "emits (collectErrs f xs \<bind> (\<lambda>errs. ret (joinErrs errs))) (\<lambda>out new. siteHindered new \<or> out = None)"
  by (rule siteHindered.unless_bind [OF collectErrs_live [OF assms]]) (simp_all add: joinErrs_def)

lemma processed_live:
  "emits (processHTTPRoute (record_kube k) site cfg route) (\<lambda>out new. siteHindered new \<or> out = None)"
  "emits (processTCPRoute (record_kube k) site cfg tr) (\<lambda>out new. siteHindered new \<or> out = None)"
  "emits (processService (record_kube k) mo site cfg p svc) (\<lambda>out new. siteHindered new \<or> out = None)"
  unfolding processHTTPRoute_def processTCPRoute_def processService_def ensureHostname_def ensurePort_def Let_def
    EnsureHTTPRouteResource_def EnsureTCPRouteResource_def EnsureServiceResource_def
  by (auto split: sum.splits option.splits intro!: discovered_live siteHindered.unless_bind [OF ensureOwned_live] grows_bind)

lemma scans_live:
  "emits (scanHTTPRoutes (record_kube k) site cfg p) (\<lambda>out new. siteHindered new \<or> out = None)"
  "emits (scanTCPRoutes (record_kube k) site cfg p) (\<lambda>out new. siteHindered new \<or> out = None)"
  "emits (scanServices (record_kube k) mo site cfg p) (\<lambda>out new. siteHindered new \<or> out = None)"
  unfolding scanHTTPRoutes_def scanTCPRoutes_def scanServices_def Let_def record_kube_simps record_obj_simps
  by (auto split: sum.splits simp: processed_live
      intro!: discovered_live unless_ops emits_grows [OF discovered_live])

lemma autodiscover_live:
  "emits (reconcileAutodiscover (record_kube k) mo site) (\<lambda>out new. siteHindered new \<or> out = None)"
  unfolding reconcileAutodiscover_def Let_def
  by (auto split: option.splits simp: scans_live emits_grows [OF scans_live(1)] emits_grows [OF scans_live(2)] emits_grows [OF scans_live(3)]
      intro!: siteHindered.unless_bind [OF scans_live(1)] siteHindered.unless_bind [OF scans_live(2)] grows_bind)

lemma finishSite_live:
  "emits (finishSite (record_kube k) mo site online)
     (\<lambda>out new. siteHindered new \<or> snd out = None \<and> RequeueAfter (fst out) \<in> {5 * Minute, ResyncInterval})"
  unfolding finishSite_def
  by (auto split: option.splits intro!: siteHindered.unless_bind [OF spatch_live] siteHindered.unless_bind [OF autodiscover_live]
      grows_bind emits_grows [OF autodiscover_live])

text \<open>
  One obstacle is in no answer: an object of the site's own that cannot be given the site as its
  owner.  \<open>SetControllerReference\<close> documents such errors for an object that another controller owns and
  for an owner in another namespace.  The objects are those the controller builds afresh; the sites
  are the one it starts from and those that the cluster returns in the run.
\<close>

definition ownedMetas :: "siteReconciler \<Rightarrow> NewtSite \<Rightarrow> objectMeta list" where
  "ownedMetas rc site =
     [plainMeta (credentialsName site) (rc_OperatorNamespace rc) (Some [(LabelManagedBy, partOfPangolinOp)]),
      plainMeta (m_Name (site_Meta site) @ ''-newtsite'') (rc_OperatorNamespace rc) None,
      dep_Meta (buildDeployment site [] (rc_OperatorNamespace rc))]"

definition ownerRefused :: "'w kube \<Rightarrow> siteReconciler \<Rightarrow> NewtSite \<Rightarrow> bool" where
  "ownerRefused k rc site = list_ex (\<lambda>m. isl (kSetControllerReference k (site_Meta site) m)) (ownedMetas rc site)"

fun sitesIn :: "event \<Rightarrow> NewtSite list" where
  "sitesIn (ESite (OGet _ (Inr x))) = [x]"
| "sitesIn (ESite (OStatusPatch _ _ (Inr x))) = [x]"
| "sitesIn _ = []"

definition sitesSeen :: "event list \<Rightarrow> NewtSite list" where
  "sitesSeen new = concat (map sitesIn new)"

definition siteBlocked :: "'w kube \<Rightarrow> siteReconciler \<Rightarrow> event list \<Rightarrow> bool" where
  "siteBlocked k rc new \<longleftrightarrow> siteHindered new \<or> list_ex (ownerRefused k rc) (sitesSeen new)"

interpretation siteBlocked: evidence "siteBlocked k rc" for k :: "'w kube" and rc
  by unfold_locales (auto simp: siteBlocked_def sitesSeen_def)

lemma siteBlocked_hindered: "siteHindered new \<Longrightarrow> siteBlocked k rc new"
  by (simp add: siteBlocked_def)

lemma blocked_live: "emits m (\<lambda>out new. siteHindered new \<or> R out) \<Longrightarrow> emits m (\<lambda>out new. siteBlocked k rc new \<or> R out)"
  by (erule emits_conseq) (auto simp: siteBlocked_def)

lemma blocked_op:
  assumes "\<And>r. siteHinders (ev r) \<or> list_ex (ownerRefused k rc) (sitesIn (ev r)) \<or> R r"
  shows "emits (record_op ev m) (\<lambda>r new. siteBlocked k rc new \<or> R r)"
  by (rule emits_op) (use assms in \<open>auto simp: siteBlocked_def sitesSeen_def\<close>)

lemma spatch_owned:
  "emits (NewtSiteController.patchStatus (record_kube k) site f)
     (\<lambda>out new. siteBlocked k rc new \<or> (fst out = None \<and> \<not> ownerRefused k rc (snd out)))"
  by (rule emits_spatch) (auto simp: siteBlocked_def sitesSeen_def)

lemmas unless_blocked = siteBlocked.unless_bind [OF blocked_op [where R = "\<lambda>r. \<not> isl r"]]
  siteBlocked.unless_bind [OF blocked_op [where R = "\<lambda>r. r = None"]]
  siteBlocked.unless_bind [OF spatch_owned]

lemma ownerRefusedD:
  assumes "\<not> ownerRefused k rc site"
  shows "kSetControllerReference k (site_Meta site) (sec_Meta (newSecret rc site d)) = Inl e \<longleftrightarrow> False"
    and "kSetControllerReference k (site_Meta site)
        (plainMeta (m_Name (site_Meta site) @ ''-newtsite'') (rc_OperatorNamespace rc) None) = Inl e \<longleftrightarrow> False"
    and "kSetControllerReference k (site_Meta site) (dep_Meta (buildDeployment site s (rc_OperatorNamespace rc))) = Inl e
        \<longleftrightarrow> False"
  using assms by (auto simp: ownerRefused_def ownedMetas_def newSecret_def buildDeployment_def deploymentObject_def Let_def)

lemma owned_live:
  assumes "\<not> ownerRefused k rc site"
  shows "emits (ensureServiceAccount (record_kube k) rc site) (\<lambda>out new. siteHindered new \<or> out = None)"
    and "emits (ensureDeployment (record_kube k) rc site) (\<lambda>out new. siteHindered new \<or> out = None)"
    and "emits (writeSecret (record_kube k) rc site defaults) (\<lambda>out new. siteHindered new \<or> out = None)"
  unfolding ensureServiceAccount_def ensureDeployment_def writeSecret_def Let_def record_kube_simps record_obj_simps
  by (auto split: sum.splits option.splits simp: ownerRefusedD [OF assms] intro!: emits_op emits_bind_op)

lemma ensureTunnel_live:
  assumes "\<not> ownerRefused k rc site"
  shows "emits (ensureTunnel (record_kube k) rc site) (\<lambda>out new. siteHindered new \<or> \<not> isl out)"
  unfolding ensureTunnel_def record_kube_simps record_obj_simps reportError_def
  by (auto split: option.splits sum.splits
      intro!: siteHindered.unless_bind [OF owned_live(1) [OF assms]] siteHindered.unless_bind [OF owned_live(2) [OF assms]]
        siteHindered.after_any [OF op_grows] grows_bind op_grows emits_grows [OF spatch_live] emits_grows [OF owned_live(2) [OF assms]])

lemma persistSite_live:
  "emits (persistSite (record_kube k) (record_api a) site i f) (\<lambda>out new. siteHindered new \<or> fst out = None)"
  unfolding persistSite_def record_api_simps
  by (auto split: option.splits intro!: siteHindered.unless_bind [OF spatch_live] grows_bind op_grows)

lemma created_live:
  assumes "\<not> ownerRefused k rc site"
  shows "emits (createLocalSite (record_kube k) (record_api a) site) (\<lambda>out new. siteHindered new \<or> fst out = None)"
    and "emits (createNewtSite (record_kube k) (record_api a) rc site) (\<lambda>out new. siteHindered new \<or> fst out = None)"
  unfolding createLocalSite_def createNewtSite_def record_api_simps
  by (auto split: option.splits sum.splits intro!: unless_ops persistSite_live emits_grows [OF persistSite_live]
      siteHindered.unless_bind [OF owned_live(3) [OF assms]] grows_bind op_grows emits_grows [OF owned_live(3) [OF assms]])

lemma site_parts_grow:
  "emits (NewtSiteController.patchStatus (record_kube k) site f) (\<lambda>_ _. True)"
  "emits (createLocalSite (record_kube k) (record_api a) site) (\<lambda>_ _. True)"
  "emits (createNewtSite (record_kube k) (record_api a) rc site) (\<lambda>_ _. True)"
  "emits (ensureTunnel (record_kube k) rc site) (\<lambda>_ _. True)"
  "emits (finishSite (record_kube k) mo site online) (\<lambda>_ _. True)"
  unfolding createLocalSite_def createNewtSite_def persistSite_def writeSecret_def Let_def
  by (auto split: sum.splits option.splits intro!: emits_bind_spatch emits_bind_op emits_spatch
      emitsAll_grows [OF ensureTunnel_all [where P = "\<lambda>_. True"]] emitsAll_grows [OF finishSite_all [where P = "\<lambda>_. True"]])

lemma findOrCreate_live:
  "emits (findOrCreate (record_kube k) (record_api a) rc site) (\<lambda>out new. siteBlocked k rc new \<or> fst out = None)"
  unfolding findOrCreate_def createSite_def record_api_simps
  by (auto split: option.splits sum.splits intro!: unless_blocked spatch_live [THEN blocked_live]
     created_live [THEN blocked_live] grows_bind op_grows site_parts_grow)

lemma updateSite_live: "emits (updateSite (record_api a) site) (\<lambda>out new. siteHindered new \<or> out = None)"
  unfolding updateSite_def record_api_simps
  by (auto split: option.splits sum.splits intro!: unless_ops grows_bind op_grows)

lemma ensureSite_live:
  assumes "\<not> ownerRefused k rc site"
  shows "emits (ensureSite (record_kube k) (record_api a) rc site)
     (\<lambda>out new. siteBlocked k rc new \<or> (case out of Inl _ \<Rightarrow> False | Inr x \<Rightarrow> \<not> ownerRefused k rc x))"
  unfolding ensureSite_def Let_def record_api_simps record_kube_simps record_obj_simps createFailed_def reportError_def forgetSite_def
  using assms
  by (auto split: option.splits sum.splits intro!: unless_blocked siteBlocked.unless_bind [OF findOrCreate_live]
     siteBlocked.unless_bind [OF updateSite_live [THEN blocked_live]]
     siteBlocked.unless_bind [OF blocked_op [where R = "\<lambda>r. case r of Inl _ \<Rightarrow> False | Inr x \<Rightarrow> \<not> ownerRefused k rc x"]]
     grows_bind op_grows site_parts_grow)

lemma site_live:
  assumes "\<not> ownerRefused k rc site"
  shows "emits (NewtSiteController.reconcile (record_kube k) (record_api a) rc mo site)
     (\<lambda>out new. siteBlocked k rc new \<or> snd out = None \<and> RequeueAfter (fst out) \<in> {5 * Minute, ResyncInterval})"
  unfolding NewtSiteController.reconcile_def
  by (rule siteBlocked.unless_bind [OF ensureSite_live [OF assms]])
    (auto split: sum.splits intro!: siteBlocked.unless_bind [OF ensureTunnel_live [THEN blocked_live]]
      finishSite_live [THEN blocked_live, simplified] grows_bind site_parts_grow)

text \<open>
  C17.  A site comes up when nothing stands in the way.  A reconciliation whose log holds no
  refusal (of the API, of the site's own objects, of the listings and of the discovered
  resources), and in which no object built for the site, as given or as the cluster returned it, is
  denied that site as its owner, ends without an error and has written the Ready phase on its
  way, followed by discovery alone.
\<close>

theorem site_reconcile_progress:
  "emits (NewtSiteController.reconcile (record_kube k) (record_api a) rc mo site)
     (\<lambda>out new. siteHindered new \<or> list_ex (ownerRefused k rc) (site # sitesSeen new)
        \<or> (snd out = None \<and> (\<exists>pre b x post. list_all isDiscovery post
            \<and> new = pre @ ESite (OStatusPatch b (spatched (NewtSiteController.readyStatus k b (onlineIn pre)) b) (Inr x)) # post)))"
proof (cases "ownerRefused k rc site")
  case False
  show ?thesis
  proof (rule emits_conseq [OF emits_conj [OF site_live [OF False] site_reconcile_ends]], elim conjE)
    fix out :: reconciled and new
    assume live: "siteBlocked k rc new \<or> snd out = None \<and> RequeueAfter (fst out) \<in> {5 * Minute, ResyncInterval}"
      and "siteEnd k out new"
    from this(2) show "siteHindered new \<or> list_ex (ownerRefused k rc) (site # sitesSeen new)
        \<or> (snd out = None \<and> (\<exists>pre b x post. list_all isDiscovery post
            \<and> new = pre @ ESite (OStatusPatch b (spatched (NewtSiteController.readyStatus k b (onlineIn pre)) b) (Inr x)) # post))"
      by cases (use live in \<open>auto simp: requeue_defs siteBlocked_def\<close>)
  qed
qed (simp add: emits_conseq [OF sreconcile_grows])


text \<open>
  There are such runs: the first reconciliation of a site, in a cluster that stores the one
  site it is asked about, with the documented errors of \<open>SetControllerReference\<close>, and a server
  that lists no site and accepts the creation.  It ends with the site stored as Ready, online,
  and with the identifier that the server gave.
\<close>

definition ownerOnce :: "objectMeta \<Rightarrow> objectMeta \<Rightarrow> gerr + objectMeta" where
  "ownerOnce owner m =
     (if m_Namespace owner \<noteq> [] \<and> m_Namespace owner \<noteq> m_Namespace m
      then Inl (ErrMsg ''cross-namespace owner references are disallowed'')
      else if list_ex (\<lambda>r. or_Controller r = Some True \<and> or_UID r \<noteq> m_UID owner) (m_OwnerReferences m)
      then Inl (ErrMsg ''already owned by another controller'')
      else Inr (m\<lparr>m_OwnerReferences := [\<lparr>or_APIVersion = ''pangolin.home-operations.com/v1alpha1'',
        or_Kind = ''NewtSite'', or_Name = m_Name owner, or_UID = m_UID owner, or_Controller = Some True,
        or_BlockOwnerDeletion = Some True\<rparr>]\<rparr>))"

definition writes :: "'o \<Rightarrow> ('o \<Rightarrow> gerr + 'o) \<Rightarrow> (NewtSite, gerr option) state" where
  "writes x f = ret (case f x of Inl e \<Rightarrow> Some e | Inr _ \<Rightarrow> None)"

definition siteStore :: "NewtSite kube \<Rightarrow> NewtSite kube" where
  "siteStore k =
     k\<lparr>kSites := (kSites k)\<lparr>oc_Get := (\<lambda>_. State (\<lambda>w. (Inr w, w))), oc_StatusPatch := (\<lambda>_ n. State (\<lambda>_. (Inr n, n)))\<rparr>,
       kSecrets := (kSecrets k)\<lparr>oc_CreateOrUpdate := writes\<rparr>,
       kServiceAccounts := (kServiceAccounts k)\<lparr>oc_CreateOrUpdate := writes\<rparr>,
       kDeployments := (kDeployments k)\<lparr>oc_CreateOrUpdate := writes,
         oc_Get := (\<lambda>(ns, n). ret (Inr \<lparr>dep_Meta = plainMeta n ns None, dep_Spec = None, dep_ReadyReplicas = 1\<rparr>))\<rparr>,
       kSetControllerReference := ownerOnce\<rparr>"

definition freshServer :: "'w API \<Rightarrow> int \<Rightarrow> 'w API" where
  "freshServer a i =
     a\<lparr>ListSites := (\<lambda>_. ret (Inr [])),
       PickSiteDefaults := ret (Inr \<lparr>psd_NewtID = ''newt'', psd_NewtSecret = ''secret'', psd_ClientAddress = ''100.90.128.1''\<rparr>),
       CreateSite := (\<lambda>q. ret (Inr \<lparr>csr_SiteID = i, csr_NiceID = csq_Name q\<rparr>))\<rparr>"

lemma record_op_ret [simp]: "run_state (record_op ev (ret r)) (w, tr) = (r, (w, tr @ [ev r]))"
  by (simp add: record_op_def)

lemma record_op_State [simp]:
  "run_state (record_op ev (State f)) (w, tr) = (fst (f w), (snd (f w), tr @ [ev (fst (f w))]))"
  by (simp add: record_op_def split: prod.splits)

lemma site_obstacles_avoidable:
  assumes "m_Namespace (site_Meta site) = []" "nst_SiteID (site_Status site) = 0"
    and "ns_Type (site_Spec site) = SiteTypeNewt" "ns_ManagedDeployment (site_Spec site) = None"
    and "ns_AutoDiscover (site_Spec site) = None"
  shows "case run_state (NewtSiteController.reconcile (record_kube (siteStore k)) (record_api (freshServer a i)) rc mo site)
       (site, []) of
     (out, (site', new)) \<Rightarrow> \<not> siteHindered new \<and> \<not> list_ex (ownerRefused (siteStore k) rc) (site # sitesSeen new)
        \<and> out = (\<lparr>RequeueAfter = ResyncInterval\<rparr>, None)
        \<and> nst_Phase (site_Status site') = PhaseReady \<and> nst_SiteID (site_Status site') = i \<and> nst_Online (site_Status site')"
proof -
  have types: "SiteTypeNewt \<noteq> SiteTypeLocal" by (simp add: SiteTypeNewt_def SiteTypeLocal_def)
  show ?thesis
    using assms
    by (simp add: NewtSiteController.reconcile_def ensureSite_def findOrCreate_def createSite_def createNewtSite_def
        persistSite_def writeSecret_def ensureTunnel_def ensureServiceAccount_def ensureDeployment_def finishSite_def
        reconcileAutodiscover_def NewtSiteController.patchStatus_def NewtSiteController.readyStatus_def NewtSiteController.setReady_def
        siteStore_def [where k = k] freshServer_def writes_def mutateSecret_def mutateDeployment_def newSecret_def
        ownerOnce_def plainMeta_def buildDeployment_def deploymentObject_def isManagedDeployment_def Let_def types sitesSeen_def
        ownerRefused_def ownedMetas_def)
qed

definition freshSite :: NewtSite where
  "freshSite = spatched (\<lambda>s. s\<lparr>nst_Phase := PhaseUnset, nst_SiteID := 0, nst_Online := False\<rparr>) sampleSite"

theorem site_reconcile_progress_witness:
  "\<forall>k a rc mo. case run_state (NewtSiteController.reconcile (record_kube (siteStore k)) (record_api (freshServer a 9)) rc mo freshSite)
       (freshSite, []) of
     (out, (site', new)) \<Rightarrow> nst_SiteID (site_Status site') = 9 \<and> snd out = None
        \<and> (\<exists>pre b x post. list_all isDiscovery post
            \<and> new = pre @ ESite (OStatusPatch b (spatched (NewtSiteController.readyStatus (siteStore k) b (onlineIn pre)) b) (Inr x)) # post)"
proof (intro allI)
  fix k a rc mo
  let ?run = "run_state (NewtSiteController.reconcile (record_kube (siteStore k)) (record_api (freshServer a 9)) rc mo freshSite)
       (freshSite, [])"
  obtain out site' new where run: "?run = (out, (site', new))"
    by (metis surj_pair)
  have "case ?run of (out, (site', new)) \<Rightarrow> \<not> siteHindered new
      \<and> \<not> list_ex (ownerRefused (siteStore k) rc) (freshSite # sitesSeen new)
      \<and> out = (\<lparr>RequeueAfter = ResyncInterval\<rparr>, None)
      \<and> nst_Phase (site_Status site') = PhaseReady \<and> nst_SiteID (site_Status site') = 9 \<and> nst_Online (site_Status site')"
    by (rule site_obstacles_avoidable)
      (simp_all add: freshSite_def sampleSite_def plainMeta_def SiteTypeNewt_def)
  with emits_run [OF site_reconcile_progress run] show "case ?run of (out, (site', new)) \<Rightarrow>
        nst_SiteID (site_Status site') = 9 \<and> snd out = None
        \<and> (\<exists>pre b x post. list_all isDiscovery post
            \<and> new = pre @ ESite (OStatusPatch b (spatched (NewtSiteController.readyStatus (siteStore k) b (onlineIn pre)) b) (Inr x)) # post)"
    by (simp add: run)
qed

text \<open>
  There are runs without an obstacle: a cluster that accepts every patch and a server that
  lists the resource.
\<close>

definition calmKube :: "'w kube \<Rightarrow> NewtSite \<Rightarrow> PublicResource \<Rightarrow> 'w kube" where
  "calmKube k site res =
     k\<lparr>kListSitesByName := (\<lambda>_. ret (Inr [site])),
       kPubs := (kPubs k)\<lparr>oc_Get := (\<lambda>_. ret (Inr res)), oc_StatusPatch := (\<lambda>_ n. ret (Inr n))\<rparr>\<rparr>"

definition calmAPI :: "'w API \<Rightarrow> int \<Rightarrow> 'w API" where
  "calmAPI a i =
     a\<lparr>ListResources := (\<lambda>name. ret (Inr [\<lparr>ri_ResourceID = i, ri_NiceID = [], ri_Name = name, ri_FullDomain = [],
       ri_Subdomain = [], ri_DomainID = [], ri_Enabled = True\<rparr>]))\<rparr>"

lemma obstacles_avoidable:
  assumes "usableSite site" and "pst_ResourceID (pub_Status res) \<noteq> 0"
    and "m_Generation (pub_Meta res) = pst_ObservedGeneration (pub_Status res)"
  shows "case run_state (PublicResource.reconcile (record_kube (calmKube k site res))
       (record_api (calmAPI a (pst_ResourceID (pub_Status res)))) sch res) (w, []) of
     (out, (w', new)) \<Rightarrow> \<not> pubHindered new \<and> out = (\<lparr>RequeueAfter = ResyncInterval\<rparr>, None)"
  using assms
  by (simp add: PublicResource.reconcile_def PublicResource.reconcileOnSite_def PublicResource.ensureExists_def
      PublicResource.markReady_def PublicResource.patchStatus_def Site_def calmKube_def calmAPI_def usableSite_def
      hindered_def pubDomain_def Let_def)

section \<open>What the hashes hide\<close>

text \<open>The hashes of the targets and rules in a status, and the events that matter to them.\<close>

definition hashes :: "PublicResource \<Rightarrow> string \<times> string" where
  "hashes res = (pst_TargetsHash (pub_Status res), pst_RulesHash (pub_Status res))"

definition changesHashes :: "event \<Rightarrow> bool" where
  "changesHashes e = (case e of EPub (OStatusPatch b n _) \<Rightarrow> hashes n \<noteq> hashes b | _ \<Rightarrow> False)"

definition refusedPart :: "event \<Rightarrow> bool" where
  "refusedPart e =
     (case e of
        EApi (AUpdateResource _ _ r) \<Rightarrow> r \<noteq> None
      | EApi (ACreateTarget _ _ r) \<Rightarrow> isl r
      | EApi (ACreateRule _ _ r) \<Rightarrow> isl r
      | _ \<Rightarrow> False)"

lemma part_simps [simp]:
  "\<not> changesHashes (EApi x)" "\<not> changesHashes (EPub (OGet q g))"
  "changesHashes (EPub (OStatusPatch b n r)) = (hashes n \<noteq> hashes b)"
  "\<not> refusedPart (EPub y)" "refusedPart (EApi (AUpdateResource i u v)) = (v \<noteq> None)"
  "refusedPart (EApi (ACreateTarget j t c)) = isl c" "refusedPart (EApi (ACreateRule j w c)) = isl c"
  "\<not> refusedPart (EApi (AListDomains d))" "\<not> refusedPart (EApi (ADeleteResource z zr))" "\<not> refusedPart (EApi (ACreateResource rq rs))"
  by (simp_all add: changesHashes_def refusedPart_def)

abbreviation keepsHashes :: "event list \<Rightarrow> bool" where
  "keepsHashes new \<equiv> \<not> list_ex changesHashes new"

lemma targets_part:
  "emits (createTargets (record_api a) sched rid sid ts)
     (\<lambda>out new. keepsHashes new \<and> (snd out = None \<longrightarrow> \<not> list_ex refusedPart new))"
proof (rule emits_conseq [OF createTargets_emits], elim exE conjE)
  fix out :: "int list \<times> gerr option" and new res ord
  assume new: "new = targetEvents rid sid ts res ord" and o: "fanOutcome ''CreateTarget: '' (length ts) res ord out"
  have "\<not> isl (res i)" if "i \<in> set ord" "snd out = None" for i
    using o that by (auto simp: fanOutcome_def)
  then show "keepsHashes new \<and> (snd out = None \<longrightarrow> \<not> list_ex refusedPart new)"
    unfolding new targetEvents_def by (auto simp: list_ex_iff)
qed

lemma rules_part:
  "emits (createRules (record_api a) sched rid rs)
     (\<lambda>out new. keepsHashes new \<and> (snd out = None \<longrightarrow> \<not> list_ex refusedPart new))"
proof (rule emits_conseq [OF createRules_emits], elim exE conjE)
  fix out :: "int list \<times> gerr option" and new res ord
  assume new: "new = ruleEvents rid rs res ord" and o: "fanOutcome ''CreateRule: '' (length rs) res ord out"
  have "\<not> isl (res i)" if "i \<in> set ord" "snd out = None" for i
    using o that by (auto simp: fanOutcome_def)
  then show "keepsHashes new \<and> (snd out = None \<longrightarrow> \<not> list_ex refusedPart new)"
    unfolding new ruleEvents_def by (auto simp: list_ex_iff)
qed

text \<open>
  A log in which the hashes change only if nothing was refused, and the way such logs are
  put together.
\<close>

definition honest :: "event list \<Rightarrow> bool" where
  "honest new \<longleftrightarrow> keepsHashes new \<or> \<not> list_ex refusedPart new"

lemma honest_now [simp]: "honest []" "honest [EPub y]"
  by (simp_all add: honest_def)

lemma honest_patch:
  assumes "\<And>s. pst_TargetsHash (f s) = pst_TargetsHash s \<and> pst_RulesHash (f s) = pst_RulesHash s"
  shows "emits (PublicResource.patchStatus (record_kube k) res f) (\<lambda>_ new. keepsHashes new)"
  using assms by (auto simp: hashes_def intro!: emits_patch)

lemma keeps_bind:
  assumes "emits m (\<lambda>_ new. keepsHashes new)" and "\<And>r. emits (f r) (\<lambda>_ new. keepsHashes new)"
  shows "emits (m \<bind> f) (\<lambda>_ new. keepsHashes new)"
  by (rule emits_bind [OF assms(1)], rule emits_conseq [OF assms(2)]) simp

lemma honest_bind:
  assumes "emits m (\<lambda>r new. keepsHashes new \<and> (R r \<longrightarrow> \<not> list_ex refusedPart new))"
    and "\<And>r. R r \<Longrightarrow> emits (f r) (\<lambda>_ new. honest new)"
    and "\<And>r. \<not> R r \<Longrightarrow> emits (f r) (\<lambda>_ new. keepsHashes new)"
  shows "emits (m \<bind> f) (\<lambda>_ new. honest new)"
  using assms(1)
proof (rule emits_bind)
  fix r new
  assume a: "keepsHashes new \<and> (R r \<longrightarrow> \<not> list_ex refusedPart new)"
  show "emits (f r) (\<lambda>_ new'. honest (new @ new'))"
  proof (cases "R r")
    case True
    from assms(2) [OF this] show ?thesis by (rule emits_conseq) (use a True in \<open>auto simp: honest_def\<close>)
  next
    case False
    from assms(3) [OF this] show ?thesis by (rule emits_conseq) (use a in \<open>auto simp: honest_def\<close>)
  qed
qed

lemma part_op:
  assumes "\<And>r. \<not> changesHashes (ev r)" and "\<And>r. R r \<Longrightarrow> \<not> refusedPart (ev r)"
  shows "emits (record_op ev m) (\<lambda>r new. keepsHashes new \<and> (R r \<longrightarrow> \<not> list_ex refusedPart new))"
  by (rule emits_op) (simp add: assms)

lemma finishCreate_honest:
  "emits (finishCreate (record_kube k) (record_api a) sch http res rid sid) (\<lambda>_ new. honest new)"
  unfolding finishCreate_def Let_def record_api_simps
  by (rule honest_bind [OF part_op [where R = "\<lambda>r. r = None"]])
    (auto split: option.splits
      intro!: honest_bind [OF targets_part] honest_bind [OF rules_part] keeps_bind [OF honest_patch] emits_patch)

lemma honest_Cons: "\<not> changesHashes e \<Longrightarrow> \<not> refusedPart e \<Longrightarrow> honest (e # new) = honest new"
  by (simp add: honest_def)

lemma createResource_honest:
  "emits (createResource (record_kube k) (record_api a) sch res sid) (\<lambda>_ new. honest new)"
  unfolding createResource_def PublicResource.createRequestFor_def Let_def record_api_simps record_kube_simps record_obj_simps
  by (auto split: option.splits sum.splits prod.splits simp: honest_Cons hashes_def
      intro!: emits_bind_patch emits_bind_op emits_conseq [OF finishCreate_honest])

text \<open>The resource as it is when its targets and rules are those of the specification, by the hashes.\<close>

definition settledHashes :: "PublicResource \<Rightarrow> PublicResource" where
  "settledHashes = (\<lambda>res. patched (\<lambda>s. s\<lparr>pst_TargetsHash := targetsHashOf (pub_Spec res),
     pst_RulesHash := rulesHashOf (pub_Spec res)\<rparr>) res)"

text \<open>
  C18.  A resource can be Ready without its targets.  When the resource is gone from the server,
  its status is reset, but keeps the hashes of the targets and rules it had; when it is made
  again and a part of that is refused (its settings, a target, a rule), no status patch
  changes the hashes either; and once the hashes are those of the specification, an update
  is the update of the settings alone: that one call is its whole log, and nothing creates
  the targets and rules that are missing.
\<close>

theorem stale_hashes:
  "hashes (patched PublicResource.resetStatus res) = hashes res
   \<and> emits (createResource (record_kube k) (record_api a) sch res sid)
       (\<lambda>_ new. if list_ex refusedPart new then list_all (\<lambda>e. \<not> changesHashes e) new else True)
   \<and> emits (updateResource (record_kube k) (record_api a) sch (settledHashes res) sid)
       (\<lambda>out new. \<exists>u. new = [EApi (AUpdateResource (pst_ResourceID (pub_Status res)) (PublicResource.updateRequestFor (pub_Spec res)) u)])"
proof (intro conjI)
  show "hashes (patched PublicResource.resetStatus res) = hashes res"
    by (simp add: hashes_def PublicResource.resetStatus_def)
  show "emits (createResource (record_kube k) (record_api a) sch res sid)
       (\<lambda>_ new. if list_ex refusedPart new then list_all (\<lambda>e. \<not> changesHashes e) new else True)"
    by (rule emits_conseq [OF createResource_honest]) (auto simp: honest_def list_ex_iff list_all_iff)
  show "emits (updateResource (record_kube k) (record_api a) sch (settledHashes res) sid)
       (\<lambda>out new. \<exists>u. new = [EApi (AUpdateResource (pst_ResourceID (pub_Status res)) (PublicResource.updateRequestFor (pub_Spec res)) u)])"
    unfolding updateResource_def updateTargets_def updateRules_def Let_def record_api_simps
    by (auto simp: settledHashes_def split: option.splits intro!: emits_bind_op)
qed

end
