(* ===== verification/Settings.thy ===== *)
theory Settings
  imports PublicLaws SpecJson
begin

text \<open>
  Which settings of a public resource the controller never sends.  Two clusters that hold the
  same resources but for such settings are run side by side: every function of the controller
  is the same computation in both, up to the settings of the objects it returns.
\<close>

section \<open>Objects that carry other settings\<close>

text \<open>
  The specification with other request headers, maintenance page, roles, users and
  credentials, and with other users in a list of whitelisted users that is not empty.
\<close>

definition otherSettings ::
  "PublicHeaderSpec list \<Rightarrow> PublicMaintenanceSpec option \<Rightarrow> string list \<Rightarrow> string list \<Rightarrow> string \<Rightarrow> string list
     \<Rightarrow> PublicResourceSpec \<Rightarrow> PublicResourceSpec" where
  "otherSettings headers maintenance roles users secret whitelisted spec =
     spec\<lparr>ps_Headers := headers, ps_Maintenance := maintenance,
       ps_Auth := map_option (\<lambda>auth. auth\<lparr>pa_SsoRoles := roles, pa_SsoUsers := users, pa_AuthSecretRef := secret,
         pa_WhitelistUsers := (if pa_WhitelistUsers auth = [] \<or> whitelisted = [] then pa_WhitelistUsers auth
           else whitelisted)\<rparr>) (ps_Auth spec)\<rparr>"

text \<open>A change of specifications that leaves alone whatever the requests are made of.\<close>

definition unsent :: "(PublicResourceSpec \<Rightarrow> PublicResourceSpec) \<Rightarrow> bool" where
  "unsent g \<longleftrightarrow> (\<forall>spec. ps_SiteRef (g spec) = ps_SiteRef spec \<and> ps_Name (g spec) = ps_Name spec
     \<and> ps_Protocol (g spec) = ps_Protocol spec \<and> ps_FullDomain (g spec) = ps_FullDomain spec
     \<and> ps_ProxyPort (g spec) = ps_ProxyPort spec \<and> ps_Enabled (g spec) = ps_Enabled spec
     \<and> ps_Targets (g spec) = ps_Targets spec \<and> ps_Rules (g spec) = ps_Rules spec
     \<and> buildHTTPUpdateRequest (g spec) = buildHTTPUpdateRequest spec)"

lemma otherSettings_unsent: "unsent (otherSettings headers maintenance roles users secret whitelisted)"
proof -
  have "buildHTTPUpdateRequest (otherSettings headers maintenance roles users secret whitelisted spec)
      = buildHTTPUpdateRequest spec" for spec
    by (cases "ps_Auth spec") (simp_all add: otherSettings_def buildHTTPUpdateRequest_def Let_def)
  then show ?thesis by (simp add: unsent_def otherSettings_def)
qed

definition withSpec :: "(PublicResourceSpec \<Rightarrow> PublicResourceSpec) \<Rightarrow> PublicResource \<Rightarrow> PublicResource" where
  "withSpec g res = res\<lparr>pub_Spec := g (pub_Spec res)\<rparr>"

lemma withSpec_simps [simp]:
  "pub_Spec (withSpec g res) = g (pub_Spec res)" "pub_Meta (withSpec g res) = pub_Meta res"
  "pub_Status (withSpec g res) = pub_Status res"
  "(withSpec g res)\<lparr>pub_Status := s\<rparr> = withSpec g (res\<lparr>pub_Status := s\<rparr>)"
  "(withSpec g res)\<lparr>pub_Meta := m\<rparr> = withSpec g (res\<lparr>pub_Meta := m\<rparr>)"
  by (simp_all add: withSpec_def)

text \<open>An operation with its answer changed.\<close>

definition answers :: "('r \<Rightarrow> 's) \<Rightarrow> ('w, 'r) state \<Rightarrow> ('w, 's) state" where
  "answers f m = do { r \<leftarrow> m; ret (f r) }"

text \<open>
  Two clusters that differ in the settings of the resources they hold: each read, update and
  status patch does the same to the world in both, and what the second returns is what the
  first returns with the other settings; everything else is the same.
\<close>

definition differsBy :: "(PublicResourceSpec \<Rightarrow> PublicResourceSpec) \<Rightarrow> 'w kube \<Rightarrow> 'w kube \<Rightarrow> bool" where
  "differsBy g k k' \<longleftrightarrow>
     (\<forall>q. oc_Get (kPubs k') q = answers (map_sum id (withSpec g)) (oc_Get (kPubs k) q))
     \<and> (\<forall>x. oc_Update (kPubs k') (withSpec g x) = answers (map_sum id (withSpec g)) (oc_Update (kPubs k) x))
     \<and> (\<forall>b n. oc_StatusPatch (kPubs k') (withSpec g b) (withSpec g n)
          = answers (map_sum id (withSpec g)) (oc_StatusPatch (kPubs k) b n))
     \<and> kListSitesByName k' = kListSitesByName k \<and> kSetStatusCondition k' = kSetStatusCondition k
     \<and> kContainsFinalizer k' = kContainsFinalizer k \<and> kAddFinalizer k' = kAddFinalizer k
     \<and> kRemoveFinalizer k' = kRemoveFinalizer k"

lemma answers_bind: "State_Monad.bind (answers f m) h = State_Monad.bind m (\<lambda>r. h (f r))"
  by (simp add: answers_def)

lemma answers_ret [simp]: "answers f (ret r) = ret (f r)"
  by (simp add: answers_def)

lemma answers_into:
  "answers f (State_Monad.bind m h) = State_Monad.bind m (\<lambda>r. answers f (h r))"
  by (simp add: answers_def)

lemma bind_same:
  fixes m :: "('w, 'a) state"
  shows "(\<And>r. h r = h' r) \<Longrightarrow> (m \<bind> h) = (m \<bind> h')"
  by (rule arg_cong2 [where f = State_Monad.bind]) auto

lemma answers_cases [simp]:
  "answers f (if b then m1 else m2) = (if b then answers f m1 else answers f m2)"
  "answers f (case p of (x, y) \<Rightarrow> h x y) = (case p of (x, y) \<Rightarrow> answers f (h x y))"
  "answers f (case z of None \<Rightarrow> m | Some u \<Rightarrow> h' u) = (case z of None \<Rightarrow> answers f m | Some u \<Rightarrow> answers f (h' u))"
  "answers f (case s of Inl l \<Rightarrow> fl l | Inr v \<Rightarrow> fr v) = (case s of Inl l \<Rightarrow> answers f (fl l) | Inr v \<Rightarrow> answers f (fr v))"
  by (simp_all split: prod.splits option.splits sum.splits)

lemma answers_mapped:
  "case_prod h (map_prod id f x) = case_prod (\<lambda>u v. h u (f v)) x"
  "case_sum hl hr (map_sum id f y) = case_sum hl (\<lambda>v. hr (f v)) y"
  "map_prod id f (u, v) = (u, f v)" "map_sum id f (Inl l) = Inl l" "map_sum id f (Inr v) = Inr (f v)"
  by (simp_all split: prod.split sum.split)

lemma answers_if:
  "State_Monad.bind (if b then answers (map_sum id f) m else ret (Inr (f x))) h
     = State_Monad.bind (if b then m else ret (Inr x)) (\<lambda>r. h (map_sum id f r))"
  "State_Monad.bind (if b then ret (Inr (f x)) else answers (map_sum id f) m) h
     = State_Monad.bind (if b then ret (Inr x) else m) (\<lambda>r. h (map_sum id f r))"
  "State_Monad.bind (if b then answers (map_prod id f') m' else ret (e, f' y)) h'
     = State_Monad.bind (if b then m' else ret (e, y)) (\<lambda>r. h' (map_prod id f' r))"
  by (simp_all add: answers_bind)

lemma withFinalizers_withSpec: "withFinalizers f (withSpec g res) = withSpec g (withFinalizers f res)"
  by (simp add: withFinalizers_def)

text \<open>The contract, and what follows for each function of the controller.\<close>

locale indifferent =
  fixes g :: "PublicResourceSpec \<Rightarrow> PublicResourceSpec" and k k' :: "'w kube"
  assumes g: "unsent g" and k: "differsBy g k k'"
begin

lemma kube_simps:
  "oc_Get (kPubs k') q = answers (map_sum id (withSpec g)) (oc_Get (kPubs k) q)"
  "oc_Update (kPubs k') (withSpec g x) = answers (map_sum id (withSpec g)) (oc_Update (kPubs k) x)"
  "oc_StatusPatch (kPubs k') (withSpec g b) (withSpec g n) = answers (map_sum id (withSpec g)) (oc_StatusPatch (kPubs k) b n)"
  "kListSitesByName k' = kListSitesByName k" "kSetStatusCondition k' = kSetStatusCondition k"
  "kContainsFinalizer k' = kContainsFinalizer k" "kAddFinalizer k' = kAddFinalizer k"
  "kRemoveFinalizer k' = kRemoveFinalizer k"
  using k unfolding differsBy_def by blast+

lemma spec_simps:
  "ps_SiteRef (g spec) = ps_SiteRef spec" "ps_Name (g spec) = ps_Name spec" "ps_Protocol (g spec) = ps_Protocol spec"
  "ps_FullDomain (g spec) = ps_FullDomain spec" "ps_ProxyPort (g spec) = ps_ProxyPort spec"
  "ps_Enabled (g spec) = ps_Enabled spec" "ps_Targets (g spec) = ps_Targets spec" "ps_Rules (g spec) = ps_Rules spec"
  "buildHTTPUpdateRequest (g spec) = buildHTTPUpdateRequest spec"
  using g by (simp_all add: unsent_def)

lemma asks_same:
  "createRequestFor a (g spec) = createRequestFor a spec" "updateRequestFor (g spec) = updateRequestFor spec"
  "targetsHashOf (g spec) = targetsHashOf spec" "rulesHashOf (g spec) = rulesHashOf spec"
  "findResource items (g spec) = findResource items spec"
  unfolding createRequestFor_def updateRequestFor_def targetsHashOf_def rulesHashOf_def spec_simps
  by (rule refl)+ (induction items; simp add: spec_simps)

lemma status_simps:
  "setReady k' = setReady k" "setReady k (withSpec g res) = setReady k res" "readyStatus k' = readyStatus k"
  "readyStatus k (withSpec g res) = readyStatus k res" "Site k' name = Site k name"
  by (simp_all add: fun_eq_iff setReady_def readyStatus_def SetCondition_def Site_def kube_simps)

lemma patch_same:
  "patchStatus k' (withSpec g res) f = answers (map_prod id (withSpec g)) (patchStatus k res f)"
  unfolding patchStatus_def Let_def withSpec_simps kube_simps answers_bind answers_into
  by (rule bind_same) (simp split: sum.split)

lemmas same = kube_simps spec_simps asks_same status_simps patch_same withSpec_simps withFinalizers_withSpec answers_bind
  answers_into answers_mapped answers_cases answers_ret answers_if

lemma finishCreate_same:
  "finishCreate k' a sch h (withSpec g res) rid sid = answers (map_prod id (withSpec g)) (finishCreate k a sch h res rid sid)"
  unfolding finishCreate_def Let_def same by (rule refl)

lemma createResource_same:
  "createResource k' a sch (withSpec g res) sid = answers (map_prod id (withSpec g)) (createResource k a sch res sid)"
  unfolding createResource_def Let_def same finishCreate_same by (rule refl)

lemma ensureExists_same:
  "ensureExists k' a sch (withSpec g res) sid
     = answers (map_prod id (map_prod id (withSpec g))) (ensureExists k a sch res sid)"
  unfolding ensureExists_def Let_def same createResource_same by (rule refl)

lemma updateTargets_same:
  "updateTargets k' a sched (withSpec g res) sid = answers (map_prod id (withSpec g)) (updateTargets k a sched res sid)"
  unfolding updateTargets_def Let_def same by (rule refl)

lemma updateRules_same:
  "updateRules k' a sched (withSpec g res) = answers (map_prod id (withSpec g)) (updateRules k a sched res)"
  unfolding updateRules_def Let_def same by (rule refl)

lemma updateResource_same:
  "updateResource k' a sch (withSpec g res) sid = answers (map_prod id (withSpec g)) (updateResource k a sch res sid)"
  unfolding updateResource_def same updateTargets_same updateRules_same by (rule refl)

lemma ends_same:
  "ensureFailed k' (withSpec g res) e = ensureFailed k res e" "updateFailed k' (withSpec g res) e = updateFailed k res e"
  "markReady k' (withSpec g res) = markReady k res"
  unfolding ensureFailed_def updateFailed_def markReady_def same by (rule refl)+

lemma reconcileOnSite_same:
  "reconcileOnSite k' a sch (withSpec g res) sid = reconcileOnSite k a sch res sid"
  unfolding reconcileOnSite_def Let_def same ensureExists_same updateResource_same ends_same
  by (rule refl)

lemma reconcile_same: "reconcile k' a sch (withSpec g res) = reconcile k a sch res"
  unfolding reconcile_def same reconcileOnSite_same by (rule refl)

lemma cleanup_same: "cleanup k' a (withSpec g res) = cleanup k a res"
  unfolding cleanup_def Let_def same by (rule refl)

lemma Reconcile_same: "Reconcile k' a sch req = Reconcile k a sch req"
  unfolding Reconcile_def same cleanup_same reconcile_same by (rule refl)

end


section \<open>Clusters of one resource\<close>

text \<open>
  A cluster that holds one resource: an update stores the metadata, a status patch the status,
  and every read shows the specification through \<open>g\<close>.
\<close>

definition pubStore :: "(PublicResourceSpec \<Rightarrow> PublicResourceSpec) \<Rightarrow> PublicResource kube \<Rightarrow> PublicResource kube" where
  "pubStore g k =
     k\<lparr>kPubs := (kPubs k)\<lparr>oc_Get := (\<lambda>_. State (\<lambda>w. (Inr (withSpec g w), w))),
       oc_Update := (\<lambda>x. State (\<lambda>w. (Inr (withSpec g (w\<lparr>pub_Meta := pub_Meta x\<rparr>)), w\<lparr>pub_Meta := pub_Meta x\<rparr>))),
       oc_StatusPatch := (\<lambda>_ n. State (\<lambda>w.
         (Inr (withSpec g (w\<lparr>pub_Status := pub_Status n\<rparr>)), w\<lparr>pub_Status := pub_Status n\<rparr>)))\<rparr>\<rparr>"

lemma answers_State: "answers f (State t) = State (\<lambda>w. case t w of (r, w') \<Rightarrow> (f r, w'))"
  by (simp add: answers_def State_Monad.bind_def State_Monad.return_def case_prod_beta)

lemma withSpec_id [simp]: "withSpec id res = res"
  by (simp add: withSpec_def)

lemma stores_differ: "differsBy g (pubStore id k) (pubStore g k)"
  by (simp add: differsBy_def pubStore_def answers_State)

interpretation stored: indifferent "otherSettings headers maintenance roles users secret whitelisted" "pubStore id k"
  "pubStore (otherSettings headers maintenance roles users secret whitelisted) k"
  for headers maintenance roles users secret whitelisted and k :: "PublicResource kube"
  by unfold_locales (rule otherSettings_unsent stores_differ)+

section \<open>Health checks\<close>

text \<open>Targets with other health checks, and the text of which the hash is taken.\<close>

definition otherChecks ::
  "(PublicTargetSpec \<Rightarrow> PublicHealthCheckSpec option) \<Rightarrow> PublicTargetSpec list \<Rightarrow> PublicTargetSpec list" where
  "otherChecks check ts = map (\<lambda>t. t\<lparr>pt_Healthcheck := check t\<rparr>) ts"

definition hashedTargets :: "PublicTargetSpec list \<Rightarrow> string" where
  "hashedTargets ts = jsonText (jsonSlice jsonTarget (Some ts))"

lemma hashedTargets_hash: "ps_Targets spec = Some ts \<Longrightarrow> targetsHashOf spec = sha256Hex (hashedTargets ts)"
  by (simp add: targetsHashOf_def hashJSON_def hashedTargets_def)

lemma hashedTargets_eq: "hashedTargets ts = hashedTargets us \<longleftrightarrow> ts = us"
proof -
  have "intJson (jsonSlice jsonTarget (Some xs))" for xs
    by (simp add: intJson_slice)
  then show ?thesis
    by (simp add: hashedTargets_def jsonText_inj jsonSlice_inj [OF jsonTarget_inj])
qed

lemma fanRun_same:
  assumes "\<And>i. i < n \<Longrightarrow> call i = call' i"
  shows "fanRun label call n sched f = fanRun label call' n sched f"
proof -
  have "fanStep label call n st u = fanStep label call' n st u" for st u
    by (cases st) (auto simp: assms)
  then show ?thesis by (induction sched arbitrary: f) (auto intro: bind_same)
qed

lemma checks_unsent: "createTargets a sched rid sid (otherChecks check ts) = createTargets a sched rid sid ts"
proof -
  have "targetRequest sid (otherChecks check ts ! i) = targetRequest sid (ts ! i)" if "i < length ts" for i
    using that by (simp add: otherChecks_def targetRequest_def)
  then show ?thesis
    unfolding createTargets_def createAll_def by (subst fanRun_same) (auto simp: otherChecks_def)
qed

section \<open>What has no effect\<close>

text \<open>
  C37.  Settings that never reach the server.  In two clusters that differ in nothing but the
  headers, the maintenance page, the SSO roles and users and the auth secret of their public
  resources, and in who is on a list of whitelisted users that is not empty, the whole
  reconciliation is the same computation: the same requests with the same contents to any
  Pangolin server, the same status and the same result.  Health checks do not reach the server either,
  but they are not without effect: targets with other health checks are created by the same
  requests, while the text that the targets' hash is taken of is another one whenever a check
  differs, so a changed check makes the operator replace every target by an equal one.
\<close>

theorem settings_never_sent:
  assumes "differsBy (otherSettings headers maintenance roles users secret whitelisted) k k'"
  shows "Reconcile k' a sch req = Reconcile k a sch req
    \<and> createTargets a sched rid sid (otherChecks check ts) = createTargets a sched rid sid ts
    \<and> (hashedTargets (otherChecks check ts) = hashedTargets ts) = (otherChecks check ts = ts)"
  using indifferent.Reconcile_same [OF indifferent.intro [OF otherSettings_unsent assms]]
  by (simp add: checks_unsent hashedTargets_eq)

theorem settings_never_sent_witness:
  "\<forall>k a sch req spec.
     Reconcile (pubStore (otherSettings [\<lparr>hd_Name = ''X-Team'', hd_Value = ''ops''\<rparr>] None [''admin''] [] ''ref'' []) k) a sch req
       = Reconcile (pubStore id k) a sch req
     \<and> otherSettings [\<lparr>hd_Name = ''X-Team'', hd_Value = ''ops''\<rparr>] None [''admin''] [] ''ref'' [] spec \<noteq> spec\<lparr>ps_Headers := []\<rparr>"
  (is "\<forall>k a sch req spec. _ k a sch req \<and> ?g spec \<noteq> _ spec")
proof (intro allI conjI)
  fix k a sch req and spec :: PublicResourceSpec
  show "Reconcile (pubStore ?g k) a sch req = Reconcile (pubStore id k) a sch req"
    using settings_never_sent [OF stores_differ] by blast
  have "ps_Headers (?g spec) \<noteq> []" by (simp add: otherSettings_def)
  then show "?g spec \<noteq> spec\<lparr>ps_Headers := []\<rparr>" by auto
qed

end
