(* ===== verification/Startup.thy ===== *)
theory Startup
  imports Client NewtSiteController
begin

text \<open>
  The start of the process, \<open>cmd/main.go\<close>: the flags, the required environment, the options of
  the controller manager, and the order in which it is set up.  What the process calls
  outside the repository (the environment, the file system and controller-runtime) is an
  argument; an error is its text.
\<close>

section \<open>Flags\<close>

record flags =
  fl_MetricsAddr :: string
  fl_ProbeAddr :: string
  fl_LeaderElect :: bool
  fl_SecureMetrics :: bool
  fl_EnableHTTP2 :: bool
  fl_EnablePprof :: bool
  fl_PprofAddr :: string
  fl_LogLevel :: string

definition defaultFlags :: flags where
  "defaultFlags =
     \<lparr>fl_MetricsAddr = ''0'', fl_ProbeAddr = '':8081'', fl_LeaderElect = False, fl_SecureMetrics = True,
      fl_EnableHTTP2 = False, fl_EnablePprof = False, fl_PprofAddr = ''localhost:6060'', fl_LogLevel = ''info''\<rparr>"

definition developmentLog :: "flags \<Rightarrow> bool" where
  "developmentLog fl = (toLower (fl_LogLevel fl) = ''debug'')"

section \<open>The options of the manager\<close>

text \<open>
  The protocols that a TLS server offers are those of the library unless the option sets
  them; the cache holds the kinds listed, restricted to the labels where there are any.
\<close>

record managerOptions =
  mg_BindAddress :: string
  mg_SecureServing :: bool
  mg_NextProtos :: "string list option"
  mg_AuthFilter :: bool
  mg_Cache :: "(string \<times> (string \<times> string) list option) list"
  mg_HealthProbeBindAddress :: string
  mg_LeaderElection :: bool
  mg_LeaderElectionID :: string

definition secretSelector :: "(string \<times> string) list" where
  "secretSelector = [(''app.kubernetes.io/managed-by'', ''pangolin-operator'')]"

definition cacheByObject :: "(string \<times> (string \<times> string) list option) list" where
  "cacheByObject =
     [(''Deployment'', None), (''ServiceAccount'', None), (''Service'', None), (''Secret'', Some secretSelector),
      (''HTTPRoute'', None), (''TCPRoute'', None), (''NewtSite'', None), (''PublicResource'', None),
      (''PrivateResource'', None)]"

definition optionsFor :: "flags \<Rightarrow> managerOptions" where
  "optionsFor fl =
     \<lparr>mg_BindAddress = fl_MetricsAddr fl, mg_SecureServing = fl_SecureMetrics fl,
      mg_NextProtos = (if \<not> fl_EnableHTTP2 fl then Some [''http/1.1''] else None),
      mg_AuthFilter = fl_SecureMetrics fl, mg_Cache = cacheByObject,
      mg_HealthProbeBindAddress = fl_ProbeAddr fl, mg_LeaderElection = fl_LeaderElect fl,
      mg_LeaderElectionID = ''pangolin-operator.home-operations.com''\<rparr>"

section \<open>Profiling\<close>

text \<open>
  The server for profiles: its address, its routes with the handlers of \<open>net/http/pprof\<close>, and
  the seconds it waits for the header of a request.  It runs in a goroutine of its own, and
  its failure is only logged.
\<close>

record pprofServer =
  pf_Addr :: string
  pf_Routes :: "(string \<times> string) list"
  pf_ReadHeaderTimeout :: int

definition pprofFor :: "flags \<Rightarrow> pprofServer" where
  "pprofFor fl =
     \<lparr>pf_Addr = fl_PprofAddr fl,
      pf_Routes = [(''/debug/pprof/'', ''Index''), (''/debug/pprof/cmdline'', ''Cmdline''),
        (''/debug/pprof/profile'', ''Profile''), (''/debug/pprof/symbol'', ''Symbol''), (''/debug/pprof/trace'', ''Trace'')],
      pf_ReadHeaderTimeout = 10\<rparr>"

section \<open>The environment\<close>

text \<open>
  How the process ends: \<open>main\<close> returns, or \<open>os.Exit(1)\<close> after an error is logged with a
  message.
\<close>

datatype exit = Returned | Exit1 string string

record 'w runtime =
  rt_Getenv :: "string \<Rightarrow> string"
  rt_NamespaceFile :: "string option"
  rt_SetLogger :: "bool \<Rightarrow> ('w, unit) state"
  rt_ServePprof :: "pprofServer \<Rightarrow> ('w, unit) state"
  rt_NewManager :: "managerOptions \<Rightarrow> ('w, string option) state"
  rt_RegisterCollector :: "('w, unit) state"
  rt_IndexField :: "string \<Rightarrow> (NewtSite \<Rightarrow> string list) \<Rightarrow> ('w, string option) state"
  rt_SetupNewtSite :: "Client \<Rightarrow> siteReconciler \<Rightarrow> ('w, string option) state"
  rt_SetupPublicResource :: "Client \<Rightarrow> ('w, string option) state"
  rt_SetupPrivateResource :: "Client \<Rightarrow> ('w, string option) state"
  rt_AddHealthzCheck :: "('w, string option) state"
  rt_AddReadyzCheck :: "('w, string option) state"
  rt_Start :: "('w, string option) state"

definition mustEnv :: "'w runtime \<Rightarrow> string \<Rightarrow> exit + string" where
  "mustEnv rt key =
     (let v = rt_Getenv rt key in
      if v = [] then Inl (Exit1 (''required environment variable '' @ quote key @ '' is not set'') ''missing configuration'')
      else Inr v)"

definition detectNamespace :: "'w runtime \<Rightarrow> exit + string" where
  "detectNamespace rt =
     (case rt_NamespaceFile rt of
        Some ns \<Rightarrow> Inr (trimSpace ns)
      | None \<Rightarrow>
          (let ns = rt_Getenv rt ''OPERATOR_NAMESPACE'' in
           if ns \<noteq> [] then Inr ns
           else Inl (Exit1 ''could not detect operator namespace'' ''set OPERATOR_NAMESPACE for local development'')))"

text \<open>The endpoint for the tunnels and the client of the API, read in the order of the code.\<close>

definition configuration :: "'w runtime \<Rightarrow> exit + string \<times> Client" where
  "configuration rt =
     (case mustEnv rt ''PANGOLIN_ENDPOINT'' of
        Inl x \<Rightarrow> Inl x
      | Inr newtEndpoint \<Rightarrow>
          (case mustEnv rt ''PANGOLIN_API_URL'' of
             Inl x \<Rightarrow> Inl x
           | Inr url \<Rightarrow>
               (case mustEnv rt ''PANGOLIN_API_KEY'' of
                  Inl x \<Rightarrow> Inl x
                | Inr key \<Rightarrow>
                    (case mustEnv rt ''PANGOLIN_ORG_ID'' of
                       Inl x \<Rightarrow> Inl x
                     | Inr org \<Rightarrow> Inr (newtEndpoint, NewClient \<lparr>cd_Endpoint = url, cd_APIKey = key, cd_OrgID = org\<rparr>)))))"

section \<open>The process\<close>

definition IndexField :: string where
  "IndexField = ''metadata.name''"

text \<open>A step of the set-up whose failure ends the process, before the rest.\<close>

definition orExit :: "string \<Rightarrow> ('w, string option) state \<Rightarrow> ('w, exit) state \<Rightarrow> ('w, exit) state" where
  "orExit msg step rest =
     do {
       e \<leftarrow> step;
       case e of Some err \<Rightarrow> ret (Exit1 err msg) | None \<Rightarrow> rest
     }"

definition setupControllers :: "'w runtime \<Rightarrow> string \<Rightarrow> Client \<Rightarrow> ('w, exit) state \<Rightarrow> ('w, exit) state" where
  "setupControllers rt newtEndpoint pc rest =
     (case detectNamespace rt of
        Inl x \<Rightarrow> ret x
      | Inr ns \<Rightarrow>
          orExit ''unable to create controller''
            (rt_SetupNewtSite rt pc \<lparr>rc_NewtEndpoint = newtEndpoint, rc_OperatorNamespace = ns\<rparr>)
            (orExit ''unable to create controller'' (rt_SetupPublicResource rt pc)
              (orExit ''unable to create controller'' (rt_SetupPrivateResource rt pc) rest)))"

definition runManager :: "'w runtime \<Rightarrow> ('w, exit) state" where
  "runManager rt =
     orExit ''unable to set up health check'' (rt_AddHealthzCheck rt)
       (orExit ''unable to set up ready check'' (rt_AddReadyzCheck rt)
         (orExit ''problem running manager'' (rt_Start rt) (ret Returned)))"

definition processMain :: "'w runtime \<Rightarrow> flags \<Rightarrow> ('w, exit) state" where
  "processMain rt fl =
     do {
       _ \<leftarrow> rt_SetLogger rt (developmentLog fl);
       _ \<leftarrow> (if fl_EnablePprof fl then rt_ServePprof rt (pprofFor fl) else ret ());
       case configuration rt of
         Inl x \<Rightarrow> ret x
       | Inr (newtEndpoint, pc) \<Rightarrow>
           orExit ''unable to start manager'' (rt_NewManager rt (optionsFor fl)) (do {
             _ \<leftarrow> rt_RegisterCollector rt;
             orExit ''unable to set up NewtSite name index''
               (rt_IndexField rt IndexField (\<lambda>site. [m_Name (site_Meta site)]))
               (setupControllers rt newtEndpoint pc (runManager rt))
           })
     }"

section \<open>What the start guarantees\<close>

datatype startEvent =
    SLogger bool
  | SPprof pprofServer
  | SManager managerOptions "string option"
  | SCollector
  | SIndex string "string option"
  | SNewtSite Client siteReconciler "string option"
  | SPublic Client "string option"
  | SPrivate Client "string option"
  | SHealthz "string option"
  | SReadyz "string option"
  | SStart "string option"

definition record_step :: "('r \<Rightarrow> startEvent) \<Rightarrow> ('w, 'r) state \<Rightarrow> ('w \<times> startEvent list, 'r) state" where
  "record_step ev m = State (\<lambda>(w, tr). case run_state m w of (r, w') \<Rightarrow> (r, (w', tr @ [ev r])))"

definition record_runtime :: "'w runtime \<Rightarrow> ('w \<times> startEvent list) runtime" where
  "record_runtime rt =
     \<lparr>rt_Getenv = rt_Getenv rt, rt_NamespaceFile = rt_NamespaceFile rt,
      rt_SetLogger = (\<lambda>b. record_step (\<lambda>_. SLogger b) (rt_SetLogger rt b)),
      rt_ServePprof = (\<lambda>x. record_step (\<lambda>_. SPprof x) (rt_ServePprof rt x)),
      rt_NewManager = (\<lambda>x. record_step (SManager x) (rt_NewManager rt x)),
      rt_RegisterCollector = record_step (\<lambda>_. SCollector) (rt_RegisterCollector rt),
      rt_IndexField = (\<lambda>x f. record_step (SIndex x) (rt_IndexField rt x f)),
      rt_SetupNewtSite = (\<lambda>c rc. record_step (SNewtSite c rc) (rt_SetupNewtSite rt c rc)),
      rt_SetupPublicResource = (\<lambda>c. record_step (SPublic c) (rt_SetupPublicResource rt c)),
      rt_SetupPrivateResource = (\<lambda>c. record_step (SPrivate c) (rt_SetupPrivateResource rt c)),
      rt_AddHealthzCheck = record_step SHealthz (rt_AddHealthzCheck rt),
      rt_AddReadyzCheck = record_step SReadyz (rt_AddReadyzCheck rt),
      rt_Start = record_step SStart (rt_Start rt)\<rparr>"

lemma wp_record_step:
  "(\<And>r w'. Q r (w', tr @ [ev r])) \<Longrightarrow> wp (record_step ev m) Q (w, tr)"
  by (simp add: record_step_def wp_def split: prod.splits)

lemma record_runtime_simps [simp]:
  "rt_Getenv (record_runtime rt) = rt_Getenv rt"
  "rt_NamespaceFile (record_runtime rt) = rt_NamespaceFile rt"
  "rt_SetLogger (record_runtime rt) = (\<lambda>b. record_step (\<lambda>_. SLogger b) (rt_SetLogger rt b))"
  "rt_ServePprof (record_runtime rt) = (\<lambda>x. record_step (\<lambda>_. SPprof x) (rt_ServePprof rt x))"
  "rt_NewManager (record_runtime rt) = (\<lambda>x. record_step (SManager x) (rt_NewManager rt x))"
  "rt_RegisterCollector (record_runtime rt) = record_step (\<lambda>_. SCollector) (rt_RegisterCollector rt)"
  "rt_IndexField (record_runtime rt) = (\<lambda>x f. record_step (SIndex x) (rt_IndexField rt x f))"
  "rt_SetupNewtSite (record_runtime rt) = (\<lambda>c rc. record_step (SNewtSite c rc) (rt_SetupNewtSite rt c rc))"
  "rt_SetupPublicResource (record_runtime rt) = (\<lambda>c. record_step (SPublic c) (rt_SetupPublicResource rt c))"
  "rt_SetupPrivateResource (record_runtime rt) = (\<lambda>c. record_step (SPrivate c) (rt_SetupPrivateResource rt c))"
  "rt_AddHealthzCheck (record_runtime rt) = record_step SHealthz (rt_AddHealthzCheck rt)"
  "rt_AddReadyzCheck (record_runtime rt) = record_step SReadyz (rt_AddReadyzCheck rt)"
  "rt_Start (record_runtime rt) = record_step SStart (rt_Start rt)"
  by (simp_all add: record_runtime_def)

lemma mustEnv_record [simp]: "mustEnv (record_runtime rt) key = mustEnv rt key"
  by (simp add: mustEnv_def)

lemma record_config [simp]:
  "configuration (record_runtime rt) = configuration rt" "detectNamespace (record_runtime rt) = detectNamespace rt"
  unfolding configuration_def detectNamespace_def mustEnv_record record_runtime_simps by (rule refl)+

lemma wp_step_bind:
  "(\<And>r w'. wp (f r) Q (w', tr @ [ev r])) \<Longrightarrow> wp (record_step ev m \<bind> f) Q (w, tr)"
  by (simp add: wp_record_step)

lemma wp_orExit:
  "(\<And>err w'. Q (Exit1 err msg) (w', tr @ [ev (Some err)])) \<Longrightarrow> (\<And>w'. wp rest Q (w', tr @ [ev None]))
    \<Longrightarrow> wp (orExit msg (record_step ev m) rest) Q (w, tr)"
  by (auto simp: orExit_def wp_cases intro!: wp_record_step split: option.splits)

text \<open>The set-up in full: every step succeeded, and the manager ran with the result \<open>r\<close>.\<close>

definition setupEvents :: "flags \<Rightarrow> string \<Rightarrow> Client \<Rightarrow> string \<Rightarrow> string option \<Rightarrow> startEvent list" where
  "setupEvents fl newtEndpoint pc ns r =
     SLogger (developmentLog fl) # (if fl_EnablePprof fl then [SPprof (pprofFor fl)] else [])
     @ [SManager (optionsFor fl) None, SCollector, SIndex IndexField None,
        SNewtSite pc \<lparr>rc_NewtEndpoint = newtEndpoint, rc_OperatorNamespace = ns\<rparr> None,
        SPublic pc None, SPrivate pc None, SHealthz None, SReadyz None, SStart r]"

definition failedStep :: "startEvent \<Rightarrow> bool" where
  "failedStep ev =
     (case ev of SManager _ r \<Rightarrow> r \<noteq> None | SIndex _ r \<Rightarrow> r \<noteq> None | SNewtSite _ _ r \<Rightarrow> r \<noteq> None
      | SPublic _ r \<Rightarrow> r \<noteq> None | SPrivate _ r \<Rightarrow> r \<noteq> None | SHealthz r \<Rightarrow> r \<noteq> None | SReadyz r \<Rightarrow> r \<noteq> None
      | SStart r \<Rightarrow> r \<noteq> None | _ \<Rightarrow> False)"

definition environmentSet :: "'w runtime \<Rightarrow> string \<Rightarrow> Client \<Rightarrow> string \<Rightarrow> bool" where
  "environmentSet rt newtEndpoint pc ns \<longleftrightarrow>
     list_all (\<lambda>key. rt_Getenv rt key \<noteq> []) [''PANGOLIN_ENDPOINT'', ''PANGOLIN_API_URL'', ''PANGOLIN_API_KEY'', ''PANGOLIN_ORG_ID'']
     \<and> newtEndpoint = rt_Getenv rt ''PANGOLIN_ENDPOINT''
     \<and> pc = NewClient \<lparr>cd_Endpoint = rt_Getenv rt ''PANGOLIN_API_URL'', cd_APIKey = rt_Getenv rt ''PANGOLIN_API_KEY'',
              cd_OrgID = rt_Getenv rt ''PANGOLIN_ORG_ID''\<rparr>
     \<and> (case rt_NamespaceFile rt of Some f \<Rightarrow> ns = trimSpace f | None \<Rightarrow> ns \<noteq> [] \<and> ns = rt_Getenv rt ''OPERATOR_NAMESPACE'')"

lemma environment_read:
  "configuration rt = Inr (newtEndpoint, pc) \<Longrightarrow> detectNamespace rt = Inr ns \<Longrightarrow> environmentSet rt newtEndpoint pc ns"
  by (auto simp: configuration_def mustEnv_def detectNamespace_def environmentSet_def Let_def
      split: sum.splits if_splits option.splits)

lemma configuration_exits: "configuration rt = Inl x \<Longrightarrow> x \<noteq> Returned"
  by (auto simp: configuration_def mustEnv_def Let_def split: sum.splits if_splits)

lemma detectNamespace_exits: "detectNamespace rt = Inl x \<Longrightarrow> x \<noteq> Returned"
  by (auto simp: detectNamespace_def Let_def split: option.splits if_splits)

lemma failedStep_simps [simp]:
  "\<not> failedStep (SLogger b)" "\<not> failedStep (SPprof x)" "\<not> failedStep SCollector"
  "failedStep (SManager q r) = (r \<noteq> None)" "failedStep (SIndex i r) = (r \<noteq> None)"
  "failedStep (SNewtSite c rc r) = (r \<noteq> None)" "failedStep (SPublic c r) = (r \<noteq> None)"
  "failedStep (SPrivate c r) = (r \<noteq> None)" "failedStep (SHealthz r) = (r \<noteq> None)"
  "failedStep (SReadyz r) = (r \<noteq> None)" "failedStep (SStart r) = (r \<noteq> None)"
  by (simp_all add: failedStep_def)

definition ranManager :: "startEvent \<Rightarrow> bool" where
  "ranManager ev = (case ev of SStart _ \<Rightarrow> True | _ \<Rightarrow> False)"

definition startedRight :: "'w runtime \<Rightarrow> flags \<Rightarrow> exit \<Rightarrow> startEvent list \<Rightarrow> bool" where
  "startedRight rt fl out new \<longleftrightarrow>
     list_all (\<lambda>ev. \<not> failedStep ev) (butlast new)
     \<and> (if list_ex ranManager new
        then \<exists>e pc ns r. environmentSet rt e pc ns \<and> new = setupEvents fl e pc ns r
               \<and> out = (case r of None \<Rightarrow> Returned | Some err \<Rightarrow> Exit1 err ''problem running manager'')
        else out \<noteq> Returned)"

lemma started_early:
  "\<not> list_ex ranManager new \<Longrightarrow> out \<noteq> Returned \<Longrightarrow> list_all (\<lambda>ev. \<not> failedStep ev) (butlast new)
    \<Longrightarrow> startedRight rt fl out new"
  by (simp add: startedRight_def)

lemma started_fully:
  "environmentSet rt e pc ns \<Longrightarrow> new = setupEvents fl e pc ns r
    \<Longrightarrow> out = (case r of None \<Rightarrow> Returned | Some err \<Rightarrow> Exit1 err ''problem running manager'')
    \<Longrightarrow> startedRight rt fl out new"
  unfolding startedRight_def by (auto simp: setupEvents_def ranManager_def)

lemma ranManager_simps [simp]:
  "\<not> ranManager (SLogger b)" "\<not> ranManager (SPprof x)" "\<not> ranManager SCollector"
  "\<not> ranManager (SManager q r)" "\<not> ranManager (SIndex i r)" "\<not> ranManager (SNewtSite c rc r)"
  "\<not> ranManager (SPublic c r)" "\<not> ranManager (SPrivate c r)" "\<not> ranManager (SHealthz r)"
  "\<not> ranManager (SReadyz r)"
  by (simp_all add: ranManager_def)

text \<open>
  C38.  The controllers run only in a complete process.  The manager starts when the four
  variables of the environment are set, the namespace is known and every step before it
  succeeded, in the order of the code; all three controllers then share the one client made
  of the environment.  A step that fails ends the process with status 1, and nothing comes
  after it; the process ends without an error only when the manager does.
\<close>

theorem processMain_starts:
  "wp (processMain (record_runtime rt) fl) (\<lambda>out s. startedRight rt fl out (snd s)) (w, [])"
proof (cases "configuration rt")
  case (Inl x)
  then show ?thesis
    unfolding processMain_def record_runtime_simps record_config
    by (auto simp del: wp_bind intro!: wp_step_bind started_early dest: configuration_exits)
next
  case (Inr config)
  obtain e pc where config: "configuration rt = Inr (e, pc)" using Inr by (cases config) auto
  show ?thesis
  proof (cases "detectNamespace rt")
    case (Inl x)
    then show ?thesis
      unfolding processMain_def setupControllers_def record_runtime_simps record_config config
      by (auto simp del: wp_bind intro!: wp_step_bind wp_orExit started_early dest: detectNamespace_exits)
  next
    case (Inr ns)
    then show ?thesis
      unfolding processMain_def setupControllers_def runManager_def record_runtime_simps record_config config
      by (auto simp: setupEvents_def simp del: wp_bind intro!: wp_step_bind wp_orExit
          intro: started_early started_fully [OF environment_read [OF config Inr]])
        (simp_all add: started_fully [OF environment_read [OF config Inr], where r = None] setupEvents_def)
  qed
qed

text \<open>
  The credentials of a tunnel are in the cache of the process.  The manager caches, of the
  Secrets of the cluster, those with the label of the operator; the Secret that the site
  controller makes has it, and so has every Secret that it takes over and updates.
\<close>

definition selectedBy :: "(string \<times> string) list \<Rightarrow> objectMeta \<Rightarrow> bool" where
  "selectedBy sel m = list_all (\<lambda>(key, v). map_of (case m_Labels m of None \<Rightarrow> [] | Some ls \<Rightarrow> ls) key = Some v) sel"

theorem credentials_cached:
  "map_of (mg_Cache (optionsFor fl)) ''Secret'' = Some (Some secretSelector)
   \<and> selectedBy secretSelector (sec_Meta (newSecret rc site defaults))
   \<and> (case mutateSecret rc defaults secret of Inl _ \<Rightarrow> False | Inr s \<Rightarrow> selectedBy secretSelector (sec_Meta s))"
  by (auto simp: optionsFor_def cacheByObject_def secretSelector_def selectedBy_def newSecret_def plainMeta_def
      mutateSecret_def Let_def LabelManagedBy_def partOfPangolinOp_def update_conv')

end
