(* ===== verification/Lifecycle.thy ===== *)
theory Lifecycle
  imports Liveness
begin

text \<open>
  The life of a custom resource as its status tells it.  Three fields are common to the three
  kinds: the phase, the identifier of the counterpart on the server, and the generation that
  was last brought to Ready.  \<open>lifeStep\<close> is the abstract machine, and the reconcilers refine it:
  every status patch a run sends, accepted or not, is one of its steps and changes nothing
  but the status.  The invariants of the machine, in the locale \<open>life_cycle\<close>, hold of every
  version of an object, although a patch may be computed from an old version.
\<close>

section \<open>The abstract machine\<close>

record life =
  lf_Phase :: phase
  lf_Id :: int
  lf_Observed :: int

text \<open>
  The steps, for an object of generation \<open>g\<close>: a report that only touches conditions and the
  lists of parts; the start of a creation; the recording of an identifier, by a creation or an
  adoption; forgetting it; a permanent error; and Ready, which records the generation.
\<close>

inductive lifeStep :: "int \<Rightarrow> life \<Rightarrow> life \<Rightarrow> bool" for g :: int where
  report: "lifeStep g s s"
| begun: "lifeStep g s (s\<lparr>lf_Phase := PhaseCreating\<rparr>)"
| bound: "lifeStep g s (s\<lparr>lf_Id := i\<rparr>)"
| adopted: "lifeStep g s (s\<lparr>lf_Id := i, lf_Phase := PhaseCreating\<rparr>)"
| forgotten: "lifeStep g s (s\<lparr>lf_Id := 0\<rparr>)"
| failed: "lifeStep g s (s\<lparr>lf_Phase := PhaseError\<rparr>)"
| finished: "lifeStep g s (s\<lparr>lf_Phase := PhaseReady, lf_Observed := g\<rparr>)"

inductive_cases lifeStepE: "lifeStep g s s'"

section \<open>The three kinds\<close>

definition pubLife :: "PublicResource \<Rightarrow> life" where
  "pubLife x = \<lparr>lf_Phase = pst_Phase (pub_Status x), lf_Id = pst_ResourceID (pub_Status x),
     lf_Observed = pst_ObservedGeneration (pub_Status x)\<rparr>"

definition privLife :: "PrivateResource \<Rightarrow> life" where
  "privLife x = \<lparr>lf_Phase = vst_Phase (priv_Status x), lf_Id = vst_SiteResourceID (priv_Status x),
     lf_Observed = vst_ObservedGeneration (priv_Status x)\<rparr>"

definition siteLife :: "NewtSite \<Rightarrow> life" where
  "siteLife x = \<lparr>lf_Phase = nst_Phase (site_Status x), lf_Id = nst_SiteID (site_Status x),
     lf_Observed = nst_ObservedGeneration (site_Status x)\<rparr>"

text \<open>
  A status patch from \<open>before\<close> to \<open>after\<close> that is lawful: a step, of the generation of the object
  it was computed from, that leaves metadata and specification alone.
\<close>

definition lawful :: "event \<Rightarrow> bool" where
  "lawful e =
     (case e of
        EPub (OStatusPatch before after _) \<Rightarrow>
          pub_Meta after = pub_Meta before \<and> pub_Spec after = pub_Spec before
          \<and> lifeStep (m_Generation (pub_Meta before)) (pubLife before) (pubLife after)
      | EPriv (OStatusPatch before after _) \<Rightarrow>
          priv_Meta after = priv_Meta before \<and> priv_Spec after = priv_Spec before
          \<and> lifeStep (m_Generation (priv_Meta before)) (privLife before) (privLife after)
      | ESite (OStatusPatch before after _) \<Rightarrow>
          site_Meta after = site_Meta before \<and> site_Spec after = site_Spec before
          \<and> lifeStep (m_Generation (site_Meta before)) (siteLife before) (siteLife after)
      | _ \<Rightarrow> True)"

lemma lawful_simps [simp]:
  "lawful (EApi x)" "lawful (EPub (OGet q1 r1))" "lawful (EPub (OUpdate x1 u1))" "lawful (EPub (OCreate x1 c1))"
  "lawful (EPub (OPatch x1 y1 u1))" "lawful (EPriv (OGet q1 r2))" "lawful (EPriv (OUpdate x2 u2))"
  "lawful (ESite (OGet q1 r3))" "lawful (ESite (OUpdate x3 u3))" "lawful (EListSitesByName n l)"
  "lawful (ERoute e1)" "lawful (ETCPRoute e2)" "lawful (EService e3)" "lawful (EDeployment e4)"
  "lawful (ESecret e5)" "lawful (EServiceAccount e6)"
  by (simp_all add: lawful_def)

text \<open>Patching with a mutation that is a step.\<close>

lemma patch_lawful:
  "lifeStep (m_Generation (pub_Meta res)) (pubLife res) (pubLife (patched f res)) \<Longrightarrow>
     emitsAll lawful (PublicResource.patchStatus (record_kube k) res f)"
  "lifeStep (m_Generation (priv_Meta vres)) (privLife vres) (privLife (vpatched vf vres)) \<Longrightarrow>
     emitsAll lawful (PrivateResource.patchStatus (record_kube k) vres vf)"
  "lifeStep (m_Generation (site_Meta site)) (siteLife site) (siteLife (spatched sf site)) \<Longrightarrow>
     emitsAll lawful (NewtSiteController.patchStatus (record_kube k) site sf)"
  by (auto simp: PublicResource.patchStatus_def PrivateResource.patchStatus_def NewtSiteController.patchStatus_def
      Let_def lawful_def intro!: emitsAll_intros)

text \<open>The mutations of the reconcilers.\<close>

lemmas life_defs = pubLife_def privLife_def siteLife_def lifeStep.simps

lemmas mutations = PublicResource.setReady_def PublicResource.readyStatus_def PublicResource.resetStatus_def
  PublicResource.adoptStatus_def PrivateResource.setReady_def PrivateResource.readyStatus_def
  PrivateResource.resetStatus_def PrivateResource.adoptStatus_def NewtSiteController.setReady_def
  NewtSiteController.readyStatus_def NewtSiteController.resetStatus_def NewtSiteController.adoptStatus_def

lemma public_reports_lawful:
  "emitsAll lawful (PublicResource.ensureFailed (record_kube k) res e)"
  "emitsAll lawful (PublicResource.updateFailed (record_kube k) res e)"
  "emitsAll lawful (PublicResource.markReady (record_kube k) res)"
  by (auto simp: PublicResource.ensureFailed_def PublicResource.updateFailed_def PublicResource.markReady_def
      mutations life_defs intro!: emitsAll_bind patch_lawful)

lemma createResource_lawful:
  "emitsAll lawful (createResource (record_kube k) (record_api a) sch res sid)"
  by (auto simp: createResource_def finishCreate_def Let_def life_defs split: option.splits sum.splits
      intro!: emitsAll_intros patch_lawful createRequestFor_all createTargets_all createRules_all)

lemma updateResource_lawful:
  "emitsAll lawful (updateResource (record_kube k) (record_api a) sch res sid)"
  by (auto simp: updateResource_def updateTargets_def updateRules_def Let_def life_defs split: option.splits
      intro!: emitsAll_intros patch_lawful createTargets_all createRules_all deleteTargets_all deleteRules_all)

lemma public_lawful: "emitsAll lawful (PublicResource.Reconcile (record_kube k) (record_api a) sch req)"
  by (auto simp: PublicResource.Reconcile_def PublicResource.reconcile_def PublicResource.reconcileOnSite_def
      PublicResource.ensureExists_def PublicResource.cleanup_def Let_def mutations life_defs
      split: option.splits sum.splits
      intro!: emitsAll_intros Site_all patch_lawful createResource_lawful updateResource_lawful public_reports_lawful)

lemma private_reports_lawful:
  "emitsAll lawful (PrivateResource.ensureFailed (record_kube k) res e)"
  "emitsAll lawful (PrivateResource.updateFailed (record_kube k) res e)"
  "emitsAll lawful (PrivateResource.markReady (record_kube k) res)"
  by (auto simp: PrivateResource.ensureFailed_def PrivateResource.updateFailed_def PrivateResource.markReady_def
      mutations life_defs intro!: emitsAll_bind patch_lawful)

lemma createSiteResource_lawful: "emitsAll lawful (createSiteResource (record_kube k) (record_api a) res sid)"
  by (auto simp: createSiteResource_def life_defs split: option.splits sum.splits
      intro!: emitsAll_intros patch_lawful vcreateRequestFor_all)

lemma private_lawful: "emitsAll lawful (PrivateResource.Reconcile (record_kube k) (record_api a) req)"
  by (auto simp: PrivateResource.Reconcile_def PrivateResource.reconcile_def PrivateResource.reconcileOnSite_def
      PrivateResource.ensureExists_def PrivateResource.cleanup_def PrivateResource.removeFinalizer_def Let_def
      mutations life_defs split: option.splits sum.splits
      intro!: emitsAll_intros Site_all patch_lawful createSiteResource_lawful updateSiteResource_all
        private_reports_lawful)

lemma site_reports_lawful:
  "emitsAll lawful (forgetSite (record_kube k) site)"
  "emitsAll lawful (reportError (record_kube k) site e)"
  "emitsAll lawful (createFailed (record_kube k) site e)"
  by (auto simp: forgetSite_def reportError_def createFailed_def mutations life_defs
      intro!: emitsAll_bind patch_lawful)

lemma findOrCreate_lawful: "emitsAll lawful (findOrCreate (record_kube k) (record_api a) rc site)"
  by (auto simp: findOrCreate_def createSite_def createLocalSite_def createNewtSite_def persistSite_def
      writeSecret_def Let_def mutations life_defs split: option.splits sum.splits
      intro!: emitsAll_intros patch_lawful)

lemma ensureSite_lawful: "emitsAll lawful (ensureSite (record_kube k) (record_api a) rc site)"
  by (auto simp: ensureSite_def Let_def split: option.splits sum.splits
      intro!: emitsAll_intros findOrCreate_lawful site_reports_lawful updateSite_all)

lemma ensureTunnel_lawful: "emitsAll lawful (ensureTunnel (record_kube k) rc site)"
  by (auto simp: ensureTunnel_def ensureServiceAccount_def ensureDeployment_def Let_def
      split: option.splits sum.splits intro!: emitsAll_intros site_reports_lawful)

lemma finishSite_lawful: "emitsAll lawful (finishSite (record_kube k) mo site online)"
  by (auto simp: finishSite_def mutations life_defs split: option.splits
      intro!: emitsAll_bind patch_lawful reconcileAutodiscover_all)

lemma site_lawful: "emitsAll lawful (NewtSiteController.Reconcile (record_kube k) (record_api a) rc mo req)"
  by (auto simp: NewtSiteController.Reconcile_def NewtSiteController.reconcile_def NewtSiteController.cleanup_def
      NewtSiteController.removeFinalizer_def Let_def split: option.splits sum.splits
      intro!: emitsAll_intros ensureSite_lawful ensureTunnel_lawful finishSite_lawful)

section \<open>Every version of an object\<close>

text \<open>
  A merge patch carries the fields that differ between the two objects it was computed from;
  the server applies it to the object it has.
\<close>

definition mergeLife :: "life \<Rightarrow> life \<Rightarrow> life \<Rightarrow> life" where
  "mergeLife before after current =
     \<lparr>lf_Phase = (if lf_Phase after = lf_Phase before then lf_Phase current else lf_Phase after),
      lf_Id = (if lf_Id after = lf_Id before then lf_Id current else lf_Id after),
      lf_Observed = (if lf_Observed after = lf_Observed before then lf_Observed current else lf_Observed after)\<rparr>"

text \<open>
  The versions of an object, the newest first: created with an empty status and a generation
  of at least one, edited by a user, who raises the generation and leaves the status, or
  patched, with a patch that a run computed from any version so far, as its cache may lag.
\<close>

definition newborn :: life where
  "newborn = \<lparr>lf_Phase = PhaseUnset, lf_Id = 0, lf_Observed = 0\<rparr>"

inductive versions :: "('o \<Rightarrow> int) \<Rightarrow> ('o \<Rightarrow> life) \<Rightarrow> ('o \<Rightarrow> 'o \<Rightarrow> bool) \<Rightarrow> 'o list \<Rightarrow> bool"
  for gen :: "'o \<Rightarrow> int" and lf :: "'o \<Rightarrow> life" and sent :: "'o \<Rightarrow> 'o \<Rightarrow> bool" where
  born: "lf x = newborn \<Longrightarrow> 1 \<le> gen x \<Longrightarrow> versions gen lf sent [x]"
| edited: "versions gen lf sent (x # h) \<Longrightarrow> lf y = lf x \<Longrightarrow> gen x \<le> gen y \<Longrightarrow> versions gen lf sent (y # x # h)"
| patched: "versions gen lf sent (x # h) \<Longrightarrow> before \<in> set (x # h) \<Longrightarrow> sent before after \<Longrightarrow> gen y = gen x \<Longrightarrow>
    lf y = mergeLife (lf before) (lf after) (lf x) \<Longrightarrow> versions gen lf sent (y # x # h)"

text \<open>What holds of a status: the phase and the observed generation go together.\<close>

definition soundLife :: "int \<Rightarrow> life \<Rightarrow> bool" where
  "soundLife g s \<longleftrightarrow>
     0 \<le> lf_Observed s \<and> lf_Observed s \<le> g \<and> lf_Phase s \<noteq> PhasePending \<and> lf_Phase s \<noteq> PhaseDeleting
     \<and> (lf_Phase s = PhaseUnset \<longrightarrow> lf_Observed s = 0) \<and> (lf_Phase s = PhaseReady \<longrightarrow> 0 < lf_Observed s)"

text \<open>What a version keeps of the one before: nothing recorded is taken back altogether.\<close>

definition follows :: "life \<Rightarrow> life \<Rightarrow> bool" where
  "follows s old \<longleftrightarrow>
     (lf_Phase s = PhaseUnset \<longrightarrow> lf_Phase old = PhaseUnset) \<and> (lf_Observed s = 0 \<longrightarrow> lf_Observed old = 0)"

lemma follows_refl [simp]: "follows s s"
  by (simp add: follows_def)

lemma follows_trans: "follows s t \<Longrightarrow> follows t u \<Longrightarrow> follows s u"
  by (auto simp: follows_def)

lemma merge_follows:
  "lifeStep g b n \<Longrightarrow> 0 < g \<Longrightarrow> follows (mergeLife b n s) s"
  by (erule lifeStepE) (auto simp: follows_def mergeLife_def)

lemma merge_sound:
  assumes "lifeStep g' b n" "0 < g'" "g' \<le> g" "soundLife g s" "soundLife g' b" "follows s b"
  shows "soundLife g (mergeLife b n s)"
  using assms by (elim lifeStepE) (auto simp: soundLife_def follows_def mergeLife_def)

locale life_cycle =
  fixes gen :: "'o \<Rightarrow> int" and lf :: "'o \<Rightarrow> life" and sent :: "'o \<Rightarrow> 'o \<Rightarrow> bool"
  assumes steps: "sent before after \<Longrightarrow> lifeStep (gen before) (lf before) (lf after)"
begin

definition kept :: "'o \<Rightarrow> 'o list \<Rightarrow> bool" where
  "kept x h \<longleftrightarrow> (\<forall>y\<in>set (x # h). soundLife (gen y) (lf y) \<and> 0 < gen y \<and> gen y \<le> gen x \<and> follows (lf x) (lf y))"

lemma kept_versions: "versions gen lf sent vs \<Longrightarrow> vs = x # h \<Longrightarrow> kept x h"
proof (induction arbitrary: x h rule: versions.induct)
  case (born x)
  then show ?case by (auto simp: kept_def newborn_def soundLife_def)
next
  case (edited u us y)
  then have "kept u us" by blast
  then show ?case using edited by (fastforce simp: kept_def soundLife_def)
next
  case (patched u us b n y)
  have iu: "kept u us" using patched by blast
  then have b: "soundLife (gen b) (lf b)" "0 < gen b" "gen b \<le> gen u" "follows (lf u) (lf b)"
    using patched by (auto simp: kept_def)
  have st: "lifeStep (gen b) (lf b) (lf n)" using patched steps by blast
  have "follows (lf y) (lf u)" using merge_follows [OF st b(2)] patched by simp
  moreover have "soundLife (gen y) (lf y)"
    using merge_sound [OF st b(2,3) _ b(1,4)] iu patched by (simp add: kept_def)
  ultimately show ?case
    using iu patched by (auto simp: kept_def intro: follows_trans)
qed

lemma sound_versions: "versions gen lf sent (x # h) \<Longrightarrow> soundLife (gen x) (lf x)"
  using kept_versions by (auto simp: kept_def)

end

text \<open>A patch that some run of the controller logs.\<close>

definition publicSent :: "'w kube \<Rightarrow> 'w API \<Rightarrow> PublicResource \<Rightarrow> PublicResource \<Rightarrow> bool" where
  "publicSent k a before after \<longleftrightarrow>
     (\<exists>sch req w out w' log ans.
        run_state (PublicResource.Reconcile (record_kube k) (record_api a) sch req) (w, []) = (out, (w', log))
        \<and> EPub (OStatusPatch before after ans) \<in> set log)"

definition privateSent :: "'w kube \<Rightarrow> 'w API \<Rightarrow> PrivateResource \<Rightarrow> PrivateResource \<Rightarrow> bool" where
  "privateSent k a before after \<longleftrightarrow>
     (\<exists>req w out w' log ans.
        run_state (PrivateResource.Reconcile (record_kube k) (record_api a) req) (w, []) = (out, (w', log))
        \<and> EPriv (OStatusPatch before after ans) \<in> set log)"

definition siteSent :: "'w kube \<Rightarrow> 'w API \<Rightarrow> NewtSite \<Rightarrow> NewtSite \<Rightarrow> bool" where
  "siteSent k a before after \<longleftrightarrow>
     (\<exists>rc mo req w out w' log ans.
        run_state (NewtSiteController.Reconcile (record_kube k) (record_api a) rc mo req) (w, []) = (out, (w', log))
        \<and> ESite (OStatusPatch before after ans) \<in> set log)"

lemma lawful_log: "emitsAll lawful m \<Longrightarrow> run_state m (w, []) = (out, (w', log)) \<Longrightarrow> e \<in> set log \<Longrightarrow> lawful e"
  unfolding emitsAll_def by (drule (1) emits_run) (simp add: list_all_iff)

interpretation public_life: life_cycle "\<lambda>x. m_Generation (pub_Meta x)" pubLife "publicSent k a"
  for k :: "'w kube" and a :: "'w API"
  by unfold_locales (auto simp: publicSent_def lawful_def dest!: lawful_log [OF public_lawful])

interpretation private_life: life_cycle "\<lambda>x. m_Generation (priv_Meta x)" privLife "privateSent k a"
  for k :: "'w kube" and a :: "'w API"
  by unfold_locales (auto simp: privateSent_def lawful_def dest!: lawful_log [OF private_lawful])

interpretation site_life: life_cycle "\<lambda>x. m_Generation (site_Meta x)" siteLife "siteSent k a"
  for k :: "'w kube" and a :: "'w API"
  by unfold_locales (auto simp: siteSent_def lawful_def dest!: lawful_log [OF site_lawful])

text \<open>
  C8.  The reconcilers refine the life cycle.  In every run of the three reconcilers, in every
  environment and under every schedule, each status patch that is sent, whether the server
  accepts it or not, leaves metadata and specification alone and is one step of the abstract
  machine: the observed generation changes only together with the phase Ready, and then to
  the generation of the object the run has in memory; the phase is never set to Pending,
  Deleting or back to unset.
\<close>

theorem reconcilers_refine_life_cycle:
  "emitsAll lawful (PublicResource.Reconcile (record_kube k) (record_api a) sch req)
   \<and> emitsAll lawful (PrivateResource.Reconcile (record_kube k) (record_api a) req)
   \<and> emitsAll lawful (NewtSiteController.Reconcile (record_kube k) (record_api a) rc mo req)"
  by (intro conjI public_lawful private_lawful site_lawful)

text \<open>
  C9.  What a status can say.  Take the versions of a public resource from its creation on, edited
  by users and patched by runs of the controller, even by runs that worked on an old version
  and whose patches are merged into a newer one.  In every version the observed generation is
  one the object has had; the phase is Creating, Ready, Error or unset, never one of the
  other two declared; it is unset only while no generation was ever observed, and Ready only
  when one was.
\<close>

theorem public_status_sound:
  assumes "versions (\<lambda>x. m_Generation (pub_Meta x)) pubLife (publicSent k a) (x # h)"
  shows "0 \<le> pst_ObservedGeneration (pub_Status x)
    \<and> pst_ObservedGeneration (pub_Status x) \<le> m_Generation (pub_Meta x)
    \<and> pst_Phase (pub_Status x) \<in> {PhaseUnset, PhaseCreating, PhaseReady, PhaseError}
    \<and> (pst_Phase (pub_Status x) = PhaseUnset \<longrightarrow> pst_ObservedGeneration (pub_Status x) = 0)
    \<and> (pst_Phase (pub_Status x) = PhaseReady \<longrightarrow> pst_ObservedGeneration (pub_Status x) \<noteq> 0)"
  using public_life.sound_versions [OF assms]
  by (cases "pst_Phase (pub_Status x)") (auto simp: soundLife_def pubLife_def)

text \<open>
  A resource that was created, waited for a site that does not exist, and was then edited.
\<close>

definition firstVersion :: PublicResource where
  "firstVersion =
     \<lparr>pub_Meta = (plainMeta ''web'' ''default'' None)\<lparr>m_Generation := 1\<rparr>,
      pub_Spec = \<lparr>ps_SiteRef = ''home'', ps_Name = ''web'', ps_Protocol = protocolTCP, ps_FullDomain = [],
        ps_ProxyPort = 80, ps_Enabled = True, ps_Ssl = False, ps_HostHeader = [], ps_TlsServerName = [],
        ps_Headers = [], ps_Auth = None, ps_Maintenance = None, ps_Rules = None, ps_Targets = None\<rparr>,
      pub_Status = emptyStatus\<rparr>"

definition lonelyKube :: "PublicResource \<Rightarrow> 'w kube \<Rightarrow> 'w kube" where
  "lonelyKube x k =
     k\<lparr>kListSitesByName := (\<lambda>_. ret (Inr [])), kContainsFinalizer := (\<lambda>_ _. True),
       kPubs := (kPubs k)\<lparr>oc_Get := (\<lambda>_. ret (Inr x)), oc_StatusPatch := (\<lambda>_ n. ret (Inr n))\<rparr>\<rparr>"

definition waiting :: "'w kube \<Rightarrow> PublicResource \<Rightarrow> PublicResource" where
  "waiting k x = patched (PublicResource.setReady k x ConditionFalse ReasonPending
     (errText (Wrap [] ErrSiteNotFound ('': '' @ quote (ps_SiteRef (pub_Spec x)))))) x"

lemma lonely_run:
  assumes "\<not> m_Deleting (pub_Meta x)"
  shows "publicSent (lonelyKube x k) a x (waiting (lonelyKube x k) x)"
proof -
  have "\<exists>out w' log ans. run_state (PublicResource.Reconcile (record_kube (lonelyKube x k)) (record_api a) sch req) (w, [])
        = (out, (w', log)) \<and> EPub (OStatusPatch x (waiting (lonelyKube x k) x) ans) \<in> set log" for sch req w
    using assms
    by (simp add: PublicResource.Reconcile_def PublicResource.reconcile_def PublicResource.patchStatus_def Site_def
        lonelyKube_def waiting_def Let_def)
  then show ?thesis unfolding publicSent_def by blast
qed

theorem public_status_sound_witness:
  "\<forall>(k :: unit kube) a. \<exists>x h. length h = 2 \<and> m_Generation (pub_Meta x) = 2
     \<and> versions (\<lambda>x. m_Generation (pub_Meta x)) pubLife (publicSent (lonelyKube firstVersion k) a) (x # h)
     \<and> pst_ObservedGeneration (pub_Status x) \<le> 2"
proof (intro allI)
  fix k :: "unit kube" and a :: "unit API"
  let ?k = "lonelyKube firstVersion k"
  let ?y = "waiting ?k firstVersion"
  let ?z = "?y\<lparr>pub_Meta := (pub_Meta ?y)\<lparr>m_Generation := 2\<rparr>\<rparr>"
  have sent: "publicSent ?k a firstVersion ?y"
    by (rule lonely_run) (simp add: firstVersion_def plainMeta_def)
  have one: "versions (\<lambda>x. m_Generation (pub_Meta x)) pubLife (publicSent ?k a) [firstVersion]"
    by (rule born) (simp_all add: firstVersion_def plainMeta_def pubLife_def emptyStatus_def newborn_def)
  have "versions (\<lambda>x. m_Generation (pub_Meta x)) pubLife (publicSent ?k a) [?y, firstVersion]"
    by (rule patched [OF one _ sent]) (auto simp: waiting_def pubLife_def mergeLife_def PublicResource.setReady_def)
  then have v: "versions (\<lambda>x. m_Generation (pub_Meta x)) pubLife (publicSent ?k a) [?z, ?y, firstVersion]"
    by (rule edited) (simp_all add: pubLife_def waiting_def firstVersion_def plainMeta_def)
  then show "\<exists>x h. length h = 2 \<and> m_Generation (pub_Meta x) = 2
     \<and> versions (\<lambda>x. m_Generation (pub_Meta x)) pubLife (publicSent ?k a) (x # h)
     \<and> pst_ObservedGeneration (pub_Status x) \<le> 2"
    using public_status_sound [OF v] by (intro exI [of _ ?z] exI [of _ "[?y, firstVersion]"]) simp
qed

end
