(* ===== verification/Watches.thy ===== *)
theory Watches
  imports SiteLaws DiscoveryLaws
begin

text \<open>
  What the controllers watch, and what comes of an event: the registrations of the three
  \<open>SetupWithManager\<close> with their event filters, what the filters let through compared with what
  the reconcilers act on, and what several sites do to a resource that each of them derives
  from the same route.  Building a controller from a registration, controller-runtime's
  \<open>Complete\<close>, is an argument.
\<close>

section \<open>Registrations\<close>

datatype eventFilter =
    GenerationChangedPredicate
  | HTTPRouteFilter "HTTPRoute watchEvent \<Rightarrow> bool"
  | ServiceFilter "Service watchEvent \<Rightarrow> bool"
  | TCPRouteFilter "TCPRoute watchEvent \<Rightarrow> bool"

record registration =
  rg_For :: string
  rg_Filter :: eventFilter
  rg_Owns :: "string list"

definition siteRegistration :: registration where
  "siteRegistration = \<lparr>rg_For = ''NewtSite'', rg_Filter = GenerationChangedPredicate,
     rg_Owns = [''Deployment'', ''Secret'', ''ServiceAccount'']\<rparr>"

definition httpRouteRegistration :: registration where
  "httpRouteRegistration = \<lparr>rg_For = ''HTTPRoute'', rg_Filter = HTTPRouteFilter (passes hasParentRef), rg_Owns = []\<rparr>"

definition serviceRegistration :: registration where
  "serviceRegistration = \<lparr>rg_For = ''Service'', rg_Filter = ServiceFilter (passes hasSiteRefAnnotation), rg_Owns = []\<rparr>"

definition tcpRouteRegistration :: registration where
  "tcpRouteRegistration = \<lparr>rg_For = ''TCPRoute'', rg_Filter = TCPRouteFilter (passes hasTCPRouteParentRef), rg_Owns = []\<rparr>"

text \<open>The four controllers of the site package, one after another up to the first error.\<close>

definition site_SetupWithManager :: "(registration \<Rightarrow> ('w, gerr option) state) \<Rightarrow> ('w, gerr option) state" where
  "site_SetupWithManager complete =
     do {
       e1 \<leftarrow> complete siteRegistration;
       case e1 of
         Some e \<Rightarrow> ret (Some e)
       | None \<Rightarrow> do {
           e2 \<leftarrow> complete httpRouteRegistration;
           case e2 of
             Some e \<Rightarrow> ret (Some (Wrap ''setup HTTPRoute controller: '' e []))
           | None \<Rightarrow> do {
               e3 \<leftarrow> complete serviceRegistration;
               case e3 of
                 Some e \<Rightarrow> ret (Some (Wrap ''setup Service controller: '' e []))
               | None \<Rightarrow> do {
                   e4 \<leftarrow> complete tcpRouteRegistration;
                   ret (map_option (\<lambda>e. Wrap ''setup TCPRoute controller: '' e []) e4)
                 }
             }
         }
     }"

definition public_SetupWithManager :: "(registration \<Rightarrow> ('w, gerr option) state) \<Rightarrow> ('w, gerr option) state" where
  "public_SetupWithManager complete =
     complete \<lparr>rg_For = ''PublicResource'', rg_Filter = GenerationChangedPredicate, rg_Owns = []\<rparr>"

definition private_SetupWithManager :: "(registration \<Rightarrow> ('w, gerr option) state) \<Rightarrow> ('w, gerr option) state" where
  "private_SetupWithManager complete =
     complete \<lparr>rg_For = ''PrivateResource'', rg_Filter = GenerationChangedPredicate, rg_Owns = []\<rparr>"

text \<open>When the set-up returns without an error, all four controllers were built.\<close>

lemma site_setup_complete:
  "wp (site_SetupWithManager (\<lambda>reg. State (\<lambda>built. (fails reg, if fails reg = None then built @ [reg] else built))))
     (\<lambda>out built. out = None \<longrightarrow>
        built = [siteRegistration, httpRouteRegistration, serviceRegistration, tcpRouteRegistration]) []"
  by (auto simp: site_SetupWithManager_def wp_State split: option.split)

section \<open>What passes the filters\<close>

text \<open>
  A service that names a site under any prefix passes the filter, whichever of the two
  versions of an update names it; so does a route that refers to a gateway.
\<close>

lemma site_ref_passes:
  assumes "mget (m_Annotations (svc_Meta svc)) (annotationKey p ''site-ref'') \<noteq> []"
  shows "hasSiteRefAnnotation svc"
proof -
  obtain v where "map_of (m_Annotations (svc_Meta svc)) (annotationKey p ''site-ref'') = Some v"
    using assms by (auto simp: mget_def split: option.splits)
  then have "(p @ ''/site-ref'', v) \<in> set (m_Annotations (svc_Meta svc))"
    by (simp add: annotationKey_def map_of_SomeD)
  then show ?thesis
    unfolding hasSiteRefAnnotation_def list_ex_iff by (metis (no_types, lifting) case_prodI hasSuffix_append)
qed

lemma gateway_passes:
  "RouteReferencesGateway route gw ns \<Longrightarrow> hasParentRef route"
  "TCPRouteReferencesGateway troute gw ns \<Longrightarrow> hasTCPRouteParentRef troute"
  by (cases "hr_ParentRefs route", simp_all add: RouteReferencesGateway_def hasParentRef_def)
    (cases "tr_ParentRefs troute", simp_all add: TCPRouteReferencesGateway_def hasTCPRouteParentRef_def)

text \<open>No listed site takes a service that names none.\<close>

lemma unannotated_unclaimed:
  assumes "\<not> hasSiteRefAnnotation svc" "list_all (\<lambda>site. m_Name (site_Meta site) \<noteq> []) sites"
  shows "firstSite enabled (\<lambda>_. False) (m_Annotations (svc_Meta svc)) sites = None"
  using assms(2)
proof (induction sites)
  case (Cons site sites)
  have "mget (m_Annotations (svc_Meta svc)) (annotationKey p ''site-ref'') \<noteq> m_Name (site_Meta site)" for p
    using site_ref_passes [of svc p] assms(1) Cons.prems by auto
  then show ?case using Cons by (auto simp: Let_def split: option.splits)
qed simp

text \<open>
  C23.  Withdrawing a service leaves its resources behind.  When the annotation that names the site
  is taken off a service, the update still passes the filter of the watch, as the filter also
  looks at the old version; the run it leads to reads the service and the sites, finds no
  site that takes the service, and ends without an error: nothing is deleted.  Only the
  annotation that switches discovery off, and the loss of the service, delete.
\<close>

theorem withdrawn_service_keeps_resources:
  "passes hasSiteRefAnnotation (UpdateEvent old new) = (hasSiteRefAnnotation old \<or> hasSiteRefAnnotation new)
   \<and> emits (ReconcileService (record_kube k) mo req)
     (\<lambda>out log. case log of
        EService (OGet q (Inr svc)) # ESite (OList (Inr sites)) # rest \<Rightarrow>
          if \<not> hasSiteRefAnnotation svc \<and> list_all (\<lambda>site. m_Name (site_Meta site) \<noteq> []) sites
          then rest = [] \<and> out = (noResult, None) else True
      | _ \<Rightarrow> True)"
  unfolding ReconcileService_def resolveSiteForService_def resolveSite_def
  by (auto simp: unannotated_unclaimed split: sum.splits option.splits
      intro!: emits_bind_op emits_conseq [OF deleteOwned_grows] emits_bind [OF processService_grows] deleteOwned_grows)

section \<open>Sites that derive the same resource\<close>

text \<open>
  A cluster reduced to one resource, which a read returns and a patch replaces, and the scans
  of several sites that write it, one after another.
\<close>

definition oneResource :: "PublicResource kube \<Rightarrow> PublicResource kube" where
  "oneResource k =
     k\<lparr>kPubs := (kPubs k)\<lparr>oc_Get := (\<lambda>_. State (\<lambda>x. (Inr x, x))), oc_Patch := (\<lambda>_ n. State (\<lambda>_. (Inr n, n)))\<rparr>\<rparr>"

fun writtenBy ::
  "'w kube \<Rightarrow> string \<Rightarrow> string \<Rightarrow> string \<Rightarrow> string \<Rightarrow> (objectMeta \<times> PublicResourceSpec) list \<Rightarrow> ('w, unit) state" where
  "writtenBy k kind name ns rn [] = ret ()"
| "writtenBy k kind name ns rn ((site, spec) # turns) =
     do { _ \<leftarrow> ensureOwnedPublicResource k site kind name ns rn spec; writtenBy k kind name ns rn turns }"

text \<open>No site comes twice in a row, nor the site first that the resource is labelled with.\<close>

fun takeTurns :: "string \<Rightarrow> (objectMeta \<times> PublicResourceSpec) list \<Rightarrow> bool" where
  "takeTurns label [] \<longleftrightarrow> True"
| "takeTurns label ((site, spec) # turns) \<longleftrightarrow> m_Name site \<noteq> label \<and> takeTurns (m_Name site) turns"

definition isPatch :: "event \<Rightarrow> bool" where
  "isPatch e = (case e of EPub (OPatch _ _ _) \<Rightarrow> True | _ \<Rightarrow> False)"

definition siteLabel :: "PublicResource \<Rightarrow> string" where
  "siteLabel x = mget (labelsOf x) LabelSite"

text \<open>One turn: a patch that leaves the labels of the site whose turn it is, and its specification.\<close>

lemma one_turn:
  assumes "m_Name site \<noteq> siteLabel x"
  shows "\<exists>y log'. run_state (ensureOwnedPublicResource (record_kube (oneResource k)) site kind name ns rn spec) (x, log)
      = (None, (y, log @ log')) \<and> length (filter isPatch log') = 1 \<and> siteLabel y = m_Name site \<and> pub_Spec y = spec"
proof -
  have "needsPatch x kind name (m_Name site) spec"
    using assms by (auto simp: needsPatch_def siteLabel_def)
  then show ?thesis
    by (simp add: ensureOwnedPublicResource_def oneResource_def record_op_def isPatch_def siteLabel_def Let_def
        withLabels_def labelsOf_def)
qed

text \<open>
  C24.  Sites that take the same route never settle.  Let several sites write one resource, as the
  scans of sites do that share a gateway: as long as no site comes twice in a row, every
  single turn patches the resource, and after each it carries the label and the specification
  of the site that came last, so the resource wanders from site to site.
\<close>

theorem sites_overwrite_each_other:
  assumes "takeTurns (siteLabel x) turns"
  shows "case run_state (writtenBy (record_kube (oneResource k)) kind name ns rn turns) (x, log) of
     (_, (y, log')) \<Rightarrow>
        length (filter isPatch log') = length (filter isPatch log) + length turns
        \<and> (if turns = [] then y = x
           else siteLabel y = m_Name (fst (last turns)) \<and> pub_Spec y = snd (last turns))"
  using assms
proof (induction turns arbitrary: x log)
  case Nil
  then show ?case by simp
next
  case (Cons turn turns)
  obtain site spec where turn: "turn = (site, spec)" by (cases turn)
  obtain y log' where y: "run_state (ensureOwnedPublicResource (record_kube (oneResource k)) site kind name ns rn spec) (x, log)
      = (None, (y, log @ log'))" "length (filter isPatch log') = 1" "siteLabel y = m_Name site" "pub_Spec y = spec"
    using one_turn [of site x k kind name ns rn spec log] Cons.prems turn by auto
  have "takeTurns (siteLabel y) turns" using Cons.prems turn y(3) by simp
  from Cons.IH [OF this, of "log @ log'"] show ?case
    using y turn by (auto simp: run_bind split: prod.splits if_splits)
qed

text \<open>Two sites of one gateway, three scans.\<close>

theorem sites_overwrite_each_other_witness:
  "\<forall>k spec1 spec2. case run_state (writtenBy (record_kube (oneResource k)) ''httproute'' ''app'' ''default'' ''app-x''
       [(plainMeta ''berlin'' [] None, spec1), (plainMeta ''paris'' [] None, spec2), (plainMeta ''berlin'' [] None, spec1)])
       (newOwned (plainMeta ''paris'' [] None) ''httproute'' ''app'' ''default'' ''app-x'' spec2, []) of
     (_, (y, log)) \<Rightarrow> length (filter isPatch log) = 3 \<and> siteLabel y = ''berlin'' \<and> pub_Spec y = spec1"
proof (intro allI)
  fix k spec1 spec2
  let ?x = "newOwned (plainMeta ''paris'' [] None) ''httproute'' ''app'' ''default'' ''app-x'' spec2"
  let ?turns = "[(plainMeta ''berlin'' [] None, spec1), (plainMeta ''paris'' [] None, spec2), (plainMeta ''berlin'' [] None, spec1)]"
  have "siteLabel ?x = ''paris''"
    by (simp add: siteLabel_def newOwned_def ownerLabels_def labelsOf_def plainMeta_def mget_def
        LabelSite_def LabelOwnerKind_def LabelOwnerName_def LabelManagedBy_def)
  then have "takeTurns (siteLabel ?x) ?turns" by (simp add: plainMeta_def)
  from sites_overwrite_each_other [OF this, where k = k and kind = "''httproute''" and name = "''app''"
      and ns = "''default''" and rn = "''app-x''" and log = "[]"]
  show "case run_state (writtenBy (record_kube (oneResource k)) ''httproute'' ''app'' ''default'' ''app-x'' ?turns) (?x, []) of
     (_, (y, log)) \<Rightarrow> length (filter isPatch log) = 3 \<and> siteLabel y = ''berlin'' \<and> pub_Spec y = spec1"
    by (auto simp: plainMeta_def split: prod.splits)
qed

end
