(* ===== verification/Harness.thy ===== *)
theory Harness
  imports ClientLaws Startup Liveness
begin

text \<open>
  The ground the process and its tests stand on: the scheme with the kinds of the API group
  (\<open>api/v1alpha1/groupversion_info.go\<close>, \<open>cmd/main.go\<close>), and the helpers of the tests
  (\<open>internal/testutil/testutil.go\<close>): their scheme and client, the site they count as ready, and
  the answers of their servers, which the client is shown to read back.
\<close>

section \<open>Schemes\<close>

text \<open>
  A scheme is the kinds registered, each with its group and version.  What other packages
  register is an argument: the groups of Kubernetes and the gateway API, and the options and
  watch events that go with a group.
\<close>

type_synonym groupVersion = "string \<times> string"

type_synonym scheme = "(groupVersion \<times> string) list"

record installers =
  in_Apps :: "scheme \<Rightarrow> scheme"
  in_Core :: "scheme \<Rightarrow> scheme"
  in_GatewayV1 :: "scheme \<Rightarrow> scheme"
  in_GatewayV1alpha2 :: "scheme \<Rightarrow> scheme"
  in_GroupMeta :: "groupVersion \<Rightarrow> scheme \<Rightarrow> scheme"

definition GroupVersion :: groupVersion where
  "GroupVersion = (''pangolin.home-operations.com'', ''v1alpha1'')"

definition addKnownTypes :: "installers \<Rightarrow> scheme \<Rightarrow> scheme" where
  "addKnownTypes i s =
     in_GroupMeta i GroupVersion
       (s @ map (\<lambda>kind. (GroupVersion, kind))
          [''NewtSite'', ''NewtSiteList'', ''PrivateResource'', ''PrivateResourceList'', ''PublicResource'',
           ''PublicResourceList''])"

definition processScheme :: "installers \<Rightarrow> scheme" where
  "processScheme i =
     in_GatewayV1alpha2 i (in_GatewayV1 i (addKnownTypes i (in_Core i (in_Apps i []))))"

definition NewScheme :: "installers \<Rightarrow> scheme" where
  "NewScheme i = in_GatewayV1alpha2 i (in_Apps i (in_Core i (addKnownTypes i [])))"

text \<open>
  When the packages only add kinds, both schemes know the six kinds of the group; the scheme of
  the tests knows no kind of \<open>gateway.networking.k8s.io/v1\<close> that the other packages do not add, so
  no test of this client can hold an HTTPRoute.
\<close>

definition onlyAdds :: "(scheme \<Rightarrow> scheme) \<Rightarrow> bool" where
  "onlyAdds f \<longleftrightarrow> (\<exists>new. f = (\<lambda>s. s @ new))"

lemma schemes_know_group:
  assumes "onlyAdds (in_Apps i)" "onlyAdds (in_Core i)" "onlyAdds (in_GatewayV1 i)"
    "onlyAdds (in_GatewayV1alpha2 i)" "onlyAdds (in_GroupMeta i GroupVersion)"
    "kind \<in> {''NewtSite'', ''NewtSiteList'', ''PrivateResource'', ''PrivateResourceList'', ''PublicResource'',
       ''PublicResourceList''}"
  shows "(GroupVersion, kind) \<in> set (processScheme i) \<inter> set (NewScheme i)"
  using assms by (auto simp: onlyAdds_def processScheme_def NewScheme_def addKnownTypes_def)

lemma test_scheme_lacks_gateway: "NewScheme (i\<lparr>in_GatewayV1 := f\<rparr>) = NewScheme i"
  by (simp add: NewScheme_def addKnownTypes_def)

section \<open>The client of the tests\<close>

text \<open>
  The fake client with its objects: a list by an indexed field holds the objects whose index
  function yields the value asked for, in the order of the tracker.
\<close>

record fakeClient =
  fk_Scheme :: scheme
  fk_Index :: "(string \<times> (NewtSite \<Rightarrow> string list)) list"

definition NewClientBuilder :: "scheme \<Rightarrow> fakeClient" where
  "NewClientBuilder s = \<lparr>fk_Scheme = s, fk_Index = [(IndexField, \<lambda>site. [m_Name (site_Meta site)])]\<rparr>"

definition listIndexed :: "fakeClient \<Rightarrow> NewtSite list \<Rightarrow> string \<Rightarrow> string \<Rightarrow> NewtSite list option" where
  "listIndexed c sites field name =
     map_option (\<lambda>f. filter (\<lambda>site. name \<in> set (f site)) sites) (map_of (fk_Index c) field)"

text \<open>With distinct names, the site lookup of the controllers finds the site of that name.\<close>

lemma index_finds_site:
  assumes "distinct (map (\<lambda>site. m_Name (site_Meta site)) sites)" "site \<in> set sites"
  shows "listIndexed (NewClientBuilder s) sites IndexField (m_Name (site_Meta site)) = Some [site]"
  using assms
  by (induction sites) (auto simp: listIndexed_def NewClientBuilder_def filter_empty_conv image_iff)

definition ReadySite :: NewtSite where
  "ReadySite =
     \<lparr>site_Meta = plainMeta ''my-site'' ''default'' None,
      site_Spec = \<lparr>ns_Name = [], ns_Type = [],
        ns_Newt = sampleNewt\<lparr>nw_Mtu := 0\<rparr>, ns_ManagedDeployment = None, ns_AutoDiscover = None\<rparr>,
      site_Status = \<lparr>nst_Phase = PhaseReady, nst_SiteID = 1, nst_NiceID = [], nst_NewtSecretName = [],
        nst_Online = False, nst_ObservedGeneration = 0, nst_Conditions = []\<rparr>\<rparr>"

lemma ReadySite_usable: "usableSite ReadySite"
  by (simp add: usableSite_def ReadySite_def)

section \<open>The servers of the tests\<close>

text \<open>
  The envelope a handler writes: \<open>json.NewEncoder(w).Encode\<close> ends the document with a newline,
  and the status line of a response that sets none is 200.
\<close>

definition PangolinResponse :: "json \<Rightarrow> httpResponse" where
  "PangolinResponse payload =
     \<lparr>hs_StatusCode = 200,
      hs_Body = jsonText (JObj [(''data'', payload), (''success'', JBool True), (''message'', JStr []),
        (''status'', JNum (itoa 200))]) @ [byte 10]\<rparr>"

lemma envelope_keys:
  "keyIs ''data'' ''data''" "\<not> keyIs ''data'' ''success''" "keyIs ''success'' ''success''"
  "\<not> keyIs ''data'' ''message''" "\<not> keyIs ''success'' ''message''" "\<not> keyIs ''error'' ''message''"
  "keyIs ''message'' ''message''" "\<not> keyIs ''data'' ''status''" "\<not> keyIs ''success'' ''status''"
  "\<not> keyIs ''error'' ''status''" "\<not> keyIs ''message'' ''status''" "keyIs ''status'' ''status''"
  by code_simp+

lemma decode_object:
  assumes "intJson (JObj kvs)"
  shows "decodeStream (jsonText (JObj kvs) @ r) = Some (JObj kvs)"
proof -
  have "\<And>kv. kv \<in> set kvs \<Longrightarrow> reads (snd kv)"
    using assms by (auto simp: list_all_iff intro: reads_all)
  then have "pVal (2 * length (jsonText (JObj kvs) @ r) + 1) (jsonText (JObj kvs) @ r) = Some (JObj kvs, r)"
    by (rule pVal_obj) auto
  then show ?thesis by (simp add: decodeStream_def del: pVal.simps jsonText.simps)
qed

lemma response_envelope:
  assumes "intJson payload"
  shows "Option.bind (decodeStream (hs_Body (PangolinResponse payload))) decEnvelope =
    Some \<lparr>en_Data = Some payload, en_Success = True, en_Error = False, en_Message = [], en_Status = 200\<rparr>"
proof -
  let ?kvs = "[(''data'', payload), (''success'', JBool True), (''message'', JStr []), (''status'', JNum (itoa 200))]"
  have "intJson (JObj ?kvs)" using assms by auto
  from decode_object [OF this, of "[byte 10]"] show ?thesis
    by (simp add: PangolinResponse_def decEnvelope_def decObj_def envelope_keys decBool_def decStr_def decInt_def atoi_itoa inInt64_def
        del: jsonText.simps)
qed

text \<open>
  What a test server writes, the client reads.  The helper's answer carries any document, the
  client's decoder for the data is any; if the decoder takes the document to a value, a
  request whose answer is written by the helper returns that value and is counted as a
  success, and if it does not, the request ends in a decoding error and is no 404, 400 or
  409: the tests exercise the decoders and nothing of the envelope gets in their way.
\<close>

theorem test_answers_read_back:
  assumes "intJson payload"
  shows "readResponse t req (PangolinResponse payload) dec zero =
    (case dec payload of
       Some v \<Rightarrow> (Inr v, ''success'')
     | None \<Rightarrow> (Inl (Wrap ''decode response data: '' (ErrMsg (tp_JsonError t (jsonText payload))) []), ''error''))"
proof -
  have "hs_StatusCode (PangolinResponse payload) = 200" by (simp add: PangolinResponse_def)
  then show ?thesis
    by (simp add: readResponse_def response_envelope [OF assms] readEnvelope_def)
qed

theorem test_answers_read_back_witness:
  "\<forall>t req. readResponse t req (PangolinResponse (JObj [(''message'', JStr ''1 < 2 & done'')])) decMessage [] =
     (Inr ''1 < 2 & done'', ''success'')"
proof (intro allI)
  fix t :: "'w transport" and req
  have "decMessage (JObj [(''message'', JStr ''1 < 2 & done'')]) = Some ''1 < 2 & done''"
    by (simp add: decMessage_def decObj_def envelope_keys decStr_def)
  then show "readResponse t req (PangolinResponse (JObj [(''message'', JStr ''1 < 2 & done'')])) decMessage [] =
     (Inr ''1 < 2 & done'', ''success'')"
    by (subst test_answers_read_back) simp_all
qed

end
