(* ===== verification/Store.thy ===== *)
theory Store
  imports Prelude "HOL-Library.AList"
begin

text \<open>
  Go memory, as far as copying a value depends on it: which addresses a value leads to, and
  what they hold.  The rest of the development passes values; here a struct that contains a
  pointer, a slice or a map contains an address, so that two values can share memory and a
  write through one of them can show in the other.  \<open>rd\<close> reads the value of a declared type out
  of the memory as a tree without addresses, and \<open>foot\<close> lists the addresses it leads to; the
  lemmas say that a value changes only with the memory under its footprint.
\<close>

section \<open>Types, values and memory\<close>

text \<open>
  The types a field of an API type can have.  A named struct is its fields in the order of
  the declaration; the only maps are \<open>map[string]string\<close>.
\<close>

datatype gty = TyScalar | TyMap | TyPtr gty | TySlice gty | TyStruct "(string \<times> gty) list"

text \<open>
  A value as it lies in memory.  A slice is the address of its array, the offset of its first
  element and its length (its capacity is not observed by a copy); nil is the value of a
  pointer, a slice and a map that refer to nothing.
\<close>

datatype scalar = SString string | SInt int | SBool bool

type_synonym addr = nat

datatype gv = GScal scalar | GNil | GPtr addr | GMapRef addr | GSlice addr nat nat
  | GStruct "(string \<times> gv) list"

text \<open>
  The memory: the cells allocated so far, the address of a cell being its position, so that
  an allocation appends.  A map is its entries.
\<close>

datatype cell = CVal gv | CArr "gv list" | CMap "(string \<times> string) list"

type_synonym store = "cell list"

definition cellAt :: "store \<Rightarrow> addr \<Rightarrow> cell option" where
  "cellAt h a = (if a < length h then Some (h ! a) else None)"

text \<open>The window of an array that a slice shows.\<close>

definition window :: "nat \<Rightarrow> nat \<Rightarrow> gv list \<Rightarrow> gv list" where
  "window off n vs = take n (drop off vs)"

section \<open>Reading a value\<close>

text \<open>
  The value of a type, with every address replaced by what it leads to.  Nil and empty stay
  apart, as they do in Go; a map is the function it denotes.  A value that does not have the
  type, or leads to memory that does not, is not read.
\<close>

datatype tree = TScal scalar | TNil | TRef tree | TDict "string \<rightharpoonup> string" | TSeq "tree list"
  | TRec "(string \<times> tree) list"

fun rd :: "gty \<Rightarrow> store \<Rightarrow> gv \<Rightarrow> tree option"
  and rdFields :: "(string \<times> gty) list \<Rightarrow> store \<Rightarrow> (string \<times> gv) list \<Rightarrow> (string \<times> tree) list option" where
  "rd TyScalar h v = (case v of GScal s \<Rightarrow> Some (TScal s) | _ \<Rightarrow> None)"
| "rd TyMap h v =
     (case v of
        GNil \<Rightarrow> Some TNil
      | GMapRef a \<Rightarrow> (case cellAt h a of Some (CMap m) \<Rightarrow> Some (TDict (map_of m)) | _ \<Rightarrow> None)
      | _ \<Rightarrow> None)"
| "rd (TyPtr T) h v =
     (case v of
        GNil \<Rightarrow> Some TNil
      | GPtr a \<Rightarrow> (case cellAt h a of Some (CVal w) \<Rightarrow> map_option TRef (rd T h w) | _ \<Rightarrow> None)
      | _ \<Rightarrow> None)"
| "rd (TySlice T) h v =
     (case v of
        GNil \<Rightarrow> Some TNil
      | GSlice a off n \<Rightarrow>
          (case cellAt h a of
             Some (CArr vs) \<Rightarrow>
               if off + n \<le> length vs then map_option TSeq (those (map (rd T h) (window off n vs))) else None
           | _ \<Rightarrow> None)
      | _ \<Rightarrow> None)"
| "rd (TyStruct Fs) h v = (case v of GStruct fs \<Rightarrow> map_option TRec (rdFields Fs h fs) | _ \<Rightarrow> None)"
| "rdFields [] h fs = (case fs of [] \<Rightarrow> Some [] | _ \<Rightarrow> None)"
| "rdFields ((f, T) # Fs) h fs =
     (case fs of
        [] \<Rightarrow> None
      | (g, v) # gs \<Rightarrow>
          if f = g then
            (case rd T h v of
               None \<Rightarrow> None
             | Some t \<Rightarrow> map_option (\<lambda>ts. (f, t) # ts) (rdFields Fs h gs))
          else None)"

text \<open>The addresses a value leads to, each as often as it is reached.\<close>

fun foot :: "gty \<Rightarrow> store \<Rightarrow> gv \<Rightarrow> addr list"
  and footFields :: "(string \<times> gty) list \<Rightarrow> store \<Rightarrow> (string \<times> gv) list \<Rightarrow> addr list" where
  "foot TyScalar h v = []"
| "foot TyMap h v = (case v of GMapRef a \<Rightarrow> [a] | _ \<Rightarrow> [])"
| "foot (TyPtr T) h v =
     (case v of GPtr a \<Rightarrow> a # (case cellAt h a of Some (CVal w) \<Rightarrow> foot T h w | _ \<Rightarrow> []) | _ \<Rightarrow> [])"
| "foot (TySlice T) h v =
     (case v of
        GSlice a off n \<Rightarrow>
          a # (case cellAt h a of Some (CArr vs) \<Rightarrow> concat (map (foot T h) (window off n vs)) | _ \<Rightarrow> [])
      | _ \<Rightarrow> [])"
| "foot (TyStruct Fs) h v = (case v of GStruct fs \<Rightarrow> footFields Fs h fs | _ \<Rightarrow> [])"
| "footFields [] h fs = []"
| "footFields ((f, T) # Fs) h fs =
     (case fs of [] \<Rightarrow> [] | (g, v) # gs \<Rightarrow> foot T h v @ footFields Fs h gs)"

text \<open>A type without addresses: assigning a value of it is copying it.\<close>

fun flat :: "gty \<Rightarrow> bool" where
  "flat TyScalar = True"
| "flat TyMap = False"
| "flat (TyPtr T) = False"
| "flat (TySlice T) = False"
| "flat (TyStruct Fs) = list_all (\<lambda>(f, T). flat T) Fs"

section \<open>A value changes only with its footprint\<close>

definition agree :: "addr list \<Rightarrow> store \<Rightarrow> store \<Rightarrow> bool" where
  "agree as h g \<longleftrightarrow> list_all (\<lambda>a. cellAt g a = cellAt h a) as"

lemma agree_simps [simp]:
  "agree [] h g"
  "agree (a # as) h g \<longleftrightarrow> cellAt g a = cellAt h a \<and> agree as h g"
  "agree (as @ bs) h g \<longleftrightarrow> agree as h g \<and> agree bs h g"
  "agree (concat ass) h g \<longleftrightarrow> (\<forall>xs\<in>set ass. agree xs h g)"
  by (auto simp: agree_def list_all_iff)

lemma foot_frame:
  "agree (foot T h v) h g \<Longrightarrow> rd T g v = rd T h v \<and> foot T g v = foot T h v"
  "agree (footFields Fs h fs) h g \<Longrightarrow>
     rdFields Fs g fs = rdFields Fs h fs \<and> footFields Fs g fs = footFields Fs h fs"
proof (induction T h v and Fs h fs rule: foot_footFields.induct)
  case (4 T h v)
  show ?case
  proof (cases "\<exists>a off n vs. v = GSlice a off n \<and> cellAt h a = Some (CArr vs)")
    case True
    then obtain a off n vs where v: "v = GSlice a off n" "cellAt h a = Some (CArr vs)" by blast
    have "\<forall>w\<in>set (window off n vs). agree (foot T h w) h g" "cellAt g a = cellAt h a"
      using 4(2) v by auto
    then have "map (rd T g) (window off n vs) = map (rd T h) (window off n vs)"
      "map (foot T g) (window off n vs) = map (foot T h) (window off n vs)"
      using 4(1) [OF v(1,2)] by simp_all
    then show ?thesis using v \<open>cellAt g a = _\<close> by (simp cong: map_cong)
  next
    case False
    then show ?thesis using 4 by (auto split: gv.splits option.splits cell.splits)
  qed
next
  case (7 f T Fs h fs)
  then show ?case by (cases fs) (simp, force split: option.splits)
qed (auto split: gv.splits option.splits cell.splits list.splits prod.splits if_splits)

lemmas rd_frame = foot_frame [THEN conjunct1] and foot_unchanged = foot_frame [THEN conjunct2]

text \<open>A value that can be read leads to allocated memory only.\<close>

lemma cellAt_below [dest]: "cellAt h a = Some c \<Longrightarrow> a < length h"
  by (auto simp: cellAt_def split: if_splits)

lemma those_Some: "those xs = Some ys \<longleftrightarrow> xs = map Some ys"
  by (induction xs arbitrary: ys) (auto split: option.splits)

lemma foot_below:
  "rd T h v = Some t \<Longrightarrow> set (foot T h v) \<subseteq> {..<length h}"
  "rdFields Fs h fs = Some ts \<Longrightarrow> set (footFields Fs h fs) \<subseteq> {..<length h}"
proof (induction T h v and Fs h fs arbitrary: t and ts rule: foot_footFields.induct)
  case (4 T h v)
  show ?case
  proof (cases "\<exists>a off n vs. v = GSlice a off n \<and> cellAt h a = Some (CArr vs)")
    case True
    then obtain a off n vs where v: "v = GSlice a off n" "cellAt h a = Some (CArr vs)" by blast
    then obtain us where "map (rd T h) (window off n vs) = map Some us"
      using 4(2) by (auto simp: those_Some split: if_splits)
    then have "\<forall>w\<in>set (window off n vs). \<exists>u. rd T h w = Some u" by (metis list.set_map imageE imageI)
    then show ?thesis using 4(1) [OF v] v by fastforce
  next
    case False
    then show ?thesis using 4 by (auto split: gv.splits option.splits cell.splits)
  qed
qed (fastforce split: gv.splits option.splits cell.splits list.splits prod.splits if_splits)+

lemma flat_no_foot:
  "flat T \<Longrightarrow> foot T h v = []"
  "list_all (\<lambda>(f, T). flat T) Fs \<Longrightarrow> footFields Fs h fs = []"
  by (induction T h v and Fs h fs rule: foot_footFields.induct)
    (auto split: gv.splits option.splits cell.splits list.splits prod.splits if_splits)

section \<open>Allocation\<close>

text \<open>Memory that was only allocated from, or written beyond what there was.\<close>

definition grown :: "store \<Rightarrow> store \<Rightarrow> bool" where
  "grown h g \<longleftrightarrow> length h \<le> length g \<and> take (length h) g = h"

lemma grown_refl [simp]: "grown h h"
  by (simp add: grown_def)

lemma grown_trans [trans]: "grown h g \<Longrightarrow> grown g k \<Longrightarrow> grown h k"
  by (auto simp: grown_def) (metis min.absorb1 take_take)

lemma grown_append [simp]: "grown h (h @ k)"
  by (simp add: grown_def)

lemma grown_update: "grown h g \<Longrightarrow> length h \<le> b \<Longrightarrow> grown h (g[b := c])"
  by (simp add: grown_def)

lemma grown_length: "grown h g \<Longrightarrow> length h \<le> length g"
  by (simp add: grown_def)

lemma grown_cell: "grown h g \<Longrightarrow> a < length h \<Longrightarrow> cellAt g a = cellAt h a"
  by (auto simp: grown_def cellAt_def) (metis nth_take)

lemma grown_agree: "grown h g \<Longrightarrow> set as \<subseteq> {..<length h} \<Longrightarrow> agree as h g"
  by (auto simp: agree_def list_all_iff grown_cell)

text \<open>What could be read can still be read, from the same addresses.\<close>

lemma grown_rd: "grown h g \<Longrightarrow> rd T h v = Some t \<Longrightarrow> rd T g v = Some t"
  by (metis grown_agree foot_below(1) rd_frame(1))

lemma grown_foot: "grown h g \<Longrightarrow> rd T h v = Some t \<Longrightarrow> foot T g v = foot T h v"
  by (metis grown_agree foot_below(1) foot_unchanged(1))

lemma update_agree: "b \<notin> set as \<Longrightarrow> agree as h (h[b := c])"
  by (auto simp: agree_def list_all_iff cellAt_def) (metis nth_list_update_neq)

lemma cellAt_update: "b < length h \<Longrightarrow> cellAt (h[b := c]) b = Some c"
  by (simp add: cellAt_def)

lemma cellAt_new [simp]: "cellAt (h @ [c]) (length h) = Some c"
  by (simp add: cellAt_def)

end
