(* ===== verification/Copying.thy ===== *)
theory Copying
  imports Store
begin

text \<open>
  What a generated copy is put together from, and the contract of a copy: the locale
  \<open>copier\<close>.  A copier reads a value and returns the value to be stored in the place of the
  copy, with the memory after its allocations.  The place itself, which \<open>DeepCopyInto\<close> gets as
  \<open>out\<close>, is where the caller stores the result: a fresh cell, a fresh element or a field of a
  struct that is itself being copied, never a part of what is copied.
\<close>

section \<open>The building blocks\<close>

type_synonym copier = "gv \<Rightarrow> store \<Rightarrow> (gv \<times> store) option"

text \<open>\<open>*out = *in\<close>, and likewise \<open>**out = **in\<close> after a \<open>new\<close>.\<close>

definition assign :: copier where
  "assign v h = Some (v, h)"

text \<open>
  \<open>if in != nil { *out = new(T); (*in).DeepCopyInto(*out) }\<close>, which is also what a \<open>DeepCopy\<close>
  does with its receiver.  The new cell holds what \<open>DeepCopyInto\<close> starts with, the value as it
  is, until the copy is complete.
\<close>

definition newOf :: "copier \<Rightarrow> copier" where
  "newOf c v h =
     (case v of
        GNil \<Rightarrow> Some (GNil, h)
      | GPtr a \<Rightarrow>
          (case cellAt h a of
             Some (CVal x) \<Rightarrow>
               (case c x (h @ [CVal x]) of
                  None \<Rightarrow> None
                | Some (y, h1) \<Rightarrow> Some (GPtr (length h), h1[length h := CVal y]))
           | _ \<Rightarrow> None)
      | _ \<Rightarrow> None)"

text \<open>
  \<open>if in != nil { *out = make([]T, len(*in)); for i := range *in { ... } }\<close> with the elements
  copied one after another, and \<open>makeCopy\<close> for the built-in \<open>copy(*out, *in)\<close>.  The new array
  has the length of the slice, whatever array the slice was a window of.
\<close>

fun copyEach :: "copier \<Rightarrow> gv list \<Rightarrow> store \<Rightarrow> (gv list \<times> store) option" where
  "copyEach c [] h = Some ([], h)"
| "copyEach c (x # xs) h =
     (case c x h of
        None \<Rightarrow> None
      | Some (y, h1) \<Rightarrow> map_option (\<lambda>(ys, h2). (y # ys, h2)) (copyEach c xs h1))"

definition sliceOf :: "gv \<Rightarrow> store \<Rightarrow> gv list option" where
  "sliceOf v h =
     (case v of
        GSlice a off n \<Rightarrow>
          (case cellAt h a of
             Some (CArr vs) \<Rightarrow> if off + n \<le> length vs then Some (window off n vs) else None
           | _ \<Rightarrow> None)
      | _ \<Rightarrow> None)"

definition makeEach :: "copier \<Rightarrow> copier" where
  "makeEach c v h =
     (if v = GNil then Some (GNil, h)
      else case sliceOf v h of
        None \<Rightarrow> None
      | Some xs \<Rightarrow>
          (case copyEach c xs (h @ [CArr xs]) of
             None \<Rightarrow> None
           | Some (ys, h1) \<Rightarrow>
               Some (GSlice (length h) 0 (length xs), h1[length h := CArr ys])))"

definition makeCopy :: copier where
  "makeCopy v h =
     (if v = GNil then Some (GNil, h)
      else map_option (\<lambda>xs. (GSlice (length h) 0 (length xs), h @ [CArr xs])) (sliceOf v h))"

text \<open>
  \<open>if in != nil { *out = make(map[string]string, len(*in)); for key, val := range *in { ... } }\<close>.
  Go does not say in which order \<open>range\<close> visits the entries; no key occurs twice in a map, so
  the order makes no difference to the map that is built.
\<close>

definition putAll :: "(string \<times> string) list \<Rightarrow> (string \<times> string) list" where
  "putAll m = foldr (\<lambda>(key, val) out. AList.update key val out) m []"

definition makeMap :: copier where
  "makeMap v h =
     (case v of
        GNil \<Rightarrow> Some (GNil, h)
      | GMapRef a \<Rightarrow>
          (case cellAt h a of
             Some (CMap m) \<Rightarrow> Some (GMapRef (length h), h @ [CMap (putAll m)])
           | _ \<Rightarrow> None)
      | _ \<Rightarrow> None)"

text \<open>
  The body of a \<open>DeepCopyInto\<close>: \<open>*out = *in\<close>, and then a statement for each field listed, which
  reads the field of \<open>in\<close> and stores into the field of \<open>out\<close>.
\<close>

definition setField :: "string \<Rightarrow> gv \<Rightarrow> (string \<times> gv) list \<Rightarrow> (string \<times> gv) list" where
  "setField f w fs = map (\<lambda>(g, v). (g, if g = f then w else v)) fs"

fun assignFields :: "(string \<times> copier) list \<Rightarrow> (string \<times> gv) list \<Rightarrow> (string \<times> gv) list \<Rightarrow> store \<Rightarrow>
    ((string \<times> gv) list \<times> store) option" where
  "assignFields [] ins outs h = Some (outs, h)"
| "assignFields ((f, c) # cs) ins outs h =
     (case map_of ins f of
        None \<Rightarrow> None
      | Some v \<Rightarrow>
          (case c v h of
             None \<Rightarrow> None
           | Some (w, h1) \<Rightarrow> assignFields cs ins (setField f w outs) h1))"

definition structCopy :: "(string \<times> copier) list \<Rightarrow> copier" where
  "structCopy cs v h =
     (case v of
        GStruct fs \<Rightarrow> map_option (\<lambda>(outs, h1). (GStruct outs, h1)) (assignFields cs fs fs h)
      | _ \<Rightarrow> None)"

section \<open>The contract of a copy\<close>

text \<open>
  \<open>copied T h t w g\<close>: in the memory \<open>g\<close> the value \<open>w\<close> reads as \<open>t\<close>, everything it leads to was
  allocated since \<open>h\<close> and is reached once, and what there was in \<open>h\<close> is as it was.
\<close>

definition fresh :: "store \<Rightarrow> store \<Rightarrow> addr list \<Rightarrow> bool" where
  "fresh h g as \<longleftrightarrow> distinct as \<and> set as \<subseteq> {length h..<length g}"

definition copied :: "gty \<Rightarrow> store \<Rightarrow> tree \<Rightarrow> gv \<Rightarrow> store \<Rightarrow> bool" where
  "copied T h t w g \<longleftrightarrow> grown h g \<and> rd T g w = Some t \<and> fresh h g (foot T g w)"

locale copier =
  fixes c :: copier and T :: gty
  assumes copies: "rd T h v = Some t \<Longrightarrow> \<exists>w g. c v h = Some (w, g) \<and> copied T h t w g"
begin

text \<open>The copy and the original have nothing in common that could be written.\<close>

lemma apart:
  assumes "rd T h v = Some t" "c v h = Some (w, g)"
  shows "set (foot T g w) \<inter> set (foot T g v) = {}"
proof -
  have cp: "grown h g" "fresh h g (foot T g w)"
    using copies [OF assms(1)] assms(2) by (auto simp: copied_def)
  have "foot T g v = foot T h v" by (rule grown_foot [OF cp(1) assms(1)])
  then show ?thesis using cp(2) foot_below(1) [OF assms(1)] by (fastforce simp: fresh_def)
qed

text \<open>A write to memory that the copy did not allocate does not show in it.\<close>

lemma unaffected:
  assumes "rd T h v = Some t" "c v h = Some (w, g)" "agree [length h..<length g] g k"
  shows "rd T k w = Some t"
proof -
  have cp: "copied T h t w g" using copies [OF assms(1)] assms(2) by auto
  then have "agree (foot T g w) g k"
    using assms(3) by (auto simp: copied_def fresh_def agree_def list_all_iff)
  then show ?thesis using cp by (simp add: rd_frame copied_def)
qed

text \<open>A write to memory that the copy allocated does not show in the original.\<close>

lemma unaffecting:
  assumes "rd T h v = Some t" "c v h = Some (w, g)" "agree [0..<length h] g k"
  shows "rd T k v = Some t"
proof -
  have cp: "grown h g" using copies [OF assms(1)] assms(2) by (auto simp: copied_def)
  moreover have "agree (foot T g v) g k"
    using assms(3) foot_below(1) [OF assms(1)] grown_foot [OF cp assms(1)]
    by (auto simp: agree_def list_all_iff)
  ultimately show ?thesis using grown_rd [OF cp assms(1)] by (simp add: rd_frame)
qed

end

section \<open>The building blocks keep the contract\<close>

named_theorems copying

lemma fresh_Nil [simp]: "fresh h g []"
  by (simp add: fresh_def)

lemma fresh_append:
  "fresh h g as \<Longrightarrow> fresh g k bs \<Longrightarrow> grown h g \<Longrightarrow> grown g k \<Longrightarrow> fresh h k (as @ bs)"
  by (fastforce simp: fresh_def grown_def)

lemma fresh_mono: "fresh g k as \<Longrightarrow> grown h g \<Longrightarrow> fresh h k as"
  by (fastforce simp: fresh_def grown_def)

lemma fresh_grown: "fresh h g as \<Longrightarrow> grown g k \<Longrightarrow> fresh h k as"
  by (fastforce simp: fresh_def grown_def)

lemma assign_copier [copying]: "flat T \<Longrightarrow> copier assign T"
  by unfold_locales (auto simp: assign_def copied_def flat_no_foot)

text \<open>Writing the place that was allocated first, when all that it holds has been copied.\<close>

lemma close_cell:
  assumes "grown (h @ [x]) g" "fresh (h @ [x]) g as"
  shows "grown h (g[length h := y])" "agree as g (g[length h := y])"
    "fresh h (g[length h := y]) (length h # as)"
    "cellAt (g[length h := y]) (length h) = Some y"
proof -
  have hg: "grown h g" by (rule grown_trans [OF _ assms(1)]) simp
  show "grown h (g[length h := y])" by (rule grown_update [OF hg]) simp
  have new: "length h \<notin> set as" "length h < length g"
    using assms by (auto simp: fresh_def dest: grown_length)
  then show "agree as g (g[length h := y])" by (simp add: update_agree)
  show "fresh h (g[length h := y]) (length h # as)"
    using assms new by (fastforce simp: fresh_def)
  show "cellAt (g[length h := y]) (length h) = Some y" using new by (simp add: cellAt_update)
qed

lemma newOf_copier [copying]:
  assumes "copier c T"
  shows "copier (newOf c) (TyPtr T)"
proof
  fix h v t assume v: "rd (TyPtr T) h v = Some t"
  show "\<exists>w g. newOf c v h = Some (w, g) \<and> copied (TyPtr T) h t w g"
  proof (cases "v = GNil")
    case True
    then show ?thesis using v by (auto simp: newOf_def copied_def)
  next
    case False
    then obtain a x u where x: "v = GPtr a" "cellAt h a = Some (CVal x)" "rd T h x = Some u" "t = TRef u"
      using v by (auto split: gv.splits option.splits cell.splits)
    have "rd T (h @ [CVal x]) x = Some u" by (rule grown_rd [OF _ x(3)]) simp
    then obtain y g where c: "c x (h @ [CVal x]) = Some (y, g)" "copied T (h @ [CVal x]) u y g"
      using copier.copies [OF assms] by blast
    note cl = close_cell [where y = "CVal y", OF c(2) [unfolded copied_def, THEN conjunct1]
        c(2) [unfolded copied_def, THEN conjunct2, THEN conjunct2]]
    have "rd T (g[length h := CVal y]) y = Some u"
      "foot T (g[length h := CVal y]) y = foot T g y"
      using c(2) cl(2) by (simp_all add: copied_def rd_frame foot_unchanged)
    then show ?thesis using x c(1) cl(1,3,4) by (simp add: newOf_def copied_def)
  qed
qed

lemma map_of_update: "map_of (AList.update k x m) = (map_of m)(k \<mapsto> x)"
  by (rule update_conv')

lemma map_of_putAll [simp]: "map_of (putAll m) = map_of m"
  by (induction m) (auto simp: putAll_def map_of_update)

lemma makeMap_copier [copying]: "copier makeMap TyMap"
proof
  fix h v t assume v: "rd TyMap h v = Some t"
  then consider "v = GNil" "t = TNil"
    | a m where "v = GMapRef a" "cellAt h a = Some (CMap m)" "t = TDict (map_of m)"
    by (auto split: gv.splits option.splits cell.splits)
  then show "\<exists>w g. makeMap v h = Some (w, g) \<and> copied TyMap h t w g"
    by cases (simp_all add: makeMap_def copied_def fresh_def)
qed

text \<open>Slices.\<close>

lemma window_all [simp]: "window 0 (length xs) xs = xs"
  by (simp add: window_def)

lemma length_window [simp]: "off + n \<le> length vs \<Longrightarrow> length (window off n vs) = n"
  by (simp add: window_def)

lemma grown_map: "grown h g \<Longrightarrow> map (rd T h) xs = map Some ts \<Longrightarrow> map (rd T g) xs = map Some ts"
  by (simp add: list_eq_iff_nth_eq grown_rd)

lemma rd_slice:
  "rd (TySlice T) h v = Some t \<longleftrightarrow>
     v = GNil \<and> t = TNil \<or> (\<exists>xs ts. sliceOf v h = Some xs \<and> map (rd T h) xs = map Some ts \<and> t = TSeq ts)"
  by (cases v) (auto simp: sliceOf_def those_Some split: option.splits cell.splits)

lemma sliceOf_new: "cellAt g a = Some (CArr xs) \<Longrightarrow> sliceOf (GSlice a 0 (length xs)) g = Some xs"
  by (simp add: sliceOf_def)

lemma makeCopy_copier [copying]:
  assumes "flat T"
  shows "copier makeCopy (TySlice T)"
proof
  fix h v t assume v: "rd (TySlice T) h v = Some t"
  show "\<exists>w g. makeCopy v h = Some (w, g) \<and> copied (TySlice T) h t w g"
  proof (cases "v = GNil")
    case True
    then show ?thesis using v by (simp add: makeCopy_def copied_def)
  next
    case False
    then obtain xs ts where x: "sliceOf v h = Some xs" "map (rd T h) xs = map Some ts" "t = TSeq ts"
      using v unfolding rd_slice by blast
    have "sliceOf (GSlice (length h) 0 (length xs)) (h @ [CArr xs]) = Some xs"
      by (simp add: sliceOf_new)
    moreover have "map (rd T (h @ [CArr xs])) xs = map Some ts"
      by (rule grown_map [OF _ x(2)]) simp
    ultimately have "rd (TySlice T) (h @ [CArr xs]) (GSlice (length h) 0 (length xs)) = Some t"
      unfolding rd_slice using x(3) by blast
    moreover have "foot (TySlice T) (h @ [CArr xs]) (GSlice (length h) 0 (length xs)) = [length h]"
      by (simp add: flat_no_foot assms)
    ultimately show ?thesis using x(1) False
      by (simp add: makeCopy_def copied_def fresh_def del: rd.simps foot.simps)
  qed
qed

lemma copyEach_copied:
  assumes "copier c T"
  shows "map (rd T h) xs = map Some ts \<Longrightarrow>
    \<exists>ys g. copyEach c xs h = Some (ys, g) \<and> grown h g \<and> length ys = length xs \<and>
      map (rd T g) ys = map Some ts \<and> fresh h g (concat (map (foot T g) ys))"
proof (induction xs arbitrary: h ts)
  case Nil
  then show ?case by simp
next
  case (Cons x xs)
  then obtain u us where ts: "ts = u # us" "rd T h x = Some u" "map (rd T h) xs = map Some us"
    by (cases ts) auto
  then obtain y h1 where y: "c x h = Some (y, h1)" "grown h h1" "rd T h1 y = Some u" "fresh h h1 (foot T h1 y)"
    using copier.copies [OF assms] unfolding copied_def by blast
  have "map (rd T h1) xs = map Some us"
    by (rule grown_map [OF y(2) ts(3)])
  then obtain ys g where ys: "copyEach c xs h1 = Some (ys, g)" "grown h1 g" "length ys = length xs"
      "map (rd T g) ys = map Some us" "fresh h1 g (concat (map (foot T g) ys))"
    using Cons.IH by blast
  have "rd T g y = Some u" "foot T g y = foot T h1 y"
    by (rule grown_rd [OF ys(2) y(3)], rule grown_foot [OF ys(2) y(3)])
  then show ?case
    using y ys ts(1) by (auto intro: grown_trans fresh_append)
qed

lemma makeEach_copier [copying]:
  assumes "copier c T"
  shows "copier (makeEach c) (TySlice T)"
proof
  fix h v t assume v: "rd (TySlice T) h v = Some t"
  show "\<exists>w g. makeEach c v h = Some (w, g) \<and> copied (TySlice T) h t w g"
  proof (cases "v = GNil")
    case True
    then show ?thesis using v by (simp add: makeEach_def copied_def)
  next
    case False
    then obtain xs ts where x: "sliceOf v h = Some xs" "map (rd T h) xs = map Some ts" "t = TSeq ts"
      using v unfolding rd_slice by blast
    let ?h = "h @ [CArr xs]"
    have "map (rd T ?h) xs = map Some ts"
      by (rule grown_map [OF _ x(2)]) simp
    then obtain ys g where ys: "copyEach c xs ?h = Some (ys, g)" "grown ?h g" "length ys = length xs"
        "map (rd T g) ys = map Some ts" "fresh ?h g (concat (map (foot T g) ys))"
      using copyEach_copied [OF assms] by blast
    note cl = close_cell [where y = "CArr ys", OF ys(2,5)]
    let ?g = "g[length h := CArr ys]"
    have same: "rd T ?g y = rd T g y \<and> foot T ?g y = foot T g y" if "y \<in> set ys" for y
      by (rule foot_frame) (use cl(2) that in auto)
    then have maps: "map (rd T ?g) ys = map Some ts" "map (foot T ?g) ys = map (foot T g) ys"
      using ys(4) by (auto cong: map_cong)
    have "rd (TySlice T) ?g (GSlice (length h) 0 (length ys)) = Some t"
      unfolding rd_slice using sliceOf_new [OF cl(4)] maps(1) x(3) by blast
    moreover have "foot (TySlice T) ?g (GSlice (length h) 0 (length ys)) = length h # concat (map (foot T g) ys)"
      by (simp add: cl(4) maps(2))
    ultimately have "copied (TySlice T) h t (GSlice (length h) 0 (length ys)) ?g"
      using cl(1,3) by (simp add: copied_def del: rd.simps foot.simps)
    then show ?thesis using x(1) False ys(1,3) by (simp add: makeEach_def)
  qed
qed

text \<open>
  Structs.  A \<open>DeepCopyInto\<close> has to copy every field whose type has addresses; the statements are
  in the order of the fields.
\<close>

fun copiesFields :: "(string \<times> copier) list \<Rightarrow> (string \<times> gty) list \<Rightarrow> bool" where
  "copiesFields cs [] \<longleftrightarrow> cs = []"
| "copiesFields cs ((f, T) # Fs) \<longleftrightarrow>
     (if cs \<noteq> [] \<and> fst (hd cs) = f then copier (snd (hd cs)) T \<and> copiesFields (tl cs) Fs
      else flat T \<and> copiesFields cs Fs)"

lemma rdFields_names: "rdFields Fs h fs = Some ts \<Longrightarrow> map fst fs = map fst Fs"
  by (induction Fs arbitrary: fs ts) (auto split: list.splits option.splits if_splits)

lemma grown_fields: "grown h g \<Longrightarrow> rdFields Fs h fs = Some ts \<Longrightarrow> rdFields Fs g fs = Some ts"
  by (metis grown_agree foot_below(2) rd_frame(2))

lemma setField_other: "f \<notin> fst ` set fs \<Longrightarrow> setField f w fs = fs"
  by (induction fs) (auto simp: setField_def)

lemma setField_append: "setField f w (fs @ gs) = setField f w fs @ setField f w gs"
  by (simp add: setField_def)

lemma setField_Cons: "setField f w ((g, v) # fs) = (g, if f = g then w else v) # setField f w fs"
  by (simp add: setField_def)

lemma setField_names [simp]: "map fst (setField f w fs) = map fst fs"
  by (simp add: setField_def case_prod_beta)

lemma assignFields_copied:
  assumes "copiesFields cs Fs" "rdFields Fs h fs = Some ts"
    "distinct (map fst ps @ map fst fs)" "map fst qs = map fst ps"
  shows "\<exists>ws g. assignFields cs (ps @ fs) (qs @ fs) h = Some (qs @ ws, g) \<and> grown h g \<and>
    rdFields Fs g ws = Some ts \<and> fresh h g (footFields Fs g ws)"
  using assms
proof (induction cs Fs arbitrary: h fs ts ps qs rule: copiesFields.induct)
  case (1 cs)
  then show ?case by (auto split: list.splits)
next
  case (2 cs f T Fs)
  from 2(4) obtain v gs t us where fs: "fs = (f, v) # gs" "rd T h v = Some t"
      "rdFields Fs h gs = Some us" "ts = (f, t) # us"
    by (auto split: list.splits option.splits if_splits)
  have "f \<notin> fst ` set ps" "f \<notin> fst ` set qs" "f \<notin> fst ` set gs"
    using 2(5,6) fs(1) by (auto simp flip: set_map)
  then have look: "map_of (ps @ fs) f = Some v"
    and put: "setField f w (qs @ fs) = (qs @ [(f, w)]) @ gs" for w
    by (simp_all add: fs(1) map_add_def setField_append setField_other setField_Cons
        map_of_eq_None_iff [THEN iffD2])
  show ?case
  proof (cases "cs \<noteq> [] \<and> fst (hd cs) = f")
    case True
    then obtain c cs' where cs: "cs = (f, c) # cs'" by (cases cs) auto
    then have c: "copier c T" "copiesFields cs' Fs" using 2(3) by auto
    then obtain w h1 where w: "c v h = Some (w, h1)" "grown h h1" "rd T h1 w = Some t" "fresh h h1 (foot T h1 w)"
      using copier.copies [OF c(1) fs(2)] unfolding copied_def by blast
    have "\<exists>ws g. assignFields cs' ((ps @ [(f, v)]) @ gs) ((qs @ [(f, w)]) @ gs) h1 = Some ((qs @ [(f, w)]) @ ws, g) \<and>
        grown h1 g \<and> rdFields Fs g ws = Some us \<and> fresh h1 g (footFields Fs g ws)"
      using 2(1) [OF True, of h1 gs us "ps @ [(f, v)]" "qs @ [(f, w)]"] c(2) cs 2(5,6)
        grown_fields [OF w(2) fs(3)] by (simp add: fs(1))
    then obtain ws g where ws: "assignFields cs' (ps @ fs) ((qs @ [(f, w)]) @ gs) h1 = Some (qs @ (f, w) # ws, g)"
        "grown h1 g" "rdFields Fs g ws = Some us" "fresh h1 g (footFields Fs g ws)"
      by (auto simp: fs(1))
    have "rd T g w = Some t" "foot T g w = foot T h1 w"
      by (rule grown_rd [OF ws(2) w(3)], rule grown_foot [OF ws(2) w(3)])
    then have "rdFields ((f, T) # Fs) g ((f, w) # ws) = Some ts"
      "fresh h g (footFields ((f, T) # Fs) g ((f, w) # ws))"
      using ws(3) fs(4) fresh_append [OF w(4) ws(4) w(2) ws(2)] by simp_all
    moreover have "assignFields cs (ps @ fs) (qs @ fs) h = Some (qs @ (f, w) # ws, g)"
      using ws(1) w(1) by (simp only: cs assignFields.simps look put option.case prod.case)
    ultimately show ?thesis using grown_trans [OF w(2) ws(2)] by blast
  next
    case False
    have "\<exists>ws g. assignFields cs ((ps @ [(f, v)]) @ gs) ((qs @ [(f, v)]) @ gs) h = Some ((qs @ [(f, v)]) @ ws, g) \<and>
        grown h g \<and> rdFields Fs g ws = Some us \<and> fresh h g (footFields Fs g ws)"
      using 2(2) [OF False, of h gs us "ps @ [(f, v)]" "qs @ [(f, v)]"] False 2(3,5,6) fs(1,3) by simp
    then obtain ws g where ws: "assignFields cs (ps @ fs) (qs @ fs) h = Some (qs @ (f, v) # ws, g)"
        "grown h g" "rdFields Fs g ws = Some us" "fresh h g (footFields Fs g ws)"
      by (auto simp: fs(1))
    have "flat T" using False 2(3) by simp
    then show ?thesis using ws fs grown_rd [OF ws(2) fs(2)]
      by (auto simp: flat_no_foot intro!: exI [of _ "(f, v) # ws"])
  qed
qed

lemma structCopy_copier [copying]:
  assumes "copiesFields cs Fs" "distinct (map fst Fs)"
  shows "copier (structCopy cs) (TyStruct Fs)"
proof
  fix h v t assume "rd (TyStruct Fs) h v = Some t"
  then obtain fs ts where v: "v = GStruct fs" "rdFields Fs h fs = Some ts" "t = TRec ts"
    by (auto split: gv.splits)
  then obtain ws g where "assignFields cs fs fs h = Some (ws, g)" "grown h g"
      "rdFields Fs g ws = Some ts" "fresh h g (footFields Fs g ws)"
    using assignFields_copied [OF assms(1) v(2), of "[]" "[]"] assms(2) rdFields_names [OF v(2)] by auto
  then show "\<exists>w g. structCopy cs v h = Some (w, g) \<and> copied (TyStruct Fs) h t w g"
    using v by (simp add: structCopy_def copied_def)
qed

end
