(* ===== verification/DeepCopy.thy ===== *)
theory DeepCopy
  imports Copying
begin

text \<open>
  The generated deep copies, \<open>api/v1alpha1/zz_generated.deepcopy.go\<close>, for the types of
  \<open>api/v1alpha1/*_types.go\<close>.  \<open>T_type\<close> is the declaration of a type, \<open>T_DeepCopyInto\<close> the list of
  its statements after \<open>*out = *in\<close>, \<open>T_DeepCopy\<close> and \<open>T_DeepCopyObject\<close> the methods on a pointer.
  The theorems say that a declaration and its copy agree: no field that leads to memory was
  forgotten, so that a copy shares nothing with the original, and that therefore the base of
  a merge patch, which the reconcilers copy before they change an object in place, still
  holds the object as it was.
\<close>

section \<open>The types of the Kubernetes libraries\<close>

text \<open>
  The structs of apimachinery and core/v1 that the API types contain.  Their layout and their
  own \<open>DeepCopyInto\<close> are arguments; \<open>externals_copy\<close> is what their documentation promises: each
  one copies its type, and \<open>TypeMeta\<close>, which the generated code assigns, is two strings.
\<close>

datatype external = TypeMeta | ObjectMeta | ListMeta | Condition | ResourceRequirements
  | Toleration | Affinity | TopologySpreadConstraint | PodSecurityContext | SecurityContext
  | EnvVar | Volume | VolumeMount | Container

record externals =
  ext_type :: "external \<Rightarrow> gty"
  ext_copy :: "external \<Rightarrow> copier"

definition externals_copy :: "externals \<Rightarrow> bool" where
  "externals_copy X \<longleftrightarrow>
     ext_type X TypeMeta = TyStruct [(''Kind'', TyScalar), (''APIVersion'', TyScalar)] \<and>
     (\<forall>e. copier (ext_copy X e) (ext_type X e))"

text \<open>
  A \<open>runtime.Object\<close>: the interface value that is nil, or a pointer with its type.  A nil pointer
  in an interface is not the nil interface; \<open>DeepCopyObject\<close> tests for it.
\<close>

datatype runtimeObject = NilObject | Object string gv

type_synonym objectCopier = "gv \<Rightarrow> store \<Rightarrow> (runtimeObject \<times> store) option"

definition asObject :: "string \<Rightarrow> copier \<Rightarrow> objectCopier" where
  "asObject name dc p h =
     map_option (\<lambda>(c, g). (if c \<noteq> GNil then Object name c else NilObject, g)) (dc p h)"

section \<open>Sites\<close>

definition AutoDiscoverSpec_type :: gty where
  "AutoDiscoverSpec_type = TyStruct
     [(''AnnotationPrefix'', TyScalar), (''GatewayName'', TyScalar),
     (''GatewayNamespace'', TyScalar), (''GatewayTargetHostname'', TyScalar),
     (''GatewayTargetPort'', TyScalar), (''GatewayTargetMethod'', TyScalar),
     (''EnableRouteDiscovery'', TyScalar), (''EnableServiceDiscovery'', TyScalar),
     (''EnableTCPRouteDiscovery'', TyScalar), (''AllPorts'', TyScalar), (''SSL'', TyScalar),
     (''DenyCountries'', TyScalar), (''AuthSSORoles'', TyScalar), (''AuthSSOUsers'', TyScalar),
     (''AuthSSOIDP'', TyScalar), (''AuthWhitelistUsers'', TyScalar)]"

definition AutoDiscoverSpec_DeepCopyInto :: copier where
  "AutoDiscoverSpec_DeepCopyInto = assign"

definition AutoDiscoverSpec_DeepCopy :: copier where
  "AutoDiscoverSpec_DeepCopy = newOf AutoDiscoverSpec_DeepCopyInto"

definition NewtMetricsSpec_type :: gty where
  "NewtMetricsSpec_type = TyStruct
     [(''Port'', TyScalar), (''AdminAddr'', TyScalar)]"

definition NewtMetricsSpec_DeepCopyInto :: copier where
  "NewtMetricsSpec_DeepCopyInto = assign"

definition NewtMetricsSpec_DeepCopy :: copier where
  "NewtMetricsSpec_DeepCopy = newOf NewtMetricsSpec_DeepCopyInto"

definition NewtSpec_type :: "externals \<Rightarrow> gty" where
  "NewtSpec_type X = TyStruct
     [(''Image'', TyScalar), (''Tag'', TyScalar), (''Replicas'', TyPtr TyScalar),
     (''LogLevel'', TyScalar), (''Mtu'', TyScalar), (''PingInterval'', TyScalar),
     (''PingTimeout'', TyScalar), (''Interface'', TyScalar), (''DNS'', TyScalar),
     (''AcceptClients'', TyScalar), (''Resources'', TyPtr (ext_type X ResourceRequirements)),
     (''UseNativeInterface'', TyScalar), (''HostNetwork'', TyScalar), (''HostPID'', TyScalar),
     (''PodAnnotations'', TyMap), (''NodeSelector'', TyMap),
     (''Tolerations'', TySlice (ext_type X Toleration)),
     (''Affinity'', TyPtr (ext_type X Affinity)),
     (''TopologySpreadConstraints'', TySlice (ext_type X TopologySpreadConstraint)),
     (''PodSecurityContext'', TyPtr (ext_type X PodSecurityContext)),
     (''SecurityContext'', TyPtr (ext_type X SecurityContext)),
     (''ExtraEnv'', TySlice (ext_type X EnvVar)),
     (''ExtraVolumes'', TySlice (ext_type X Volume)),
     (''ExtraVolumeMounts'', TySlice (ext_type X VolumeMount)),
     (''InitContainers'', TySlice (ext_type X Container)),
     (''ExtraContainers'', TySlice (ext_type X Container)),
     (''Metrics'', TyPtr NewtMetricsSpec_type)]"

definition NewtSpec_DeepCopyInto :: "externals \<Rightarrow> copier" where
  "NewtSpec_DeepCopyInto X = structCopy
     [(''Replicas'', newOf assign), (''Resources'', newOf (ext_copy X ResourceRequirements)),
     (''PodAnnotations'', makeMap), (''NodeSelector'', makeMap),
     (''Tolerations'', makeEach (ext_copy X Toleration)),
     (''Affinity'', newOf (ext_copy X Affinity)),
     (''TopologySpreadConstraints'', makeEach (ext_copy X TopologySpreadConstraint)),
     (''PodSecurityContext'', newOf (ext_copy X PodSecurityContext)),
     (''SecurityContext'', newOf (ext_copy X SecurityContext)),
     (''ExtraEnv'', makeEach (ext_copy X EnvVar)),
     (''ExtraVolumes'', makeEach (ext_copy X Volume)),
     (''ExtraVolumeMounts'', makeEach (ext_copy X VolumeMount)),
     (''InitContainers'', makeEach (ext_copy X Container)),
     (''ExtraContainers'', makeEach (ext_copy X Container)), (''Metrics'', newOf assign)]"

definition NewtSpec_DeepCopy :: "externals \<Rightarrow> copier" where
  "NewtSpec_DeepCopy X = newOf (NewtSpec_DeepCopyInto X)"

definition NewtSiteSpec_type :: "externals \<Rightarrow> gty" where
  "NewtSiteSpec_type X = TyStruct
     [(''Name'', TyScalar), (''Type'', TyScalar), (''Newt'', NewtSpec_type X),
     (''ManagedDeployment'', TyPtr TyScalar), (''AutoDiscover'', TyPtr AutoDiscoverSpec_type)]"

definition NewtSiteSpec_DeepCopyInto :: "externals \<Rightarrow> copier" where
  "NewtSiteSpec_DeepCopyInto X = structCopy
     [(''Newt'', NewtSpec_DeepCopyInto X), (''ManagedDeployment'', newOf assign),
     (''AutoDiscover'', newOf assign)]"

definition NewtSiteSpec_DeepCopy :: "externals \<Rightarrow> copier" where
  "NewtSiteSpec_DeepCopy X = newOf (NewtSiteSpec_DeepCopyInto X)"

definition NewtSiteStatus_type :: "externals \<Rightarrow> gty" where
  "NewtSiteStatus_type X = TyStruct
     [(''Phase'', TyScalar), (''SiteID'', TyScalar), (''NiceID'', TyScalar),
     (''NewtSecretName'', TyScalar), (''Online'', TyScalar), (''ObservedGeneration'', TyScalar),
     (''Conditions'', TySlice (ext_type X Condition))]"

definition NewtSiteStatus_DeepCopyInto :: "externals \<Rightarrow> copier" where
  "NewtSiteStatus_DeepCopyInto X = structCopy
     [(''Conditions'', makeEach (ext_copy X Condition))]"

definition NewtSiteStatus_DeepCopy :: "externals \<Rightarrow> copier" where
  "NewtSiteStatus_DeepCopy X = newOf (NewtSiteStatus_DeepCopyInto X)"

definition NewtSite_type :: "externals \<Rightarrow> gty" where
  "NewtSite_type X = TyStruct
     [(''TypeMeta'', ext_type X TypeMeta), (''ObjectMeta'', ext_type X ObjectMeta),
     (''Spec'', NewtSiteSpec_type X), (''Status'', NewtSiteStatus_type X)]"

definition NewtSite_DeepCopyInto :: "externals \<Rightarrow> copier" where
  "NewtSite_DeepCopyInto X = structCopy
     [(''TypeMeta'', assign), (''ObjectMeta'', ext_copy X ObjectMeta),
     (''Spec'', NewtSiteSpec_DeepCopyInto X), (''Status'', NewtSiteStatus_DeepCopyInto X)]"

definition NewtSite_DeepCopy :: "externals \<Rightarrow> copier" where
  "NewtSite_DeepCopy X = newOf (NewtSite_DeepCopyInto X)"

definition NewtSite_DeepCopyObject :: "externals \<Rightarrow> objectCopier" where
  "NewtSite_DeepCopyObject X = asObject ''NewtSite'' (NewtSite_DeepCopy X)"

definition NewtSiteList_type :: "externals \<Rightarrow> gty" where
  "NewtSiteList_type X = TyStruct
     [(''TypeMeta'', ext_type X TypeMeta), (''ListMeta'', ext_type X ListMeta),
     (''Items'', TySlice (NewtSite_type X))]"

definition NewtSiteList_DeepCopyInto :: "externals \<Rightarrow> copier" where
  "NewtSiteList_DeepCopyInto X = structCopy
     [(''TypeMeta'', assign), (''ListMeta'', ext_copy X ListMeta),
     (''Items'', makeEach (NewtSite_DeepCopyInto X))]"

definition NewtSiteList_DeepCopy :: "externals \<Rightarrow> copier" where
  "NewtSiteList_DeepCopy X = newOf (NewtSiteList_DeepCopyInto X)"

definition NewtSiteList_DeepCopyObject :: "externals \<Rightarrow> objectCopier" where
  "NewtSiteList_DeepCopyObject X = asObject ''NewtSiteList'' (NewtSiteList_DeepCopy X)"

section \<open>Private resources\<close>

definition PrivateResourceSpec_type :: gty where
  "PrivateResourceSpec_type = TyStruct
     [(''SiteRef'', TyScalar), (''Name'', TyScalar), (''Mode'', TyScalar),
     (''Destination'', TyScalar), (''TcpPorts'', TyScalar), (''UdpPorts'', TyScalar),
     (''FullDomain'', TyScalar), (''DestinationPort'', TyScalar), (''Scheme'', TyScalar),
     (''Ssl'', TyPtr TyScalar), (''DisableIcmp'', TyScalar), (''Alias'', TyScalar),
     (''RoleIds'', TySlice TyScalar), (''UserIds'', TySlice TyScalar),
     (''ClientIds'', TySlice TyScalar)]"

definition PrivateResourceSpec_DeepCopyInto :: copier where
  "PrivateResourceSpec_DeepCopyInto = structCopy
     [(''Ssl'', newOf assign), (''RoleIds'', makeCopy), (''UserIds'', makeCopy),
     (''ClientIds'', makeCopy)]"

definition PrivateResourceSpec_DeepCopy :: copier where
  "PrivateResourceSpec_DeepCopy = newOf PrivateResourceSpec_DeepCopyInto"

definition PrivateResourceStatus_type :: "externals \<Rightarrow> gty" where
  "PrivateResourceStatus_type X = TyStruct
     [(''Phase'', TyScalar), (''SiteResourceID'', TyScalar), (''NiceID'', TyScalar),
     (''FullDomain'', TyScalar), (''ObservedGeneration'', TyScalar),
     (''Conditions'', TySlice (ext_type X Condition))]"

definition PrivateResourceStatus_DeepCopyInto :: "externals \<Rightarrow> copier" where
  "PrivateResourceStatus_DeepCopyInto X = structCopy
     [(''Conditions'', makeEach (ext_copy X Condition))]"

definition PrivateResourceStatus_DeepCopy :: "externals \<Rightarrow> copier" where
  "PrivateResourceStatus_DeepCopy X = newOf (PrivateResourceStatus_DeepCopyInto X)"

definition PrivateResource_type :: "externals \<Rightarrow> gty" where
  "PrivateResource_type X = TyStruct
     [(''TypeMeta'', ext_type X TypeMeta), (''ObjectMeta'', ext_type X ObjectMeta),
     (''Spec'', PrivateResourceSpec_type), (''Status'', PrivateResourceStatus_type X)]"

definition PrivateResource_DeepCopyInto :: "externals \<Rightarrow> copier" where
  "PrivateResource_DeepCopyInto X = structCopy
     [(''TypeMeta'', assign), (''ObjectMeta'', ext_copy X ObjectMeta),
     (''Spec'', PrivateResourceSpec_DeepCopyInto),
     (''Status'', PrivateResourceStatus_DeepCopyInto X)]"

definition PrivateResource_DeepCopy :: "externals \<Rightarrow> copier" where
  "PrivateResource_DeepCopy X = newOf (PrivateResource_DeepCopyInto X)"

definition PrivateResource_DeepCopyObject :: "externals \<Rightarrow> objectCopier" where
  "PrivateResource_DeepCopyObject X = asObject ''PrivateResource'' (PrivateResource_DeepCopy X)"

definition PrivateResourceList_type :: "externals \<Rightarrow> gty" where
  "PrivateResourceList_type X = TyStruct
     [(''TypeMeta'', ext_type X TypeMeta), (''ListMeta'', ext_type X ListMeta),
     (''Items'', TySlice (PrivateResource_type X))]"

definition PrivateResourceList_DeepCopyInto :: "externals \<Rightarrow> copier" where
  "PrivateResourceList_DeepCopyInto X = structCopy
     [(''TypeMeta'', assign), (''ListMeta'', ext_copy X ListMeta),
     (''Items'', makeEach (PrivateResource_DeepCopyInto X))]"

definition PrivateResourceList_DeepCopy :: "externals \<Rightarrow> copier" where
  "PrivateResourceList_DeepCopy X = newOf (PrivateResourceList_DeepCopyInto X)"

definition PrivateResourceList_DeepCopyObject :: "externals \<Rightarrow> objectCopier" where
  "PrivateResourceList_DeepCopyObject X = asObject ''PrivateResourceList'' (PrivateResourceList_DeepCopy X)"

section \<open>Public resources\<close>

definition PublicHeaderSpec_type :: gty where
  "PublicHeaderSpec_type = TyStruct
     [(''Name'', TyScalar), (''Value'', TyScalar)]"

definition PublicHeaderSpec_DeepCopyInto :: copier where
  "PublicHeaderSpec_DeepCopyInto = assign"

definition PublicHeaderSpec_DeepCopy :: copier where
  "PublicHeaderSpec_DeepCopy = newOf PublicHeaderSpec_DeepCopyInto"

definition PublicRuleSpec_type :: gty where
  "PublicRuleSpec_type = TyStruct
     [(''Action'', TyScalar), (''Match'', TyScalar), (''Value'', TyScalar),
     (''Priority'', TyScalar)]"

definition PublicRuleSpec_DeepCopyInto :: copier where
  "PublicRuleSpec_DeepCopyInto = assign"

definition PublicRuleSpec_DeepCopy :: copier where
  "PublicRuleSpec_DeepCopy = newOf PublicRuleSpec_DeepCopyInto"

definition PublicAuthSpec_type :: gty where
  "PublicAuthSpec_type = TyStruct
     [(''SsoEnabled'', TyScalar), (''SsoRoles'', TySlice TyScalar),
     (''SsoUsers'', TySlice TyScalar), (''WhitelistUsers'', TySlice TyScalar),
     (''AutoLoginIdp'', TyScalar), (''AuthSecretRef'', TyScalar)]"

definition PublicAuthSpec_DeepCopyInto :: copier where
  "PublicAuthSpec_DeepCopyInto = structCopy
     [(''SsoRoles'', makeCopy), (''SsoUsers'', makeCopy), (''WhitelistUsers'', makeCopy)]"

definition PublicAuthSpec_DeepCopy :: copier where
  "PublicAuthSpec_DeepCopy = newOf PublicAuthSpec_DeepCopyInto"

definition PublicMaintenanceSpec_type :: gty where
  "PublicMaintenanceSpec_type = TyStruct
     [(''Enabled'', TyScalar), (''Type'', TyScalar), (''Title'', TyScalar),
     (''Message'', TyScalar), (''EstimatedTime'', TyScalar)]"

definition PublicMaintenanceSpec_DeepCopyInto :: copier where
  "PublicMaintenanceSpec_DeepCopyInto = assign"

definition PublicMaintenanceSpec_DeepCopy :: copier where
  "PublicMaintenanceSpec_DeepCopy = newOf PublicMaintenanceSpec_DeepCopyInto"

definition PublicHealthCheckSpec_type :: gty where
  "PublicHealthCheckSpec_type = TyStruct
     [(''Hostname'', TyScalar), (''Port'', TyScalar), (''Enabled'', TyPtr TyScalar),
     (''Path'', TyScalar), (''Scheme'', TyScalar), (''Mode'', TyScalar),
     (''Interval'', TyScalar), (''UnhealthyInterval'', TyScalar), (''Timeout'', TyScalar),
     (''Headers'', TySlice PublicHeaderSpec_type), (''FollowRedirects'', TyPtr TyScalar),
     (''Method'', TyScalar), (''Status'', TyScalar)]"

definition PublicHealthCheckSpec_DeepCopyInto :: copier where
  "PublicHealthCheckSpec_DeepCopyInto = structCopy
     [(''Enabled'', newOf assign), (''Headers'', makeCopy), (''FollowRedirects'', newOf assign)]"

definition PublicHealthCheckSpec_DeepCopy :: copier where
  "PublicHealthCheckSpec_DeepCopy = newOf PublicHealthCheckSpec_DeepCopyInto"

definition PublicTargetSpec_type :: gty where
  "PublicTargetSpec_type = TyStruct
     [(''Hostname'', TyScalar), (''Port'', TyScalar), (''Method'', TyScalar),
     (''Enabled'', TyPtr TyScalar), (''Path'', TyScalar), (''PathMatchType'', TyScalar),
     (''RewritePath'', TyScalar), (''RewritePathType'', TyScalar), (''Priority'', TyScalar),
     (''Healthcheck'', TyPtr PublicHealthCheckSpec_type)]"

definition PublicTargetSpec_DeepCopyInto :: copier where
  "PublicTargetSpec_DeepCopyInto = structCopy
     [(''Enabled'', newOf assign), (''Healthcheck'', newOf PublicHealthCheckSpec_DeepCopyInto)]"

definition PublicTargetSpec_DeepCopy :: copier where
  "PublicTargetSpec_DeepCopy = newOf PublicTargetSpec_DeepCopyInto"

definition PublicResourceSpec_type :: gty where
  "PublicResourceSpec_type = TyStruct
     [(''SiteRef'', TyScalar), (''Name'', TyScalar), (''Protocol'', TyScalar),
     (''FullDomain'', TyScalar), (''ProxyPort'', TyScalar), (''Enabled'', TyScalar),
     (''Ssl'', TyScalar), (''HostHeader'', TyScalar), (''TlsServerName'', TyScalar),
     (''Headers'', TySlice PublicHeaderSpec_type), (''Auth'', TyPtr PublicAuthSpec_type),
     (''Maintenance'', TyPtr PublicMaintenanceSpec_type),
     (''Rules'', TySlice PublicRuleSpec_type), (''Targets'', TySlice PublicTargetSpec_type)]"

definition PublicResourceSpec_DeepCopyInto :: copier where
  "PublicResourceSpec_DeepCopyInto = structCopy
     [(''Headers'', makeCopy), (''Auth'', newOf PublicAuthSpec_DeepCopyInto),
     (''Maintenance'', newOf assign), (''Rules'', makeCopy),
     (''Targets'', makeEach PublicTargetSpec_DeepCopyInto)]"

definition PublicResourceSpec_DeepCopy :: copier where
  "PublicResourceSpec_DeepCopy = newOf PublicResourceSpec_DeepCopyInto"

definition PublicResourceStatus_type :: "externals \<Rightarrow> gty" where
  "PublicResourceStatus_type X = TyStruct
     [(''Phase'', TyScalar), (''ResourceID'', TyScalar), (''NiceID'', TyScalar),
     (''FullDomain'', TyScalar), (''TargetIDs'', TySlice TyScalar), (''TargetsHash'', TyScalar),
     (''RuleIDs'', TySlice TyScalar), (''RulesHash'', TyScalar),
     (''ObservedGeneration'', TyScalar), (''Conditions'', TySlice (ext_type X Condition))]"

definition PublicResourceStatus_DeepCopyInto :: "externals \<Rightarrow> copier" where
  "PublicResourceStatus_DeepCopyInto X = structCopy
     [(''TargetIDs'', makeCopy), (''RuleIDs'', makeCopy),
     (''Conditions'', makeEach (ext_copy X Condition))]"

definition PublicResourceStatus_DeepCopy :: "externals \<Rightarrow> copier" where
  "PublicResourceStatus_DeepCopy X = newOf (PublicResourceStatus_DeepCopyInto X)"

definition PublicResource_type :: "externals \<Rightarrow> gty" where
  "PublicResource_type X = TyStruct
     [(''TypeMeta'', ext_type X TypeMeta), (''ObjectMeta'', ext_type X ObjectMeta),
     (''Spec'', PublicResourceSpec_type), (''Status'', PublicResourceStatus_type X)]"

definition PublicResource_DeepCopyInto :: "externals \<Rightarrow> copier" where
  "PublicResource_DeepCopyInto X = structCopy
     [(''TypeMeta'', assign), (''ObjectMeta'', ext_copy X ObjectMeta),
     (''Spec'', PublicResourceSpec_DeepCopyInto),
     (''Status'', PublicResourceStatus_DeepCopyInto X)]"

definition PublicResource_DeepCopy :: "externals \<Rightarrow> copier" where
  "PublicResource_DeepCopy X = newOf (PublicResource_DeepCopyInto X)"

definition PublicResource_DeepCopyObject :: "externals \<Rightarrow> objectCopier" where
  "PublicResource_DeepCopyObject X = asObject ''PublicResource'' (PublicResource_DeepCopy X)"

definition PublicResourceList_type :: "externals \<Rightarrow> gty" where
  "PublicResourceList_type X = TyStruct
     [(''TypeMeta'', ext_type X TypeMeta), (''ListMeta'', ext_type X ListMeta),
     (''Items'', TySlice (PublicResource_type X))]"

definition PublicResourceList_DeepCopyInto :: "externals \<Rightarrow> copier" where
  "PublicResourceList_DeepCopyInto X = structCopy
     [(''TypeMeta'', assign), (''ListMeta'', ext_copy X ListMeta),
     (''Items'', makeEach (PublicResource_DeepCopyInto X))]"

definition PublicResourceList_DeepCopy :: "externals \<Rightarrow> copier" where
  "PublicResourceList_DeepCopy X = newOf (PublicResourceList_DeepCopyInto X)"

definition PublicResourceList_DeepCopyObject :: "externals \<Rightarrow> objectCopier" where
  "PublicResourceList_DeepCopyObject X = asObject ''PublicResourceList'' (PublicResourceList_DeepCopy X)"

section \<open>Every declaration is copied\<close>

text \<open>The types that are assigned have no addresses.\<close>

lemma flat_types [simp]:
  "flat AutoDiscoverSpec_type"
  "flat NewtMetricsSpec_type"
  "flat PublicHeaderSpec_type"
  "flat PublicRuleSpec_type"
  "flat PublicMaintenanceSpec_type"
  by (simp_all add: AutoDiscoverSpec_type_def NewtMetricsSpec_type_def PublicHeaderSpec_type_def
    PublicRuleSpec_type_def PublicMaintenanceSpec_type_def)

lemma externals_copyD:
  assumes "externals_copy X"
  shows "copier (ext_copy X e) (ext_type X e)" "flat (ext_type X TypeMeta)"
  using assms by (auto simp: externals_copy_def)

lemma copies_AutoDiscoverSpec [copying]:
  "copier AutoDiscoverSpec_DeepCopyInto AutoDiscoverSpec_type"
  by (simp add: AutoDiscoverSpec_DeepCopyInto_def copying)

lemma copies_NewtMetricsSpec [copying]: "copier NewtMetricsSpec_DeepCopyInto NewtMetricsSpec_type"
  by (simp add: NewtMetricsSpec_DeepCopyInto_def copying)

lemma copies_NewtSpec [copying]:
  "externals_copy X \<Longrightarrow> copier (NewtSpec_DeepCopyInto X) (NewtSpec_type X)"
  unfolding NewtSpec_DeepCopyInto_def NewtSpec_type_def
  by (rule structCopy_copier) (simp_all add: copying externals_copyD)

lemma copies_NewtSiteSpec [copying]:
  "externals_copy X \<Longrightarrow> copier (NewtSiteSpec_DeepCopyInto X) (NewtSiteSpec_type X)"
  unfolding NewtSiteSpec_DeepCopyInto_def NewtSiteSpec_type_def
  by (rule structCopy_copier) (simp_all add: copying externals_copyD)

lemma copies_NewtSiteStatus [copying]:
  "externals_copy X \<Longrightarrow> copier (NewtSiteStatus_DeepCopyInto X) (NewtSiteStatus_type X)"
  unfolding NewtSiteStatus_DeepCopyInto_def NewtSiteStatus_type_def
  by (rule structCopy_copier) (simp_all add: copying externals_copyD)

lemma copies_NewtSite [copying]:
  "externals_copy X \<Longrightarrow> copier (NewtSite_DeepCopyInto X) (NewtSite_type X)"
  unfolding NewtSite_DeepCopyInto_def NewtSite_type_def
  by (rule structCopy_copier) (simp_all add: copying externals_copyD)

lemma copies_NewtSiteList [copying]:
  "externals_copy X \<Longrightarrow> copier (NewtSiteList_DeepCopyInto X) (NewtSiteList_type X)"
  unfolding NewtSiteList_DeepCopyInto_def NewtSiteList_type_def
  by (rule structCopy_copier) (simp_all add: copying externals_copyD)

lemma copies_PrivateResourceSpec [copying]:
  "copier PrivateResourceSpec_DeepCopyInto PrivateResourceSpec_type"
  unfolding PrivateResourceSpec_DeepCopyInto_def PrivateResourceSpec_type_def
  by (rule structCopy_copier) (simp_all add: copying externals_copyD)

lemma copies_PrivateResourceStatus [copying]:
  "externals_copy X \<Longrightarrow> copier (PrivateResourceStatus_DeepCopyInto X) (PrivateResourceStatus_type X)"
  unfolding PrivateResourceStatus_DeepCopyInto_def PrivateResourceStatus_type_def
  by (rule structCopy_copier) (simp_all add: copying externals_copyD)

lemma copies_PrivateResource [copying]:
  "externals_copy X \<Longrightarrow> copier (PrivateResource_DeepCopyInto X) (PrivateResource_type X)"
  unfolding PrivateResource_DeepCopyInto_def PrivateResource_type_def
  by (rule structCopy_copier) (simp_all add: copying externals_copyD)

lemma copies_PrivateResourceList [copying]:
  "externals_copy X \<Longrightarrow> copier (PrivateResourceList_DeepCopyInto X) (PrivateResourceList_type X)"
  unfolding PrivateResourceList_DeepCopyInto_def PrivateResourceList_type_def
  by (rule structCopy_copier) (simp_all add: copying externals_copyD)

lemma copies_PublicHeaderSpec [copying]:
  "copier PublicHeaderSpec_DeepCopyInto PublicHeaderSpec_type"
  by (simp add: PublicHeaderSpec_DeepCopyInto_def copying)

lemma copies_PublicRuleSpec [copying]: "copier PublicRuleSpec_DeepCopyInto PublicRuleSpec_type"
  by (simp add: PublicRuleSpec_DeepCopyInto_def copying)

lemma copies_PublicAuthSpec [copying]: "copier PublicAuthSpec_DeepCopyInto PublicAuthSpec_type"
  unfolding PublicAuthSpec_DeepCopyInto_def PublicAuthSpec_type_def
  by (rule structCopy_copier) (simp_all add: copying externals_copyD)

lemma copies_PublicMaintenanceSpec [copying]:
  "copier PublicMaintenanceSpec_DeepCopyInto PublicMaintenanceSpec_type"
  by (simp add: PublicMaintenanceSpec_DeepCopyInto_def copying)

lemma copies_PublicHealthCheckSpec [copying]:
  "copier PublicHealthCheckSpec_DeepCopyInto PublicHealthCheckSpec_type"
  unfolding PublicHealthCheckSpec_DeepCopyInto_def PublicHealthCheckSpec_type_def
  by (rule structCopy_copier) (simp_all add: copying externals_copyD)

lemma copies_PublicTargetSpec [copying]:
  "copier PublicTargetSpec_DeepCopyInto PublicTargetSpec_type"
  unfolding PublicTargetSpec_DeepCopyInto_def PublicTargetSpec_type_def
  by (rule structCopy_copier) (simp_all add: copying externals_copyD)

lemma copies_PublicResourceSpec [copying]:
  "copier PublicResourceSpec_DeepCopyInto PublicResourceSpec_type"
  unfolding PublicResourceSpec_DeepCopyInto_def PublicResourceSpec_type_def
  by (rule structCopy_copier) (simp_all add: copying externals_copyD)

lemma copies_PublicResourceStatus [copying]:
  "externals_copy X \<Longrightarrow> copier (PublicResourceStatus_DeepCopyInto X) (PublicResourceStatus_type X)"
  unfolding PublicResourceStatus_DeepCopyInto_def PublicResourceStatus_type_def
  by (rule structCopy_copier) (simp_all add: copying externals_copyD)

lemma copies_PublicResource [copying]:
  "externals_copy X \<Longrightarrow> copier (PublicResource_DeepCopyInto X) (PublicResource_type X)"
  unfolding PublicResource_DeepCopyInto_def PublicResource_type_def
  by (rule structCopy_copier) (simp_all add: copying externals_copyD)

lemma copies_PublicResourceList [copying]:
  "externals_copy X \<Longrightarrow> copier (PublicResourceList_DeepCopyInto X) (PublicResourceList_type X)"
  unfolding PublicResourceList_DeepCopyInto_def PublicResourceList_type_def
  by (rule structCopy_copier) (simp_all add: copying externals_copyD)

text \<open>The copiers that take no argument, as instances of the contract.\<close>

interpretation publicSpec: copier PublicResourceSpec_DeepCopyInto PublicResourceSpec_type
  by (rule copies_PublicResourceSpec)

interpretation privateSpec: copier PrivateResourceSpec_DeepCopyInto PrivateResourceSpec_type
  by (rule copies_PrivateResourceSpec)

interpretation target: copier PublicTargetSpec_DeepCopyInto PublicTargetSpec_type
  by (rule copies_PublicTargetSpec)

text \<open>The generated methods, with the type of their receiver.\<close>

definition generated :: "externals \<Rightarrow> (string \<times> gty \<times> copier) list" where
  "generated X =
     [(''AutoDiscoverSpec'', AutoDiscoverSpec_type, AutoDiscoverSpec_DeepCopy),
      (''NewtMetricsSpec'', NewtMetricsSpec_type, NewtMetricsSpec_DeepCopy),
      (''NewtSpec'', NewtSpec_type X, NewtSpec_DeepCopy X),
      (''NewtSiteSpec'', NewtSiteSpec_type X, NewtSiteSpec_DeepCopy X),
      (''NewtSiteStatus'', NewtSiteStatus_type X, NewtSiteStatus_DeepCopy X),
      (''NewtSite'', NewtSite_type X, NewtSite_DeepCopy X),
      (''NewtSiteList'', NewtSiteList_type X, NewtSiteList_DeepCopy X),
      (''PrivateResourceSpec'', PrivateResourceSpec_type, PrivateResourceSpec_DeepCopy),
      (''PrivateResourceStatus'', PrivateResourceStatus_type X, PrivateResourceStatus_DeepCopy X),
      (''PrivateResource'', PrivateResource_type X, PrivateResource_DeepCopy X),
      (''PrivateResourceList'', PrivateResourceList_type X, PrivateResourceList_DeepCopy X),
      (''PublicHeaderSpec'', PublicHeaderSpec_type, PublicHeaderSpec_DeepCopy),
      (''PublicRuleSpec'', PublicRuleSpec_type, PublicRuleSpec_DeepCopy),
      (''PublicAuthSpec'', PublicAuthSpec_type, PublicAuthSpec_DeepCopy),
      (''PublicMaintenanceSpec'', PublicMaintenanceSpec_type, PublicMaintenanceSpec_DeepCopy),
      (''PublicHealthCheckSpec'', PublicHealthCheckSpec_type, PublicHealthCheckSpec_DeepCopy),
      (''PublicTargetSpec'', PublicTargetSpec_type, PublicTargetSpec_DeepCopy),
      (''PublicResourceSpec'', PublicResourceSpec_type, PublicResourceSpec_DeepCopy),
      (''PublicResourceStatus'', PublicResourceStatus_type X, PublicResourceStatus_DeepCopy X),
      (''PublicResource'', PublicResource_type X, PublicResource_DeepCopy X),
      (''PublicResourceList'', PublicResourceList_type X, PublicResourceList_DeepCopy X)]"

definition generatedObjects :: "externals \<Rightarrow> (string \<times> gty \<times> copier \<times> objectCopier) list" where
  "generatedObjects X =
     [(''NewtSite'', NewtSite_type X, NewtSite_DeepCopy X, NewtSite_DeepCopyObject X),
      (''NewtSiteList'', NewtSiteList_type X, NewtSiteList_DeepCopy X, NewtSiteList_DeepCopyObject X),
      (''PrivateResource'', PrivateResource_type X, PrivateResource_DeepCopy X, PrivateResource_DeepCopyObject X),
      (''PrivateResourceList'', PrivateResourceList_type X, PrivateResourceList_DeepCopy X, PrivateResourceList_DeepCopyObject X),
      (''PublicResource'', PublicResource_type X, PublicResource_DeepCopy X, PublicResource_DeepCopyObject X),
      (''PublicResourceList'', PublicResourceList_type X, PublicResourceList_DeepCopy X, PublicResourceList_DeepCopyObject X)]"

lemmas DeepCopy_defs =
  AutoDiscoverSpec_DeepCopy_def NewtMetricsSpec_DeepCopy_def NewtSpec_DeepCopy_def
  NewtSiteSpec_DeepCopy_def NewtSiteStatus_DeepCopy_def NewtSite_DeepCopy_def
  NewtSiteList_DeepCopy_def PrivateResourceSpec_DeepCopy_def PrivateResourceStatus_DeepCopy_def
  PrivateResource_DeepCopy_def PrivateResourceList_DeepCopy_def PublicHeaderSpec_DeepCopy_def
  PublicRuleSpec_DeepCopy_def PublicAuthSpec_DeepCopy_def PublicMaintenanceSpec_DeepCopy_def
  PublicHealthCheckSpec_DeepCopy_def PublicTargetSpec_DeepCopy_def
  PublicResourceSpec_DeepCopy_def PublicResourceStatus_DeepCopy_def PublicResource_DeepCopy_def
  PublicResourceList_DeepCopy_def

lemmas DeepCopyObject_defs =
  NewtSite_DeepCopyObject_def NewtSiteList_DeepCopyObject_def PrivateResource_DeepCopyObject_def
  PrivateResourceList_DeepCopyObject_def PublicResource_DeepCopyObject_def
  PublicResourceList_DeepCopyObject_def

lemma generated_all: "externals_copy X \<Longrightarrow> list_all (\<lambda>(name, T, dc). copier dc (TyPtr T)) (generated X)"
  unfolding generated_def DeepCopy_defs by (simp add: copying)

lemma generated_copier:
  "externals_copy X \<Longrightarrow> (name, T, dc) \<in> set (generated X) \<Longrightarrow> copier dc (TyPtr T)"
  using generated_all [of X] by (force simp: list_all_iff)

lemma objects_all:
  "list_all (\<lambda>(name, T, dc, dco). (name, T, dc) \<in> set (generated X) \<and> dco = asObject name dc) (generatedObjects X)"
  unfolding generatedObjects_def DeepCopyObject_defs generated_def by simp

text \<open>A method that returns an interface returns the nil interface for a nil receiver only.\<close>

lemma DeepCopyObject_cases:
  assumes "externals_copy X" "(name, T, dc, dco) \<in> set (generatedObjects X)" "rd (TyPtr T) h p = Some t"
  shows "\<exists>q g. dc p h = Some (q, g) \<and> copied (TyPtr T) h t q g \<and>
    dco p h = Some (if p = GNil then NilObject else Object name q, g)"
proof -
  have obj: "(name, T, dc) \<in> set (generated X)" "dco = asObject name dc"
    using assms(2) objects_all [of X] by (force simp: list_all_iff)+
  then obtain q g where q: "dc p h = Some (q, g)" "copied (TyPtr T) h t q g"
    using copier.copies [OF generated_copier [OF assms(1)] assms(3)] by blast
  have "q = GNil \<longleftrightarrow> p = GNil"
    using q assms(3) by (auto simp: copied_def split: gv.splits option.splits cell.splits)
  then show ?thesis using q obj(2) by (simp add: asObject_def)
qed

section \<open>Copies share nothing, and bases of patches are snapshots\<close>

text \<open>
  A small cluster library for the examples: labels, an owner list and a condition.
\<close>

definition sampleExternals :: externals where
  "sampleExternals =
     \<lparr>ext_type = (\<lambda>e. case e of
        TypeMeta \<Rightarrow> TyStruct [(''Kind'', TyScalar), (''APIVersion'', TyScalar)]
      | ObjectMeta \<Rightarrow> TyStruct [(''Name'', TyScalar), (''Labels'', TyMap), (''Finalizers'', TySlice TyScalar)]
      | Condition \<Rightarrow> TyStruct [(''Type'', TyScalar), (''Status'', TyScalar)]
      | _ \<Rightarrow> TyScalar),
      ext_copy = (\<lambda>e. case e of
        ObjectMeta \<Rightarrow> structCopy [(''Labels'', makeMap), (''Finalizers'', makeCopy)]
      | _ \<Rightarrow> assign)\<rparr>"

lemma sample_externals: "externals_copy sampleExternals"
  unfolding externals_copy_def sampleExternals_def
  by (auto intro!: structCopy_copier simp: copying split: external.splits)

text \<open>
  C12.  A deep copy shares nothing with its original.  For every type of the API and every value
  of it in memory, the generated \<open>DeepCopy\<close> returns a pointer that reads as the same value, nil
  and empty slices and maps told apart, whose memory was all allocated by the copy, each part
  of it reached once (so that even parts the original shared are separate); the memory there
  was is left as it is.  A field added to a declaration without its statement in the copy
  would break it.
\<close>

theorem deep_copies_share_nothing:
  assumes "externals_copy X" "(name, T, dc) \<in> set (generated X)" "rd (TyPtr T) h p = Some t"
  shows "\<exists>q g. dc p h = Some (q, g) \<and> copied (TyPtr T) h t q g"
  by (rule copier.copies [OF generated_copier [OF assms(1,2)] assms(3)])

text \<open>A target with a health check whose headers are a window of a longer array.\<close>

definition sampleStore :: store where
  "sampleStore =
     [CVal (GScal (SBool True)),
      CArr [GStruct [(''Name'', GScal (SString ''a'')), (''Value'', GScal (SString ''1''))],
            GStruct [(''Name'', GScal (SString ''b'')), (''Value'', GScal (SString ''2''))]],
      CVal (GStruct [(''Hostname'', GScal (SString ''h'')), (''Port'', GScal (SInt 80)), (''Enabled'', GPtr 0),
        (''Path'', GScal (SString [])), (''Scheme'', GScal (SString [])), (''Mode'', GScal (SString [])),
        (''Interval'', GScal (SInt 0)), (''UnhealthyInterval'', GScal (SInt 0)), (''Timeout'', GScal (SInt 0)),
        (''Headers'', GSlice 1 1 1), (''FollowRedirects'', GNil), (''Method'', GScal (SString [])),
        (''Status'', GScal (SInt 0))])]"

theorem deep_copies_share_nothing_witness:
  "\<exists>q g t. PublicHealthCheckSpec_DeepCopy (GPtr 2) sampleStore = Some (q, g) \<and>
     copied (TyPtr PublicHealthCheckSpec_type) sampleStore t q g"
proof -
  have "\<exists>t. rd (TyPtr PublicHealthCheckSpec_type) sampleStore (GPtr 2) = Some t"
    by (simp add: PublicHealthCheckSpec_type_def PublicHeaderSpec_type_def sampleStore_def cellAt_def window_def)
  then obtain t where "rd (TyPtr PublicHealthCheckSpec_type) sampleStore (GPtr 2) = Some t" ..
  moreover have "(''PublicHealthCheckSpec'', PublicHealthCheckSpec_type, PublicHealthCheckSpec_DeepCopy)
      \<in> set (generated sampleExternals)"
    by (simp add: generated_def)
  ultimately show ?thesis
    using deep_copies_share_nothing [OF sample_externals] by blast
qed

text \<open>
  What \<open>patchStatus\<close> sends: \<open>client.MergeFrom(x.DeepCopy())\<close> keeps the copy as the base, \<open>mutate\<close>
  changes the object in place, and the patch is the difference between the base and the
  object.  The pair is the two objects the difference is taken of.
\<close>

definition patchBodies :: "copier \<Rightarrow> gty \<Rightarrow> (store \<Rightarrow> store) \<Rightarrow> gv \<Rightarrow> store \<Rightarrow> (tree \<times> tree) option" where
  "patchBodies dc T mutate x h =
     (case dc x h of
        None \<Rightarrow> None
      | Some (base, h1) \<Rightarrow>
          (let h2 = mutate h1 in
           case (rd T h2 base, rd T h2 x) of
             (Some before, Some after) \<Rightarrow> Some (before, after)
           | _ \<Rightarrow> None))"

text \<open>
  C13.  The base of a merge patch is a snapshot.  Whatever a mutation writes, to any memory that
  existed before the copy was made (an element of \<open>Status.Conditions\<close> changed in place, the map of
  the labels) or that it allocates itself, the base still reads as the object before the
  mutation, so the patch contains every change; with an assignment in the place of the deep
  copy, changes made through a slice or a map would be missing from it.
\<close>

theorem patch_bases_are_snapshots:
  assumes "externals_copy X" "(name, T, dc) \<in> set (generated X)" "rd (TyPtr T) h x = Some t"
    "\<forall>g. agree [length h..<length g] g (mutate g)"
  shows "\<exists>q g. dc x h = Some (q, g) \<and>
    patchBodies dc (TyPtr T) mutate x h = map_option (\<lambda>after. (t, after)) (rd (TyPtr T) (mutate g) x)"
proof -
  have c: "copier dc (TyPtr T)" by (rule generated_copier [OF assms(1,2)])
  then obtain q g where q: "dc x h = Some (q, g)" using copier.copies [OF c assms(3)] by blast
  have "rd (TyPtr T) (mutate g) q = Some t"
    by (rule copier.unaffected [OF c assms(3) q]) (use assms(4) in blast)
  then show ?thesis using q by (simp add: patchBodies_def del: rd.simps split: option.split)
qed

text \<open>A condition of a private resource changed in place, in the array it shares with the object.\<close>

definition sampleStatus :: store where
  "sampleStatus =
     [CArr [GStruct [(''Type'', GScal (SString ''Ready'')), (''Status'', GScal (SString ''False''))]],
      CVal (GStruct [(''Phase'', GScal (SString ''Creating'')), (''SiteResourceID'', GScal (SInt 7)),
        (''NiceID'', GScal (SString [])), (''FullDomain'', GScal (SString [])),
        (''ObservedGeneration'', GScal (SInt 1)), (''Conditions'', GSlice 0 0 1)])]"

definition markReadyInPlace :: "store \<Rightarrow> store" where
  "markReadyInPlace g =
     g[0 := CArr [GStruct [(''Type'', GScal (SString ''Ready'')), (''Status'', GScal (SString ''True''))]]]"

lemmas sample_evaluates = PrivateResourceStatus_DeepCopy_def PrivateResourceStatus_DeepCopyInto_def
  PrivateResourceStatus_type_def sampleStatus_def sampleExternals_def cellAt_def window_def newOf_def
  structCopy_def makeEach_def sliceOf_def assign_def setField_def

theorem patch_bases_are_snapshots_witness:
  "\<exists>before after. patchBodies (PrivateResourceStatus_DeepCopy sampleExternals)
       (TyPtr (PrivateResourceStatus_type sampleExternals)) markReadyInPlace (GPtr 1) sampleStatus =
       Some (before, after) \<and>
     rd (TyPtr (PrivateResourceStatus_type sampleExternals)) sampleStatus (GPtr 1) = Some before \<and>
     before \<noteq> after"
proof -
  let ?T = "TyPtr (PrivateResourceStatus_type sampleExternals)"
  obtain t where t: "rd ?T sampleStatus (GPtr 1) = Some t"
    by (simp add: PrivateResourceStatus_type_def sampleStatus_def sampleExternals_def cellAt_def window_def)
  have mem: "(''PrivateResourceStatus'', PrivateResourceStatus_type sampleExternals,
      PrivateResourceStatus_DeepCopy sampleExternals) \<in> set (generated sampleExternals)"
    by (simp add: generated_def)
  have "agree [length sampleStatus..<length g] g (markReadyInPlace g)" for g
    unfolding markReadyInPlace_def by (rule update_agree) (simp add: sampleStatus_def)
  then obtain q g where q: "PrivateResourceStatus_DeepCopy sampleExternals (GPtr 1) sampleStatus = Some (q, g)"
      "patchBodies (PrivateResourceStatus_DeepCopy sampleExternals) ?T markReadyInPlace (GPtr 1) sampleStatus =
       map_option (\<lambda>after. (t, after)) (rd ?T (markReadyInPlace g) (GPtr 1))"
    using patch_bases_are_snapshots [OF sample_externals mem t] by blast
  have "\<exists>after. rd ?T (markReadyInPlace g) (GPtr 1) = Some after \<and> t \<noteq> after"
    using q(1) t by (auto simp: sample_evaluates markReadyInPlace_def)
  then show ?thesis using q(2) t by auto
qed

end

