(* ===== verification/Schema.thy ===== *)
theory Schema
  imports GoJson
begin

text \<open>
  The language of the validation markers, \<open>+kubebuilder:validation\<close>, \<open>default\<close> and \<open>optional\<close>, that
  annotate the API types: a schema, what it makes of a document whose members are missing, and
  which documents it lets pass.  The API server applies both to every object written; it is
  an argument of the theorems, of which \<open>honours\<close> says that it does.
\<close>

datatype schema =
    ScBool
  | ScInt "int option" "int option"
  | ScString "string list" nat "nat option"
  | ScArray nat schema
  | ScObject "(string \<times> bool \<times> json option \<times> schema) list"

text \<open>
  A string schema has the values it allows (none listed: all) and the bounds of its length in
  characters, an array schema its least length; a member of an object has a name, whether it
  must be present, its default, and the schema of its value.
\<close>

abbreviation required :: "string \<Rightarrow> schema \<Rightarrow> string \<times> bool \<times> json option \<times> schema" where
  "required k s \<equiv> (k, True, None, s)"

abbreviation optional :: "string \<Rightarrow> schema \<Rightarrow> string \<times> bool \<times> json option \<times> schema" where
  "optional k s \<equiv> (k, False, None, s)"

abbreviation defaulting :: "string \<Rightarrow> json \<Rightarrow> schema \<Rightarrow> string \<times> bool \<times> json option \<times> schema" where
  "defaulting k d s \<equiv> (k, False, Some d, s)"

abbreviation anyString :: schema where
  "anyString \<equiv> ScString [] 0 None"

abbreviation anyInt :: schema where
  "anyInt \<equiv> ScInt None None"

lemma size_member [termination_simp]:
  "(k, req, d, s) \<in> set ms \<Longrightarrow>
     size s < Suc (size_list (size_prod (\<lambda>_. 0) (size_prod (\<lambda>_. 0) (size_prod (\<lambda>_. 0) size))) ms)"
  by (induction ms) auto

text \<open>
  A member that is \<open>null\<close> is missing, as no member is declared nullable.  Members without a
  schema are dropped; the order of the members of an object has no meaning.
\<close>

definition nonNull :: "json option \<Rightarrow> json option" where
  "nonNull v = (if v = Some JNull then None else v)"

definition present :: "(string \<times> json) list \<Rightarrow> string \<Rightarrow> json option" where
  "present kvs k = nonNull (map_of kvs k)"

definition member :: "string \<Rightarrow> json option \<Rightarrow> (string \<times> json) list" where
  "member k v = (case v of None \<Rightarrow> [] | Some j \<Rightarrow> [(k, j)])"

fun defaulted :: "schema \<Rightarrow> json \<Rightarrow> json" where
  "defaulted (ScArray n s) (JArr js) = JArr (map (defaulted s) js)"
| "defaulted (ScObject ms) (JObj kvs) =
     JObj (concat (map (\<lambda>(k, req, d, s).
       member k (case present kvs k of Some v \<Rightarrow> Some (defaulted s v) | None \<Rightarrow> map_option (defaulted s) d)) ms))"
| "defaulted s j = j"

text \<open>
  The characters of a UTF-8 text: a first byte takes the continuations it announces; where they
  are missing, it counts by itself, as the encoder replaces it.
\<close>

definition follow :: "char \<Rightarrow> string \<Rightarrow> nat" where
  "follow c s =
     (let b = (of_char c :: nat); n = (if b < 192 then 0 else if b < 224 then 1 else if b < 240 then 2 else 3)
      in if n \<le> length s \<and> list_all (\<lambda>d. (of_char d :: nat) div 64 = 2) (take n s) then n else 0)"

fun runes :: "string \<Rightarrow> nat" where
  "runes [] = 0"
| "runes (c # s) = Suc (runes (drop (follow c s) s))"

fun conforms :: "schema \<Rightarrow> json \<Rightarrow> bool" where
  "conforms ScBool (JBool b) = True"
| "conforms (ScInt lo hi) (JNum l) =
     (case atoi l of
        None \<Rightarrow> False
      | Some i \<Rightarrow> (case lo of None \<Rightarrow> True | Some n \<Rightarrow> n \<le> i) \<and> (case hi of None \<Rightarrow> True | Some n \<Rightarrow> i \<le> n))"
| "conforms (ScString allowed n hi) (JStr s) =
     ((allowed = [] \<or> s \<in> set allowed) \<and> n \<le> runes s \<and> (case hi of None \<Rightarrow> True | Some m \<Rightarrow> runes s \<le> m))"
| "conforms (ScArray n s) (JArr js) = (n \<le> length js \<and> list_all (conforms s) js)"
| "conforms (ScObject ms) (JObj kvs) =
     list_all (\<lambda>(k, req, d, s). case map_of kvs k of None \<Rightarrow> \<not> req | Some v \<Rightarrow> conforms s v) ms"
| "conforms s j = False"

text \<open>The admission of a document: defaults first, then the validation.\<close>

definition admitted :: "schema \<Rightarrow> json \<Rightarrow> json option" where
  "admitted s j = (if conforms s (defaulted s j) then Some (defaulted s j) else None)"

definition honours :: "schema \<Rightarrow> (json \<Rightarrow> json option) \<Rightarrow> bool" where
  "honours s admit \<longleftrightarrow> (\<forall>j j'. admit j = Some j' \<longrightarrow> admitted s j = Some j')"

lemma honours_admitted: "honours s (admitted s)"
  by (simp add: honours_def)

section \<open>Members\<close>

declare defaulted.simps(2) [simp del] conforms.simps(5) [simp del]

lemma map_of_member [simp]: "map_of (member k v) k' = (if k = k' then v else None)"
  by (simp add: member_def split: option.split)

lemma nonNull_simps [simp]:
  "nonNull None = None" "nonNull (Some JNull) = None" "nonNull (Some (JBool b)) = Some (JBool b)"
  "nonNull (Some (JNum l)) = Some (JNum l)" "nonNull (Some (JStr s)) = Some (JStr s)"
  "nonNull (Some (JArr js)) = Some (JArr js)" "nonNull (Some (JObj kvs)) = Some (JObj kvs)"
  by (simp_all add: nonNull_def)

text \<open>The value of a member after the defaults.\<close>

definition fillMember :: "json option \<Rightarrow> schema \<Rightarrow> json option \<Rightarrow> json option" where
  "fillMember d s v = (case v of Some j \<Rightarrow> Some (defaulted s j) | None \<Rightarrow> map_option (defaulted s) d)"

lemma fillMember_simps [simp]:
  "fillMember d s (Some j) = Some (defaulted s j)" "fillMember (Some j) s None = Some (defaulted s j)"
  "fillMember None s v = map_option (defaulted s) v"
  by (simp_all add: fillMember_def split: option.split)

lemma defaulted_members:
  "distinct (map fst ms) \<Longrightarrow>
     map_of (concat (map (\<lambda>(k, req, d, s).
       member k (case present kvs k of Some v \<Rightarrow> Some (defaulted s v) | None \<Rightarrow> map_option (defaulted s) d)) ms)) k
     = (case map_of ms k of
          None \<Rightarrow> None
        | Some (req, d, s) \<Rightarrow> fillMember d s (present kvs k))"
  by (induction ms) (auto simp: fillMember_def map_add_def rev_image_eqI split: option.splits)

definition okAt :: "bool \<Rightarrow> schema \<Rightarrow> json option \<Rightarrow> bool" where
  "okAt req s v = (case v of None \<Rightarrow> \<not> req | Some j \<Rightarrow> conforms s j)"

lemma okAt_simps [simp]: "okAt req s (Some j) = conforms s j" "okAt req s None = (\<not> req)"
  by (simp_all add: okAt_def)

lemma conforms_defaulted:
  "distinct (map fst ms) \<Longrightarrow>
     conforms (ScObject ms) (defaulted (ScObject ms) (JObj kvs))
     = list_all (\<lambda>(k, req, d, s). okAt req s (fillMember d s (present kvs k))) ms"
  (is "_ \<Longrightarrow> ?lhs = list_all ?P ms")
proof -
  assume d: "distinct (map fst ms)"
  have "okAt req s (map_of (concat (map (\<lambda>(k, req, d, s). member k
            (case present kvs k of Some v \<Rightarrow> Some (defaulted s v) | None \<Rightarrow> map_option (defaulted s) d)) ms)) k)
      = ?P (k, req, dv, s)"
    if "(k, req, dv, s) \<in> set ms" for k req dv s
    using map_of_is_SomeI [OF d that] by (simp add: defaulted_members [OF d])
  then show ?thesis by (fastforce simp: list_all_iff defaulted.simps conforms.simps okAt_def)
qed

lemma runes_pos [simp]: "Suc 0 \<le> runes s \<longleftrightarrow> s \<noteq> []"
  by (cases s) simp_all

end
