(* ===== verification/Admission.thy ===== *)
theory Admission
  imports Schema SpecJson
begin

text \<open>
  The custom resources behind the schema of their definitions: the markers in
  \<open>api/v1alpha1/*_types.go\<close> as schemas, what the API server makes of a document that a typed
  client wrote, and what the client then reads back.  A field with \<open>omitempty\<close> whose zero value
  is not its default cannot be written as zero: the client leaves it out and the server puts
  in the default.
\<close>

section \<open>The schema of public resources\<close>

definition PublicHeaderSpec_schema :: schema where
  "PublicHeaderSpec_schema = ScObject
     [required ''name'' (ScString [] 1 None), required ''value'' (ScString [] 1 None)]"

definition PublicRuleSpec_schema :: schema where
  "PublicRuleSpec_schema = ScObject
     [required ''action'' (ScString [''ACCEPT'', ''DROP'', ''PASS''] 0 None),
      required ''match'' (ScString [''ip'', ''cidr'', ''path'', ''country''] 0 None),
      required ''value'' (ScString [] 1 None),
      optional ''priority'' (ScInt (Some 1) (Some 1000))]"

definition PublicAuthSpec_schema :: schema where
  "PublicAuthSpec_schema = ScObject
     [defaulting ''ssoEnabled'' (JBool False) ScBool, optional ''ssoRoles'' (ScArray 0 anyString),
      optional ''ssoUsers'' (ScArray 0 anyString), optional ''whitelistUsers'' (ScArray 0 anyString),
      optional ''autoLoginIdp'' anyInt, optional ''authSecretRef'' anyString]"

definition PublicMaintenanceSpec_schema :: schema where
  "PublicMaintenanceSpec_schema = ScObject
     [required ''enabled'' ScBool, optional ''type'' (ScString [''forced'', ''automatic''] 0 None),
      optional ''title'' anyString, optional ''message'' anyString, optional ''estimatedTime'' anyString]"

definition PublicHealthCheckSpec_schema :: schema where
  "PublicHealthCheckSpec_schema = ScObject
     [required ''hostname'' anyString, required ''port'' (ScInt (Some 1) (Some 65535)),
      optional ''enabled'' ScBool, optional ''path'' anyString, optional ''scheme'' anyString,
      optional ''mode'' anyString, optional ''interval'' (ScInt (Some 1) None),
      optional ''unhealthyInterval'' (ScInt (Some 1) None), optional ''timeout'' (ScInt (Some 1) None),
      optional ''headers'' (ScArray 0 PublicHeaderSpec_schema), optional ''followRedirects'' ScBool,
      optional ''method'' anyString, optional ''status'' anyInt]"

definition PublicTargetSpec_schema :: schema where
  "PublicTargetSpec_schema = ScObject
     [required ''hostname'' anyString, required ''port'' (ScInt (Some 1) (Some 65535)),
      optional ''method'' (ScString [''http'', ''https'', ''h2c''] 0 None), optional ''enabled'' ScBool,
      optional ''path'' anyString, optional ''pathMatchType'' (ScString [''prefix'', ''exact'', ''regex''] 0 None),
      optional ''rewritePath'' anyString,
      optional ''rewritePathType'' (ScString [''exact'', ''prefix'', ''regex'', ''stripPrefix''] 0 None),
      optional ''priority'' (ScInt (Some 1) (Some 1000)), optional ''healthcheck'' PublicHealthCheckSpec_schema]"

definition PublicResourceSpec_schema :: schema where
  "PublicResourceSpec_schema = ScObject
     [required ''siteRef'' anyString, required ''name'' (ScString [] 1 None),
      (''protocol'', True, Some (JStr ''http''), ScString [''http'', ''tcp'', ''udp''] 0 None),
      optional ''fullDomain'' anyString, optional ''proxyPort'' (ScInt (Some 1) (Some 65535)),
      defaulting ''enabled'' (JBool True) ScBool, defaulting ''ssl'' (JBool True) ScBool,
      optional ''hostHeader'' anyString, optional ''tlsServerName'' anyString,
      optional ''headers'' (ScArray 0 PublicHeaderSpec_schema), optional ''auth'' PublicAuthSpec_schema,
      optional ''maintenance'' PublicMaintenanceSpec_schema, optional ''rules'' (ScArray 0 PublicRuleSpec_schema),
      required ''targets'' (ScArray 1 PublicTargetSpec_schema)]"

section \<open>Reading documents into the types\<close>

text \<open>
  The decoder of \<open>encoding/json\<close> on the documents of the API server, which have each member
  once and under its own name: a member that is missing leaves the zero value.
\<close>

fun asStr :: "json option \<Rightarrow> string" where
  "asStr (Some (JStr s)) = s"
| "asStr _ = []"

fun asInt :: "json option \<Rightarrow> int" where
  "asInt (Some (JNum l)) = (case atoi l of Some i \<Rightarrow> i | None \<Rightarrow> 0)"
| "asInt _ = 0"

fun asBool :: "json option \<Rightarrow> bool" where
  "asBool (Some (JBool b)) = b"
| "asBool _ = False"

fun asSlice :: "(json \<Rightarrow> 'a) \<Rightarrow> json option \<Rightarrow> 'a slice" where
  "asSlice f (Some (JArr js)) = Some (map f js)"
| "asSlice f _ = None"

abbreviation strAt :: "json \<Rightarrow> string \<Rightarrow> string" where
  "strAt j k \<equiv> asStr (fieldOf j k)"

abbreviation intAt :: "json \<Rightarrow> string \<Rightarrow> int" where
  "intAt j k \<equiv> asInt (fieldOf j k)"

abbreviation boolAt :: "json \<Rightarrow> string \<Rightarrow> bool" where
  "boolAt j k \<equiv> asBool (fieldOf j k)"

abbreviation ptrAt :: "(json \<Rightarrow> 'a) \<Rightarrow> json \<Rightarrow> string \<Rightarrow> 'a option" where
  "ptrAt f j k \<equiv> map_option f (fieldOf j k)"

abbreviation sliceAt :: "(json \<Rightarrow> 'a) \<Rightarrow> json \<Rightarrow> string \<Rightarrow> 'a slice" where
  "sliceAt f j k \<equiv> asSlice f (fieldOf j k)"

definition readStr :: "json \<Rightarrow> string" where
  "readStr j = asStr (Some j)"

definition readBool :: "json \<Rightarrow> bool" where
  "readBool j = asBool (Some j)"

definition readHeader :: "json \<Rightarrow> PublicHeaderSpec" where
  "readHeader j = \<lparr>hd_Name = strAt j ''name'', hd_Value = strAt j ''value''\<rparr>"

definition readRule :: "json \<Rightarrow> PublicRuleSpec" where
  "readRule j = \<lparr>pr_Action = strAt j ''action'', pr_Match = strAt j ''match'', pr_Value = strAt j ''value'',
     pr_Priority = intAt j ''priority''\<rparr>"

definition readAuth :: "json \<Rightarrow> PublicAuthSpec" where
  "readAuth j = \<lparr>pa_SsoEnabled = boolAt j ''ssoEnabled'', pa_SsoRoles = elems (sliceAt readStr j ''ssoRoles''),
     pa_SsoUsers = elems (sliceAt readStr j ''ssoUsers''), pa_WhitelistUsers = elems (sliceAt readStr j ''whitelistUsers''),
     pa_AutoLoginIdp = intAt j ''autoLoginIdp'', pa_AuthSecretRef = strAt j ''authSecretRef''\<rparr>"

definition readMaintenance :: "json \<Rightarrow> PublicMaintenanceSpec" where
  "readMaintenance j = \<lparr>pm_Enabled = boolAt j ''enabled'', pm_Type = strAt j ''type'', pm_Title = strAt j ''title'',
     pm_Message = strAt j ''message'', pm_EstimatedTime = strAt j ''estimatedTime''\<rparr>"

definition readHealthCheck :: "json \<Rightarrow> PublicHealthCheckSpec" where
  "readHealthCheck j = \<lparr>ph_Hostname = strAt j ''hostname'', ph_Port = intAt j ''port'',
     ph_Enabled = ptrAt readBool j ''enabled'', ph_Path = strAt j ''path'', ph_Scheme = strAt j ''scheme'',
     ph_Mode = strAt j ''mode'', ph_Interval = intAt j ''interval'', ph_UnhealthyInterval = intAt j ''unhealthyInterval'',
     ph_Timeout = intAt j ''timeout'', ph_Headers = elems (sliceAt readHeader j ''headers''),
     ph_FollowRedirects = ptrAt readBool j ''followRedirects'', ph_Method = strAt j ''method'', ph_Status = intAt j ''status''\<rparr>"

definition readTarget :: "json \<Rightarrow> PublicTargetSpec" where
  "readTarget j = \<lparr>pt_Hostname = strAt j ''hostname'', pt_Port = intAt j ''port'', pt_Method = strAt j ''method'',
     pt_Enabled = ptrAt readBool j ''enabled'', pt_Path = strAt j ''path'', pt_PathMatchType = strAt j ''pathMatchType'',
     pt_RewritePath = strAt j ''rewritePath'', pt_RewritePathType = strAt j ''rewritePathType'',
     pt_Priority = intAt j ''priority'', pt_Healthcheck = ptrAt readHealthCheck j ''healthcheck''\<rparr>"

definition readSpec :: "json \<Rightarrow> PublicResourceSpec" where
  "readSpec j = \<lparr>ps_SiteRef = strAt j ''siteRef'', ps_Name = strAt j ''name'', ps_Protocol = strAt j ''protocol'',
     ps_FullDomain = strAt j ''fullDomain'', ps_ProxyPort = intAt j ''proxyPort'', ps_Enabled = boolAt j ''enabled'',
     ps_Ssl = boolAt j ''ssl'', ps_HostHeader = strAt j ''hostHeader'', ps_TlsServerName = strAt j ''tlsServerName'',
     ps_Headers = elems (sliceAt readHeader j ''headers''), ps_Auth = ptrAt readAuth j ''auth'',
     ps_Maintenance = ptrAt readMaintenance j ''maintenance'', ps_Rules = sliceAt readRule j ''rules'',
     ps_Targets = sliceAt readTarget j ''targets''\<rparr>"

section \<open>What is stored\<close>

lemma fieldOf_defaulted:
  "distinct (map fst ms) \<Longrightarrow>
     fieldOf (defaulted (ScObject ms) (JObj kvs)) k
     = (case map_of ms k of None \<Rightarrow> None | Some (req, d, s) \<Rightarrow> fillMember d s (present kvs k))"
  unfolding fillMember_def by (simp add: fieldOf_def defaulted_members [unfolded fillMember_def] defaulted.simps)

lemma defaulted_scalars [simp]:
  "defaulted ScBool j = j" "defaulted (ScInt lo hi) j = j" "defaulted (ScString es n m) j = j"
  by (cases j, simp_all)+

lemma map_option_scalars [simp]:
  "map_option (defaulted ScBool) = (\<lambda>v. v)" "map_option (defaulted (ScInt lo hi)) = (\<lambda>v. v)"
  "map_option (defaulted (ScString es n m)) = (\<lambda>v. v)"
  by (rule ext, simp add: map_option_case split: option.split)+

lemma read_scalars [simp]: "readStr (JStr s) = s" "readBool (JBool b) = b"
  by (simp_all add: readStr_def readBool_def)

text \<open>What an omitted member is on the way: what was written, or left out.\<close>

lemma opt_nonNull [simp]:
  "nonNull (optStr s) = optStr s" "nonNull (optInt i) = optInt i" "nonNull (optBool b) = optBool b"
  "nonNull (optList f xs) = optList f xs" "nonNull (map_option JBool p) = map_option JBool p"
  by (auto simp: optStr_def optInt_def optBool_def optList_def) (cases p, simp_all)

lemma opt_read [simp]:
  "asStr (optStr s) = s" "inInt64 i \<Longrightarrow> asInt (optInt i) = i" "asBool (optBool b) = b"
  "fillMember (Some (JBool True)) ScBool (optBool b) = Some (JBool True)"
  "fillMember (Some (JBool False)) ScBool (optBool b) = Some (JBool b)"
  "map_option (readBool \<circ> (defaulted ScBool \<circ> JBool)) p = p"
  by (auto simp: optStr_def optInt_def optBool_def atoi_itoa comp_def option.map_ident split: option.split)

lemma list_read:
  "(\<And>x. x \<in> set xs \<Longrightarrow> g (defaulted s (f x)) = x) \<Longrightarrow>
     elems (asSlice g (map_option (defaulted (ScArray n s)) (optList f xs))) = xs"
  by (simp add: optList_def map_idI)

lemma strs_read [simp]: "elems (asSlice readStr (map_option (defaulted (ScArray n anyString)) (optList JStr xs))) = xs"
  by (rule list_read) simp

lemmas stored_simps = fieldOf_defaulted present_def map_of_omit map_add_orElse orElse_simps atoi_itoa

lemma readHeader_stored [simp]: "readHeader (defaulted PublicHeaderSpec_schema (jsonHeader h)) = h"
  by (simp add: readHeader_def PublicHeaderSpec_schema_def jsonHeader_def stored_simps)

lemma readRule_stored: "inInt64 (pr_Priority r) \<Longrightarrow> readRule (defaulted PublicRuleSpec_schema (jsonRule r)) = r"
  by (simp add: readRule_def PublicRuleSpec_schema_def jsonRule_def stored_simps)

lemma readAuth_stored: "inInt64 (pa_AutoLoginIdp au) \<Longrightarrow> readAuth (defaulted PublicAuthSpec_schema (jsonAuth au)) = au"
  by (simp add: readAuth_def PublicAuthSpec_schema_def jsonAuth_def stored_simps)

lemma readMaintenance_stored: "readMaintenance (defaulted PublicMaintenanceSpec_schema (jsonMaintenance m)) = m"
  by (simp add: readMaintenance_def PublicMaintenanceSpec_schema_def jsonMaintenance_def stored_simps)

lemma headers_read [simp]:
  "elems (asSlice readHeader (map_option (defaulted (ScArray n PublicHeaderSpec_schema)) (optList jsonHeader hs))) = hs"
  by (rule list_read) simp

text \<open>Every integer of a specification is one of Go's.\<close>

definition fitsCheck :: "PublicHealthCheckSpec \<Rightarrow> bool" where
  "fitsCheck h \<longleftrightarrow> list_all inInt64 [ph_Port h, ph_Interval h, ph_UnhealthyInterval h, ph_Timeout h, ph_Status h]"

definition fitsTarget :: "PublicTargetSpec \<Rightarrow> bool" where
  "fitsTarget t \<longleftrightarrow> inInt64 (pt_Port t) \<and> inInt64 (pt_Priority t) \<and> pred_option fitsCheck (pt_Healthcheck t)"

definition fitsSpec :: "PublicResourceSpec \<Rightarrow> bool" where
  "fitsSpec s \<longleftrightarrow> inInt64 (ps_ProxyPort s) \<and> pred_option (\<lambda>au. inInt64 (pa_AutoLoginIdp au)) (ps_Auth s)
     \<and> list_all (\<lambda>r. inInt64 (pr_Priority r)) (elems (ps_Rules s)) \<and> list_all fitsTarget (elems (ps_Targets s))"

lemma readHealthCheck_stored:
  "fitsCheck h \<Longrightarrow> readHealthCheck (defaulted PublicHealthCheckSpec_schema (jsonHealthCheck h)) = h"
  by (simp add: readHealthCheck_def PublicHealthCheckSpec_schema_def jsonHealthCheck_def fitsCheck_def stored_simps
      option.map_comp)

text \<open>A pointer is read back when what it points to is.\<close>

lemma nonNull_ptr: "(\<And>x. f x \<noteq> JNull) \<Longrightarrow> nonNull (map_option f p) = map_option f p"
  by (cases p) (simp_all add: nonNull_def)

lemma ptr_read: "pred_option (\<lambda>x. g (defaulted s (f x)) = x) p \<Longrightarrow>
    map_option (g \<circ> (defaulted s \<circ> f)) p = p"
  by (cases p) simp_all

lemma objects_nonNull [simp]:
  "nonNull (map_option jsonHealthCheck p) = map_option jsonHealthCheck p"
  "nonNull (map_option jsonAuth q) = map_option jsonAuth q"
  "nonNull (map_option jsonMaintenance r) = map_option jsonMaintenance r"
  by (rule nonNull_ptr, simp add: jsonHealthCheck_def jsonAuth_def jsonMaintenance_def)+

lemma readTarget_stored:
  "fitsTarget t \<Longrightarrow> readTarget (defaulted PublicTargetSpec_schema (jsonTarget t)) = t"
  by (auto simp add: readTarget_def PublicTargetSpec_schema_def jsonTarget_def fitsTarget_def stored_simps option.map_comp
      intro!: PublicTargetSpec.equality ptr_read elim!: option.pred_mono_strong readHealthCheck_stored)

text \<open>
  What the API server stores of a specification that a typed client wrote: the switch for TLS
  is on, whatever the client had, and an empty list of rules is a missing one.
\<close>

definition asStored :: "PublicResourceSpec \<Rightarrow> PublicResourceSpec" where
  "asStored s = s\<lparr>ps_Ssl := True, ps_Rules := (if elems (ps_Rules s) = [] then None else ps_Rules s)\<rparr>"

lemma slice_read:
  "(\<And>x. x \<in> set xs \<Longrightarrow> g (defaulted s (f x)) = x) \<Longrightarrow>
     asSlice g (map_option (defaulted (ScArray n s)) (optList f xs)) = (if xs = [] then None else Some xs)"
  by (simp add: optList_def map_idI)

lemma target_slice:
  "list_all fitsTarget (elems ts) \<Longrightarrow>
     asSlice readTarget (map_option (defaulted (ScArray n PublicTargetSpec_schema))
       (nonNull (Some (jsonSlice jsonTarget ts)))) = ts"
  by (cases ts) (auto simp: jsonSlice_def list_all_iff readTarget_stored intro!: map_idI)

lemma rule_slice:
  "list_all (\<lambda>r. inInt64 (pr_Priority r)) rs \<Longrightarrow>
     asSlice readRule (map_option (defaulted (ScArray n PublicRuleSpec_schema)) (optList jsonRule rs))
     = (if rs = [] then None else Some rs)"
  by (rule slice_read) (simp add: list_all_iff readRule_stored)

lemma auth_ptr:
  "pred_option (\<lambda>au. inInt64 (pa_AutoLoginIdp au)) p \<Longrightarrow>
     map_option (readAuth \<circ> (defaulted PublicAuthSpec_schema \<circ> jsonAuth)) p = p"
  by (rule ptr_read) (auto elim!: option.pred_mono_strong readAuth_stored)

lemma maintenance_ptr: "map_option (readMaintenance \<circ> (defaulted PublicMaintenanceSpec_schema \<circ> jsonMaintenance)) p = p"
  by (rule ptr_read) (cases p, simp_all add: readMaintenance_stored)

lemma readSpec_stored: "fitsSpec s \<Longrightarrow> readSpec (defaulted PublicResourceSpec_schema (jsonSpec s)) = asStored s"
  by (cases "ps_Rules s")
    (simp_all add: readSpec_def PublicResourceSpec_schema_def jsonSpec_def fitsSpec_def asStored_def stored_simps
      option.map_comp target_slice rule_slice auth_ptr maintenance_ptr)

section \<open>What is let in\<close>

lemma okAt_string [simp]: "okAt False (ScString es n hi) (optStr s) = (s = [] \<or> conforms (ScString es n hi) (JStr s))"
  by (simp add: optStr_def)

lemma okAt_int [simp]:
  "inInt64 i \<Longrightarrow> okAt False (ScInt lo hi) (optInt i)
     = (i = 0 \<or> (case lo of None \<Rightarrow> True | Some n \<Rightarrow> n \<le> i) \<and> (case hi of None \<Rightarrow> True | Some n \<Rightarrow> i \<le> n))"
  by (simp add: optInt_def atoi_itoa)

lemma okAt_bool [simp]: "okAt False ScBool (optBool b)" "okAt False ScBool (map_option JBool p)"
  by (simp_all add: optBool_def okAt_def split: option.split)

lemma okAt_list [simp]:
  "okAt False (ScArray n s) (map_option (defaulted (ScArray n s)) (optList f xs))
     = (xs = [] \<or> n \<le> length xs \<and> list_all (\<lambda>x. conforms s (defaulted s (f x))) xs)"
  by (simp add: optList_def list.pred_map comp_def)

lemma okAt_ptr [simp]:
  "okAt False s (map_option (defaulted s) (map_option f p)) = pred_option (\<lambda>x. conforms s (defaulted s (f x))) p"
  by (cases p) simp_all

lemmas admits_simps = option.pred_True conforms_defaulted present_def map_of_omit map_add_orElse orElse_simps atoi_itoa

definition okHeader :: "PublicHeaderSpec \<Rightarrow> bool" where
  "okHeader h \<longleftrightarrow> hd_Name h \<noteq> [] \<and> hd_Value h \<noteq> []"

lemma header_admitted [simp]: "conforms PublicHeaderSpec_schema (defaulted PublicHeaderSpec_schema (jsonHeader h)) = okHeader h"
  by (simp add: PublicHeaderSpec_schema_def jsonHeader_def admits_simps okHeader_def)

definition okRule :: "PublicRuleSpec \<Rightarrow> bool" where
  "okRule r \<longleftrightarrow> pr_Action r \<in> {''ACCEPT'', ''DROP'', ''PASS''} \<and> pr_Match r \<in> {''ip'', ''cidr'', ''path'', ''country''}
     \<and> pr_Value r \<noteq> [] \<and> (pr_Priority r = 0 \<or> 1 \<le> pr_Priority r \<and> pr_Priority r \<le> 1000)"

lemma rule_admitted:
  "inInt64 (pr_Priority r) \<Longrightarrow> conforms PublicRuleSpec_schema (defaulted PublicRuleSpec_schema (jsonRule r)) = okRule r"
  by (simp add: PublicRuleSpec_schema_def jsonRule_def admits_simps okRule_def)

lemma auth_admitted:
  "inInt64 (pa_AutoLoginIdp au) \<Longrightarrow> conforms PublicAuthSpec_schema (defaulted PublicAuthSpec_schema (jsonAuth au))"
  by (simp add: PublicAuthSpec_schema_def jsonAuth_def admits_simps list_all_iff)

definition okMaintenance :: "PublicMaintenanceSpec \<Rightarrow> bool" where
  "okMaintenance m \<longleftrightarrow> pm_Type m \<in> {[], ''forced'', ''automatic''}"

lemma maintenance_admitted [simp]:
  "conforms PublicMaintenanceSpec_schema (defaulted PublicMaintenanceSpec_schema (jsonMaintenance m)) = okMaintenance m"
  by (auto simp: PublicMaintenanceSpec_schema_def jsonMaintenance_def admits_simps okMaintenance_def)

definition okCheck :: "PublicHealthCheckSpec \<Rightarrow> bool" where
  "okCheck h \<longleftrightarrow> 1 \<le> ph_Port h \<and> ph_Port h \<le> 65535 \<and> 0 \<le> ph_Interval h \<and> 0 \<le> ph_UnhealthyInterval h
     \<and> 0 \<le> ph_Timeout h \<and> list_all okHeader (ph_Headers h)"

lemma check_admitted:
  "fitsCheck h \<Longrightarrow> conforms PublicHealthCheckSpec_schema (defaulted PublicHealthCheckSpec_schema (jsonHealthCheck h)) = okCheck h"
  by (auto simp: PublicHealthCheckSpec_schema_def jsonHealthCheck_def admits_simps okCheck_def fitsCheck_def)

definition okTarget :: "PublicTargetSpec \<Rightarrow> bool" where
  "okTarget t \<longleftrightarrow> 1 \<le> pt_Port t \<and> pt_Port t \<le> 65535
     \<and> pt_Method t \<in> {[], ''http'', ''https'', ''h2c''} \<and> pt_PathMatchType t \<in> {[], ''prefix'', ''exact'', ''regex''}
     \<and> pt_RewritePathType t \<in> {[], ''exact'', ''prefix'', ''regex'', ''stripPrefix''}
     \<and> 0 \<le> pt_Priority t \<and> pt_Priority t \<le> 1000 \<and> pred_option okCheck (pt_Healthcheck t)"

lemma pred_option_iff: "pred_option P p \<Longrightarrow> (\<And>x. P x \<Longrightarrow> Q x = R x) \<Longrightarrow> pred_option Q p = pred_option R p"
  by (cases p) simp_all

lemma target_admitted:
  assumes "fitsTarget t"
  shows "conforms PublicTargetSpec_schema (defaulted PublicTargetSpec_schema (jsonTarget t)) = okTarget t"
proof -
  have "pred_option (\<lambda>x. conforms PublicHealthCheckSpec_schema (defaulted PublicHealthCheckSpec_schema (jsonHealthCheck x)))
      (pt_Healthcheck t) = pred_option okCheck (pt_Healthcheck t)"
    by (rule pred_option_iff [where P = fitsCheck]) (use assms in \<open>auto simp: fitsTarget_def check_admitted\<close>)
  then show ?thesis
    using assms by (auto simp: PublicTargetSpec_schema_def jsonTarget_def admits_simps okTarget_def fitsTarget_def)
qed

definition okSpec :: "PublicResourceSpec \<Rightarrow> bool" where
  "okSpec s \<longleftrightarrow> ps_Name s \<noteq> [] \<and> ps_Protocol s \<in> {''http'', ''tcp'', ''udp''}
     \<and> 0 \<le> ps_ProxyPort s \<and> ps_ProxyPort s \<le> 65535 \<and> list_all okHeader (ps_Headers s)
     \<and> pred_option okMaintenance (ps_Maintenance s) \<and> list_all okRule (elems (ps_Rules s))
     \<and> elems (ps_Targets s) \<noteq> [] \<and> list_all okTarget (elems (ps_Targets s))"

lemma list_all_iff2: "list_all P xs \<Longrightarrow> (\<And>x. P x \<Longrightarrow> Q x = R x) \<Longrightarrow> list_all Q xs = list_all R xs"
  by (auto simp: list_all_iff)

lemma targets_admitted:
  assumes "list_all fitsTarget (elems ts)"
  shows "okAt True (ScArray 1 PublicTargetSpec_schema)
      (map_option (defaulted (ScArray 1 PublicTargetSpec_schema)) (nonNull (Some (jsonSlice jsonTarget ts))))
    = (elems ts \<noteq> [] \<and> list_all okTarget (elems ts))"
  using list_all_iff2 [OF assms target_admitted]
  by (cases ts) (auto simp: jsonSlice_def list.pred_map comp_def Suc_le_eq)

theorem spec_admitted:
  assumes "fitsSpec s"
  shows "conforms PublicResourceSpec_schema (defaulted PublicResourceSpec_schema (jsonSpec s)) = okSpec s"
proof -
  have "list_all (\<lambda>r. conforms PublicRuleSpec_schema (defaulted PublicRuleSpec_schema (jsonRule r))) (elems (ps_Rules s))
      = list_all okRule (elems (ps_Rules s))"
    by (rule list_all_iff2 [where P = "\<lambda>r. inInt64 (pr_Priority r)"])
      (use assms in \<open>auto simp: fitsSpec_def rule_admitted\<close>)
  moreover have "pred_option (\<lambda>au. conforms PublicAuthSpec_schema (defaulted PublicAuthSpec_schema (jsonAuth au))) (ps_Auth s)"
    using assms by (auto simp: fitsSpec_def elim!: option.pred_mono_strong auth_admitted)
  ultimately show ?thesis
    using assms
    by (auto simp: PublicResourceSpec_schema_def jsonSpec_def admits_simps okSpec_def fitsSpec_def
        targets_admitted [simplified])
qed

section \<open>Private resources and the settings of discovery\<close>

definition PrivateResourceSpec_schema :: schema where
  "PrivateResourceSpec_schema = ScObject
     [required ''siteRef'' anyString, required ''name'' (ScString [] 1 (Some 255)),
      required ''mode'' (ScString [''host'', ''cidr'', ''http''] 0 None), required ''destination'' (ScString [] 1 None),
      defaulting ''tcpPorts'' (JStr ''*'') anyString, defaulting ''udpPorts'' (JStr ''*'') anyString,
      optional ''fullDomain'' anyString, optional ''destinationPort'' (ScInt (Some 1) (Some 65535)),
      defaulting ''scheme'' (JStr ''http'') (ScString [''http'', ''https''] 0 None), optional ''ssl'' ScBool,
      defaulting ''disableIcmp'' (JBool False) ScBool, optional ''alias'' anyString,
      optional ''roleIds'' (ScArray 0 anyInt), optional ''userIds'' (ScArray 0 anyString),
      optional ''clientIds'' (ScArray 0 anyInt)]"

definition jsonPrivateSpec :: "PrivateResourceSpec \<Rightarrow> json" where
  "jsonPrivateSpec s = JObj ([(''siteRef'', JStr (vs_SiteRef s)), (''name'', JStr (vs_Name s)),
       (''mode'', JStr (vs_Mode s)), (''destination'', JStr (vs_Destination s))]
     @ omitStr ''tcpPorts'' (vs_TcpPorts s) @ omitStr ''udpPorts'' (vs_UdpPorts s)
     @ omitStr ''fullDomain'' (vs_FullDomain s) @ omitInt ''destinationPort'' (vs_DestinationPort s)
     @ omitStr ''scheme'' (vs_Scheme s) @ omitPtr ''ssl'' JBool (vs_Ssl s)
     @ omitBool ''disableIcmp'' (vs_DisableIcmp s) @ omitStr ''alias'' (vs_Alias s)
     @ omitList ''roleIds'' JInt (elems (vs_RoleIds s)) @ omitList ''userIds'' JStr (elems (vs_UserIds s))
     @ omitList ''clientIds'' JInt (elems (vs_ClientIds s)))"

definition readInt :: "json \<Rightarrow> int" where
  "readInt j = asInt (Some j)"

definition readPrivateSpec :: "json \<Rightarrow> PrivateResourceSpec" where
  "readPrivateSpec j = \<lparr>vs_SiteRef = strAt j ''siteRef'', vs_Name = strAt j ''name'', vs_Mode = strAt j ''mode'',
     vs_Destination = strAt j ''destination'', vs_TcpPorts = strAt j ''tcpPorts'', vs_UdpPorts = strAt j ''udpPorts'',
     vs_FullDomain = strAt j ''fullDomain'', vs_DestinationPort = intAt j ''destinationPort'', vs_Scheme = strAt j ''scheme'',
     vs_Ssl = ptrAt readBool j ''ssl'', vs_DisableIcmp = boolAt j ''disableIcmp'', vs_Alias = strAt j ''alias'',
     vs_RoleIds = sliceAt readInt j ''roleIds'', vs_UserIds = sliceAt readStr j ''userIds'',
     vs_ClientIds = sliceAt readInt j ''clientIds''\<rparr>"

text \<open>A missing text is its default, an empty slice a missing one.\<close>

definition orDefault :: "string \<Rightarrow> string \<Rightarrow> string" where
  "orDefault s d = (if s = [] then d else s)"

definition orNil :: "'a slice \<Rightarrow> 'a slice" where
  "orNil xs = (if elems xs = [] then None else xs)"

definition privateAsStored :: "PrivateResourceSpec \<Rightarrow> PrivateResourceSpec" where
  "privateAsStored s = s\<lparr>vs_TcpPorts := orDefault (vs_TcpPorts s) ''*'', vs_UdpPorts := orDefault (vs_UdpPorts s) ''*'',
     vs_Scheme := orDefault (vs_Scheme s) ''http'', vs_RoleIds := orNil (vs_RoleIds s),
     vs_UserIds := orNil (vs_UserIds s), vs_ClientIds := orNil (vs_ClientIds s)\<rparr>"

definition fitsPrivate :: "PrivateResourceSpec \<Rightarrow> bool" where
  "fitsPrivate s \<longleftrightarrow> inInt64 (vs_DestinationPort s) \<and> list_all inInt64 (elems (vs_RoleIds s))
     \<and> list_all inInt64 (elems (vs_ClientIds s))"

lemma default_read [simp]:
  "asStr (fillMember (Some (JStr d)) (ScString es n hi) (optStr s)) = orDefault s d"
  "asInt (fillMember (Some (JInt i)) (ScInt lo hi') (optInt z)) = (if z = 0 then asInt (Some (JInt i)) else asInt (optInt z))"
  by (simp_all add: optStr_def optInt_def orDefault_def)

lemma elems_orNil: "(if elems xs = [] then None else Some (elems xs)) = orNil xs"
  by (cases xs) (simp_all add: orNil_def)

lemma strs_slice: "asSlice readStr (map_option (defaulted (ScArray n anyString)) (optList JStr (elems xs))) = orNil xs"
  by (subst slice_read) (simp_all add: elems_orNil)

lemma ints_slice:
  "list_all inInt64 (elems xs) \<Longrightarrow>
     asSlice readInt (map_option (defaulted (ScArray n anyInt)) (optList JInt (elems xs))) = orNil xs"
  by (subst slice_read) (simp_all add: elems_orNil readInt_def list_all_iff atoi_itoa)

lemma readPrivateSpec_stored:
  "fitsPrivate s \<Longrightarrow> readPrivateSpec (defaulted PrivateResourceSpec_schema (jsonPrivateSpec s)) = privateAsStored s"
  by (simp add: readPrivateSpec_def PrivateResourceSpec_schema_def jsonPrivateSpec_def fitsPrivate_def privateAsStored_def
      stored_simps option.map_comp strs_slice ints_slice)

definition AutoDiscoverSpec_schema :: schema where
  "AutoDiscoverSpec_schema = ScObject
     [defaulting ''annotationPrefix'' (JStr ''pangolin-operator'') anyString, optional ''gatewayName'' anyString,
      optional ''gatewayNamespace'' anyString, optional ''gatewayTargetHostname'' anyString,
      defaulting ''gatewayTargetPort'' (JInt 443) (ScInt (Some 1) (Some 65535)),
      defaulting ''gatewayTargetMethod'' (JStr ''https'') (ScString [''http'', ''https'', ''h2c''] 0 None),
      defaulting ''enableRouteDiscovery'' (JBool False) ScBool, defaulting ''enableServiceDiscovery'' (JBool False) ScBool,
      defaulting ''enableTCPRouteDiscovery'' (JBool False) ScBool, optional ''allPorts'' ScBool,
      defaulting ''ssl'' (JBool True) ScBool, optional ''denyCountries'' anyString, optional ''authSsoRoles'' anyString,
      optional ''authSsoUsers'' anyString, optional ''authSsoIdp'' anyInt, optional ''authWhitelistUsers'' anyString]"

definition jsonAutoDiscover :: "AutoDiscoverSpec \<Rightarrow> json" where
  "jsonAutoDiscover c = JObj (omitStr ''annotationPrefix'' (ad_AnnotationPrefix c) @ omitStr ''gatewayName'' (ad_GatewayName c)
     @ omitStr ''gatewayNamespace'' (ad_GatewayNamespace c) @ omitStr ''gatewayTargetHostname'' (ad_GatewayTargetHostname c)
     @ omitInt ''gatewayTargetPort'' (ad_GatewayTargetPort c) @ omitStr ''gatewayTargetMethod'' (ad_GatewayTargetMethod c)
     @ omitBool ''enableRouteDiscovery'' (ad_EnableRouteDiscovery c)
     @ omitBool ''enableServiceDiscovery'' (ad_EnableServiceDiscovery c)
     @ omitBool ''enableTCPRouteDiscovery'' (ad_EnableTCPRouteDiscovery c) @ omitBool ''allPorts'' (ad_AllPorts c)
     @ omitBool ''ssl'' (ad_SSL c) @ omitStr ''denyCountries'' (ad_DenyCountries c)
     @ omitStr ''authSsoRoles'' (ad_AuthSSORoles c) @ omitStr ''authSsoUsers'' (ad_AuthSSOUsers c)
     @ omitInt ''authSsoIdp'' (ad_AuthSSOIDP c) @ omitStr ''authWhitelistUsers'' (ad_AuthWhitelistUsers c))"

definition readAutoDiscover :: "json \<Rightarrow> AutoDiscoverSpec" where
  "readAutoDiscover j = \<lparr>ad_AnnotationPrefix = strAt j ''annotationPrefix'', ad_GatewayName = strAt j ''gatewayName'',
     ad_GatewayNamespace = strAt j ''gatewayNamespace'', ad_GatewayTargetHostname = strAt j ''gatewayTargetHostname'',
     ad_GatewayTargetPort = intAt j ''gatewayTargetPort'', ad_GatewayTargetMethod = strAt j ''gatewayTargetMethod'',
     ad_EnableRouteDiscovery = boolAt j ''enableRouteDiscovery'',
     ad_EnableServiceDiscovery = boolAt j ''enableServiceDiscovery'',
     ad_EnableTCPRouteDiscovery = boolAt j ''enableTCPRouteDiscovery'', ad_AllPorts = boolAt j ''allPorts'',
     ad_SSL = boolAt j ''ssl'', ad_DenyCountries = strAt j ''denyCountries'', ad_AuthSSORoles = strAt j ''authSsoRoles'',
     ad_AuthSSOUsers = strAt j ''authSsoUsers'', ad_AuthSSOIDP = intAt j ''authSsoIdp'',
     ad_AuthWhitelistUsers = strAt j ''authWhitelistUsers''\<rparr>"

definition discoverAsStored :: "AutoDiscoverSpec \<Rightarrow> AutoDiscoverSpec" where
  "discoverAsStored c = c\<lparr>ad_AnnotationPrefix := orDefault (ad_AnnotationPrefix c) ''pangolin-operator'',
     ad_GatewayTargetPort := (if ad_GatewayTargetPort c = 0 then 443 else ad_GatewayTargetPort c),
     ad_GatewayTargetMethod := orDefault (ad_GatewayTargetMethod c) ''https'', ad_SSL := True\<rparr>"

lemma port_443: "asInt (Some (JInt 443)) = 443"
  by (simp add: atoi_itoa inInt64_def)

lemma readAutoDiscover_stored:
  "inInt64 (ad_GatewayTargetPort c) \<Longrightarrow> inInt64 (ad_AuthSSOIDP c) \<Longrightarrow>
     readAutoDiscover (defaulted AutoDiscoverSpec_schema (jsonAutoDiscover c)) = discoverAsStored c"
  by (simp add: readAutoDiscover_def AutoDiscoverSpec_schema_def jsonAutoDiscover_def discoverAsStored_def stored_simps
      port_443 del: asInt.simps)

end
