(* ===== verification/AdmissionLaws.thy ===== *)
theory AdmissionLaws
  imports Admission Watches
begin

text \<open>
  What the schema does to the objects the program writes: a setting that is off is switched on
  again by the first write of the whole object, discovery then never sees what it wrote, and
  which of the specifications that discovery builds the API server lets in.
\<close>

section \<open>Written and read back\<close>

lemma honours_some:
  "honours sc admit \<Longrightarrow> admit j = Some j' \<Longrightarrow> j' = defaulted sc j \<and> conforms sc j'"
  by (auto simp: honours_def admitted_def split: if_splits dest: spec)

text \<open>
  The contract between a typed client and the server: encoding, defaults and decoding take a
  value to its stored form.
\<close>

locale typed_client =
  fixes sc :: schema and enc :: "'a \<Rightarrow> json" and dec :: "json \<Rightarrow> 'a" and fits :: "'a \<Rightarrow> bool" and stored :: "'a \<Rightarrow> 'a"
  assumes decodes: "fits x \<Longrightarrow> dec (defaulted sc (enc x)) = stored x"
    and keeps_fitting: "fits x \<Longrightarrow> fits (stored x)"
    and stable: "stored (stored x) = stored x"
begin

lemma reads_stored: "honours sc admit \<Longrightarrow> fits x \<Longrightarrow> admit (enc x) = Some j \<Longrightarrow> dec j = stored x"
  using honours_some decodes by blast

text \<open>Only the first write changes anything: writing what was read reads the same.\<close>

lemma second_write:
  "honours sc admit \<Longrightarrow> fits x \<Longrightarrow> admit (enc x) = Some j \<Longrightarrow> admit (enc (dec j)) = Some j' \<Longrightarrow> dec j' = dec j"
  using reads_stored [of admit x j] reads_stored [of admit "stored x" j'] keeps_fitting stable by simp

end

interpretation public_client: typed_client PublicResourceSpec_schema jsonSpec readSpec fitsSpec asStored
  by unfold_locales (auto simp: readSpec_stored fitsSpec_def asStored_def)

interpretation private_client: typed_client PrivateResourceSpec_schema jsonPrivateSpec readPrivateSpec fitsPrivate privateAsStored
  by unfold_locales (auto simp: readPrivateSpec_stored fitsPrivate_def privateAsStored_def orDefault_def orNil_def)

interpretation discovery_client: typed_client AutoDiscoverSpec_schema jsonAutoDiscover readAutoDiscover
    "\<lambda>c. inInt64 (ad_GatewayTargetPort c) \<and> inInt64 (ad_AuthSSOIDP c)" discoverAsStored
  by unfold_locales (auto simp: readAutoDiscover_stored discoverAsStored_def orDefault_def inInt64_def)

text \<open>
  C19.  Writing an object changes it.  A typed client, as every controller is one, writes a
  specification with the members left out whose fields are zero; when the API server lets it
  in, what is stored reads back as the specification written, but for the zeros that are not
  the default: the TLS switch of a public resource and of the discovery settings is on, the
  port sets of a private resource are all ports, the scheme http, the prefix, port and method
  of discovery their defaults, and empty slices are missing ones.  So what a user switched off
  in a manifest is switched on by the first update of the object, which adds its finalizer.
\<close>

theorem whole_writes_lose_zeros:
  assumes "honours PublicResourceSpec_schema admit" "fitsSpec s" "admit (jsonSpec s) = Some j"
    and "honours PrivateResourceSpec_schema vadmit" "fitsPrivate p" "vadmit (jsonPrivateSpec p) = Some vj"
    and "honours AutoDiscoverSpec_schema cadmit" "inInt64 (ad_GatewayTargetPort c)" "inInt64 (ad_AuthSSOIDP c)"
      "cadmit (jsonAutoDiscover c) = Some cj"
  shows "readSpec j = asStored s \<and> readPrivateSpec vj = privateAsStored p \<and> readAutoDiscover cj = discoverAsStored c"
  using public_client.reads_stored [OF assms(1-3)] private_client.reads_stored [OF assms(4-6)]
    discovery_client.reads_stored [OF assms(7) _ assms(10)] assms(8,9)
  by simp

text \<open>A plain HTTP resource, a private resource with its ports closed, and discovery without TLS.\<close>

definition plainSpec :: PublicResourceSpec where
  "plainSpec = \<lparr>ps_SiteRef = ''home'', ps_Name = ''web'', ps_Protocol = ''http'', ps_FullDomain = ''web.example.com'',
     ps_ProxyPort = 0, ps_Enabled = True, ps_Ssl = False, ps_HostHeader = [], ps_TlsServerName = [], ps_Headers = [],
     ps_Auth = None, ps_Maintenance = None, ps_Rules = None,
     ps_Targets = Some [zeroTarget\<lparr>pt_Hostname := ''web.app'', pt_Port := 80\<rparr>]\<rparr>"

definition closedSpec :: PrivateResourceSpec where
  "closedSpec = \<lparr>vs_SiteRef = ''home'', vs_Name = ''nas'', vs_Mode = ''host'', vs_Destination = ''10.0.0.2'',
     vs_TcpPorts = [], vs_UdpPorts = ''53'', vs_FullDomain = [], vs_DestinationPort = 0, vs_Scheme = ''http'',
     vs_Ssl = None, vs_DisableIcmp = False, vs_Alias = [], vs_RoleIds = None, vs_UserIds = None, vs_ClientIds = None\<rparr>"

definition plainDiscovery :: AutoDiscoverSpec where
  "plainDiscovery = \<lparr>ad_AnnotationPrefix = [], ad_GatewayName = [], ad_GatewayNamespace = [], ad_GatewayTargetHostname = [],
     ad_GatewayTargetPort = 0, ad_GatewayTargetMethod = [], ad_EnableRouteDiscovery = True,
     ad_EnableServiceDiscovery = False, ad_EnableTCPRouteDiscovery = False, ad_AllPorts = False, ad_SSL = False,
     ad_DenyCountries = [], ad_AuthSSORoles = [], ad_AuthSSOUsers = [], ad_AuthSSOIDP = 0, ad_AuthWhitelistUsers = []\<rparr>"

lemma plain_fits: "fitsSpec plainSpec" "fitsPrivate closedSpec"
  by (simp_all add: fitsSpec_def plainSpec_def fitsTarget_def zeroTarget_def fitsPrivate_def closedSpec_def inInt64_def)

lemma plain_admitted:
  "admitted PublicResourceSpec_schema (jsonSpec plainSpec) \<noteq> None"
  "admitted PrivateResourceSpec_schema (jsonPrivateSpec closedSpec) \<noteq> None"
  "admitted AutoDiscoverSpec_schema (jsonAutoDiscover plainDiscovery) \<noteq> None"
  by code_simp+

theorem whole_writes_lose_zeros_witness:
  "\<exists>j vj cj. admitted PublicResourceSpec_schema (jsonSpec plainSpec) = Some j \<and> ps_Ssl (readSpec j)
     \<and> admitted PrivateResourceSpec_schema (jsonPrivateSpec closedSpec) = Some vj \<and> vs_TcpPorts (readPrivateSpec vj) = ''*''
     \<and> admitted AutoDiscoverSpec_schema (jsonAutoDiscover plainDiscovery) = Some cj \<and> ad_SSL (readAutoDiscover cj)"
proof -
  obtain j vj cj where js: "admitted PublicResourceSpec_schema (jsonSpec plainSpec) = Some j"
      "admitted PrivateResourceSpec_schema (jsonPrivateSpec closedSpec) = Some vj"
      "admitted AutoDiscoverSpec_schema (jsonAutoDiscover plainDiscovery) = Some cj"
    using plain_admitted by blast
  have "inInt64 (ad_GatewayTargetPort plainDiscovery)" "inInt64 (ad_AuthSSOIDP plainDiscovery)"
    by (simp_all add: plainDiscovery_def inInt64_def)
  from whole_writes_lose_zeros [OF honours_admitted plain_fits(1) js(1) honours_admitted plain_fits(2) js(2)
      honours_admitted this js(3)] js
  show ?thesis
    by (auto simp: asStored_def privateAsStored_def discoverAsStored_def orDefault_def closedSpec_def)
qed

section \<open>Discovery without TLS\<close>

text \<open>
  A cluster reduced to one resource, which a read returns and a patch replaces by what the
  server makes of the object sent, or refuses.
\<close>

definition admittingResource :: "(json \<Rightarrow> json option) \<Rightarrow> PublicResource kube \<Rightarrow> PublicResource kube" where
  "admittingResource admit k =
     k\<lparr>kPubs := (kPubs k)\<lparr>oc_Get := (\<lambda>_. State (\<lambda>x. (Inr x, x))),
       oc_Patch := (\<lambda>_ n. State (\<lambda>x.
         case admit (jsonSpec (pub_Spec n)) of
           None \<Rightarrow> (Inl (KOther ''invalid''), x)
         | Some j \<Rightarrow> (let y = n\<lparr>pub_Spec := readSpec j\<rparr> in (Inr y, y))))\<rparr>\<rparr>"

lemma needsPatch_ssl: "ps_Ssl spec \<noteq> ps_Ssl (pub_Spec x) \<Longrightarrow> needsPatch x kind name site spec"
  by (auto simp: needsPatch_def specText_eq sameSpec_def dest: arg_cong [where f = ps_Ssl])

lemma one_write:
  assumes "honours PublicResourceSpec_schema admit" "fitsSpec spec" "admit (jsonSpec spec) = Some j"
    "\<not> ps_Ssl spec" "ps_Ssl (pub_Spec x)"
  shows "\<exists>y log'. run_state (ensureOwnedPublicResource (record_kube (admittingResource admit k)) site kind name ns rn spec) (x, log)
      = (None, (y, log @ log')) \<and> length (filter isPatch log') = 1 \<and> pub_Spec y = asStored spec"
proof -
  have "needsPatch x kind name (m_Name site) spec" using assms(4,5) by (simp add: needsPatch_ssl)
  moreover have "readSpec j = asStored spec"
    by (rule public_client.reads_stored [OF assms(1-3)])
  ultimately show ?thesis
    using assms(3)
    by (simp add: ensureOwnedPublicResource_def admittingResource_def record_op_def isPatch_def Let_def withLabels_def)
qed

text \<open>
  C20.  A discovered resource without TLS is never settled.  Let the specification that discovery
  derives have TLS off, as every TCP and UDP resource has, and every HTTP resource whose
  annotation switches it off; and let the server hold the resource with TLS on, as it does
  after any write.  Then every run patches the resource, and after each it is as before:
  with TLS on.
\<close>

theorem ssl_off_never_settles:
  assumes "honours PublicResourceSpec_schema admit" "fitsSpec spec" "admit (jsonSpec spec) = Some j"
    and "\<not> ps_Ssl spec" "ps_Ssl (pub_Spec x)"
  shows "case run_state (writtenBy (record_kube (admittingResource admit k)) kind name ns rn (replicate n (site, spec))) (x, log) of
     (_, (y, log')) \<Rightarrow>
        length (filter isPatch log') = length (filter isPatch log) + n
        \<and> pub_Spec y = (if n = 0 then pub_Spec x else asStored spec) \<and> ps_Ssl (pub_Spec y)"
  using assms(5)
proof (induction n arbitrary: x log)
  case (Suc n)
  obtain y log' where y: "run_state (ensureOwnedPublicResource (record_kube (admittingResource admit k)) site kind name ns rn spec) (x, log)
      = (None, (y, log @ log'))" "length (filter isPatch log') = 1" "pub_Spec y = asStored spec"
    using one_write [OF assms(1-4) Suc.prems] by blast
  then have "ps_Ssl (pub_Spec y)" by (simp add: asStored_def)
  from Suc.IH [OF this, of "log @ log'"] show ?case
    using y by (auto simp: run_bind split: prod.splits)
qed simp

text \<open>A TCP resource on port 22, three scans.\<close>

definition sshSpec :: PublicResourceSpec where
  "sshSpec = buildTCPSpec (newResolver [] plainDiscovery) ''home'' ''ssh'' protocolTCP 22
     (zeroTarget\<lparr>pt_Hostname := ''ssh.app'', pt_Port := 22\<rparr>)"

theorem ssl_off_never_settles_witness:
  "\<forall>k. case run_state (writtenBy (record_kube (admittingResource (admitted PublicResourceSpec_schema) k))
         ''service'' ''ssh'' ''app'' ''ssh'' (replicate 3 (plainMeta ''home'' [] None, sshSpec)))
       (newOwned (plainMeta ''home'' [] None) ''service'' ''ssh'' ''app'' ''ssh'' (asStored sshSpec), []) of
     (_, (y, log)) \<Rightarrow> length (filter isPatch log) = 3 \<and> ps_Ssl (pub_Spec y)"
proof
  fix k
  let ?x = "newOwned (plainMeta ''home'' [] None) ''service'' ''ssh'' ''app'' ''ssh'' (asStored sshSpec)"
  have fits: "fitsSpec sshSpec" "\<not> ps_Ssl sshSpec"
    by (simp_all add: sshSpec_def buildTCPSpec_def fitsSpec_def fitsTarget_def zeroTarget_def inInt64_def)
  have "okSpec sshSpec"
    by (simp add: sshSpec_def buildTCPSpec_def okSpec_def okTarget_def zeroTarget_def autodiscover_consts)
  then obtain j where j: "admitted PublicResourceSpec_schema (jsonSpec sshSpec) = Some j"
    by (simp add: admitted_def spec_admitted [OF fits(1)])
  have x: "ps_Ssl (pub_Spec ?x)" by (simp add: newOwned_def asStored_def)
  from ssl_off_never_settles [OF honours_admitted fits(1) j fits(2) x, where k = k and kind = "''service''"
      and name = "''ssh''" and ns = "''app''" and rn = "''ssh''" and n = 3 and log = "[]" and site = "plainMeta ''home'' [] None"]
  show "case run_state (writtenBy (record_kube (admittingResource (admitted PublicResourceSpec_schema) k))
         ''service'' ''ssh'' ''app'' ''ssh'' (replicate 3 (plainMeta ''home'' [] None, sshSpec))) (?x, []) of
     (_, (y, log)) \<Rightarrow> length (filter isPatch log) = 3 \<and> ps_Ssl (pub_Spec y)"
    by (auto split: prod.splits)
qed

section \<open>What discovery derives\<close>

lemma validRule_ok: "isValidRule = okRule"
  by (rule ext) (auto simp: isValidRule_def okRule_def autodiscover_consts)

lemma atoi_fits: "atoi s = Some i \<Longrightarrow> inInt64 i"
  by (auto simp: atoi_def Let_def split: if_splits option.splits prod.splits list.splits)

lemma buildAuth_fits:
  "inInt64 (ad_AuthSSOIDP cfg) \<Longrightarrow> pred_option (\<lambda>au. inInt64 (pa_AutoLoginIdp au)) (buildAuth annotations prefix cfg)"
  by (auto simp: buildAuth_def authIdp_def Let_def inInt64_def [of 0] dest: atoi_fits split: option.splits)

lemma extras_check_steps:
  "pt_Healthcheck (withPath v t) = pt_Healthcheck t" "pt_Healthcheck (withPathMatch v t) = pt_Healthcheck t"
  "pt_Healthcheck (withRewritePath v t) = pt_Healthcheck t" "pt_Healthcheck (withRewriteMatch v t) = pt_Healthcheck t"
  "pt_Healthcheck (withPriority v t) = pt_Healthcheck t" "pt_Healthcheck (withEnabled v t) = pt_Healthcheck t"
  by (simp_all add: targetExtras_defs split: option.splits)

lemma extras_check: "pt_Healthcheck (buildTargetExtras base annotations prefix) = pt_Healthcheck base"
  by (simp add: buildTargetExtras_def extras_check_steps)

lemma okRule_fits: "okRule r \<Longrightarrow> inInt64 (pr_Priority r)"
  by (auto simp: okRule_def inInt64_def)

definition portOk :: "int \<Rightarrow> bool" where
  "portOk p \<longleftrightarrow> 1 \<le> p \<and> p \<le> 65535"

lemma routeTarget_port:
  assumes "routeTarget route cfg = Inr (h, p, m)" "ad_GatewayTargetPort cfg = 0 \<or> portOk (ad_GatewayTargetPort cfg)"
    "list_all (list_all (\<lambda>ref. pred_option portOk (br_Port ref))) (hr_Rules route)"
  shows "portOk p"
  using assms
  by (auto simp: routeTarget_def resolveBackendRef_def Let_def portOk_def split: if_splits list.splits prod.splits option.splits)

lemma rv_name_nonempty: "d \<noteq> [] \<Longrightarrow> rv_name r d \<noteq> []"
  by (simp add: rv_name_def split: option.split)

text \<open>
  C21.  Which discovered resources the API server lets in.  For a route with its ports in range, of
  a site whose discovery settings the schema allows, every specification that discovery
  derives for a hostname is one the API server accepts, except for what it takes from the
  annotations unchecked: a header with an empty name or value, or a type of maintenance page
  that is not one of the two, makes the server refuse the whole resource.  Rules, match types,
  priorities, methods and ports are checked or derived, and never the reason.
\<close>

theorem discovered_specs_admitted:
  assumes "BuildHTTPRouteSpec route hostname annotations cfg fallback = Inr spec" "m_Name (hr_Meta route) \<noteq> []"
    and "list_all (list_all (\<lambda>ref. pred_option portOk (br_Port ref))) (hr_Rules route)"
    and "ad_GatewayTargetPort cfg = 0 \<or> portOk (ad_GatewayTargetPort cfg)"
    and "ad_GatewayTargetMethod cfg \<in> {[], ''http'', ''https'', ''h2c''}" "inInt64 (ad_AuthSSOIDP cfg)"
  shows "(admitted PublicResourceSpec_schema (jsonSpec spec) \<noteq> None) =
    (list_all okHeader (buildHeaders annotations (annotationPrefix cfg))
     \<and> pred_option okMaintenance (buildMaintenance annotations (annotationPrefix cfg)))"
proof -
  let ?r = "newResolver annotations cfg"
  from assms(1) obtain s h p m where rt: "routeTarget route cfg = Inr (h, p, m)"
    and spec: "spec = buildHTTPSpec ?r s (rv_name ?r (m_Name (hr_Meta route))) hostname
      (rv_targetExtras ?r (zeroTarget\<lparr>pt_Hostname := h, pt_Port := p, pt_Method := rv_method ?r m\<rparr>))"
    by (auto simp: BuildHTTPRouteSpec_def Let_def split: option.splits sum.splits prod.splits)
  define t where "t = rv_targetExtras ?r (zeroTarget\<lparr>pt_Hostname := h, pt_Port := p, pt_Method := rv_method ?r m\<rparr>)"
  have good: "goodHTTPSpec cfg hostname spec"
    using BuildHTTPRouteSpec_good [where route = route and hostname = hostname and annotations = annotations and cfg = cfg
        and fallback = fallback] assms(1) by simp
  have "goodTarget t" and "pt_Method t \<in> {''http'', ''https'', ''h2c''} \<union> (if ad_GatewayName cfg = [] then {} else {ad_GatewayTargetMethod cfg})"
    using good by (simp_all add: goodHTTPSpec_def spec buildHTTPSpec_def t_def methodHTTP_def)
  then have t: "goodTarget t" "pt_Method t \<in> {[], ''http'', ''https'', ''h2c''}" "portOk (pt_Port t)" "pt_Healthcheck t = None"
    using assms(5) routeTarget_port [OF rt assms(4,3)]
    by (auto simp: t_def buildTargetExtras_keeps extras_check zeroTarget_def split: if_splits)
  have rules: "list_all okRule (elems (ps_Rules spec))"
    using good by (simp add: goodHTTPSpec_def validRule_ok)
  have sp: "ps_ProxyPort spec = 0" "ps_Auth spec = buildAuth annotations (annotationPrefix cfg) cfg" "ps_Targets spec = Some [t]"
    "ps_Headers spec = buildHeaders annotations (annotationPrefix cfg)" "ps_Protocol spec = ''http''"
    "ps_Maintenance spec = buildMaintenance annotations (annotationPrefix cfg)" "ps_Name spec \<noteq> []"
    by (simp_all add: spec buildHTTPSpec_def t_def newResolver_def methodHTTP_def rv_name_nonempty [OF assms(2)])
  have "fitsTarget t" using t by (auto simp: fitsTarget_def goodTarget_def portOk_def inInt64_def)
  moreover have "list_all (\<lambda>r. inInt64 (pr_Priority r)) (elems (ps_Rules spec))"
    using rules by (rule list.pred_mono_strong) (rule okRule_fits)
  ultimately have fits: "fitsSpec spec"
    using buildAuth_fits [OF assms(6)] by (simp add: fitsSpec_def sp) (simp add: inInt64_def)
  have "okTarget t"
    using t by (auto simp: okTarget_def goodTarget_def portOk_def rewriteStripPrefix_def)
  then have "okSpec spec = (list_all okHeader (ps_Headers spec) \<and> pred_option okMaintenance (ps_Maintenance spec))"
    using rules sp by (simp add: okSpec_def)
  then show ?thesis by (simp add: admitted_def spec_admitted [OF fits] sp)
qed

text \<open>Two annotated routes: one is let in, the other has a header without a value.\<close>

definition shopRoute :: HTTPRoute where
  "shopRoute = \<lparr>hr_Meta = plainMeta ''shop'' ''default'' None, hr_ParentRefs = [], hr_Hostnames = [''shop.example.com''],
     hr_Rules = [[\<lparr>br_Name = ''shop'', br_Namespace = None, br_Port = Some 8080\<rparr>]]\<rparr>"

theorem discovered_specs_admitted_witness:
  "(\<exists>spec. BuildHTTPRouteSpec shopRoute ''shop.example.com'' [] plainDiscovery ''home'' = Inr spec
      \<and> admitted PublicResourceSpec_schema (jsonSpec spec) \<noteq> None)
   \<and> (\<exists>spec. BuildHTTPRouteSpec shopRoute ''shop.example.com''
        [(''pangolin-operator/headers'', jsonText (JArr [jsonHeader \<lparr>hd_Name = ''X-Shop'', hd_Value = []\<rparr>]))] plainDiscovery ''home'' = Inr spec
      \<and> admitted PublicResourceSpec_schema (jsonSpec spec) = None)"
proof -
  have shop: "m_Name (hr_Meta shopRoute) \<noteq> []" "list_all (list_all (\<lambda>ref. pred_option portOk (br_Port ref))) (hr_Rules shopRoute)"
    "ad_GatewayTargetPort plainDiscovery = 0 \<or> portOk (ad_GatewayTargetPort plainDiscovery)"
    "ad_GatewayTargetMethod plainDiscovery \<in> {[], ''http'', ''https'', ''h2c''}" "inInt64 (ad_AuthSSOIDP plainDiscovery)"
    by (simp_all add: shopRoute_def plainMeta_def portOk_def plainDiscovery_def inInt64_def)
  have built: "\<exists>spec. BuildHTTPRouteSpec shopRoute ''shop.example.com'' annotations plainDiscovery ''home'' = Inr spec"
    if "annotations = [] \<or> (\<exists>v. annotations = [(''pangolin-operator/headers'', v)])" for annotations
    using that
    by (auto simp: BuildHTTPRouteSpec_def rv_siteRef_def rv_lookup_def newResolver_def annotationPrefix_def plainDiscovery_def
        annotationKey_def autodiscover_consts routeTarget_def shopRoute_def Let_def split: prod.splits)
  let ?hs = "jsonText (JArr (map jsonHeader [\<lparr>hd_Name = ''X-Shop'', hd_Value = []\<rparr>]))"
  have pre: "annotationPrefix plainDiscovery = ''pangolin-operator''"
    by (simp add: annotationPrefix_def plainDiscovery_def autodiscover_consts)
  have "buildHeaders [(''pangolin-operator/headers'', ?hs)] ''pangolin-operator'' = [\<lparr>hd_Name = ''X-Shop'', hd_Value = []\<rparr>]"
    using headers_annotated [of "''pangolin-operator''" "[\<lparr>hd_Name = ''X-Shop'', hd_Value = []\<rparr>]" "[]"]
    by (simp add: annotationKey_def del: jsonText.simps)
  moreover have "buildHeaders [] ''pangolin-operator'' = []" "buildMaintenance [] ''pangolin-operator'' = None"
    by (simp_all add: buildHeaders_def buildMaintenance_def)
  ultimately show ?thesis
    using built [of "[]"] built [of "[(''pangolin-operator/headers'', ?hs)]"]
      discovered_specs_admitted [OF _ shop, where annotations = "[]" and hostname = "''shop.example.com''" and fallback = "''home''"]
      discovered_specs_admitted [OF _ shop, where annotations = "[(''pangolin-operator/headers'', ?hs)]"
        and hostname = "''shop.example.com''" and fallback = "''home''"]
    unfolding pre by (auto simp: okHeader_def simp del: jsonText.simps)
qed

end
