(* ===== verification/Spec2Isabelle.thy ===== *)
theory Spec2Isabelle
  imports PublicLaws PrivateLaws SiteLaws DiscoveryLaws ClientLaws Liveness Settings Startup
    Lifecycle Watches Harness DeepCopy AdmissionLaws
begin

text \<open>
  The Pangolin operator: Kubernetes controllers that keep the sites, public resources and
  private resources of a Pangolin server (a reverse proxy with tunnels) in step with custom
  resources of a cluster, and that discover public resources from Gateway API routes and
  from Services.  This development models the Go code under \<open>src/\<close> and proves what its
  reconciliations guarantee.

  Method.  Every operation is a function in a state monad over an arbitrary outside world.
  The two interfaces the program calls, \<open>pangolin.API\<close> (record \<open>API\<close> in Pangolin) and the
  Kubernetes client (record \<open>kube\<close> in Kube), are arguments of every operation, so each
  theorem holds for every server and cluster, failing or hostile ones included.  The theory
  Observe wraps both records so that each call is written to a log with its arguments and its
  answer, for \<open>CreateOrUpdate\<close> the mutate function included; \<open>emits m P\<close> says that in every run of \<open>m\<close>, from any world and any log, the result
  and the entries added satisfy \<open>P\<close>, with rules for sequencing.  A property of a
  reconciliation is a property of that log: what was asked of whom, in which order, and
  what was answered.  Operations are total functions; the loops of the code run over finite
  lists, so they are structural recursions, with two exceptions.  The parser of JSON has a
  fuel that is linear in the length of the text, as every two steps of it consume a character
  (\<open>parseJson_jsonText\<close> shows that it reads back everything the encoder writes).  The loops over the
  pages of a listing can go on for ever with a server that never sends a short page; their
  fuel is the number of requests (\<open>tp_Rounds\<close>) that fit before the deadline of the context, after
  which the next one fails, and \<open>listAll_complete\<close> shows that one round per page is enough.

  The theories, bottom up.
  \<^item> Prelude: the monad, generic lemmas, the collections of hints.
  \<^item> GoStrings, GoJson, GoErrors, GoCrypto: what the source uses of the standard library of Go:
    \<open>strings\<close>, \<open>strconv\<close>, \<open>encoding/json\<close>, wrapped and joined errors, and SHA-256 on 32-bit
    words.
  \<^item> ApiTypes: the custom resources (\<open>api/v1alpha1/*_types.go\<close>) and their JSON encoding.
  \<^item> JsonLaws, SpecJson: reading back what was encoded, and when two specifications have the same
    JSON text.
  \<^item> Pangolin: the types and the interface of \<open>internal/pangolin/client.go\<close>, and the domain
    resolution: the most specific base domain wins (\<open>ResolveDomain_splits\<close>), and a domain that
    repeats its base loses a copy of it (\<open>ResolveDomain_overtrims\<close>).
  \<^item> GoUrl, Wire, Client: the HTTP client of the same file: \<open>url.QueryEscape\<close>, the JSON of requests
    and answers, \<open>do\<close> with its reading of status codes and envelopes, every method, and the loops
    over pages.  The transport (net/http and the server) is an argument; \<open>clientAPI\<close> packs the
    methods as an \<open>API\<close>, so what is proved of the controllers for every \<open>API\<close> holds of them on HTTP.
  \<^item> ClientLaws: what each answer becomes (\<open>client_do_classifies\<close>), that every request is well formed
    (\<open>client_requests_good\<close>), that listings are complete, what an update cannot say
    (\<open>UpdateSiteResource_sends\<close>), and, in the locale \<open>deletion\<close>, that no controller gives up a
    finalizer over HTTP unless the server confirmed the deletion (\<open>cleanups_over_http\<close>).
  \<^item> Metrics: \<open>internal/metrics\<close>: the families of series, the label of a request (\<open>url.Parse\<close> is an
    argument) and the collector.
  \<^item> Kube: the cluster's objects and client; \<open>internal/controller/shared\<close> and \<open>resolve\<close>.
  \<^item> Observe: the logging wrappers and the logic of \<open>emits\<close>.
  \<^item> Interfaces: the contracts the controllers share, as locales: \<open>first_match\<close> for the searches
    that adopt an object, \<open>finalized\<close> for the life of an object with a finalizer, with its laws
    on the first and the last step; and the patterns of logs: waiting for a site, how a run
    ends, and the ledger of objects created, recorded and released (\<open>accounted\<close>).  Each locale
    is interpreted on the model of each controller that keeps the contract.
  \<^item> Fanout: the goroutines of \<open>createTargets\<close> and \<open>createRules\<close> under a mutex.  A list of steps
    is any schedule of them; the locale \<open>fan_out\<close> shows that every schedule runs each
    goroutine once and that the result collects each identifier and each error once.
  \<^item> PublicResource, PublicLaws: \<open>internal/controller/publicresource/controller.go\<close>, the whole
    reconciler, and its properties.
  \<^item> PrivateResource, PrivateLaws: \<open>internal/controller/privateresource/controller.go\<close>.
  \<^item> Autodiscover, DiscoveryLaws: \<open>internal/autodiscover/autodiscover.go\<close>, annotations to
    specifications and the writing of owned resources.
  \<^item> Settings: two clusters that differ in the settings of their public resources, in the locale
    \<open>indifferent\<close>, and which settings make no difference to the reconciler.
  \<^item> Deployment: \<open>internal/controller/newtsite/deployment.go\<close>, the tunnel's Deployment, with what
    its environment, selector and security contexts come to.
  \<^item> NewtSiteController, SiteLaws: \<open>internal/controller/newtsite/controller.go\<close>, the site
    reconciler, the scans, and the reconcilers of the route and service watches.
  \<^item> Liveness: progress of the three controllers.  The locale \<open>evidence\<close> says how computations that
    succeed unless the log shows an obstacle are put together.
  \<^item> Lifecycle: the status fields common to the three kinds as an abstract machine, which the
    reconcilers refine; its invariants, in the locale \<open>life_cycle\<close>, hold of every version of an
    object, also when a patch was computed from an old one.
  \<^item> Watches: what each controller watches and which events its filters let through
    (\<open>SetupWithManager\<close>), compared with what the reconcilers act on.
  \<^item> Schema, Admission, AdmissionLaws: the validation and default markers of the API types as
    schemas, what the API server stores of a typed client's document, and what the client
    reads back.  The server is an argument; \<open>honours\<close> says that it applies the schema.  The locale
    \<open>typed_client\<close> is the contract of encoding, defaults and decoding, interpreted for public
    resources, private resources and the settings of discovery.
  \<^item> Startup: \<open>cmd/main.go\<close>: the flags, the environment, the options of the manager and the order
    of the set-up.  The environment, the file system and controller-runtime are an argument.
  \<^item> Harness: the scheme of the process (\<open>api/v1alpha1/groupversion_info.go\<close>) and the helpers of the
    tests (\<open>internal/testutil\<close>).
  \<^item> Store, Copying, DeepCopy: \<open>api/v1alpha1/zz_generated.deepcopy.go\<close> on an explicit memory, a list
    of cells that pointers, slices and maps lead to.  Copying has the statements that the
    generator uses and the locale \<open>copier\<close>, the contract of a deep copy; DeepCopy has the types
    and their functions.  All other theories work on values, as a copy is the value; this is
    where it is shown that the Go code may be read so.

  What the groups of lemmas show.  Nothing made on the server is lost: what a run creates is
  recorded in an accepted status or its deletion is requested (\<open>created_objects_accounted\<close>),
  except on one path of the site controller, which \<open>createSite_loses_site\<close> pins down: the refusal of
  the credentials.  The credentials that are written are those of the site created
  (\<open>createSite_credentials_agree\<close>).  Replacing targets and rules deletes the old ones last
  (\<open>updateTargets_make_before_break\<close>, \<open>updateRules_make_before_break\<close>).  How every run ends, in
  what status and with what requeue (the theorems named \<open>reconcile_ends\<close>), and what a refused
  creation leads to.  A run with nothing in its way gets to Ready (the theorems named
  \<open>progress\<close>, with concrete runs in the lemmas named \<open>avoidable\<close>); \<open>stale_hashes\<close> shows where Ready is said too early, and
  \<open>settings_never_sent\<close> which settings Ready does not cover.  A scrape of the collector exposes
  the number of objects of each phase and one gauge per site (\<open>Collect_counts\<close>).  Creating targets concurrently is creating them in some
  order (\<open>createTargets_sequential\<close>).  A settled object is left alone (the theorems named \<open>steady\<close>).  The
  finalizer comes first and goes last.  Every status patch is a step of one life cycle
  (\<open>reconcilers_refine_life_cycle\<close>), so phase and observed generation agree in every version of
  an object (\<open>public_status_sound\<close>).  Discovery builds well-formed resources, one per port
  of a service; it reads back the JSON of annotations (\<open>annotations_roundtrip\<close>), and its writes
  converge (\<open>needsPatch_exact\<close>), but take over what they find; sites that share a gateway overwrite
  each other for ever (\<open>sites_overwrite_each_other\<close>), and a service that gives up its site keeps
  its resources (\<open>withdrawn_service_keeps_resources\<close>).  A field that is left out when it is zero
  and has another default cannot be switched off (\<open>whole_writes_lose_zeros\<close>), so a discovered
  resource without TLS is written in every run (\<open>ssl_off_never_settles\<close>); what discovery builds is
  let in except for what it copies unchecked (\<open>discovered_specs_admitted\<close>).  Deep copies share no memory with their
  originals (\<open>deep_copies_share_nothing\<close>), so the base of a patch is a snapshot
  (\<open>patch_bases_are_snapshots\<close>).

  Names.  Definitions have the names of the source.  A function of the source that does several
  things one after another is divided into definitions of the parts, composed in the source's
  order under the source's name.  Where several theories have a definition of the same name
  (\<open>reconcile\<close>, \<open>cleanup\<close>), the theory qualifies it.

  Not modelled.  The libraries themselves: controller-runtime's queues and caches, net/http,
  Prometheus, the logging, and the text of log messages.  Deadlines, except that any call may
  fail and that a listing has a last round.  The parts of a Deployment that are only copied
  from the specification are opaque values, so the schema of a whole site is left out.  Errors of the API machinery that the code never
  looks into are opaque too.  An exit inside \<open>ctrl.GetConfigOrDie\<close> and the panic of \<open>MustRegister\<close> on a
  second registration are no outcomes of the start.  The call of a goroutine to the API is one step of a
  schedule.
\<close>

section \<open>What all controllers keep\<close>

text \<open>
  C33.  The finalizer comes first.  A reconciliation of any of the three kinds reads its object,
  and for an object that is neither being deleted nor under the finalizer the next thing it
  does is the update that adds the finalizer; when that is refused it does nothing more, so
  nothing is ever made on the server for an object that could vanish without a clean-up.
\<close>

theorem finalizers_come_first:
  "emits (PublicResource.Reconcile (record_kube k) (record_api a) sch req)
     (\<lambda>_. finalizerFirst viewPub
        (\<lambda>res. m_Deleting (pub_Meta res) \<or> kContainsFinalizer k PublicResourceFinalizer (m_Finalizers (pub_Meta res)))
        (PublicResource.withFinalizers (kAddFinalizer k PublicResourceFinalizer)))
   \<and> emits (PrivateResource.Reconcile (record_kube k) (record_api a) req)
     (\<lambda>_. finalizerFirst viewPriv
        (\<lambda>res. m_Deleting (priv_Meta res) \<or> kContainsFinalizer k PrivateResourceFinalizer (m_Finalizers (priv_Meta res)))
        (PrivateResource.withFinalizers (kAddFinalizer k PrivateResourceFinalizer)))
   \<and> emits (NewtSiteController.Reconcile (record_kube k) (record_api a) rc mo req)
     (\<lambda>_. finalizerFirst viewSite
        (\<lambda>site. m_Deleting (site_Meta site) \<or> kContainsFinalizer k NewtSiteFinalizer (m_Finalizers (site_Meta site)))
        (NewtSiteController.withFinalizers (kAddFinalizer k NewtSiteFinalizer)))"
  by (intro conjI Reconcile_adds_finalizer_first private_Reconcile_adds_finalizer_first
      site_Reconcile_adds_finalizer_first)

text \<open>
  C32.  The finalizer goes last.  The log of a clean-up of any of the three kinds is the request to
  delete the object's counterpart on the server (left out when none was ever made), and the
  update that removes the finalizer follows only when the server has deleted it or answered
  404; the clean-up succeeds exactly when that update does.
\<close>

theorem finalizers_go_last:
  "emits (PublicResource.cleanup (record_kube k) (record_api a) pub)
     (cleanupLog (pst_ResourceID (pub_Status pub))
        (\<lambda>d. EApi (ADeleteResource (pst_ResourceID (pub_Status pub)) d))
        (\<lambda>u. EPub (OUpdate (PublicResource.withFinalizers (kRemoveFinalizer k PublicResourceFinalizer) pub) u)))
   \<and> emits (PrivateResource.cleanup (record_kube k) (record_api a) priv)
     (cleanupLog (vst_SiteResourceID (priv_Status priv))
        (\<lambda>d. EApi (ADeleteSiteResource (vst_SiteResourceID (priv_Status priv)) d))
        (\<lambda>u. EPriv (OUpdate (PrivateResource.withFinalizers (kRemoveFinalizer k PrivateResourceFinalizer) priv) u)))
   \<and> emits (NewtSiteController.cleanup (record_kube k) (record_api a) site)
     (cleanupLog (nst_SiteID (site_Status site))
        (\<lambda>d. EApi (ADeleteSite (nst_SiteID (site_Status site)) d))
        (\<lambda>u. ESite (OUpdate (NewtSiteController.withFinalizers (kRemoveFinalizer k NewtSiteFinalizer) site) u)))"
  by (intro conjI cleanup_releases_last private_cleanup_releases_last site_cleanup_releases_last)

text \<open>
  The API is called for a resource only when its site was found and is Ready with an
  identifier; a missing or unready site is waited for, and an error of the lookup is
  returned.
\<close>

theorem resources_wait_for_site:
  "emits (PublicResource.reconcile (record_kube k) (record_api a) sch pub) waitsForSite
   \<and> emits (PrivateResource.reconcile (record_kube k) (record_api a) priv) waitsForSite"
  by (intro conjI reconcile_waits_for_site private_reconcile_waits_for_site)

text \<open>
  C1.  No object is lost on the server.  In every reconciliation of a public or a private
  resource, whatever the Kubernetes server and the Pangolin server answer and however the
  goroutines are scheduled, each object the server created is afterwards either recorded in a
  status the Kubernetes server accepted, or its deletion is requested by the roll-back.
\<close>

theorem created_objects_accounted:
  "emits (PublicResource.Reconcile (record_kube k) (record_api a) sch req)
     (\<lambda>_. accounted createdResource settlesResource)
   \<and> emits (PrivateResource.Reconcile (record_kube k) (record_api a) req)
     (\<lambda>_. accounted createdSiteResource settlesSiteResource)"
  by (intro conjI Reconcile_no_orphan Reconcile_private_no_orphan)

text \<open>
  C5.  How every reconciliation of a resource ends.  Ready is reported, to come back after the
  resync interval, only when the Kubernetes server accepted, as the very last step, the
  status that carries the Ready phase and the generation of the object.  The run waits for
  its site only when it has not called the API.  Otherwise it ends in the reset, in the report
  of a conflict (for public resources; for private ones there is no such report), or in an
  error.
\<close>

theorem reconciliations_end:
  "emits (PublicResource.reconcile (record_kube k) (record_api a) sch pub)
     (runEnd (readyPatch k) resetPatch (conflictPatch k) (waitPatch k))
   \<and> emits (PrivateResource.reconcile (record_kube k) (record_api a) priv)
     (runEnd (vreadyPatch k) vresetPatch (\<lambda>_. False) (vwaitPatch k))"
  by (intro conjI PublicLaws.reconcile_ends private_reconcile_ends)

text \<open>
  C4.  A resource becomes Ready when nothing stands in the way.  Every reconciliation of a public
  or a private resource whose site is ready, in which no call but a deletion is refused, and
  whose domain, where it needs one, is of those the server lists, ends as its very last step
  with the accepted Ready status, and is due again after the resync interval; and this under
  every schedule of the goroutines, whether the resource had to be made, adopted, updated or
  left alone.
\<close>

theorem resources_become_ready:
  "emits (PublicResource.reconcile (record_kube k) (record_api a) sch pub)
     (\<lambda>out new. pubHindered new
        \<or> (out = (\<lparr>RequeueAfter = ResyncInterval\<rparr>, None) \<and> (\<exists>pre e. new = pre @ [e] \<and> readyPatch k e)))
   \<and> emits (PrivateResource.reconcile (record_kube k) (record_api a) priv)
     (\<lambda>out new. privHindered new
        \<or> (out = (\<lparr>RequeueAfter = ResyncInterval\<rparr>, None) \<and> (\<exists>pre e. new = pre @ [e] \<and> vreadyPatch k e)))"
  by (intro conjI reconcile_progress private_reconcile_progress)

text \<open>
  C14.  What is settled is left alone.  A reconciliation of a resource that is listed on the server
  and whose generation was already observed changes nothing there: if it makes a changing
  call at all, then its log shows that the listing lacked the resource or that the
  generation had moved.
\<close>

theorem settled_resources_left_alone:
  "emits (PublicResource.reconcileOnSite (record_kube k) (record_api a) sch pub siteID)
     (\<lambda>_ new. list_all (\<lambda>e. \<not> isMutation e) new
        \<or> list_ex (drifted (pst_ResourceID (pub_Status pub))) new)
   \<and> emits (PrivateResource.reconcileOnSite (record_kube k) (record_api a) priv siteID)
     (\<lambda>_ new. list_all (\<lambda>e. \<not> isMutation e) new
        \<or> list_ex (vdrifted (vst_SiteResourceID (priv_Status priv))) new)"
  by (intro conjI reconcileOnSite_steady private_reconcileOnSite_steady)

end
